(* ===== verification/Prelude.thy ===== *)
theory Prelude
  imports Main "HOL-Library.Word" "HOL-Library.Multiset"
begin

text \<open>
  Shared vocabulary of the development: the collections of facts the component
  theories add to, the functional-options idiom of the Go constructors, and the
  generic lemmas on lists and options that several components use.
\<close>

named_theorems option_simps \<open>what a functional option or an option fold does to a struct\<close>
named_theorems go_defs \<open>unfoldings of the small Go library functions\<close>
named_theorems frame_simps \<open>which observation a step leaves unchanged\<close>

subsection \<open>Functional options\<close>

text \<open>
  Every constructor of the repository takes \<open>opts ...Option\<close> and runs
  \<open>for _, opt := range opts { opt(x) }\<close> over a default value.
\<close>

definition apply_opts :: "('s \<Rightarrow> 's) list \<Rightarrow> 's \<Rightarrow> 's" where
  "apply_opts opts s = fold (\<lambda>opt s. opt s) opts s"

lemma apply_opts_Nil [simp]: "apply_opts [] s = s"
  by (simp add: apply_opts_def)

lemma apply_opts_Cons [simp]: "apply_opts (f # fs) s = apply_opts fs (f s)"
  by (simp add: apply_opts_def)

lemma apply_opts_append: "apply_opts (fs @ gs) s = apply_opts gs (apply_opts fs s)"
  by (induction fs arbitrary: s) simp_all

lemma apply_opts_invariant:
  assumes "P s" and "\<And>f s. f \<in> set opts \<Longrightarrow> P s \<Longrightarrow> P (f s)"
  shows "P (apply_opts opts s)"
  using assms by (induction opts arbitrary: s) simp_all

subsection \<open>Results\<close>

text \<open>A fallible Go call returns \<open>(value, error)\<close>; the model returns \<open>error + value\<close>.\<close>

fun is_err :: "'e + 'a \<Rightarrow> bool" where
  "is_err (Inl _) = True"
| "is_err (Inr _) = False"

fun bind_res :: "'e + 'a \<Rightarrow> ('a \<Rightarrow> 'e + 'b) \<Rightarrow> 'e + 'b" where
  "bind_res (Inl e) f = Inl e"
| "bind_res (Inr x) f = f x"

lemma bind_res_Inr: "bind_res r f = Inr y \<longleftrightarrow> (\<exists>x. r = Inr x \<and> f x = Inr y)"
  by (cases r) auto

lemma not_is_err: "\<not> is_err r \<longleftrightarrow> (\<exists>x. r = Inr x)"
  by (cases r) auto

subsection \<open>Lists\<close>

lemma list_all_takeWhile: "list_all P (takeWhile P xs)"
  by (induction xs) auto

lemma dropWhile_none: "list_all (\<lambda>x. \<not> P x) xs \<Longrightarrow> dropWhile P xs = xs"
  by (cases xs) auto

lemma all_dropWhile_iff: "(\<forall>x \<in> set (dropWhile P xs). P x) \<longleftrightarrow> (\<forall>x \<in> set xs. P x)"
  by (induction xs) auto

lemma set_concat_map: "x \<in> set (concat (map f xs)) \<longleftrightarrow> (\<exists>y \<in> set xs. x \<in> set (f y))"
  by auto

lemma concat_map_Nil_iff: "concat (map f xs) = [] \<longleftrightarrow> (\<forall>x \<in> set xs. f x = [])"
  by (induction xs) auto

lemma mset_concat_map: "mset (concat (map f xs)) = (\<Sum>x \<in># mset xs. mset (f x))"
  by (induction xs) simp_all

lemma mset_concat_map_cong:
  "mset xs = mset ys \<Longrightarrow> mset (concat (map f xs)) = mset (concat (map f ys))"
  by (simp add: mset_concat_map)

lemma find_None_iff_all: "find P xs = None \<longleftrightarrow> list_all (\<lambda>x. \<not> P x) xs"
  by (induction xs) auto

lemma find_SomeD: "find P xs = Some x \<Longrightarrow> x \<in> set xs \<and> P x"
  by (induction xs) (auto split: if_splits)

subsection \<open>Components of a pool\<close>

text \<open>A list of goroutines of which one moves, and what is summed up over them.\<close>

abbreviation all_of :: "('a \<Rightarrow> 'b list) \<Rightarrow> 'a list \<Rightarrow> 'b list" where
  "all_of f xs \<equiv> concat (map f xs)"

lemma mset_all_of_update:
  "i < length ws \<Longrightarrow> mset (all_of f (ws[i := s])) + mset (f (ws ! i)) = mset (all_of f ws) + mset (f s)"
  by (induction ws arbitrary: i) (auto simp: nth_Cons split: nat.splits)

lemma list_all_update: "list_all P xs \<Longrightarrow> P x \<Longrightarrow> list_all P (xs[i := x])"
  using set_update_subset_insert[of xs i x] by (auto simp: list_all_iff)

lemma sum_list_update_less:
  "i < length ws \<Longrightarrow> f s < f (ws ! i) \<Longrightarrow> sum_list (map f (ws[i := s])) < (sum_list (map f ws) :: nat)"
  by (induction ws arbitrary: i) (auto simp: nth_Cons split: nat.splits)

end
