(* ===== verification/Go_Strings.thy ===== *)
theory Go_Strings
  imports Prelude "HOL-Library.Sublist"
begin

text \<open>
  Go strings and the functions of the packages \<open>strings\<close>, \<open>unicode/utf8\<close>,
  \<open>strconv\<close> and \<open>bufio\<close> that the sources call. A Go string is a sequence of bytes, and so
  is a HOL \<^typ>\<open>string\<close>: a \<^typ>\<open>char\<close> is eight bits. Runes are the segments the UTF-8
  decoder of Go cuts a string into, an invalid byte being a segment of its own.
\<close>

subsection \<open>Bytes\<close>

definition byte :: "char \<Rightarrow> nat" where
  "byte c = of_char c"

lemma byte_bound: "byte c < 256"
  by (simp add: byte_def)

lemma byte_inject [simp]: "byte a = byte b \<longleftrightarrow> a = b"
  by (simp add: byte_def)

definition is_ascii :: "char \<Rightarrow> bool" where
  "is_ascii c \<longleftrightarrow> byte c < 128"

definition is_lower :: "char \<Rightarrow> bool" where
  "is_lower c \<longleftrightarrow> 97 \<le> byte c \<and> byte c \<le> 122"

definition is_upper :: "char \<Rightarrow> bool" where
  "is_upper c \<longleftrightarrow> 65 \<le> byte c \<and> byte c \<le> 90"

definition is_digit :: "char \<Rightarrow> bool" where
  "is_digit c \<longleftrightarrow> 48 \<le> byte c \<and> byte c \<le> 57"

definition is_alnum :: "char \<Rightarrow> bool" where
  "is_alnum c \<longleftrightarrow> is_lower c \<or> is_upper c \<or> is_digit c"

definition lower_ascii :: "char \<Rightarrow> char" where
  "lower_ascii c = (if is_upper c then char_of (byte c + 32) else c)"

lemmas char_class_defs [go_defs] =
  is_lower_def is_upper_def is_digit_def is_alnum_def is_ascii_def byte_def

lemma is_alnum_ascii: "is_alnum c \<Longrightarrow> is_ascii c"
  by (auto simp: is_alnum_def is_lower_def is_upper_def is_digit_def is_ascii_def)

subsection \<open>UTF-8: the rune segments of a string\<close>

text \<open>\<open>conts\<close> checks that the next bytes lie in the given ranges.\<close>

fun conts :: "(nat \<times> nat) list \<Rightarrow> string \<Rightarrow> bool" where
  "conts [] s = True"
| "conts (r # rs) [] = False"
| "conts ((lo, hi) # rs) (c # s) = (lo \<le> byte c \<and> byte c \<le> hi \<and> conts rs s)"

text \<open>
  \<open>conts_of c\<close> is what must follow the first byte \<open>c\<close> of a rune. \<open>extra c s\<close> is the number of
  continuation bytes after it: 0 for an ASCII byte and for a byte that starts no well-formed rune.
\<close>

definition conts_of :: "char \<Rightarrow> (nat \<times> nat) list" where
  "conts_of c =
     (let b = byte c; full = (128, 191) in
      if 194 \<le> b \<and> b \<le> 223 then [full]
      else if b = 224 then [(160, 191), full]
      else if b = 237 then [(128, 159), full]
      else if 225 \<le> b \<and> b \<le> 239 then [full, full]
      else if b = 240 then [(144, 191), full, full]
      else if 241 \<le> b \<and> b \<le> 243 then [full, full, full]
      else if b = 244 then [(128, 143), full, full]
      else [])"

definition extra :: "char \<Rightarrow> string \<Rightarrow> nat" where
  "extra c s = (if conts (conts_of c) s then length (conts_of c) else 0)"

fun runes :: "string \<Rightarrow> string list" where
  "runes [] = []"
| "runes (c # s) = (c # take (extra c s) s) # runes (drop (extra c s) s)"

definition rune_count :: "string \<Rightarrow> nat" where
  "rune_count s = length (runes s)"

lemma extra_ascii [simp]: "is_ascii c \<Longrightarrow> extra c s = 0"
  by (auto simp: extra_def conts_of_def is_ascii_def Let_def)

lemma extra_le_3: "extra c s \<le> 3"
  by (simp add: extra_def conts_of_def Let_def)

lemma concat_runes [simp]: "concat (runes s) = s"
  by (induction s rule: runes.induct) simp_all

lemma runes_Nil_iff [simp]: "runes s = [] \<longleftrightarrow> s = []"
  by (cases s) simp_all

lemma runes_nonempty: "r \<in> set (runes s) \<Longrightarrow> r \<noteq> []"
  by (induction s rule: runes.induct) auto

lemma runes_ascii: "list_all is_ascii s \<Longrightarrow> runes s = map (\<lambda>c. [c]) s"
proof (induction s rule: runes.induct)
  case 1
  show ?case by simp
next
  case (2 c s)
  then have "extra c s = 0" by simp
  with 2 show ?case by simp
qed

lemma conts_take_mono: "conts rs (take k s) \<Longrightarrow> conts rs s"
  by (induction rs s arbitrary: k rule: conts.induct) (auto simp: take_Cons split: nat.splits)

lemma conts_take: "conts rs s \<Longrightarrow> length rs \<le> k \<Longrightarrow> conts rs (take k s)"
  by (induction rs s arbitrary: k rule: conts.induct) (auto simp: take_Cons split: nat.splits)

lemma extra_take: "extra c s \<le> k \<Longrightarrow> extra c (take k s) = extra c s"
  using conts_take_mono[of "conts_of c" k s] conts_take[of "conts_of c" s k]
  by (auto simp: extra_def split: if_splits)

lemma extra_append: "extra c (s @ t) \<le> length s \<Longrightarrow> extra c s = extra c (s @ t)"
  using extra_take[of c "s @ t" "length s"] by simp

lemma extra_le_length: "extra c s \<le> length s"
proof -
  have "conts rs s \<Longrightarrow> length rs \<le> length s" for rs
    by (induction rs s rule: conts.induct) auto
  then show ?thesis by (simp add: extra_def)
qed

lemma runes_take: "runes (concat (take k (runes s))) = take k (runes s)"
proof (induction s arbitrary: k rule: runes.induct)
  case 1
  show ?case by simp
next
  case (2 c s)
  show ?case
  proof (cases k)
    case 0
    then show ?thesis by simp
  next
    case (Suc m)
    let ?n = "extra c s"
    let ?rest = "concat (take m (runes (drop ?n s)))"
    have split: "s = take ?n s @ ?rest @ concat (drop m (runes (drop ?n s)))"
      by (metis append_take_drop_id concat_append concat_runes)
    have "extra c (take ?n s @ ?rest) = ?n"
      using extra_append[of c "take ?n s @ ?rest" "concat (drop m (runes (drop ?n s)))"] split
        extra_le_length[of c s] by simp
    then show ?thesis
      using Suc 2 extra_le_length[of c s] by simp
  qed
qed

lemma runes_drop: "runes (concat (drop k (runes s))) = drop k (runes s)"
proof (induction s arbitrary: k rule: runes.induct)
  case 1
  show ?case by simp
next
  case (2 c s)
  then show ?case by (cases k) simp_all
qed

lemma rune_count_ascii: "list_all is_ascii s \<Longrightarrow> rune_count s = length s"
  by (simp add: rune_count_def runes_ascii)

lemma length_le_concat: "list_all (\<lambda>r. r \<noteq> []) rs \<Longrightarrow> length rs \<le> length (concat rs)"
  by (induction rs) (auto simp: Suc_le_eq trans_less_add1 neq_Nil_conv)

lemma rune_count_le_length: "rune_count s \<le> length s"
  using length_le_concat[of "runes s"]
  by (simp add: rune_count_def list_all_iff runes_nonempty)

text \<open>
  A segment that is a single byte above ASCII is no well-formed rune. \<open>utf8_text\<close> replaces each by the
  rune U+FFFD, as the libraries do that turn bytes into text.
\<close>

definition broken_rune :: "string \<Rightarrow> bool" where
  "broken_rune r \<longleftrightarrow> length r = 1 \<and> \<not> is_ascii (hd r)"

definition replacement :: string where
  "replacement = map char_of [239, 191, 189 :: nat]"

definition utf8_text :: "string \<Rightarrow> string" where
  "utf8_text s = concat (map (\<lambda>r. if broken_rune r then replacement else r) (runes s))"

definition valid_utf8 :: "string \<Rightarrow> bool" where
  "valid_utf8 s \<longleftrightarrow> list_all (\<lambda>r. \<not> broken_rune r) (runes s)"

lemma utf8_text_valid: "valid_utf8 s \<Longrightarrow> utf8_text s = s"
proof -
  assume "valid_utf8 s"
  then have "map (\<lambda>r. if broken_rune r then replacement else r) (runes s) = runes s"
    by (intro map_idI) (simp add: valid_utf8_def list_all_iff)
  then show ?thesis by (simp add: utf8_text_def)
qed

lemma ascii_valid_utf8: "list_all is_ascii s \<Longrightarrow> valid_utf8 s"
  by (auto simp: valid_utf8_def runes_ascii broken_rune_def list_all_iff)

lemma utf8_text_ascii: "list_all is_ascii s \<Longrightarrow> utf8_text s = s"
  by (rule utf8_text_valid[OF ascii_valid_utf8])

lemma utf8_text_Nil_iff [simp]: "utf8_text s = [] \<longleftrightarrow> s = []"
proof
  assume "utf8_text s = []"
  then have none: "\<forall>r \<in> set (runes s). (if broken_rune r then replacement else r) = []"
    by (auto simp: utf8_text_def)
  show "s = []"
  proof (rule ccontr)
    assume "s \<noteq> []"
    then obtain r where r: "r \<in> set (runes s)" by (metis list.set_intros(1) neq_Nil_conv runes_Nil_iff)
    from none r runes_nonempty[OF r] show False by (auto simp: replacement_def split: if_splits)
  qed
qed (simp add: utf8_text_def)

subsection \<open>White space: TrimSpace and Fields\<close>

text \<open>\<open>unicode.IsSpace\<close> on a rune segment; the code points above ASCII by their encodings.\<close>

definition is_space :: "string \<Rightarrow> bool" where
  "is_space r =
     (case map byte r of
        [b] \<Rightarrow> b = 32 \<or> 9 \<le> b \<and> b \<le> 13
      | [b, c] \<Rightarrow> b = 194 \<and> (c = 133 \<or> c = 160)
      | [b, c, d] \<Rightarrow>
          b = 225 \<and> c = 154 \<and> d = 128
          \<or> b = 226 \<and> c = 128 \<and> (128 \<le> d \<and> d \<le> 138 \<or> d = 168 \<or> d = 169 \<or> d = 175)
          \<or> b = 226 \<and> c = 129 \<and> d = 159
          \<or> b = 227 \<and> c = 128 \<and> d = 128
      | _ \<Rightarrow> False)"

definition trim_right_by :: "('a \<Rightarrow> bool) \<Rightarrow> 'a list \<Rightarrow> 'a list" where
  "trim_right_by P xs = rev (dropWhile P (rev xs))"

definition trim_space :: "string \<Rightarrow> string" where
  "trim_space s = concat (trim_right_by is_space (dropWhile is_space (runes s)))"

text \<open>\<open>strings.Fields\<close>: the maximal runs of non-space runes.\<close>

fun fields_from :: "string list \<Rightarrow> string \<Rightarrow> string list" where
  "fields_from [] cur = (if cur = [] then [] else [cur])"
| "fields_from (r # rs) cur =
     (if is_space r then (if cur = [] then fields_from rs [] else cur # fields_from rs [])
      else fields_from rs (cur @ r))"

definition str_fields :: "string \<Rightarrow> string list" where
  "str_fields s = fields_from (runes s) []"

lemma trim_right_by_Nil_iff: "trim_right_by P xs = [] \<longleftrightarrow> (\<forall>x \<in> set xs. P x)"
  by (simp add: trim_right_by_def)

lemma trim_space_Nil_iff: "trim_space s = [] \<longleftrightarrow> (\<forall>r \<in> set (runes s). is_space r)"
proof -
  have sub: "set (trim_right_by is_space (dropWhile is_space (runes s))) \<subseteq> set (runes s)"
    by (auto simp: trim_right_by_def dest!: set_dropWhileD)
  have "trim_space s = [] \<longleftrightarrow> trim_right_by is_space (dropWhile is_space (runes s)) = []"
    using sub runes_nonempty[of _ s]
    by (cases "trim_right_by is_space (dropWhile is_space (runes s))") (auto simp: trim_space_def)
  also have "\<dots> \<longleftrightarrow> (\<forall>r \<in> set (dropWhile is_space (runes s)). is_space r)"
    by (rule trim_right_by_Nil_iff)
  also have "\<dots> \<longleftrightarrow> (\<forall>r \<in> set (runes s). is_space r)"
    by (rule all_dropWhile_iff)
  finally show ?thesis .
qed

lemma fields_from_nonempty_entry:
  "list_all (\<lambda>r. r \<noteq> []) rs \<Longrightarrow> f \<in> set (fields_from rs cur) \<Longrightarrow> f \<noteq> []"
  by (induction rs cur rule: fields_from.induct) (auto split: if_splits)

lemma str_fields_nonempty_entry: "f \<in> set (str_fields s) \<Longrightarrow> f \<noteq> []"
  using fields_from_nonempty_entry[of "runes s" f "[]"]
  by (simp add: str_fields_def list_all_iff runes_nonempty)

lemma fields_from_Nil_iff:
  "list_all (\<lambda>r. r \<noteq> []) rs \<Longrightarrow> fields_from rs cur = [] \<longleftrightarrow> cur = [] \<and> (\<forall>r \<in> set rs. is_space r)"
  by (induction rs cur rule: fields_from.induct) auto

text \<open>A line that is not blank has a first field: the index \<open>parts[0]\<close> never panics.\<close>

lemma str_fields_Nil_iff: "str_fields s = [] \<longleftrightarrow> trim_space s = []"
  by (simp add: str_fields_def fields_from_Nil_iff list_all_iff runes_nonempty trim_space_Nil_iff)

lemma runes_trim_space:
  "runes (trim_space s) = trim_right_by is_space (dropWhile is_space (runes s))"
proof -
  let ?d = "dropWhile is_space (runes s)"
  have d: "?d = runes (concat ?d)"
    using runes_drop[of "length (takeWhile is_space (runes s))" s]
    by (simp add: dropWhile_eq_drop)
  have "trim_right_by is_space ?d = take (length (trim_right_by is_space ?d)) ?d"
    unfolding trim_right_by_def
    by (metis append_eq_conv_conj rev_append rev_rev_ident takeWhile_dropWhile_id)
  then show ?thesis
    unfolding trim_space_def using d runes_take[of _ "concat ?d"] by metis
qed

lemma trim_right_by_idem: "trim_right_by P (trim_right_by P xs) = trim_right_by P xs"
  by (simp add: trim_right_by_def)

lemma trim_right_by_append:
  obtains ys where "xs = trim_right_by P xs @ ys"
  using that[of "rev (takeWhile P (rev xs))"]
  by (metis rev_append rev_rev_ident takeWhile_dropWhile_id trim_right_by_def)

lemma trim_space_idem: "trim_space (trim_space s) = trim_space s"
proof -
  let ?d = "dropWhile is_space (runes s)"
  let ?t = "trim_right_by is_space ?d"
  obtain ys where ys: "?d = ?t @ ys" by (rule trim_right_by_append)
  have "dropWhile is_space ?t = ?t"
  proof (cases ?t)
    case (Cons r rs)
    then have "hd ?d = r" and "?d \<noteq> []" using ys by (metis append_Cons list.sel(1), metis append_is_Nil_conv list.distinct(1))
    then show ?thesis
      using Cons hd_dropWhile[of is_space "runes s"] by simp
  qed simp
  then show ?thesis
    by (simp add: trim_space_def[of "trim_space s"] runes_trim_space trim_right_by_idem)
       (simp add: trim_space_def)
qed

lemma str_fields_trim_Nil_iff: "str_fields (trim_space s) = [] \<longleftrightarrow> trim_space s = []"
  by (simp add: str_fields_Nil_iff trim_space_idem)

definition tight :: "string \<Rightarrow> bool" where
  "tight s \<longleftrightarrow> list_all (\<lambda>c. is_ascii c \<and> \<not> is_space [c]) s"

lemma is_space_single: "is_space [c] \<longleftrightarrow> byte c = 32 \<or> 9 \<le> byte c \<and> byte c \<le> 13"
  by (simp add: is_space_def)

lemma tight_runes: "tight s \<Longrightarrow> runes s = map (\<lambda>c. [c]) s"
  by (rule runes_ascii) (auto simp: tight_def list_all_iff)

lemma trim_right_by_none: "list_all (\<lambda>x. \<not> P x) xs \<Longrightarrow> trim_right_by P xs = xs"
  by (simp add: trim_right_by_def dropWhile_none)

lemma concat_map_single [simp]: "concat (map (\<lambda>c. [c]) s) = s"
  by (induction s) simp_all

lemma trim_space_tight: "tight s \<Longrightarrow> trim_space s = s"
proof -
  assume s: "tight s"
  then have ns: "list_all (\<lambda>r. \<not> is_space r) (runes s)"
    by (auto simp: tight_runes list_all_iff tight_def)
  then show ?thesis
    by (simp add: trim_space_def dropWhile_none trim_right_by_none)
qed

lemma fields_from_tight:
  "tight s \<Longrightarrow> fields_from (map (\<lambda>c. [c]) s @ rs) cur = fields_from rs (cur @ s)"
  by (induction s arbitrary: cur) (auto simp: tight_def)

lemma str_fields_tight: "tight s \<Longrightarrow> s \<noteq> [] \<Longrightarrow> str_fields s = [s]"
  using fields_from_tight[of s "[]" "[]"] by (simp add: str_fields_def tight_runes)

subsection \<open>Searching, splitting, mapping\<close>

fun contains :: "string \<Rightarrow> string \<Rightarrow> bool" where
  "contains [] sub = (sub = [])"
| "contains (c # s) sub = (prefix sub (c # s) \<or> contains s sub)"

lemma contains_iff: "contains s sub \<longleftrightarrow> (\<exists>a b. s = a @ sub @ b)"
proof (induction s)
  case Nil
  show ?case by simp
next
  case (Cons c s)
  note IH = Cons.IH
  show ?case
  proof
    assume "contains (c # s) sub"
    then consider b where "c # s = sub @ b" | a b where "s = a @ sub @ b"
      using IH by (auto simp: prefix_def)
    then show "\<exists>a b. c # s = a @ sub @ b"
      by cases (metis append_Nil, metis append_Cons)
  next
    assume "\<exists>a b. c # s = a @ sub @ b"
    then obtain a b where ab: "c # s = a @ sub @ b" by blast
    show "contains (c # s) sub"
    proof (cases a)
      case Nil
      with ab have "prefix sub (c # s)" by simp
      then show ?thesis by simp
    next
      case (Cons x xs)
      with ab have "s = xs @ sub @ b" by simp
      with IH show ?thesis by auto
    qed
  qed
qed

text \<open>\<open>strings.Split\<close> on a one-byte separator: never the empty list.\<close>

fun split_on :: "char \<Rightarrow> string \<Rightarrow> string list" where
  "split_on d [] = [[]]"
| "split_on d (c # s) =
     (if c = d then [] # split_on d s
      else case split_on d s of [] \<Rightarrow> [[c]] | p # ps \<Rightarrow> (c # p) # ps)"

lemma split_on_nonempty [simp]: "split_on d s \<noteq> []"
  by (cases s) (auto split: list.splits)

fun join_with :: "char \<Rightarrow> string list \<Rightarrow> string" where
  "join_with d [] = []"
| "join_with d [p] = p"
| "join_with d (p # ps) = p @ d # join_with d ps"

lemma join_with_Cons: "ps \<noteq> [] \<Longrightarrow> join_with d (p # ps) = p @ d # join_with d ps"
  by (cases ps) simp_all

lemma join_split_on: "join_with d (split_on d s) = s"
proof (induction d s rule: split_on.induct)
  case (1 d)
  show ?case by simp
next
  case (2 d c s)
  obtain p ps where ps: "split_on d s = p # ps" by (meson list.exhaust split_on_nonempty)
  with 2 show ?case by (cases ps) (auto simp: join_with_Cons)
qed

lemma split_on_no_sep: "d \<notin> set s \<Longrightarrow> split_on d s = [s]"
  by (induction s) auto

lemma split_on_pieces: "p \<in> set (split_on d s) \<Longrightarrow> d \<notin> set p"
proof (induction s arbitrary: p)
  case Nil
  then show ?case by simp
next
  case (Cons c s)
  obtain q qs where qs: "split_on d s = q # qs" by (meson list.exhaust split_on_nonempty)
  with Cons show ?case by (auto split: if_splits)
qed

text \<open>
  \<open>strings.ToLower\<close>: ASCII letters by arithmetic; a rune above ASCII goes through the Unicode
  tables, the parameter \<open>u\<close> (from the rune's encoding to that of its lower case).
\<close>

definition lower_rune :: "(string \<Rightarrow> string) \<Rightarrow> string \<Rightarrow> string" where
  "lower_rune u r =
     (case r of [c] \<Rightarrow> (if is_ascii c then [lower_ascii c] else u r) | _ \<Rightarrow> u r)"

definition to_lower :: "(string \<Rightarrow> string) \<Rightarrow> string \<Rightarrow> string" where
  "to_lower u s = concat (map (lower_rune u) (runes s))"

lemma to_lower_ascii: "list_all is_ascii s \<Longrightarrow> to_lower u s = map lower_ascii s"
proof -
  assume s: "list_all is_ascii s"
  then have "concat (map (lower_rune u) (map (\<lambda>c. [c]) s)) = map lower_ascii s"
    by (induction s) (simp_all add: lower_rune_def)
  with s show ?thesis by (simp add: to_lower_def runes_ascii)
qed

definition truncate_str :: "string \<Rightarrow> nat \<Rightarrow> string" where
  "truncate_str s n = (if length s \<le> n then s else take n s)"

lemma truncate_take: "truncate_str s n = take n s"
  by (simp add: truncate_str_def)

lemma length_truncate: "length (truncate_str s n) \<le> n"
  by (simp add: truncate_take)

subsection \<open>Numbers in messages: strconv.Itoa and the verb d of fmt\<close>

fun itoa_nat :: "nat \<Rightarrow> string" where
  "itoa_nat n =
     (if n < 10 then [char_of (48 + n)] else itoa_nat (n div 10) @ [char_of (48 + n mod 10)])"

declare itoa_nat.simps [simp del]

definition itoa :: "int \<Rightarrow> string" where
  "itoa i = (if i < 0 then CHR ''-'' # itoa_nat (nat (- i)) else itoa_nat (nat i))"

definition digit_val :: "char \<Rightarrow> nat" where
  "digit_val c = byte c - 48"

definition atoi_nat :: "string \<Rightarrow> nat" where
  "atoi_nat s = foldl (\<lambda>n c. 10 * n + digit_val c) 0 s"

lemma byte_char_of [simp]: "byte (char_of n) = n mod 256" for n :: nat
  by (simp add: byte_def)

lemma itoa_nat_nonempty [simp]: "itoa_nat n \<noteq> []"
  by (subst itoa_nat.simps) simp

lemma itoa_nat_digits: "list_all is_digit (itoa_nat n)"
proof (induction n rule: itoa_nat.induct)
  case (1 n)
  then show ?case
    by (subst itoa_nat.simps) (cases "n < 10"; simp add: is_digit_def[of "char_of _"])
qed

lemma atoi_itoa_nat: "atoi_nat (itoa_nat n) = n"
proof (induction n rule: itoa_nat.induct)
  case (1 n)
  then show ?case
    by (subst itoa_nat.simps) (auto simp: atoi_nat_def digit_val_def)
qed

lemma itoa_nat_inject: "itoa_nat m = itoa_nat n \<longleftrightarrow> m = n"
  by (metis atoi_itoa_nat)

subsection \<open>Lines of a file: bufio.Scanner with ScanLines\<close>

text \<open>
  \<open>ScanLines\<close> cuts at newlines, drops a carriage return before the newline and delivers no token
  for an empty rest at the end. A line of 65536 bytes or more does not fit the scanner's
  buffer and ends the scan with \<open>bufio.ErrTooLong\<close>.
\<close>

definition max_token :: nat where
  "max_token = 65536"

definition newline :: char where
  "newline = char_of (10 :: nat)"

definition drop_cr :: "string \<Rightarrow> string" where
  "drop_cr s = (if s \<noteq> [] \<and> last s = char_of (13 :: nat) then butlast s else s)"

definition raw_lines :: "string \<Rightarrow> string list" where
  "raw_lines s = (let ls = split_on newline s in if last ls = [] then butlast ls else ls)"

definition scan_lines :: "string \<Rightarrow> string list" where
  "scan_lines s = map drop_cr (raw_lines s)"

definition scan_too_long :: "string \<Rightarrow> bool" where
  "scan_too_long s \<longleftrightarrow> list_ex (\<lambda>l. max_token \<le> length l) (raw_lines s)"

subsection \<open>Paths: filepath.Join on Unix\<close>

definition slash :: char where
  "slash = CHR ''/''"

text \<open>\<open>filepath.Clean\<close> on the components of a path, with the kept ones on a stack.\<close>

fun clean_comps :: "bool \<Rightarrow> string list \<Rightarrow> string list \<Rightarrow> string list" where
  "clean_comps rooted stack [] = rev stack"
| "clean_comps rooted stack (c # cs) =
     (if c = [] \<or> c = ''.'' then clean_comps rooted stack cs
      else if c = ''..'' then
        (case stack of
           [] \<Rightarrow> clean_comps rooted (if rooted then [] else [''..'']) cs
         | d # rest \<Rightarrow>
             clean_comps rooted (if d = ''..'' then ''..'' # stack else rest) cs)
      else clean_comps rooted (c # stack) cs)"

definition path_clean :: "string \<Rightarrow> string" where
  "path_clean p =
     (let rooted = prefix [slash] p;
          body = join_with slash (clean_comps rooted [] (split_on slash p))
      in if rooted then slash # body else if body = [] then ''.'' else body)"

definition path_join :: "string \<Rightarrow> string \<Rightarrow> string" where
  "path_join dir name =
     (if dir = [] then (if name = [] then [] else path_clean name)
      else if name = [] then path_clean dir
      else path_clean (dir @ slash # name))"

end
