(* ===== verification/Go_Time.thy ===== *)
theory Go_Time
  imports Go_Strings
begin

text \<open>
  Instants and durations of the package \<open>time\<close>. An instant is the number of nanoseconds since
  Go's zero time, 1 January of year 1, 00:00 UTC; the location is dropped, because the sources
  put every instant they keep through \<open>UTC()\<close>, which does not move it. A duration is an
  \<open>int64\<close> count of nanoseconds, a 64-bit word read by \<^const>\<open>sint\<close>.
\<close>

type_synonym gotime = int
type_synonym int64 = "64 word"
type_synonym duration = int64

definition zero_time :: gotime where
  "zero_time = 0"

definition is_zero :: "gotime \<Rightarrow> bool" where
  "is_zero t \<longleftrightarrow> t = zero_time"

definition time_after :: "gotime \<Rightarrow> gotime \<Rightarrow> bool" where
  "time_after t u \<longleftrightarrow> u < t"

definition time_before :: "gotime \<Rightarrow> gotime \<Rightarrow> bool" where
  "time_before t u \<longleftrightarrow> t < u"

definition millisecond :: int where
  "millisecond = 1000000"

definition second :: int where
  "second = 1000 * millisecond"

text \<open>\<open>t.Truncate(time.Millisecond)\<close> rounds down to a multiple since the zero time.\<close>

definition truncate_ms :: "gotime \<Rightarrow> gotime" where
  "truncate_ms t = t - t mod millisecond"

lemma truncate_ms_le: "truncate_ms t \<le> t"
  by (simp add: truncate_ms_def millisecond_def)

lemma truncate_ms_gt: "t - millisecond < truncate_ms t"
  by (simp add: truncate_ms_def millisecond_def)

lemma truncate_ms_dvd: "millisecond dvd truncate_ms t"
  by (simp add: truncate_ms_def mod_eq_0_iff_dvd[symmetric] mod_diff_right_eq)

lemma truncate_ms_idem [simp]: "truncate_ms (truncate_ms t) = truncate_ms t"
  by (simp add: truncate_ms_def millisecond_def)

text \<open>\<open>t.Sub(u)\<close> saturates at the ends of \<open>int64\<close>.\<close>

definition max_int64 :: int where
  "max_int64 = 2 ^ 63 - 1"

definition min_int64 :: int where
  "min_int64 = - (2 ^ 63)"

definition time_sub :: "gotime \<Rightarrow> gotime \<Rightarrow> duration" where
  "time_sub t u = word_of_int (max min_int64 (min max_int64 (t - u)))"

lemma sint_word_of_int64:
  "min_int64 \<le> i \<Longrightarrow> i \<le> max_int64 \<Longrightarrow> sint (word_of_int i :: int64) = i"
  by (simp add: min_int64_def max_int64_def sint_sbintrunc' signed_take_bit_int_eq_self)

lemma sint_range64: "min_int64 \<le> sint (w :: int64) \<and> sint w \<le> max_int64"
  using sint_greater_eq[of w] sint_less[of w]
  by (simp add: min_int64_def max_int64_def)

lemma sint_time_sub:
  "min_int64 \<le> t - u \<Longrightarrow> t - u \<le> max_int64 \<Longrightarrow> sint (time_sub t u) = t - u"
  using sint_word_of_int64[of "t - u"] by (simp add: time_sub_def)

text \<open>The Unix epoch, which the zero protobuf timestamp stands for.\<close>

definition unix_epoch :: gotime where
  "unix_epoch = 62135596800 * second"

lemma unix_epoch_not_zero: "\<not> is_zero unix_epoch"
  by (simp add: is_zero_def unix_epoch_def zero_time_def second_def millisecond_def)

subsection \<open>The calendar\<close>

text \<open>
  The civil date of a day, counted from 1 January of year 1, the way \<open>Time.Date\<close> computes it, and
  the layout \<open>2006-01-02T15:04:05.000Z07:00\<close> of an instant in UTC that is not before year 1.
\<close>

definition month_lengths :: "bool \<Rightarrow> nat list" where
  "month_lengths leap = [31, if leap then 29 else 28, 31, 30, 31, 30, 31, 31, 30, 31, 30, 31]"

definition is_leap :: "nat \<Rightarrow> bool" where
  "is_leap y \<longleftrightarrow> y mod 4 = 0 \<and> (y mod 100 \<noteq> 0 \<or> y mod 400 = 0)"

fun month_day :: "nat list \<Rightarrow> nat \<Rightarrow> nat \<Rightarrow> nat \<times> nat" where
  "month_day [] m d = (m, d + 1)"
| "month_day (l # ls) m d = (if d < l then (m, d + 1) else month_day ls (m + 1) (d - l))"

definition year_yday :: "nat \<Rightarrow> nat \<times> nat" where
  "year_yday d =
     (let n400 = d div 146097; d1 = d mod 146097;
          n100 = min 3 (d1 div 36524); d2 = d1 - 36524 * n100;
          n4 = d2 div 1461; d3 = d2 mod 1461;
          n1 = min 3 (d3 div 365); d4 = d3 - 365 * n1
      in (400 * n400 + 100 * n100 + 4 * n4 + n1 + 1, d4))"

definition civil :: "nat \<Rightarrow> nat \<times> nat \<times> nat" where
  "civil d =
     (let (y, yd) = year_yday d; (m, dd) = month_day (month_lengths (is_leap y)) 1 yd in (y, m, dd))"

definition pad :: "nat \<Rightarrow> nat \<Rightarrow> string" where
  "pad w n = (let s = itoa_nat n in replicate (w - length s) (CHR ''0'') @ s)"

definition format_ms :: "gotime \<Rightarrow> string" where
  "format_ms t =
     (let ms = nat (t div millisecond); s = ms div 1000; sod = s mod 86400;
          (y, m, d) = civil (s div 86400)
      in pad 4 y @ ''-'' @ pad 2 m @ ''-'' @ pad 2 d @ ''T'' @ pad 2 (sod div 3600) @ '':''
         @ pad 2 (sod div 60 mod 60) @ '':'' @ pad 2 (sod mod 60) @ ''.'' @ pad 3 (ms mod 1000) @ ''Z'')"

lemma format_ms_truncate: "format_ms (truncate_ms t) = format_ms t"
  by (simp add: format_ms_def truncate_ms_def millisecond_def div_mult_mod_eq minus_mod_eq_mult_div)

end
