(* ===== verification/Errors.thy ===== *)
theory Errors
  imports Go_Strings
begin

text \<open>
  The error values of the repository as one datatype. Go's \<open>error\<close> is an interface; each
  constructor is one of the types or sentinels the sources declare, plus \<open>NewErr\<close> for an
  \<open>errors.New\<close> made at the point of failure, \<open>WrapErr\<close> for \<open>fmt.Errorf("prefix: %w", err)\<close>, and
  \<open>ForeignErr\<close> for an error of a library, with its message and what it unwraps to.
  \<open>errors.Is\<close> and \<open>errors.As\<close> search the chain of unwrapped errors. A sentinel is compared by
  identity in Go and is a constructor here; no other error is ever a target of \<open>errors.Is\<close>.
\<close>

record field_error =
  fe_field :: string
  fe_code :: string
  fe_message :: string

definition FieldErr :: "string \<Rightarrow> string \<Rightarrow> string \<Rightarrow> field_error" where
  "FieldErr f c m = \<lparr>fe_field = f, fe_code = c, fe_message = m\<rparr>"

lemma FieldErr_sel [simp]:
  "fe_field (FieldErr f c m) = f" "fe_code (FieldErr f c m) = c" "fe_message (FieldErr f c m) = m"
  by (simp_all add: FieldErr_def)

datatype goerr =
    NewErr string
  | WrapErr string goerr
  | ForeignErr string "goerr option"
  | ContextCanceled
  | DeadlineExceeded
  | ErrNoCredentials
  | ErrInvalidCredentials
  | ErrPermanent
  | ErrTransient
  | ErrEncryptionPolicyViolation
  | ValidationError "field_error list"
  | PublishError bool goerr
  | PermanentError (pe_reason: string) (pe_response: string) "goerr option"
  | TransientError (te_response: string) "goerr option"
  | NotImplementedError string
  | UnescapedCookieParamError string goerr
  | UnmarshalingParamError string goerr
  | RequiredParamError string
  | RequiredHeaderError string goerr
  | InvalidParamFormatError string goerr
  | TooManyValuesForParamError string int

text \<open>
  The last six are the errors of the generated parameter binding. Where they hold a cause it is
  set: the generated code makes no other.
\<close>

subsection \<open>Unwrapping\<close>

text \<open>
  \<open>PermanentError\<close> and \<open>TransientError\<close> unwrap to the package's sentinel, not to the cause
  they carry.
\<close>

fun unwrap :: "goerr \<Rightarrow> goerr option" where
  "unwrap (WrapErr _ e) = Some e"
| "unwrap (ForeignErr _ u) = u"
| "unwrap (PublishError _ e) = Some e"
| "unwrap (PermanentError _ _ _) = Some ErrPermanent"
| "unwrap (TransientError _ _) = Some ErrTransient"
| "unwrap (UnescapedCookieParamError _ e) = Some e"
| "unwrap (UnmarshalingParamError _ e) = Some e"
| "unwrap (RequiredHeaderError _ e) = Some e"
| "unwrap (InvalidParamFormatError _ e) = Some e"
| "unwrap _ = None"

fun err_chain :: "goerr \<Rightarrow> goerr list" where
  "err_chain (WrapErr p e) = WrapErr p e # err_chain e"
| "err_chain (ForeignErr m None) = [ForeignErr m None]"
| "err_chain (ForeignErr m (Some e)) = ForeignErr m (Some e) # err_chain e"
| "err_chain (PublishError t e) = PublishError t e # err_chain e"
| "err_chain (PermanentError r s c) = [PermanentError r s c, ErrPermanent]"
| "err_chain (TransientError s c) = [TransientError s c, ErrTransient]"
| "err_chain (UnescapedCookieParamError n e) = UnescapedCookieParamError n e # err_chain e"
| "err_chain (UnmarshalingParamError n e) = UnmarshalingParamError n e # err_chain e"
| "err_chain (RequiredHeaderError n e) = RequiredHeaderError n e # err_chain e"
| "err_chain (InvalidParamFormatError n e) = InvalidParamFormatError n e # err_chain e"
| "err_chain e = [e]"

lemma err_chain_unwrap:
  "err_chain e = e # (case unwrap e of None \<Rightarrow> [] | Some u \<Rightarrow> err_chain u)"
  by (cases e rule: err_chain.cases) simp_all

definition errors_is :: "goerr \<Rightarrow> goerr \<Rightarrow> bool" where
  "errors_is e target \<longleftrightarrow> target \<in> set (err_chain e)"

text \<open>\<open>errors.As\<close>: the first error of the chain that has the wanted type.\<close>

fun is_validation :: "goerr \<Rightarrow> bool" where
  "is_validation (ValidationError _) = True"
| "is_validation _ = False"

fun is_publish :: "goerr \<Rightarrow> bool" where
  "is_publish (PublishError _ _) = True"
| "is_publish _ = False"

fun is_permanent :: "goerr \<Rightarrow> bool" where
  "is_permanent (PermanentError _ _ _) = True"
| "is_permanent _ = False"

fun is_transient :: "goerr \<Rightarrow> bool" where
  "is_transient (TransientError _ _) = True"
| "is_transient _ = False"

definition errors_as :: "(goerr \<Rightarrow> bool) \<Rightarrow> goerr \<Rightarrow> goerr option" where
  "errors_as P e = find P (err_chain e)"

lemma errors_as_here: "P e \<Longrightarrow> errors_as P e = Some e"
  by (simp add: errors_as_def err_chain_unwrap[of e])

lemma errors_as_SomeD: "errors_as P e = Some x \<Longrightarrow> P x \<and> x \<in> set (err_chain e)"
  by (simp add: errors_as_def find_SomeD)

lemma errors_as_None: "errors_as P e = None \<longleftrightarrow> list_all (\<lambda>x. \<not> P x) (err_chain e)"
  by (simp add: errors_as_def find_None_iff_all)

lemma errors_as_publishE:
  "errors_as is_publish e = Some x \<Longrightarrow> \<exists>t c. x = PublishError t c"
  by (drule errors_as_SomeD) (cases x; simp)

lemma errors_as_validationE:
  "errors_as is_validation e = Some x \<Longrightarrow> \<exists>fs. x = ValidationError fs"
  by (drule errors_as_SomeD) (cases x; simp)

lemma errors_as_permanentE:
  "errors_as is_permanent e = Some x \<Longrightarrow> \<exists>r s c. x = PermanentError r s c"
  by (drule errors_as_SomeD) (cases x; simp)

lemma errors_as_transientE:
  "errors_as is_transient e = Some x \<Longrightarrow> \<exists>s c. x = TransientError s c"
  by (drule errors_as_SomeD) (cases x; simp)

text \<open>A typed error at any depth brings its sentinel into the chain.\<close>

lemma permanent_in_chain: "PermanentError r s c \<in> set (err_chain e) \<Longrightarrow> ErrPermanent \<in> set (err_chain e)"
  by (induction e rule: err_chain.induct) auto

lemma transient_in_chain: "TransientError s c \<in> set (err_chain e) \<Longrightarrow> ErrTransient \<in> set (err_chain e)"
  by (induction e rule: err_chain.induct) auto

lemma errors_as_permanent_is: "errors_as is_permanent e = Some x \<Longrightarrow> errors_is e ErrPermanent"
  using errors_as_permanentE[of e x] errors_as_SomeD[of is_permanent e x] permanent_in_chain
  by (auto simp: errors_is_def)

lemma errors_as_transient_is: "errors_as is_transient e = Some x \<Longrightarrow> errors_is e ErrTransient"
  using errors_as_transientE[of e x] errors_as_SomeD[of is_transient e x] transient_in_chain
  by (auto simp: errors_is_def)

text \<open>A chain is linear, so it carries at most one of the two provider sentinels.\<close>

lemma err_chain_one_sentinel:
  "ErrPermanent \<in> set (err_chain e) \<Longrightarrow> ErrTransient \<notin> set (err_chain e)"
  by (induction e rule: err_chain.induct) auto

lemma errors_is_exclusive: "errors_is e ErrPermanent \<Longrightarrow> \<not> errors_is e ErrTransient"
  by (simp add: errors_is_def err_chain_one_sentinel)

subsection \<open>Messages\<close>

text \<open>The messages of the typed errors, from the fields and the cause they print.\<close>

definition ValidationError_Error :: "field_error list \<Rightarrow> string" where
  "ValidationError_Error fs =
     ''ingest: validation failed ('' @ itoa_nat (length fs) @ '' field(s))''"

definition PermanentError_Error :: "string \<Rightarrow> string option \<Rightarrow> string" where
  "PermanentError_Error reason err =
     (case err of
        None \<Rightarrow> ''provider: permanent failure: '' @ reason
      | Some m \<Rightarrow> ''provider: permanent failure ('' @ reason @ ''): '' @ m)"

definition TransientError_Error :: "string option \<Rightarrow> string" where
  "TransientError_Error err =
     (case err of
        None \<Rightarrow> ''provider: transient failure''
      | Some m \<Rightarrow> ''provider: transient failure: '' @ m)"

definition NotImplementedError_Error :: "string \<Rightarrow> string" where
  "NotImplementedError_Error t = ''provider: no implementation for target '' @ t"

lemmas typed_messages [simp] =
  ValidationError_Error_def PermanentError_Error_def TransientError_Error_def NotImplementedError_Error_def

text \<open>Those of the parameter binding.\<close>

definition UnescapedCookieParamError_Error :: "string \<Rightarrow> string" where
  "UnescapedCookieParamError_Error n =
     ''error unescaping cookie parameter '' @ [CHR 0x27] @ n @ [CHR 0x27]"

definition UnmarshalingParamError_Error :: "string \<Rightarrow> string \<Rightarrow> string" where
  "UnmarshalingParamError_Error n err =
     ''Error unmarshaling parameter '' @ n @ '' as JSON: '' @ err"

definition RequiredParamError_Error :: "string \<Rightarrow> string" where
  "RequiredParamError_Error n = ''Query argument '' @ n @ '' is required, but not found''"

definition RequiredHeaderError_Error :: "string \<Rightarrow> string" where
  "RequiredHeaderError_Error n = ''Header parameter '' @ n @ '' is required, but not found''"

definition InvalidParamFormatError_Error :: "string \<Rightarrow> string \<Rightarrow> string" where
  "InvalidParamFormatError_Error n err = ''Invalid format for parameter '' @ n @ '': '' @ err"

definition TooManyValuesForParamError_Error :: "string \<Rightarrow> int \<Rightarrow> string" where
  "TooManyValuesForParamError_Error n got = ''Expected one value for '' @ n @ '', got '' @ itoa got"

fun error_string :: "goerr \<Rightarrow> string" where
  "error_string (NewErr m) = m"
| "error_string (WrapErr p e) = p @ '': '' @ error_string e"
| "error_string (ForeignErr m _) = m"
| "error_string ContextCanceled = ''context canceled''"
| "error_string DeadlineExceeded = ''context deadline exceeded''"
| "error_string ErrNoCredentials = ''auth: no credentials''"
| "error_string ErrInvalidCredentials = ''auth: invalid credentials''"
| "error_string ErrPermanent = ''provider: permanent failure''"
| "error_string ErrTransient = ''provider: transient failure''"
| "error_string ErrEncryptionPolicyViolation = ''pulsarlib: encryption policy violation''"
| "error_string (ValidationError fs) = ValidationError_Error fs"
| "error_string (PublishError _ e) = error_string e"
| "error_string (PermanentError r _ c) = PermanentError_Error r (map_option error_string c)"
| "error_string (TransientError _ c) = TransientError_Error (map_option error_string c)"
| "error_string (NotImplementedError t) = NotImplementedError_Error t"
| "error_string (UnescapedCookieParamError n _) = UnescapedCookieParamError_Error n"
| "error_string (UnmarshalingParamError n e) = UnmarshalingParamError_Error n (error_string e)"
| "error_string (RequiredParamError n) = RequiredParamError_Error n"
| "error_string (RequiredHeaderError n _) = RequiredHeaderError_Error n"
| "error_string (InvalidParamFormatError n e) = InvalidParamFormatError_Error n (error_string e)"
| "error_string (TooManyValuesForParamError n c) = TooManyValuesForParamError_Error n c"

end
