(* ===== verification/Messages.thy ===== *)
theory Messages
  imports Go_Time Errors
begin

text \<open>
  The canonical protobuf messages (\<open>pkg/notificationpb/v1/notification.pb.go\<close>): the message structs
  as records, a pointer that may be nil as an option, the \<open>target\<close> oneof as a datatype, and the
  generated getters, which accept a nil receiver. The runtime's bookkeeping fields (\<open>state\<close>,
  \<open>unknownFields\<close>, \<open>sizeCache\<close>) are left out. \<open>google.protobuf.Timestamp\<close> is not code of the
  repository: it is the type variable \<open>'ts\<close>, read and written only through \<open>AsTime\<close> and \<open>New\<close>
  (fields of the record of external functions below).
\<close>

type_synonym int32 = "32 word"

record content =
  c_title :: string
  c_body :: string
  c_priority :: int32
  c_data :: "(string \<times> string) list"

record pushover_target =
  pt_user_or_group_key :: string
  pt_device_name :: string
  pt_sound :: string
  pt_url :: string
  pt_url_title :: string

text \<open>
  The interface \<open>isNotification_Target\<close> has one implementation at this version. The second
  constructor stands for an arm this version does not know, which the type switches of the
  sources have a default branch for.
\<close>

datatype target = Notification_Pushover "pushover_target option" | Target_Other

record 'ts notification =
  n_notification_id :: string
  n_created_at :: "'ts option"
  n_expires_at :: "'ts option"
  n_originating_service :: string
  n_idempotency_key :: string
  n_content :: "content option"
  n_target :: "target option"

definition empty_content :: content where
  "empty_content = \<lparr>c_title = [], c_body = [], c_priority = 0, c_data = []\<rparr>"

definition empty_pushover :: pushover_target where
  "empty_pushover = \<lparr>pt_user_or_group_key = [], pt_device_name = [], pt_sound = [],
     pt_url = [], pt_url_title = []\<rparr>"

definition empty_notification :: "'ts notification" where
  "empty_notification = \<lparr>n_notification_id = [], n_created_at = None, n_expires_at = None,
     n_originating_service = [], n_idempotency_key = [], n_content = None, n_target = None\<rparr>"

subsection \<open>Getters\<close>

definition GetNotificationId :: "'ts notification option \<Rightarrow> string" where
  "GetNotificationId x = (case x of None \<Rightarrow> [] | Some n \<Rightarrow> n_notification_id n)"

definition GetCreatedAt :: "'ts notification option \<Rightarrow> 'ts option" where
  "GetCreatedAt x = (case x of None \<Rightarrow> None | Some n \<Rightarrow> n_created_at n)"

definition GetExpiresAt :: "'ts notification option \<Rightarrow> 'ts option" where
  "GetExpiresAt x = (case x of None \<Rightarrow> None | Some n \<Rightarrow> n_expires_at n)"

definition GetOriginatingService :: "'ts notification option \<Rightarrow> string" where
  "GetOriginatingService x = (case x of None \<Rightarrow> [] | Some n \<Rightarrow> n_originating_service n)"

definition GetIdempotencyKey :: "'ts notification option \<Rightarrow> string" where
  "GetIdempotencyKey x = (case x of None \<Rightarrow> [] | Some n \<Rightarrow> n_idempotency_key n)"

definition GetContent :: "'ts notification option \<Rightarrow> content option" where
  "GetContent x = (case x of None \<Rightarrow> None | Some n \<Rightarrow> n_content n)"

definition GetTarget :: "'ts notification option \<Rightarrow> target option" where
  "GetTarget x = (case x of None \<Rightarrow> None | Some n \<Rightarrow> n_target n)"

definition GetPushover :: "'ts notification option \<Rightarrow> pushover_target option" where
  "GetPushover x =
     (case x of
        None \<Rightarrow> None
      | Some n \<Rightarrow> (case n_target n of Some (Notification_Pushover p) \<Rightarrow> p | _ \<Rightarrow> None))"

definition GetTitle :: "content option \<Rightarrow> string" where
  "GetTitle x = (case x of None \<Rightarrow> [] | Some c \<Rightarrow> c_title c)"

definition GetBody :: "content option \<Rightarrow> string" where
  "GetBody x = (case x of None \<Rightarrow> [] | Some c \<Rightarrow> c_body c)"

definition GetPriority :: "content option \<Rightarrow> int32" where
  "GetPriority x = (case x of None \<Rightarrow> 0 | Some c \<Rightarrow> c_priority c)"

definition GetData :: "content option \<Rightarrow> (string \<times> string) list" where
  "GetData x = (case x of None \<Rightarrow> [] | Some c \<Rightarrow> c_data c)"

definition GetUserOrGroupKey :: "pushover_target option \<Rightarrow> string" where
  "GetUserOrGroupKey x = (case x of None \<Rightarrow> [] | Some t \<Rightarrow> pt_user_or_group_key t)"

definition GetDeviceName :: "pushover_target option \<Rightarrow> string" where
  "GetDeviceName x = (case x of None \<Rightarrow> [] | Some t \<Rightarrow> pt_device_name t)"

definition GetSound :: "pushover_target option \<Rightarrow> string" where
  "GetSound x = (case x of None \<Rightarrow> [] | Some t \<Rightarrow> pt_sound t)"

definition GetUrl :: "pushover_target option \<Rightarrow> string" where
  "GetUrl x = (case x of None \<Rightarrow> [] | Some t \<Rightarrow> pt_url t)"

definition GetUrlTitle :: "pushover_target option \<Rightarrow> string" where
  "GetUrlTitle x = (case x of None \<Rightarrow> [] | Some t \<Rightarrow> pt_url_title t)"

lemmas getter_defs [go_defs] =
  GetNotificationId_def GetCreatedAt_def GetExpiresAt_def GetOriginatingService_def
  GetIdempotencyKey_def GetContent_def GetTarget_def GetPushover_def GetTitle_def GetBody_def GetPriority_def GetData_def GetUserOrGroupKey_def
  GetDeviceName_def GetSound_def GetUrl_def GetUrlTitle_def

lemma getter_Some [simp]:
  "GetNotificationId (Some n) = n_notification_id n"
  "GetCreatedAt (Some n) = n_created_at n"
  "GetExpiresAt (Some n) = n_expires_at n"
  "GetIdempotencyKey (Some n) = n_idempotency_key n"
  "GetContent (Some n) = n_content n"
  "GetTarget (Some n) = n_target n"
  "GetTitle (Some c) = c_title c"
  "GetBody (Some c) = c_body c"
  "GetPriority (Some c) = c_priority c"
  "GetData (Some c) = c_data c"
  "GetUserOrGroupKey (Some t) = pt_user_or_group_key t"
  "GetDeviceName (Some t) = pt_device_name t"
  "GetSound (Some t) = pt_sound t"
  "GetUrl (Some t) = pt_url t"
  "GetUrlTitle (Some t) = pt_url_title t"
  by (simp_all add: go_defs)

subsection \<open>JSON values\<close>

text \<open>
  A JSON document after parsing. A number keeps whether its literal is an integer, because
  \<open>encoding/json\<close> refuses a literal with a fraction or an exponent for a Go integer.
\<close>

datatype json =
    JNull
  | JBool bool
  | JInt int
  | JReal string
  | JString string
  | JArray "json list"
  | JObject "(string \<times> json) list"

subsection \<open>External functions\<close>

text \<open>
  The functions of libraries the sources call, as one record that every definition using them
  takes as its first argument: the protobuf runtime (\<open>timestamppb\<close>, \<open>proto\<close>, \<open>protojson\<close>), the
  JSON text codec and \<open>net/url\<close> parser, the Unicode lower-case table above ASCII, and
  \<open>strconv.Quote\<close>, which only shapes messages.
  \<open>x_url_parse\<close> returns the scheme of the parsed URL, all the sources ask of it.
\<close>

record 'ts ext =
  x_as_time :: "'ts \<Rightarrow> gotime"
  x_ts_new :: "gotime \<Rightarrow> 'ts"
  x_marshal :: "'ts notification \<Rightarrow> goerr + string"
  x_unmarshal :: "string \<Rightarrow> goerr + 'ts notification"
  x_pj_marshal :: "'ts notification \<Rightarrow> goerr + string"
  x_pj_unmarshal :: "string \<Rightarrow> goerr + 'ts notification"
  x_json_encode :: "json \<Rightarrow> string"
  x_json_decode :: "string \<Rightarrow> json option"
  x_url_parse :: "string \<Rightarrow> goerr + string"
  x_ulower :: "string \<Rightarrow> string"
  x_quote :: "string \<Rightarrow> string"

end
