(* ===== verification/Go_Json.thy ===== *)
theory Go_Json
  imports Messages Go_Time
begin

text \<open>
  \<open>json.Unmarshal\<close> into the structs the sources declare. A decoder takes the parsed value and the
  old content of the target, and returns the new content and whether a type error was met. A type
  error does not stop the decoding: the target keeps its content and the error is reported at the
  end. \<open>null\<close> leaves a string, a number or a struct and empties a slice.
  The text of a JSON error is not modelled.
\<close>

type_synonym 'a decoder = "json \<Rightarrow> 'a \<Rightarrow> bool \<times> 'a"

definition dec_string :: "string decoder" where
  "dec_string j d = (case j of JString s \<Rightarrow> (False, s) | JNull \<Rightarrow> (False, d) | _ \<Rightarrow> (True, d))"

text \<open>An integer has the width of \<open>int\<close>; a number with a fraction or an exponent is refused.\<close>

definition dec_int :: "int decoder" where
  "dec_int j d =
     (case j of
        JInt i \<Rightarrow> (if min_int64 \<le> i \<and> i \<le> max_int64 then (False, i) else (True, d))
      | JNull \<Rightarrow> (False, d)
      | _ \<Rightarrow> (True, d))"

definition dec_list :: "'a decoder \<Rightarrow> 'a \<Rightarrow> 'a list decoder" where
  "dec_list elem zero j d =
     (case j of
        JArray js \<Rightarrow> (list_ex (\<lambda>j. fst (elem j zero)) js, map (\<lambda>j. snd (elem j zero)) js)
      | JNull \<Rightarrow> (False, [])
      | _ \<Rightarrow> (True, d))"

text \<open>
  A member is matched to a field by its exact name or, failing that, case-folded. \<open>json_fold\<close> folds
  the runes that fold to an ASCII letter: the ASCII capitals, the long s and the Kelvin sign.
\<close>

definition json_fold_rune :: "string \<Rightarrow> string" where
  "json_fold_rune r =
     (if map byte r = [197, 191] then ''s''
      else if map byte r = [226, 132, 170] then ''k''
      else case r of [c] \<Rightarrow> [lower_ascii c] | _ \<Rightarrow> r)"

definition json_fold :: "string \<Rightarrow> string" where
  "json_fold k = concat (map json_fold_rune (runes k))"

type_synonym 's json_field = "string \<times> 's decoder"

definition find_field :: "'s json_field list \<Rightarrow> string \<Rightarrow> 's decoder option" where
  "find_field fs k =
     (case map_of fs k of
        Some f \<Rightarrow> Some f
      | None \<Rightarrow> map_option snd (find (\<lambda>(n, _). json_fold n = json_fold k) fs))"

definition dec_member :: "'s json_field list \<Rightarrow> string \<times> json \<Rightarrow> bool \<times> 's \<Rightarrow> bool \<times> 's" where
  "dec_member fs kv st =
     (case find_field fs (fst kv) of
        None \<Rightarrow> st
      | Some f \<Rightarrow> (case f (snd kv) (snd st) of (e, s) \<Rightarrow> (fst st \<or> e, s)))"

definition dec_struct :: "'s json_field list \<Rightarrow> 's decoder" where
  "dec_struct fs j d =
     (case j of
        JObject kvs \<Rightarrow> fold (dec_member fs) kvs (False, d)
      | JNull \<Rightarrow> (False, d)
      | _ \<Rightarrow> (True, d))"

text \<open>The whole call: a syntax error leaves the target as it was.\<close>

definition json_unmarshal :: "'ts ext \<Rightarrow> string \<Rightarrow> 'a decoder \<Rightarrow> 'a \<Rightarrow> goerr option \<times> 'a" where
  "json_unmarshal E body dec d =
     (case x_json_decode E body of
        None \<Rightarrow> (Some (ForeignErr ''json: syntax'' None), d)
      | Some j \<Rightarrow>
          (case dec j d of
             (e, v) \<Rightarrow> (if e then Some (ForeignErr ''json: type'' None) else None, v)))"

text \<open>A decoder of one field of a record, from the decoder of its type.\<close>

definition field_of :: "('s \<Rightarrow> 'a) \<Rightarrow> ('a \<Rightarrow> 's \<Rightarrow> 's) \<Rightarrow> 'a decoder \<Rightarrow> 's decoder" where
  "field_of get put dec j s = (case dec j (get s) of (e, v) \<Rightarrow> (e, put v s))"

lemmas decoder_defs =
  dec_string_def dec_int_def dec_list_def dec_struct_def dec_member_def find_field_def field_of_def

subsection \<open>The JSON text codec\<close>

text \<open>
  What \<open>encoding/json\<close> documents of encoding a value and decoding it again: strings and member names
  are coerced to valid UTF-8, each invalid byte to the rune U+FFFD, and everything else is kept. It is
  asked for values without a fractional number (the sources encode none) and nested no deeper than
  the decoder accepts.
\<close>

fun json_text :: "json \<Rightarrow> json" where
  "json_text (JString s) = JString (utf8_text s)"
| "json_text (JArray js) = JArray (map json_text js)"
| "json_text (JObject kvs) = JObject (map (\<lambda>(k, j). (utf8_text k, json_text j)) kvs)"
| "json_text j = j"

fun json_depth :: "json \<Rightarrow> nat" where
  "json_depth (JArray js) = Suc (foldr max (map json_depth js) 0)"
| "json_depth (JObject kvs) = Suc (foldr max (map (\<lambda>(k, j). json_depth j) kvs) 0)"
| "json_depth j = 0"

fun integral :: "json \<Rightarrow> bool" where
  "integral (JReal s) = False"
| "integral (JArray js) = list_all integral js"
| "integral (JObject kvs) = list_all (\<lambda>(k, j). integral j) kvs"
| "integral j = True"

definition json_codec :: "'ts ext \<Rightarrow> bool" where
  "json_codec E \<longleftrightarrow> (\<forall>j. integral j \<and> json_depth j \<le> 10000 \<longrightarrow>
     x_json_decode E (x_json_encode E j @ [newline]) = Some (json_text j))"

lemma json_codecD:
  "json_codec E \<Longrightarrow> integral j \<Longrightarrow> json_depth j \<le> 10000 \<Longrightarrow>
   x_json_decode E (x_json_encode E j @ [newline]) = Some (json_text j)"
  by (simp add: json_codec_def)

lemma foldr_max_le: "(\<And>x. x \<in> set xs \<Longrightarrow> x \<le> k) \<Longrightarrow> foldr max xs 0 \<le> (k :: nat)"
  by (induction xs) auto

text \<open>A value whose strings are valid UTF-8 comes back as it was.\<close>

fun json_valid :: "json \<Rightarrow> bool" where
  "json_valid (JString s) = valid_utf8 s"
| "json_valid (JArray js) = list_all json_valid js"
| "json_valid (JObject kvs) = list_all (\<lambda>(k, j). valid_utf8 k \<and> json_valid j) kvs"
| "json_valid j = True"

lemma json_text_valid: "json_valid j \<Longrightarrow> json_text j = j"
proof (induction j)
  case (JArray js)
  then show ?case by (auto simp: list_all_iff intro: map_idI)
next
  case (JObject kvs)
  have "(utf8_text k, json_text v) = (k, v)" if "(k, v) \<in> set kvs" for k v
    using JObject.IH[OF that snds.intros] JObject.prems that by (auto simp: list_all_iff utf8_text_valid)
  then show ?case by (auto intro!: map_idI)
qed (auto simp: utf8_text_valid)

definition plain_json :: "json \<Rightarrow> bool" where
  "plain_json j \<longleftrightarrow> integral j \<and> json_depth j \<le> 10000 \<and> json_valid j"

lemma json_codec_plain:
  "json_codec E \<Longrightarrow> plain_json j \<Longrightarrow> x_json_decode E (x_json_encode E j @ [newline]) = Some j"
  by (simp add: json_codecD plain_json_def json_text_valid)

text \<open>The member names and constants of the sources are ASCII.\<close>

lemmas ascii_eval = is_ascii_def byte_def utf8_text_ascii

end
