(* ===== verification/Time_Parse.thy ===== *)
theory Time_Parse
  imports Go_Time
begin

text \<open>
  \<open>time.Parse\<close> for the layouts the client tries on \<open>accepted_at\<close>: a layout is the list of its
  literals and standard elements, and parsing follows the loop of the library, its quirks included
  (an hour of one digit, a signed fraction, a fraction the layout does not have). Parsing inverts
  the formatting of the theory Go_Time on the instants of the years 1 to 9999.
\<close>

subsection \<open>Layouts\<close>

datatype layout_item =
    Lit char
  | StdYear
  | StdMonth
  | StdDay
  | StdHour
  | StdMinute
  | StdSecond
  | StdFrac0 nat
  | StdFrac9
  | StdZone

definition date_layout :: "layout_item list" where
  "date_layout = [StdYear, Lit (CHR ''-''), StdMonth, Lit (CHR ''-''), StdDay, Lit (CHR ''T''),
     StdHour, Lit (CHR '':''), StdMinute, Lit (CHR '':''), StdSecond]"

definition layout_ms :: "layout_item list" where
  "layout_ms = date_layout @ [StdFrac0 3, StdZone]"

definition RFC3339Nano :: "layout_item list" where
  "RFC3339Nano = date_layout @ [StdFrac9, StdZone]"

definition RFC3339 :: "layout_item list" where
  "RFC3339 = date_layout @ [StdZone]"

subsection \<open>Numbers\<close>

text \<open>\<open>getnum\<close>: two digits, or one where the element does not ask for two.\<close>

fun getnum :: "bool \<Rightarrow> string \<Rightarrow> (nat \<times> string) option" where
  "getnum fixed [] = None"
| "getnum fixed [a] = (if is_digit a \<and> \<not> fixed then Some (digit_val a, []) else None)"
| "getnum fixed (a # b # s) =
     (if \<not> is_digit a then None
      else if \<not> is_digit b then (if fixed then None else Some (digit_val a, b # s))
      else Some (10 * digit_val a + digit_val b, s))"

text \<open>The library's \<open>atoi\<close>, with an optional sign.\<close>

definition time_atoi :: "string \<Rightarrow> int option" where
  "time_atoi s =
     (let neg = (s \<noteq> [] \<and> hd s = CHR ''-'');
          ds = (if s \<noteq> [] \<and> hd s \<in> {CHR ''-'', CHR ''+''} then tl s else s)
      in if list_all is_digit ds
         then Some (if neg then - int (atoi_nat ds) else int (atoi_nat ds)) else None)"

definition is_point :: "char \<Rightarrow> bool" where
  "is_point c \<longleftrightarrow> c = CHR ''.'' \<or> c = CHR '',''"

text \<open>The first \<open>n\<close> bytes as a point and digits, in nanoseconds; digits after the ninth are cut.\<close>

definition parseNanoseconds :: "string \<Rightarrow> nat \<Rightarrow> nat option" where
  "parseNanoseconds value n =
     (if \<not> is_point (hd value) then None
      else let k = min n 10 in
        case time_atoi (take (k - 1) (tl value)) of
          None \<Rightarrow> None
        | Some ns \<Rightarrow> (if ns < 0 then None else Some (nat ns * 10 ^ (10 - k))))"

text \<open>A point and a digit begin the value: the bytes of the fraction, the point included.\<close>

definition fraction_length :: "string \<Rightarrow> nat" where
  "fraction_length value =
     (if 2 \<le> length value \<and> is_point (hd value) \<and> is_digit (value ! 1)
      then Suc (length (takeWhile is_digit (tl value))) else 0)"

subsection \<open>Parsing\<close>

text \<open>The layout goes on with a fraction of its own.\<close>

fun fraction_follows :: "layout_item list \<Rightarrow> bool" where
  "fraction_follows (StdFrac0 _ # _) = True"
| "fraction_follows (StdFrac9 # _) = True"
| "fraction_follows _ = False"

record parsed_time =
  tm_year :: nat
  tm_month :: nat
  tm_day :: nat
  tm_hour :: nat
  tm_minute :: nat
  tm_second :: nat
  tm_nanos :: nat
  tm_offset :: int

definition bounded :: "nat \<Rightarrow> nat \<Rightarrow> (nat \<times> string) option \<Rightarrow> (nat \<times> string) option" where
  "bounded lo hi r = Option.bind r (\<lambda>(n, s). if lo \<le> n \<and> n < hi then Some (n, s) else None)"

definition parse_zone :: "string \<Rightarrow> (int \<times> string) option" where
  "parse_zone value =
     (case value of
        [] \<Rightarrow> None
      | c # s \<Rightarrow>
          (if c = CHR ''Z'' then Some (0, s)
           else if length value < 6 \<or> value ! 3 \<noteq> CHR '':'' then None
           else
             (case (getnum True (take 2 s), getnum True (take 2 (drop 3 s))) of
                (Some (hr, _), Some (mm, _)) \<Rightarrow>
                  (if 24 < hr \<or> 60 < mm then None
                   else
                     (let off = int ((hr * 60 + mm) * 60) in
                      if c = CHR ''+'' then Some (off, drop 5 s)
                      else if c = CHR ''-'' then Some (- off, drop 5 s) else None))
              | _ \<Rightarrow> None)))"

fun parse_item :: "layout_item \<Rightarrow> layout_item list \<Rightarrow> string \<Rightarrow> parsed_time \<Rightarrow> (string \<times> parsed_time) option" where
  "parse_item (Lit c) next s p = (case s of [] \<Rightarrow> None | d # s' \<Rightarrow> (if d = c then Some (s', p) else None))"
| "parse_item StdYear next s p =
     (if 4 \<le> length s \<and> list_all is_digit (take 4 s)
      then Some (drop 4 s, p\<lparr>tm_year := atoi_nat (take 4 s)\<rparr>) else None)"
| "parse_item StdMonth next s p =
     map_option (\<lambda>(n, s'). (s', p\<lparr>tm_month := n\<rparr>)) (bounded 1 13 (getnum True s))"
| "parse_item StdDay next s p = map_option (\<lambda>(n, s'). (s', p\<lparr>tm_day := n\<rparr>)) (getnum True s)"
| "parse_item StdHour next s p =
     map_option (\<lambda>(n, s'). (s', p\<lparr>tm_hour := n\<rparr>)) (bounded 0 24 (getnum False s))"
| "parse_item StdMinute next s p =
     map_option (\<lambda>(n, s'). (s', p\<lparr>tm_minute := n\<rparr>)) (bounded 0 60 (getnum True s))"
| "parse_item StdSecond next s p =
     Option.bind (bounded 0 60 (getnum True s)) (\<lambda>(n, s').
       let p' = p\<lparr>tm_second := n\<rparr>; k = fraction_length s' in
       if k = 0 \<or> fraction_follows next
       then Some (s', p')
       else map_option (\<lambda>ns. (drop k s', p'\<lparr>tm_nanos := ns\<rparr>)) (parseNanoseconds s' k))"
| "parse_item (StdFrac0 d) next s p =
     (if length s < Suc d then None
      else map_option (\<lambda>ns. (drop (Suc d) s, p\<lparr>tm_nanos := ns\<rparr>)) (parseNanoseconds s (Suc d)))"
| "parse_item StdFrac9 next s p =
     (let k = fraction_length s in
      if k = 0 then Some (s, p)
      else map_option (\<lambda>ns. (drop k s, p\<lparr>tm_nanos := ns\<rparr>)) (parseNanoseconds s k))"
| "parse_item StdZone next s p =
     map_option (\<lambda>(off, s'). (s', p\<lparr>tm_offset := off\<rparr>)) (parse_zone s)"

fun parse_items :: "layout_item list \<Rightarrow> string \<Rightarrow> parsed_time \<Rightarrow> parsed_time option" where
  "parse_items [] s p = (if s = [] then Some p else None)"
| "parse_items (i # is) s p = Option.bind (parse_item i is s p) (\<lambda>(s', p'). parse_items is s' p')"

text \<open>\<open>time.Date\<close> in UTC for a date of the calendar: days before the year, before the month, and in it.\<close>

definition days_before_year :: "int \<Rightarrow> int" where
  "days_before_year y = 365 * (y - 1) + (y - 1) div 4 - (y - 1) div 100 + (y - 1) div 400"

definition days_in :: "nat \<Rightarrow> nat \<Rightarrow> nat" where
  "days_in y m = month_lengths (is_leap y) ! (m - 1)"

definition days_from_civil :: "nat \<Rightarrow> nat \<Rightarrow> nat \<Rightarrow> int" where
  "days_from_civil y m d =
     days_before_year (int y) + int (sum_list (take (m - 1) (month_lengths (is_leap y)))) + int d - 1"

definition instant_of :: "parsed_time \<Rightarrow> gotime" where
  "instant_of p =
     (86400 * days_from_civil (tm_year p) (tm_month p) (tm_day p)
        + int (3600 * tm_hour p + 60 * tm_minute p + tm_second p) - tm_offset p) * second
     + int (tm_nanos p)"

definition time_parse :: "layout_item list \<Rightarrow> string \<Rightarrow> gotime option" where
  "time_parse layout s =
     Option.bind
       (parse_items layout s
          \<lparr>tm_year = 0, tm_month = 1, tm_day = 1, tm_hour = 0, tm_minute = 0, tm_second = 0,
           tm_nanos = 0, tm_offset = 0\<rparr>)
       (\<lambda>p. if 1 \<le> tm_day p \<and> tm_day p \<le> days_in (tm_year p) (tm_month p)
            then Some (instant_of p) else None)"

subsection \<open>The calendar and back\<close>

lemma month_day_spec:
  "d < sum_list ls \<Longrightarrow> month_day ls m d = (m', dd) \<Longrightarrow>
   m \<le> m' \<and> m' < m + length ls \<and> 1 \<le> dd \<and> dd \<le> ls ! (m' - m)
   \<and> sum_list (take (m' - m) ls) + dd = Suc d"
proof (induction ls m d rule: month_day.induct)
  case (2 l ls m d)
  show ?case
  proof (cases "d < l")
    case True
    with 2 show ?thesis by auto
  next
    case False
    with 2 have "m + 1 \<le> m' \<and> m' < m + 1 + length ls \<and> 1 \<le> dd \<and> dd \<le> ls ! (m' - (m + 1))
        \<and> sum_list (take (m' - (m + 1)) ls) + dd = Suc (d - l)" by simp
    moreover from this have "m' - m = Suc (m' - (m + 1))" by (metis Suc_diff_le add.commute diff_Suc_Suc plus_1_eq_Suc)
    ultimately show ?thesis using False by (simp, linarith)
  qed
qed simp

lemma year_yday_spec:
  assumes "year_yday d = (y, yd)"
  shows "int d = days_before_year (int y) + int yd" and "1 \<le> y"
    and "yd < sum_list (month_lengths (is_leap y))"
proof -
  define a where "a = d div 146097"
  define d1 where "d1 = d mod 146097"
  define b where "b = min 3 (d1 div 36524)"
  define d2 where "d2 = d1 - 36524 * b"
  define e where "e = d2 div 1461"
  define d3 where "d3 = d2 mod 1461"
  define f where "f = min 3 (d3 div 365)"
  have "year_yday d = (400 * a + 100 * b + 4 * e + f + 1, d3 - 365 * f)"
    unfolding year_yday_def Let_def f_def d3_def e_def d2_def b_def d1_def a_def by (rule refl)
  with assms have y: "y = 400 * a + 100 * b + 4 * e + f + 1" and yd: "yd = d3 - 365 * f"
    by simp_all
  have d: "d = 146097 * a + d1" and "d1 < 146097" by (simp_all add: a_def d1_def)
  then have b3: "b \<le> 3" "36524 * b \<le> d1" and d2: "d2 \<le> 36524" "b < 3 \<Longrightarrow> d2 < 36524"
    unfolding b_def d2_def by linarith+
  have d1: "d1 = 36524 * b + d2" using b3 by (simp add: d2_def)
  have d2': "d2 = 1461 * e + d3" and d3: "d3 \<le> 1460" by (simp_all add: e_def d3_def) 
  have f3: "f \<le> 3" "365 * f \<le> d3" and r: "d3 - 365 * f \<le> 365" "d3 - 365 * f = 365 \<Longrightarrow> f = 3 \<and> d3 = 1460"
    using d3 unfolding f_def by linarith+
  have e24: "e \<le> 24" using d2' d2(1) by linarith
  have "(int y - 1) div 4 = 100 * int a + 25 * int b + int e"
    unfolding y using f3 by simp
  moreover have "(int y - 1) div 100 = 4 * int a + int b"
    unfolding y using f3 e24 by simp
  moreover have "(int y - 1) div 400 = int a"
    unfolding y using f3 e24 b3 by simp
  ultimately show "int d = days_before_year (int y) + int yd"
    unfolding days_before_year_def using d d1 d2' f3 y yd by (simp add: of_nat_diff)
  show "1 \<le> y" by (simp add: y)
  have "yd < 365 \<or> is_leap y"
  proof (rule ccontr)
    assume c: "\<not> (yd < 365 \<or> is_leap y)"
    then have "f = 3" "d3 = 1460" using r yd by auto
    then have y4: "y = 400 * a + 100 * b + 4 * e + 4" using y by simp
    have "y mod 4 = 0" unfolding y4 by simp
    with c have "y mod 400 \<noteq> 0" and "y mod 100 = 0" unfolding is_leap_def by auto
    have "y mod 100 = (4 * e + 4) mod 100"
      unfolding y4 using mod_mult_self2[of "4 * e + 4" 100 "4 * a + b"] by (simp add: algebra_simps)
    then have "(4 * e + 4) mod 100 = 0" using \<open>y mod 100 = 0\<close> by simp
    then have "\<not> 4 * e + 4 < 100" using mod_less[of "4 * e + 4" 100] by linarith
    then have "e = 24" using e24 by simp
    then have "\<not> d2 < 36524" using d2' \<open>d3 = 1460\<close> by simp
    then have "b = 3" using d2(2) b3 by fastforce
    with y4 \<open>e = 24\<close> have "y = 400 * (a + 1)" by simp
    with \<open>y mod 400 \<noteq> 0\<close> show False by simp
  qed
  then show "yd < sum_list (month_lengths (is_leap y))"
    using r(1) yd by (auto simp: month_lengths_def)
qed

lemma civil_spec:
  assumes "civil d = (y, m, dd)"
  shows "days_from_civil y m dd = int d" and "1 \<le> y" and "1 \<le> m" "m \<le> 12" and "1 \<le> dd" "dd \<le> days_in y m"
proof -
  obtain yd where yy: "year_yday d = (y, yd)" and md: "month_day (month_lengths (is_leap y)) 1 yd = (m, dd)"
    using assms by (auto simp: civil_def Let_def split: prod.splits)
  note ys = year_yday_spec[OF yy]
  from month_day_spec[OF ys(3) md]
  have m: "1 \<le> m" "m < 13" "1 \<le> dd" "dd \<le> month_lengths (is_leap y) ! (m - 1)"
    "sum_list (take (m - 1) (month_lengths (is_leap y))) + dd = Suc yd"
    by (auto simp: month_lengths_def)
  then show "days_from_civil y m dd = int d" "1 \<le> y" "1 \<le> m" "m \<le> 12" "1 \<le> dd" "dd \<le> days_in y m"
    using ys(1,2) by (auto simp: days_from_civil_def days_in_def)
qed

subsection \<open>Parsing what was formatted\<close>

lemma length_itoa_nat: "n < 10 ^ w \<Longrightarrow> 0 < w \<Longrightarrow> length (itoa_nat n) \<le> w"
proof (induction n arbitrary: w rule: itoa_nat.induct)
  case (1 n)
  show ?case
  proof (cases "n < 10")
    case True
    with 1 show ?thesis by (subst itoa_nat.simps) simp
  next
    case False
    with 1(2) obtain v where w: "w = Suc v" "0 < v" by (cases w; cases "w - 1") auto
    with 1(2) have "n div 10 < 10 ^ v" by (simp add: less_mult_imp_div_less mult.commute)
    with 1(1)[OF False this w(2)] w(1) show ?thesis by (subst itoa_nat.simps) (simp add: False)
  qed
qed

lemma length_pad: "n < 10 ^ w \<Longrightarrow> 0 < w \<Longrightarrow> length (pad w n) = w"
  using length_itoa_nat[of n w] by (simp add: pad_def Let_def)

lemma pad_digits: "list_all is_digit (pad w n)"
  using itoa_nat_digits[of n] by (auto simp: pad_def Let_def list_all_iff is_digit_def byte_def)

lemma atoi_pad [simp]: "atoi_nat (pad w n) = n"
proof -
  have "foldl (\<lambda>n c. 10 * n + digit_val c) 0 (replicate k (CHR ''0'')) = 0" for k
    by (induction k) (simp_all add: digit_val_def byte_def)
  then show ?thesis using atoi_itoa_nat[of n] by (simp add: pad_def Let_def atoi_nat_def)
qed

lemma getnum_pad [simp]: "n < 100 \<Longrightarrow> getnum fixed (pad 2 n @ s) = Some (n, s)"
proof -
  assume "n < 100"
  then have "length (pad 2 n) = 2" by (intro length_pad) simp_all
  then obtain a b where p: "pad 2 n = [a, b]" by (auto simp: length_Suc_conv numeral_2_eq_2)
  have "is_digit a" "is_digit b" using pad_digits[of 2 n] unfolding p by simp_all
  moreover have "10 * digit_val a + digit_val b = n"
    using atoi_pad[of 2 n] unfolding p by (simp add: atoi_nat_def)
  ultimately show ?thesis unfolding p by simp
qed

lemma digit_signs: "is_digit c \<Longrightarrow> c \<noteq> CHR ''-'' \<and> c \<noteq> CHR ''+'' \<and> \<not> is_point c"
  by (auto simp: is_digit_def byte_def is_point_def)

lemma time_atoi_digits: "list_all is_digit s \<Longrightarrow> time_atoi s = Some (int (atoi_nat s))"
  using digit_signs[of "hd s"] by (cases s) (auto simp: time_atoi_def)

lemma parse_pad3: "k < 1000 \<Longrightarrow> parseNanoseconds (CHR ''.'' # pad 3 k @ s) 4 = Some (k * 10 ^ 6)"
  using length_pad[of k 3] by (simp add: parseNanoseconds_def is_point_def time_atoi_digits pad_digits)

lemma year_le_9999:
  assumes "civil d = (y, m, dd)" and "int d < 3652059"
  shows "y \<le> 9999"
proof (rule ccontr)
  assume "\<not> y \<le> 9999"
  define k where "k = int y - 1"
  have "9999 \<le> k" using \<open>\<not> y \<le> 9999\<close> by (simp add: k_def)
  obtain yd where yy: "year_yday d = (y, yd)"
    using assms(1) by (auto simp: civil_def Let_def split: prod.splits)
  have "days_before_year (int y) \<le> int d"
    using year_yday_spec(1)[OF yy] by simp
  moreover have "365 * k + (k div 4 - k div 100) + k div 400 \<ge> 3652059"
  proof (cases "k < 10006")
    case True
    with \<open>9999 \<le> k\<close> have "k \<in> {9999, 10000, 10001, 10002, 10003, 10004, 10005}" by auto
    then show ?thesis by auto
  next
    case False
    have "k div 100 \<le> k div 4" using False by (intro zdiv_mono2) simp_all
    moreover have "0 \<le> k div 400" using False by (simp add: pos_imp_zdiv_nonneg_iff)
    ultimately show ?thesis using False by linarith
  qed
  ultimately show False using assms(2) by (simp add: days_before_year_def k_def)
qed

lemma days_in_le: "m \<le> 12 \<Longrightarrow> 1 \<le> m \<Longrightarrow> days_in y m \<le> 31"
proof -
  assume "m \<le> 12" "1 \<le> m"
  then have "m - 1 < length (month_lengths (is_leap y))" by (simp add: month_lengths_def)
  from nth_mem[OF this] show ?thesis by (auto simp: days_in_def month_lengths_def simp del: nth_mem)
qed

lemma clock_split:
  fixes s :: nat
  shows "3600 * (s div 3600) + 60 * (s div 60 mod 60) + s mod 60 = s"
proof -
  have "s div 3600 = s div 60 div 60" by (simp add: div_mult2_eq[symmetric])
  then show ?thesis using mult_div_mod_eq[of 60 "s div 60"] mult_div_mod_eq[of 60 s] by linarith
qed

text \<open>3652059 days are the years 1 to 9999.\<close>

lemma parse_format:
  assumes "0 \<le> t" and "t < 3652059 * 86400 * second"
  shows "time_parse layout_ms (format_ms t) = Some (truncate_ms t)"
proof -
  define ms where "ms = nat (t div millisecond)"
  define s where "s = ms div 1000"
  define sod where "sod = s mod 86400"
  obtain y m d where c: "civil (s div 86400) = (y, m, d)" by (metis prod.exhaust)
  note cs = civil_spec[OF c]
  have ms: "int ms * millisecond = truncate_ms t"
    using assms(1) by (simp add: ms_def truncate_ms_def millisecond_def minus_mod_eq_div_mult
        pos_imp_zdiv_nonneg_iff)
  have "int ms < 3652059 * 86400 * 1000"
    using assms ms truncate_ms_le[of t] by (simp add: second_def millisecond_def)
  then have days: "int (s div 86400) < 3652059" unfolding s_def by linarith
  have b: "y < 10 ^ 4" "m < 100" "d < 100" "d \<le> 31"
    using year_le_9999[OF c days] cs days_in_le[OF cs(4,3), of y] by simp_all
  have sod: "sod < 86400" by (simp add: sod_def)
  have tod: "sod div 3600 < 24" "sod div 60 mod 60 < 60" "sod mod 60 < 60"
    using sod by (simp_all add: less_mult_imp_div_less)
  have y: "length (pad 4 y) = 4" using b(1) by (rule length_pad) simp
  have ly: "take 4 (pad 4 y @ r) = pad 4 y" "drop 4 (pad 4 y @ r) = r" for r using y by simp_all
  have k: "ms mod 1000 < 1000" by simp
  have l3: "length (pad 3 (ms mod 1000)) = 3" by (rule length_pad) simp_all
  have f: "format_ms t = pad 4 y @ CHR ''-'' # pad 2 m @ CHR ''-'' # pad 2 d @ CHR ''T'' # pad 2 (sod div 3600)
      @ CHR '':'' # pad 2 (sod div 60 mod 60) @ CHR '':'' # pad 2 (sod mod 60)
      @ CHR ''.'' # pad 3 (ms mod 1000) @ ''Z''"
    using c by (simp add: format_ms_def Let_def ms_def s_def sod_def)
  let ?p = "\<lparr>tm_year = y, tm_month = m, tm_day = d,
      tm_hour = sod div 3600, tm_minute = sod div 60 mod 60, tm_second = sod mod 60,
      tm_nanos = ms mod 1000 * 10 ^ 6, tm_offset = 0\<rparr>"
  have p: "parse_items layout_ms (format_ms t) \<lparr>tm_year = 0, tm_month = 1, tm_day = 1, tm_hour = 0, tm_minute = 0,
      tm_second = 0, tm_nanos = 0, tm_offset = 0\<rparr> = Some ?p"
    unfolding f layout_ms_def date_layout_def
    using cs(3,4) b tod y l3 parse_pad3[OF k]
    by (simp add: ly pad_digits bounded_def parse_zone_def Let_def)
  have "instant_of ?p = truncate_ms t"
  proof -
    have "int s = 86400 * int (s div 86400) + int sod"
      by (simp only: sod_def of_nat_div of_nat_mod of_nat_numeral mult_div_mod_eq)
    moreover have "int (3600 * (sod div 3600) + 60 * (sod div 60 mod 60) + sod mod 60) = int sod"
      by (simp only: clock_split)
    moreover have "int ms = 1000 * int s + int (ms mod 1000)"
      by (simp only: s_def of_nat_div of_nat_mod of_nat_numeral mult_div_mod_eq)
    ultimately show ?thesis
      using cs(1) unfolding ms[symmetric] instant_of_def by (simp add: second_def millisecond_def)
  qed
  with p cs(5,6) show ?thesis by (simp add: time_parse_def)
qed

lemma format_ms_nonempty [simp]: "format_ms t \<noteq> []"
  by (simp add: format_ms_def Let_def split: prod.split)

end
