(* ===== verification/Http.thy ===== *)
theory Http
  imports Messages
begin

text \<open>
  What the writer uses of \<open>net/http\<close>: requests with their context values, header maps under
  canonical names, and the \<open>ResponseWriter\<close>, whose first \<open>WriteHeader\<close> fixes status and headers.
  \<open>rw_calls\<close> is the list of codes handed to \<open>WriteHeader\<close>, which a wrapping writer can observe.
\<close>

type_synonym header = "string \<rightharpoonup> string list"

definition header_get :: "header \<Rightarrow> string \<Rightarrow> string" where
  "header_get h k = (case h k of Some (v # _) \<Rightarrow> v | _ \<Rightarrow> [])"

definition header_set :: "header \<Rightarrow> string \<Rightarrow> string \<Rightarrow> header" where
  "header_set h k v = h(k \<mapsto> [v])"

lemma header_get_set [simp]:
  "header_get (header_set h k v) k' = (if k = k' then v else header_get h k')"
  by (simp add: header_get_def header_set_def)

record principal =
  service_name :: string

record request =
  r_method :: string
  r_path :: string
  r_header :: header
  r_body :: string
  r_body_err :: "goerr option"
  ctx_principal :: "principal option"
  ctx_request_id :: "string option"

record response_writer =
  rw_header :: header
  rw_status :: "int option"
  rw_sent :: header
  rw_body :: string
  rw_calls :: "int list"

definition new_writer :: response_writer where
  "new_writer = \<lparr>rw_header = Map.empty, rw_status = None, rw_sent = Map.empty, rw_body = [],
     rw_calls = []\<rparr>"

definition set_header :: "string \<Rightarrow> string \<Rightarrow> response_writer \<Rightarrow> response_writer" where
  "set_header k v w = w\<lparr>rw_header := header_set (rw_header w) k v\<rparr>"

definition send_header :: "int \<Rightarrow> response_writer \<Rightarrow> response_writer" where
  "send_header code w =
     (case rw_status w of
        None \<Rightarrow> w\<lparr>rw_status := Some code, rw_sent := rw_header w\<rparr>
      | Some _ \<Rightarrow> w)"

definition write_header :: "int \<Rightarrow> response_writer \<Rightarrow> response_writer" where
  "write_header code w = send_header code (w\<lparr>rw_calls := rw_calls w @ [code]\<rparr>)"

definition write_bytes :: "string \<Rightarrow> response_writer \<Rightarrow> response_writer" where
  "write_bytes b w =
     (let w' = send_header 200 w in w'\<lparr>rw_body := rw_body w' @ b\<rparr>)"

lemmas writer_defs [go_defs] = write_header_def send_header_def write_bytes_def set_header_def

text \<open>The status the client sees once the handler has returned.\<close>

definition sent_status :: "response_writer \<Rightarrow> int" where
  "sent_status w = (case rw_status w of None \<Rightarrow> 200 | Some s \<Rightarrow> s)"

definition unsent :: "response_writer \<Rightarrow> bool" where
  "unsent w \<longleftrightarrow> rw_status w = None \<and> rw_body w = []"

lemma unsent_new [simp]: "unsent new_writer"
  by (simp add: unsent_def new_writer_def)

lemma unsent_set_header [simp]: "unsent (set_header k v w) = unsent w"
  by (simp add: unsent_def set_header_def)

lemma rw_header_set_header [simp]: "rw_header (set_header k v w) = header_set (rw_header w) k v"
  by (simp add: set_header_def)

text \<open>\<open>json.NewEncoder(w).Encode(v)\<close> writes the value and a newline.\<close>

definition encode_json :: "'ts ext \<Rightarrow> json \<Rightarrow> response_writer \<Rightarrow> response_writer" where
  "encode_json E j w = write_bytes (x_json_encode E j @ [newline]) w"

text \<open>Header, status and JSON body in one go, as both response packages write them.\<close>

definition write_json :: "'ts ext \<Rightarrow> string \<Rightarrow> int \<Rightarrow> json \<Rightarrow> response_writer \<Rightarrow> response_writer" where
  "write_json E ct status j w =
     encode_json E j (write_header status (set_header ''Content-Type'' ct w))"

lemma write_json_unsent:
  assumes "unsent w"
  shows "rw_status (write_json E ct st j w) = Some st"
    and "rw_body (write_json E ct st j w) = x_json_encode E j @ [newline]"
    and "rw_sent (write_json E ct st j w) = header_set (rw_header w) ''Content-Type'' ct"
    and "sent_status (write_json E ct st j w) = st"
    and "rw_calls (write_json E ct st j w) = rw_calls w @ [st]"
  using assms
  by (auto simp: write_json_def encode_json_def writer_defs unsent_def sent_status_def Let_def)

text \<open>\<open>http.Error\<close>: a plain-text body.\<close>

definition http_error :: "string \<Rightarrow> int \<Rightarrow> response_writer \<Rightarrow> response_writer" where
  "http_error msg code w =
     write_bytes (msg @ [newline])
       (write_header code
         (set_header ''X-Content-Type-Options'' ''nosniff''
           (set_header ''Content-Type'' ''text/plain; charset=utf-8'' w)))"

text \<open>A handler returns normally or panics; either way it leaves a writer and a world.\<close>

datatype 'a handled = Returned 'a | Panicked 'a

fun handled_val :: "'a handled \<Rightarrow> 'a" where
  "handled_val (Returned x) = x"
| "handled_val (Panicked x) = x"

end
