(* ===== verification/Problems.thy ===== *)
theory Problems
  imports Http
begin

text \<open>
  \<open>internal/writer/problems\<close>: the RFC 9457 problem catalogue of the writer, and the list of field
  codes the OpenAPI document allows (\<open>FieldErrorCode.Valid\<close> of the generated server). The
  embedded struct \<open>rfc9457.RFC9457\<close> is a library type: its five members are the ones RFC 9457
  names, and its constructor options set one member each.
\<close>

definition TypeBase :: string where
  "TypeBase = ''https://pulsar-notifcation-pipeline.example/problems/''"

definition TypeValidationFailed :: string where
  "TypeValidationFailed = TypeBase @ ''validation-failed''"

definition TypeAuthenticationRequired :: string where
  "TypeAuthenticationRequired = TypeBase @ ''authentication-required''"

definition TypeAuthenticationFailed :: string where
  "TypeAuthenticationFailed = TypeBase @ ''authentication-failed''"

definition TypeIdempotencyConflict :: string where
  "TypeIdempotencyConflict = TypeBase @ ''idempotency-conflict''"

definition TypeUnsupportedContentType :: string where
  "TypeUnsupportedContentType = TypeBase @ ''unsupported-content-type''"

definition TypeSubstrateUnavailable :: string where
  "TypeSubstrateUnavailable = TypeBase @ ''substrate-unavailable''"

definition TypeInternal :: string where
  "TypeInternal = TypeBase @ ''internal''"

lemmas type_uri_defs =
  TypeValidationFailed_def TypeAuthenticationRequired_def TypeAuthenticationFailed_def
  TypeIdempotencyConflict_def TypeUnsupportedContentType_def TypeSubstrateUnavailable_def
  TypeInternal_def

definition catalogue :: "string list" where
  "catalogue = [TypeValidationFailed, TypeAuthenticationRequired, TypeAuthenticationFailed,
     TypeIdempotencyConflict, TypeUnsupportedContentType, TypeSubstrateUnavailable, TypeInternal]"

lemma catalogue_distinct: "distinct catalogue"
  by (simp add: catalogue_def type_uri_defs)

definition ProblemContentType :: string where
  "ProblemContentType = ''application/problem+json''"

record problem =
  p_type :: string
  p_title :: string
  p_status :: int
  p_detail :: string
  p_instance :: string
  p_request_id :: string
  p_errors :: "field_error list"

record builder =
  b_typeURI :: string
  b_title :: string
  b_status :: int
  b_detail :: string
  b_instance :: string
  b_requestID :: string
  b_errors :: "field_error list"

definition build :: "builder \<Rightarrow> problem" where
  "build b = \<lparr>p_type = b_typeURI b, p_title = b_title b, p_status = b_status b,
     p_detail = b_detail b, p_instance = b_instance b, p_request_id = b_requestID b,
     p_errors = b_errors b\<rparr>"

definition ValidationFailed :: "string \<Rightarrow> string \<Rightarrow> string \<Rightarrow> field_error list \<Rightarrow> problem" where
  "ValidationFailed requestID instance' detail errs = build
     \<lparr>b_typeURI = TypeValidationFailed,
      b_title = ''The submitted notification failed validation.'', b_status = 400,
      b_detail = detail, b_instance = instance', b_requestID = requestID, b_errors = errs\<rparr>"

definition AuthenticationRequired :: "string \<Rightarrow> string \<Rightarrow> problem" where
  "AuthenticationRequired requestID instance' = build
     \<lparr>b_typeURI = TypeAuthenticationRequired,
      b_title = ''Authentication is required.'', b_status = 401,
      b_detail = ''Supply a bearer token via the Authorization header.'',
      b_instance = instance', b_requestID = requestID, b_errors = []\<rparr>"

definition AuthenticationFailed :: "string \<Rightarrow> string \<Rightarrow> problem" where
  "AuthenticationFailed requestID instance' = build
     \<lparr>b_typeURI = TypeAuthenticationFailed,
      b_title = ''Authentication failed.'', b_status = 401,
      b_detail = ''The supplied bearer token is not recognised.'',
      b_instance = instance', b_requestID = requestID, b_errors = []\<rparr>"

definition IdempotencyConflict :: "string \<Rightarrow> string \<Rightarrow> string \<Rightarrow> problem" where
  "IdempotencyConflict requestID instance' detail = build
     \<lparr>b_typeURI = TypeIdempotencyConflict,
      b_title = ''Idempotency key reused with a divergent payload.'', b_status = 409,
      b_detail = detail, b_instance = instance', b_requestID = requestID, b_errors = []\<rparr>"

definition UnsupportedContentType :: "string \<Rightarrow> string \<Rightarrow> string \<Rightarrow> problem" where
  "UnsupportedContentType requestID instance' got = build
     \<lparr>b_typeURI = TypeUnsupportedContentType,
      b_title = ''Content-Type is not supported.'', b_status = 415,
      b_detail = ''Content-Type must be application/json or application/x-protobuf; got '' @ got,
      b_instance = instance', b_requestID = requestID, b_errors = []\<rparr>"

definition SubstrateUnavailable :: "string \<Rightarrow> string \<Rightarrow> string \<Rightarrow> problem" where
  "SubstrateUnavailable requestID instance' detail = build
     \<lparr>b_typeURI = TypeSubstrateUnavailable,
      b_title = ''The messaging substrate is temporarily unavailable.'', b_status = 503,
      b_detail = detail, b_instance = instance', b_requestID = requestID, b_errors = []\<rparr>"

definition Internal :: "string \<Rightarrow> string \<Rightarrow> problem" where
  "Internal requestID instance' = build
     \<lparr>b_typeURI = TypeInternal,
      b_title = ''An unexpected server error occurred.'', b_status = 500,
      b_detail = ''Please retry; contact operations if the condition persists.'',
      b_instance = instance', b_requestID = requestID, b_errors = []\<rparr>"

lemmas problem_defs =
  ValidationFailed_def AuthenticationRequired_def AuthenticationFailed_def IdempotencyConflict_def
  UnsupportedContentType_def SubstrateUnavailable_def Internal_def build_def

subsection \<open>Serialisation\<close>

definition field_error_json :: "field_error \<Rightarrow> json" where
  "field_error_json f = JObject
     ([(''field'', JString (fe_field f)), (''code'', JString (fe_code f))]
      @ (if fe_message f = [] then [] else [(''message'', JString (fe_message f))]))"

definition problem_json :: "problem \<Rightarrow> json" where
  "problem_json p = JObject
     ([(''type'', JString (p_type p)), (''title'', JString (p_title p)),
       (''status'', JInt (p_status p)), (''detail'', JString (p_detail p)),
       (''instance'', JString (p_instance p)), (''request_id'', JString (p_request_id p))]
      @ (if p_errors p = [] then []
         else [(''errors'', JArray (map field_error_json (p_errors p)))]))"

definition write_problem :: "'ts ext \<Rightarrow> problem \<Rightarrow> response_writer \<Rightarrow> response_writer" where
  "write_problem E p w = write_json E ProblemContentType (p_status p) (problem_json p) w"

text \<open>
  The problems the writer's own code emits: type and status agree with the catalogue of
  \<open>docs/errors.md\<close>.
\<close>

definition catalogue_status :: "string \<Rightarrow> int option" where
  "catalogue_status = map_of
     [(TypeValidationFailed, 400), (TypeAuthenticationRequired, 401),
      (TypeAuthenticationFailed, 401), (TypeIdempotencyConflict, 409),
      (TypeUnsupportedContentType, 415), (TypeSubstrateUnavailable, 503), (TypeInternal, 500)]"

definition catalogued :: "problem \<Rightarrow> bool" where
  "catalogued p \<longleftrightarrow> catalogue_status (p_type p) = Some (p_status p)
     \<and> (p_errors p \<noteq> [] \<longrightarrow> p_type p = TypeValidationFailed)"

lemma catalogue_status_dom: "catalogue_status u \<noteq> None \<longleftrightarrow> u \<in> set catalogue"
  by (auto simp: catalogue_status_def catalogue_def)

lemma catalogued_constructors [simp]:
  "catalogued (ValidationFailed r i d fs)"
  "catalogued (AuthenticationRequired r i)"
  "catalogued (AuthenticationFailed r i)"
  "catalogued (IdempotencyConflict r i d)"
  "catalogued (UnsupportedContentType r i d)"
  "catalogued (SubstrateUnavailable r i d)"
  "catalogued (Internal r i)"
  by (simp_all add: catalogued_def catalogue_status_def problem_defs type_uri_defs)

lemma constructors_request_id [simp]:
  "p_request_id (ValidationFailed r i d fs) = r"
  "p_request_id (AuthenticationRequired r i) = r"
  "p_request_id (AuthenticationFailed r i) = r"
  "p_request_id (IdempotencyConflict r i d) = r"
  "p_request_id (UnsupportedContentType r i d) = r"
  "p_request_id (SubstrateUnavailable r i d) = r"
  "p_request_id (Internal r i) = r"
  by (simp_all add: problem_defs)

lemma constructors_status [simp]:
  "p_status (ValidationFailed r i d fs) = 400"
  "p_status (AuthenticationRequired r i) = 401"
  "p_status (AuthenticationFailed r i) = 401"
  "p_status (IdempotencyConflict r i d) = 409"
  "p_status (UnsupportedContentType r i d) = 415"
  "p_status (SubstrateUnavailable r i d) = 503"
  "p_status (Internal r i) = 500"
  by (simp_all add: problem_defs)

subsection \<open>The closed set of field codes\<close>

definition FieldErrorCode_Valid :: "string \<Rightarrow> bool" where
  "FieldErrorCode_Valid e \<longleftrightarrow> e \<in> set
     [''before-created-at'', ''key-invalid'', ''malformed'', ''missing'', ''out-of-range'',
      ''required'', ''requires-url'', ''too-long'', ''too-many-entries'', ''unknown-arm'',
      ''value-too-long'', ''whitespace-only'']"

end
