(* ===== verification/Envelope.thy ===== *)
theory Envelope
  imports Http
begin

text \<open>
  \<open>internal/writer/envelope\<close>: the success envelope \<open>{data, meta}\<close>. The generic payload \<open>T\<close> is a type
  variable with its JSON rendering as an argument.
\<close>

record env_meta =
  m_request_id :: string

record 'd success =
  s_data :: 'd
  s_meta :: env_meta

definition env_New :: "string \<Rightarrow> 'd \<Rightarrow> 'd success" where
  "env_New requestID d = \<lparr>s_data = d, s_meta = \<lparr>m_request_id = requestID\<rparr>\<rparr>"

definition success_json :: "('d \<Rightarrow> json) \<Rightarrow> 'd success \<Rightarrow> json" where
  "success_json f s = JObject
     [(''data'', f (s_data s)),
      (''meta'', JObject [(''request_id'', JString (m_request_id (s_meta s)))])]"

definition write_envelope ::
  "'ts ext \<Rightarrow> ('d \<Rightarrow> json) \<Rightarrow> int \<Rightarrow> string \<Rightarrow> 'd \<Rightarrow> response_writer \<Rightarrow> response_writer" where
  "write_envelope E f status requestID d w =
     write_json E ''application/json'' status (success_json f (env_New requestID d)) w"

end
