(* ===== verification/Auth.thy ===== *)
theory Auth
  imports Problems
begin

text \<open>
  \<open>internal/writer/auth\<close>: the bearer-token authenticator and the middleware. The tokens file is
  the result of opening it: an open error, or its bytes with the error a read ended in, if any.
  The contract of the interface \<open>Authenticator\<close> is the locale \<open>authenticator\<close>.
\<close>

subsection \<open>Tokens file\<close>

type_synonym tokens = "string \<rightharpoonup> principal"

definition unknown_service :: string where
  "unknown_service = ''unknown''"

text \<open>One iteration of the scan loop: a blank line or a comment is skipped.\<close>

definition scan_line :: "tokens \<Rightarrow> string \<Rightarrow> tokens" where
  "scan_line out text =
     (let line = trim_space text in
      if line = [] \<or> prefix ''#'' line then out
      else
        (let parts = str_fields line;
             token = hd parts;
             service = (if 2 \<le> length parts then parts ! 1 else unknown_service)
         in out(token \<mapsto> \<lparr>service_name = service\<rparr>)))"

definition scan_tokens :: "string \<Rightarrow> tokens" where
  "scan_tokens content = fold (\<lambda>l out. scan_line out l) (scan_lines content) Map.empty"

record bearer_options =
  bo_tokensPath :: string

definition WithTokensFile :: "string \<Rightarrow> bearer_options \<Rightarrow> bearer_options" where
  "WithTokensFile p opts = opts\<lparr>bo_tokensPath := p\<rparr>"

type_synonym opened_file = "string \<times> goerr option"

definition NewBearer ::
  "(string \<Rightarrow> goerr + opened_file) \<Rightarrow> (bearer_options \<Rightarrow> bearer_options) list \<Rightarrow> goerr + tokens" where
  "NewBearer open_file opts =
     (let path = bo_tokensPath (apply_opts opts \<lparr>bo_tokensPath = []\<rparr>) in
      if path = [] then Inl (NewErr ''auth: WithTokensFile is required'')
      else case open_file path of
             Inl e \<Rightarrow> Inl (WrapErr ''auth: open tokens file'' e)
           | Inr (content, rerr) \<Rightarrow>
               (if scan_too_long content then
                  Inl (WrapErr ''auth: scan tokens file'' (ForeignErr ''bufio.Scanner: token too long'' None))
                else case rerr of
                       Some e \<Rightarrow> Inl (WrapErr ''auth: scan tokens file'' e)
                     | None \<Rightarrow>
                         (let out = scan_tokens content in
                          if out = Map.empty then Inl (NewErr ''auth: tokens file is empty'')
                          else Inr out)))"

subsection \<open>Authentication\<close>

definition bearer_prefix :: string where
  "bearer_prefix = ''Bearer ''"

definition BearerToken :: "request \<Rightarrow> string" where
  "BearerToken r =
     (let h = header_get (r_header r) ''Authorization'' in
      if \<not> prefix bearer_prefix h then []
      else trim_space (drop (length bearer_prefix) h))"

definition Authenticate :: "tokens \<Rightarrow> request \<Rightarrow> goerr + principal" where
  "Authenticate b r =
     (let token = BearerToken r in
      if token = [] then Inl ErrNoCredentials
      else case b token of None \<Rightarrow> Inl ErrInvalidCredentials | Some p \<Rightarrow> Inr p)"

definition FromContext :: "request \<Rightarrow> principal option" where
  "FromContext r = ctx_principal r"

subsection \<open>Middleware\<close>

text \<open>
  A handler maps the request, the response writer and the world to the writer and world it
  leaves, or to a panic with them.
\<close>

type_synonym 'x handler = "request \<Rightarrow> response_writer \<Rightarrow> 'x \<Rightarrow> (response_writer \<times> 'x) handled"

record middleware_options =
  mo_requestID :: "(request \<Rightarrow> string) option"

definition WithRequestIDFunc ::
  "(request \<Rightarrow> string) option \<Rightarrow> middleware_options \<Rightarrow> middleware_options" where
  "WithRequestIDFunc fn opts = opts\<lparr>mo_requestID := fn\<rparr>"

definition auth_request_id :: "middleware_options \<Rightarrow> request \<Rightarrow> string" where
  "auth_request_id o' r =
     (let rid = (case mo_requestID o' of None \<Rightarrow> [] | Some f \<Rightarrow> f r)
      in if rid = [] then header_get (r_header r) ''X-Request-Id'' else rid)"

definition Middleware ::
  "'ts ext \<Rightarrow> (request \<Rightarrow> goerr + principal) \<Rightarrow> 'x handler
    \<Rightarrow> (middleware_options \<Rightarrow> middleware_options) list \<Rightarrow> 'x handler" where
  "Middleware E authenticate next opts r w x =
     (let o' = apply_opts opts \<lparr>mo_requestID = None\<rparr> in
      case authenticate r of
        Inl err \<Rightarrow>
          (let rid = auth_request_id o' r in
           if errors_is err ErrNoCredentials
           then Returned (write_problem E (AuthenticationRequired rid (r_path r)) w, x)
           else Returned (write_problem E (AuthenticationFailed rid (r_path r)) w, x))
      | Inr p \<Rightarrow> next (r\<lparr>ctx_principal := Some p\<rparr>) w x)"

subsection \<open>What the tokens file means\<close>

text \<open>
  A line with content is an entry; the table is the last entry per token. The specification is
  the list of entries of the file, read by \<open>map_of\<close> from the end.
\<close>

definition line_entry :: "string \<Rightarrow> (string \<times> principal) option" where
  "line_entry text =
     (let line = trim_space text in
      if line = [] \<or> prefix ''#'' line then None
      else case str_fields line of
             [] \<Rightarrow> None
           | [t] \<Rightarrow> Some (t, \<lparr>service_name = unknown_service\<rparr>)
           | t # s # _ \<Rightarrow> Some (t, \<lparr>service_name = s\<rparr>))"

definition file_entries :: "string \<Rightarrow> (string \<times> principal) list" where
  "file_entries content = List.map_filter line_entry (scan_lines content)"

text \<open>A line that is neither blank nor a comment has a first field, so the first of \<open>parts\<close> exists.\<close>

lemma scan_line_has_field: "trim_space text \<noteq> [] \<Longrightarrow> str_fields (trim_space text) \<noteq> []"
  by (simp add: str_fields_trim_Nil_iff)

lemma scan_line_entry:
  "scan_line out l = (case line_entry l of None \<Rightarrow> out | Some (t, p) \<Rightarrow> out(t \<mapsto> p))"
  using scan_line_has_field[of l]
  by (auto simp: scan_line_def line_entry_def Let_def split: list.splits)

lemma fold_scan_line:
  "fold (\<lambda>l out. scan_line out l) ls m = m ++ map_of (rev (List.map_filter line_entry ls))"
proof (induction ls arbitrary: m)
  case (Cons l ls)
  show ?case
    by (cases "line_entry l")
       (simp_all add: Cons.IH scan_line_entry[of m l] List.map_filter_simps split_beta map_add_def fun_eq_iff split: option.split)
qed (simp add: List.map_filter_simps)

lemma scan_tokens_entries: "scan_tokens content = map_of (rev (file_entries content))"
  by (simp add: scan_tokens_def fold_scan_line file_entries_def)

lemma line_entry_token: "line_entry text = Some (t, p) \<Longrightarrow> t \<noteq> []"
  using str_fields_nonempty_entry[of t "trim_space text"]
  by (auto simp: line_entry_def Let_def split: if_splits list.splits)

lemma file_entries_token: "(t, p) \<in> set (file_entries content) \<Longrightarrow> t \<noteq> []"
  by (auto simp: file_entries_def List.map_filter_def dest: line_entry_token)

lemma NewBearer_Inr_iff:
  "NewBearer open_file opts = Inr b \<longleftrightarrow>
     (let path = bo_tokensPath (apply_opts opts \<lparr>bo_tokensPath = []\<rparr>) in
      path \<noteq> [] \<and>
      (\<exists>content. open_file path = Inr (content, None) \<and> \<not> scan_too_long content
         \<and> file_entries content \<noteq> [] \<and> b = map_of (rev (file_entries content))))"
  by (auto simp: NewBearer_def Let_def scan_tokens_entries split: sum.splits option.splits if_splits)

lemma Authenticate_Inr_iff:
  "Authenticate b r = Inr p \<longleftrightarrow> BearerToken r \<noteq> [] \<and> b (BearerToken r) = Some p"
  by (simp add: Authenticate_def Let_def split: option.split)

lemma Authenticate_Inl_cases:
  "Authenticate b r = Inl e \<Longrightarrow> e = ErrNoCredentials \<or> e = ErrInvalidCredentials"
  by (auto simp: Authenticate_def Let_def split: if_splits option.splits)

lemma BearerToken_tight:
  assumes "tight t" and "header_get (r_header r) ''Authorization'' = bearer_prefix @ t"
  shows "BearerToken r = t"
  using assms by (simp add: BearerToken_def Let_def trim_space_tight)

subsection \<open>The contract of an authenticator\<close>

text \<open>
  Every rejection is one of the two sentinels the middleware distinguishes. The lemmas are the
  middleware's own guarantees over any authenticator that keeps the contract.
\<close>

locale authenticator =
  fixes authenticate :: "request \<Rightarrow> goerr + principal"
  assumes rejects: "authenticate r = Inl e \<Longrightarrow>
    errors_is e ErrNoCredentials \<or> errors_is e ErrInvalidCredentials"
begin

lemma middleware_rejects:
  assumes "authenticate r = Inl e" and "auth_request_id (apply_opts opts \<lparr>mo_requestID = None\<rparr>) r = rid"
  obtains pr where "Middleware E authenticate next opts r w x = Returned (write_problem E pr w, x)"
    and "p_status pr = 401" and "catalogued pr" and "p_request_id pr = rid" and "p_instance pr = r_path r"
    and "p_type pr = TypeAuthenticationRequired \<and> errors_is e ErrNoCredentials
       \<or> p_type pr = TypeAuthenticationFailed \<and> errors_is e ErrInvalidCredentials"
proof (cases "errors_is e ErrNoCredentials")
  case True
  with assms show ?thesis
    by (intro that[OF _ _ catalogued_constructors(2)])
       (auto simp: Middleware_def Let_def problem_defs)
next
  case False
  with assms rejects[OF assms(1)] show ?thesis
    by (intro that[OF _ _ catalogued_constructors(3)])
       (auto simp: Middleware_def Let_def problem_defs)
qed

lemma middleware_accepts:
  "authenticate r = Inr p \<Longrightarrow>
   Middleware E authenticate next opts r w x = next (r\<lparr>ctx_principal := Some p\<rparr>) w x"
  by (simp add: Middleware_def Let_def)

end

interpretation bearer: authenticator "Authenticate b" for b
proof
  fix r e
  assume "Authenticate b r = Inl e"
  then show "errors_is e ErrNoCredentials \<or> errors_is e ErrInvalidCredentials"
    by (auto dest!: Authenticate_Inl_cases simp: errors_is_def)
qed

subsection \<open>Properties\<close>

text \<open>The table \<open>NewBearer\<close> builds maps each token to the principal of its last entry in the
  file, in file order, and it refuses an empty path, a file it cannot open or read to the end, a
  line over the scanner's limit, and a file without entries.\<close>

lemma tokens_file_last_entry_wins:
  "NewBearer open_file [WithTokensFile path] = Inr b \<longleftrightarrow>
     path \<noteq> [] \<and>
     (\<exists>content. open_file path = Inr (content, None) \<and> \<not> scan_too_long content
        \<and> file_entries content \<noteq> [] \<and> b = map_of (rev (file_entries content)))"
  by (simp add: NewBearer_Inr_iff WithTokensFile_def Let_def)

text \<open>C35: A token of the file authenticates its holder: with a table loaded from the file, a request
  whose \<open>Authorization\<close> header is \<open>Bearer\<close> and a token made of visible ASCII characters is accepted
  exactly when the token has an entry, as the service that entry names.\<close>

theorem file_token_authenticates:
  assumes "NewBearer open_file opts = Inr b" and "tight t" and "t \<noteq> []"
    and "header_get (r_header r) ''Authorization'' = ''Bearer '' @ t"
  shows "\<exists>content. open_file (bo_tokensPath (apply_opts opts \<lparr>bo_tokensPath = []\<rparr>)) = Inr (content, None)
     \<and> Authenticate b r = (case map_of (rev (file_entries content)) t of
                            Some p \<Rightarrow> Inr p | None \<Rightarrow> Inl ErrInvalidCredentials)"
proof -
  have "BearerToken r = t" using assms(2,4) by (intro BearerToken_tight) (simp_all add: bearer_prefix_def)
  then show ?thesis
    using assms(1,3) by (auto simp: NewBearer_Inr_iff Authenticate_def Let_def split: option.split)
qed

end
