(* ===== verification/Pulsarlib.thy ===== *)
theory Pulsarlib
  imports Problems
begin

text \<open>
  \<open>internal/pulsarlib\<close>: the options and constructors of the Pulsar wrappers, \<open>Publish\<close> and
  \<open>Receive\<close> over the Pulsar SDK, and the key files. The SDK is not code of the repository: its
  calls are the fields of the record \<open>pulsar_sdk\<close>, each a function of the outside world \<open>'x\<close>.
  The contract of the interface \<open>Publisher\<close> is the locale \<open>publisher\<close>.
\<close>

definition NotificationIDProperty :: string where
  "NotificationIDProperty = ''notification_id''"

record publish_input =
  in_body :: string
  in_notification_id :: string

text \<open>The closures \<open>Ack\<close> and \<open>Nack\<close> of a consumed message act on the SDK message \<open>'m\<close>.\<close>

record 'm consumed_message =
  cm_body :: string
  cm_notification_id :: string
  cm_msg :: 'm

type_synonym 'x publisher_fn = "publish_input \<Rightarrow> 'x \<Rightarrow> goerr option \<times> 'x"

subsection \<open>Options\<close>

text \<open>A key reader is the file reader of \<open>keys.go\<close>, given by its directory.\<close>

record file_key_reader =
  kr_dir :: string

record pl_options =
  o_serviceURL :: string
  o_topic :: string
  o_subscription :: string
  o_encryptionKeyReader :: "file_key_reader option"
  o_encryptionKeyNames :: "string list"
  o_failOnCryptoError :: bool
  o_logger :: "nat option"

definition WithServiceURL :: "string \<Rightarrow> pl_options \<Rightarrow> pl_options" where
  "WithServiceURL u opts = opts\<lparr>o_serviceURL := u\<rparr>"

definition WithTopic :: "string \<Rightarrow> pl_options \<Rightarrow> pl_options" where
  "WithTopic t opts = opts\<lparr>o_topic := t\<rparr>"

definition WithSubscription :: "string \<Rightarrow> pl_options \<Rightarrow> pl_options" where
  "WithSubscription s opts = opts\<lparr>o_subscription := s\<rparr>"

definition WithEncryptionKeyReader :: "file_key_reader option \<Rightarrow> pl_options \<Rightarrow> pl_options" where
  "WithEncryptionKeyReader r opts = opts\<lparr>o_encryptionKeyReader := r\<rparr>"

definition WithEncryptionKeyNames :: "string list \<Rightarrow> pl_options \<Rightarrow> pl_options" where
  "WithEncryptionKeyNames names opts = opts\<lparr>o_encryptionKeyNames := names\<rparr>"

definition WithCryptoFailureFail :: "bool \<Rightarrow> pl_options \<Rightarrow> pl_options" where
  "WithCryptoFailureFail fail opts = opts\<lparr>o_failOnCryptoError := fail\<rparr>"

definition pl_WithLogger :: "nat option \<Rightarrow> pl_options \<Rightarrow> pl_options" where
  "pl_WithLogger l opts = opts\<lparr>o_logger := l\<rparr>"

definition defaultOptions :: pl_options where
  "defaultOptions = \<lparr>o_serviceURL = [], o_topic = [], o_subscription = [],
     o_encryptionKeyReader = None, o_encryptionKeyNames = [], o_failOnCryptoError = True,
     o_logger = None\<rparr>"

definition pl_Apply :: "(pl_options \<Rightarrow> pl_options) list \<Rightarrow> pl_options" where
  "pl_Apply opts = apply_opts opts defaultOptions"

text \<open>The accessors of an applied configuration.\<close>

definition ServiceURL :: "pl_options \<Rightarrow> string" where "ServiceURL opts = o_serviceURL opts"
definition Topic :: "pl_options \<Rightarrow> string" where "Topic opts = o_topic opts"
definition Subscription :: "pl_options \<Rightarrow> string" where "Subscription opts = o_subscription opts"
definition EncryptionKeyReader :: "pl_options \<Rightarrow> file_key_reader option" where
  "EncryptionKeyReader opts = o_encryptionKeyReader opts"
definition pl_EncryptionKeyNames :: "pl_options \<Rightarrow> string list" where
  "pl_EncryptionKeyNames opts = o_encryptionKeyNames opts"
definition FailOnCryptoError :: "pl_options \<Rightarrow> bool" where "FailOnCryptoError opts = o_failOnCryptoError opts"
definition pl_Logger :: "pl_options \<Rightarrow> nat option" where "pl_Logger opts = o_logger opts"

lemmas pl_accessor_defs =
  ServiceURL_def Topic_def Subscription_def EncryptionKeyReader_def pl_EncryptionKeyNames_def
  FailOnCryptoError_def pl_Logger_def

lemmas pl_option_defs [option_simps] =
  WithServiceURL_def WithTopic_def WithSubscription_def WithEncryptionKeyReader_def
  WithEncryptionKeyNames_def WithCryptoFailureFail_def pl_WithLogger_def defaultOptions_def
  pl_Apply_def

text \<open>The last option that sets a field decides it, and touches no other.\<close>

lemma pl_Apply_snoc [option_simps]: "pl_Apply (opts @ [f]) = f (pl_Apply opts)"
  by (simp add: pl_Apply_def apply_opts_append)

lemma pl_accessors_apply:
  "ServiceURL (pl_Apply (opts @ [WithServiceURL u])) = u"
  "Topic (pl_Apply (opts @ [WithServiceURL u])) = Topic (pl_Apply opts)"
  "Topic (pl_Apply (opts @ [WithTopic t])) = t"
  "Subscription (pl_Apply (opts @ [WithSubscription n])) = n"
  "EncryptionKeyReader (pl_Apply (opts @ [WithEncryptionKeyReader r])) = r"
  "pl_EncryptionKeyNames (pl_Apply (opts @ [WithEncryptionKeyNames ns])) = ns"
  "FailOnCryptoError (pl_Apply (opts @ [WithCryptoFailureFail b])) = b"
  "FailOnCryptoError (pl_Apply []) = True"
  "pl_Logger (pl_Apply (opts @ [pl_WithLogger l])) = l"
  unfolding pl_Apply_snoc by (simp_all add: pl_accessor_defs option_simps)

definition validateProducer :: "pl_options \<Rightarrow> goerr option" where
  "validateProducer opts =
     (if o_serviceURL opts = [] then Some (NewErr ''pulsarlib: WithServiceURL is required'')
      else if o_topic opts = [] then Some (NewErr ''pulsarlib: WithTopic is required'')
      else if o_encryptionKeyReader opts = None then
        Some (NewErr ''pulsarlib: WithEncryptionKeyReader is required'')
      else if o_encryptionKeyNames opts = [] then
        Some (NewErr ''pulsarlib: WithEncryptionKeyNames is required (at least one)'')
      else None)"

definition validateConsumer :: "pl_options \<Rightarrow> goerr option" where
  "validateConsumer opts =
     (if o_serviceURL opts = [] then Some (NewErr ''pulsarlib: WithServiceURL is required'')
      else if o_topic opts = [] then Some (NewErr ''pulsarlib: WithTopic is required'')
      else if o_subscription opts = [] then Some (NewErr ''pulsarlib: WithSubscription is required'')
      else if o_encryptionKeyReader opts = None then
        Some (NewErr ''pulsarlib: WithEncryptionKeyReader is required'')
      else None)"

definition effectiveLogger :: "nat \<Rightarrow> nat option \<Rightarrow> nat" where
  "effectiveLogger deflt l = (case l of None \<Rightarrow> deflt | Some l' \<Rightarrow> l')"

subsection \<open>The SDK and the two constructors\<close>

datatype crypto_failure_action = CryptoFail | CryptoDiscard

record producer_options =
  po_topic :: string
  po_key_reader :: "file_key_reader option"
  po_keys :: "string list"

record consumer_options =
  co_topic :: string
  co_subscription :: string
  co_shared :: bool
  co_key_reader :: "file_key_reader option"
  co_failure_action :: crypto_failure_action

record producer_message =
  pm_payload :: string
  pm_properties :: "string \<rightharpoonup> string"

text \<open>\<open>'cl\<close>, \<open>'pr\<close>, \<open>'co\<close> and \<open>'m\<close>: the SDK's clients, producers, consumers and messages.\<close>

record ('x, 'cl, 'pr, 'co, 'm) pulsar_sdk =
  sdk_new_client :: "string \<Rightarrow> 'x \<Rightarrow> (goerr + 'cl) \<times> 'x"
  sdk_create_producer :: "'cl \<Rightarrow> producer_options \<Rightarrow> 'x \<Rightarrow> (goerr + 'pr) \<times> 'x"
  sdk_subscribe :: "'cl \<Rightarrow> consumer_options \<Rightarrow> 'x \<Rightarrow> (goerr + 'co) \<times> 'x"
  sdk_close_client :: "'cl \<Rightarrow> 'x \<Rightarrow> 'x"
  sdk_close_producer :: "'pr \<Rightarrow> 'x \<Rightarrow> 'x"
  sdk_close_consumer :: "'co \<Rightarrow> 'x \<Rightarrow> 'x"
  sdk_send :: "'pr \<Rightarrow> producer_message \<Rightarrow> 'x \<Rightarrow> goerr option \<times> 'x"
  sdk_receive :: "'co \<Rightarrow> 'x \<Rightarrow> (goerr + 'm) \<times> 'x"
  sdk_payload :: "'m \<Rightarrow> string"
  sdk_properties :: "'m \<Rightarrow> string \<rightharpoonup> string"
  sdk_ack :: "'co \<Rightarrow> 'm \<Rightarrow> 'x \<Rightarrow> 'x"
  sdk_nack :: "'co \<Rightarrow> 'm \<Rightarrow> 'x \<Rightarrow> 'x"

record ('cl, 'pr) apache_publisher =
  ap_client :: 'cl
  ap_producer :: 'pr
  ap_log :: nat

record ('cl, 'co) apache_consumer =
  ac_client :: 'cl
  ac_consumer :: 'co
  ac_log :: nat

definition NewApachePublisher ::
  "('x, 'cl, 'pr, 'co, 'm) pulsar_sdk \<Rightarrow> nat \<Rightarrow> (pl_options \<Rightarrow> pl_options) list \<Rightarrow> 'x
    \<Rightarrow> (goerr + ('cl, 'pr) apache_publisher) \<times> 'x" where
  "NewApachePublisher K dl opts x =
     (let c = pl_Apply opts in
      case validateProducer c of
        Some e \<Rightarrow> (Inl e, x)
      | None \<Rightarrow>
          (case sdk_new_client K (o_serviceURL c) x of
             (Inl e, x1) \<Rightarrow> (Inl (WrapErr ''pulsarlib: new pulsar client'' e), x1)
           | (Inr cl, x1) \<Rightarrow>
               (case sdk_create_producer K cl
                       \<lparr>po_topic = o_topic c, po_key_reader = o_encryptionKeyReader c,
                        po_keys = o_encryptionKeyNames c\<rparr> x1 of
                  (Inl e, x2) \<Rightarrow>
                    (Inl (WrapErr ''pulsarlib: create producer'' e), sdk_close_client K cl x2)
                | (Inr pr, x2) \<Rightarrow>
                    (Inr \<lparr>ap_client = cl, ap_producer = pr,
                          ap_log = effectiveLogger dl (o_logger c)\<rparr>, x2))))"

definition NewApacheConsumer ::
  "('x, 'cl, 'pr, 'co, 'm) pulsar_sdk \<Rightarrow> nat \<Rightarrow> (pl_options \<Rightarrow> pl_options) list \<Rightarrow> 'x
    \<Rightarrow> (goerr + ('cl, 'co) apache_consumer) \<times> 'x" where
  "NewApacheConsumer K dl opts x =
     (let c = pl_Apply opts in
      case validateConsumer c of
        Some e \<Rightarrow> (Inl e, x)
      | None \<Rightarrow>
          (case sdk_new_client K (o_serviceURL c) x of
             (Inl e, x1) \<Rightarrow> (Inl (WrapErr ''pulsarlib: new pulsar client'' e), x1)
           | (Inr cl, x1) \<Rightarrow>
               (case sdk_subscribe K cl
                       \<lparr>co_topic = o_topic c, co_subscription = o_subscription c, co_shared = True,
                        co_key_reader = o_encryptionKeyReader c,
                        co_failure_action =
                          (if o_failOnCryptoError c then CryptoFail else CryptoDiscard)\<rparr> x1 of
                  (Inl e, x2) \<Rightarrow>
                    (Inl (WrapErr ''pulsarlib: subscribe'' e), sdk_close_client K cl x2)
                | (Inr co, x2) \<Rightarrow>
                    (Inr \<lparr>ac_client = cl, ac_consumer = co,
                          ac_log = effectiveLogger dl (o_logger c)\<rparr>, x2))))"

subsection \<open>Publish, Receive, Close\<close>

definition apache_publish ::
  "('x, 'cl, 'pr, 'co, 'm) pulsar_sdk \<Rightarrow> ('cl, 'pr) apache_publisher \<Rightarrow> 'x publisher_fn" where
  "apache_publish K p inp x =
     (case sdk_send K (ap_producer p)
             \<lparr>pm_payload = in_body inp,
              pm_properties = [NotificationIDProperty \<mapsto> in_notification_id inp]\<rparr> x of
        (Some e, x') \<Rightarrow> (Some (PublishError True e), x')
      | (None, x') \<Rightarrow> (None, x'))"

definition publisher_close ::
  "('x, 'cl, 'pr, 'co, 'm) pulsar_sdk \<Rightarrow> ('cl, 'pr) apache_publisher \<Rightarrow> 'x \<Rightarrow> goerr option \<times> 'x" where
  "publisher_close K p x =
     (None, sdk_close_client K (ap_client p) (sdk_close_producer K (ap_producer p) x))"

definition apache_receive ::
  "('x, 'cl, 'pr, 'co, 'm) pulsar_sdk \<Rightarrow> ('cl, 'co) apache_consumer \<Rightarrow> 'x
    \<Rightarrow> (goerr + 'm consumed_message) \<times> 'x" where
  "apache_receive K c x =
     (case sdk_receive K (ac_consumer c) x of
        (Inl e, x') \<Rightarrow>
          (if errors_is e ContextCanceled \<or> errors_is e DeadlineExceeded then (Inl e, x')
           else (Inl (WrapErr ''pulsarlib: receive'' e), x'))
      | (Inr m, x') \<Rightarrow>
          (Inr \<lparr>cm_body = sdk_payload K m,
                cm_notification_id =
                  (case sdk_properties K m NotificationIDProperty of None \<Rightarrow> [] | Some i \<Rightarrow> i),
                cm_msg = m\<rparr>, x'))"

definition consumer_close ::
  "('x, 'cl, 'pr, 'co, 'm) pulsar_sdk \<Rightarrow> ('cl, 'co) apache_consumer \<Rightarrow> 'x \<Rightarrow> goerr option \<times> 'x" where
  "consumer_close K c x =
     (None, sdk_close_client K (ac_client c) (sdk_close_consumer K (ac_consumer c) x))"

subsection \<open>Key files\<close>

text \<open>
  \<open>keys.go\<close> reads \<open>dir/name.pub.pem\<close> and \<open>dir/name.priv.pem\<close> at each request. The file system
  is the function \<open>fs\<close> (\<open>os.ReadFile\<close>); \<open>crypto.NewEncryptionKeyInfo\<close> pairs a name with a key.
\<close>

record key_info =
  ki_name :: string
  ki_key :: string

definition NewFileCryptoKeyReader :: "string \<Rightarrow> file_key_reader" where
  "NewFileCryptoKeyReader dir = \<lparr>kr_dir = dir\<rparr>"

definition PublicKey ::
  "'ts ext \<Rightarrow> (string \<Rightarrow> goerr + string) \<Rightarrow> file_key_reader \<Rightarrow> string \<Rightarrow> goerr + key_info" where
  "PublicKey E fs r keyName =
     (let path = path_join (kr_dir r) (keyName @ ''.pub.pem'') in
      case fs path of
        Inl e \<Rightarrow> Inl (WrapErr (''pulsarlib: load public key '' @ x_quote E keyName @ '' from '' @ path) e)
      | Inr buf \<Rightarrow> Inr \<lparr>ki_name = keyName, ki_key = buf\<rparr>)"

definition PrivateKey ::
  "'ts ext \<Rightarrow> (string \<Rightarrow> goerr + string) \<Rightarrow> file_key_reader \<Rightarrow> string \<Rightarrow> goerr + key_info" where
  "PrivateKey E fs r keyName =
     (let path = path_join (kr_dir r) (keyName @ ''.priv.pem'') in
      case fs path of
        Inl e \<Rightarrow> Inl (WrapErr (''pulsarlib: load private key '' @ x_quote E keyName @ '' from '' @ path) e)
      | Inr buf \<Rightarrow> Inr \<lparr>ki_name = keyName, ki_key = buf\<rparr>)"

record key_set =
  ks_dir :: string
  ks_active_names :: "string list"

fun check_public_keys ::
  "'ts ext \<Rightarrow> (string \<Rightarrow> goerr + string) \<Rightarrow> string \<Rightarrow> string list \<Rightarrow> goerr option" where
  "check_public_keys E fs dir [] = None"
| "check_public_keys E fs dir (name # names) =
     (case fs (path_join dir (name @ ''.pub.pem'')) of
        Inl e \<Rightarrow>
          Some (WrapErr (''pulsarlib: active public key '' @ x_quote E name @ '' unreadable'') e)
      | Inr _ \<Rightarrow> check_public_keys E fs dir names)"

definition LoadKeySet ::
  "'ts ext \<Rightarrow> (string \<Rightarrow> goerr + string) \<Rightarrow> string \<Rightarrow> string list \<Rightarrow> goerr + key_set" where
  "LoadKeySet E fs dir names =
     (if names = [] then
        Inl (NewErr ''pulsarlib: LoadKeySet requires at least one active key name'')
      else case check_public_keys E fs dir names of
             Some e \<Rightarrow> Inl e
           | None \<Rightarrow> Inr \<lparr>ks_dir = dir, ks_active_names = names\<rparr>)"

lemma check_public_keys_None:
  "check_public_keys E fs dir names = None
   \<longleftrightarrow> (\<forall>n \<in> set names. \<exists>k. PublicKey E fs (NewFileCryptoKeyReader dir) n = Inr k)"
  by (induction names)
    (auto simp: PublicKey_def NewFileCryptoKeyReader_def Let_def split: sum.splits)

lemma LoadKeySet_Inr:
  "LoadKeySet E fs dir names = Inr ks
   \<longleftrightarrow> names \<noteq> [] \<and> (\<forall>n \<in> set names. \<exists>k. PublicKey E fs (NewFileCryptoKeyReader dir) n = Inr k)
      \<and> ks = \<lparr>ks_dir = dir, ks_active_names = names\<rparr>"
  by (auto simp: LoadKeySet_def check_public_keys_None[symmetric] split: option.splits)

subsection \<open>The publisher contract\<close>

text \<open>
  The interface comment of \<open>Publisher.Publish\<close>: it returns a typed \<open>*PublishError\<close> so that
  callers can classify the failure.
\<close>

locale publisher =
  fixes publish :: "'x publisher_fn"
  assumes publish_typed:
    "publish i x = (Some e, x') \<Longrightarrow> \<exists>t c. errors_as is_publish e = Some (PublishError t c)"
begin

definition classified :: "goerr \<Rightarrow> bool option" where
  "classified e = (case errors_as is_publish e of Some (PublishError t _) \<Rightarrow> Some t | _ \<Rightarrow> None)"

lemma publish_classified: "publish i x = (Some e, x') \<Longrightarrow> classified e \<noteq> None"
  using publish_typed[of i x e x'] by (auto simp: classified_def)

end

text \<open>The Apache publisher keeps the contract whatever the SDK's \<open>Send\<close> does.\<close>

interpretation apache: publisher "apache_publish K p"
  for K :: "('x, 'cl, 'pr, 'co, 'm) pulsar_sdk" and p :: "('cl, 'pr) apache_publisher"
  by unfold_locales
    (auto simp: apache_publish_def errors_as_here split: prod.splits option.splits)

lemma apache_publish_transient:
  "apache_publish K p i x = (Some e, x') \<Longrightarrow> \<exists>c. e = PublishError True c"
  by (auto simp: apache_publish_def split: prod.splits option.splits)

lemma apache_receive_error:
  assumes "apache_receive K c x = (Inl e, x')"
  shows "\<exists>e0. sdk_receive K (ac_consumer c) x = (Inl e0, x')
    \<and> (\<forall>s. errors_is e s \<longleftrightarrow> errors_is e0 s \<or> s = e)"
  using assms
  by (auto simp: apache_receive_def errors_is_def err_chain_unwrap[of e]
      split: prod.splits sum.splits if_splits)

text \<open>A key set loads exactly when a name is active and the public key of every active name can
  be read the way the producer will read it.\<close>

lemma key_set_loads_iff_readable:
  "LoadKeySet E fs dir names = Inr ks \<longleftrightarrow>
     names \<noteq> [] \<and> list_all (\<lambda>n. \<not> is_err (PublicKey E fs (NewFileCryptoKeyReader dir) n)) names
     \<and> ks = \<lparr>ks_dir = dir, ks_active_names = names\<rparr>"
  by (simp add: LoadKeySet_Inr list_all_iff not_is_err)

end
