(* ===== verification/Metrics.thy ===== *)
theory Metrics
  imports Prelude
begin

text \<open>
  \<open>internal/metrics\<close>: the instruments and the list of points recorded on them, oldest first. A point
  keeps the values of its attributes and, where it is an integer, its value; a duration in seconds
  is a difference of two clock readings and is dropped. \<open>measurement\<close> gives a point its instrument
  and the keys of its attributes.
\<close>

subsection \<open>Instruments\<close>

definition MeterName :: string where
  "MeterName = ''github.com/michaelpeterswa/pulsar-notifcation-pipeline''"

definition NameWriterSubmissions :: string where
  "NameWriterSubmissions = ''pulsarnp.writer.submissions''"

definition NameWriterSubmitDur :: string where
  "NameWriterSubmitDur = ''pulsarnp.writer.submit.duration''"

definition NameWriterPublishDur :: string where
  "NameWriterPublishDur = ''pulsarnp.writer.publish.duration''"

definition NameDelivererConsumed :: string where
  "NameDelivererConsumed = ''pulsarnp.deliverer.consumed''"

definition NameDelivererOutcomes :: string where
  "NameDelivererOutcomes = ''pulsarnp.deliverer.outcomes''"

definition NameDelivererProviderDur :: string where
  "NameDelivererProviderDur = ''pulsarnp.deliverer.provider.duration''"

definition NameDelivererAttempts :: string where
  "NameDelivererAttempts = ''pulsarnp.deliverer.attempts''"

definition NameDelivererDecryptFailed :: string where
  "NameDelivererDecryptFailed = ''pulsarnp.deliverer.decrypt_failures''"

lemmas metric_name_defs =
  NameWriterSubmissions_def NameWriterSubmitDur_def NameWriterPublishDur_def
  NameDelivererConsumed_def NameDelivererOutcomes_def NameDelivererProviderDur_def
  NameDelivererAttempts_def NameDelivererDecryptFailed_def

definition AttrOutcome :: string where
  "AttrOutcome = ''outcome''"

definition AttrService :: string where
  "AttrService = ''service_name''"

definition AttrStatus :: string where
  "AttrStatus = ''status''"

definition AttrReason :: string where
  "AttrReason = ''reason''"

definition AttrProvider :: string where
  "AttrProvider = ''provider''"

definition AttrResultClass :: string where
  "AttrResultClass = ''result_class''"

lemmas attr_key_defs =
  AttrOutcome_def AttrService_def AttrStatus_def
  AttrReason_def AttrProvider_def AttrResultClass_def

datatype instrument_kind = Int64Counter | Float64Histogram | Int64Histogram

record instrument =
  in_kind :: instrument_kind
  in_name :: string
  in_description :: string
  in_unit :: string

text \<open>The arrow of one description, by its bytes in UTF-8.\<close>

definition arrow :: string where
  "arrow = map char_of [226, 134, 146 :: nat]"

text \<open>What the first call creates on the meter of the global provider, in order.\<close>

definition initInstruments :: "instrument list" where
  "initInstruments =
     [\<lparr>in_kind = Int64Counter, in_name = NameWriterSubmissions,
       in_description = ''Total notification submissions accepted or rejected by the writer, labelled by outcome.'',
       in_unit = []\<rparr>,
      \<lparr>in_kind = Float64Histogram, in_name = NameWriterSubmitDur,
       in_description = ''Writer submit-handler latency (request received '' @ arrow @ '' response emitted), in seconds.'',
       in_unit = ''s''\<rparr>,
      \<lparr>in_kind = Float64Histogram, in_name = NameWriterPublishDur,
       in_description = ''Latency of the writer'' @ [CHR 0x27] @ ''s Pulsar publish call only, in seconds.'',
       in_unit = ''s''\<rparr>,
      \<lparr>in_kind = Int64Counter, in_name = NameDelivererConsumed,
       in_description = ''Total messages consumed from the Pulsar topic by the deliverer.'', in_unit = []\<rparr>,
      \<lparr>in_kind = Int64Counter, in_name = NameDelivererOutcomes,
       in_description = ''Terminal delivery outcomes per notification, labelled by status+reason+provider.'',
       in_unit = []\<rparr>,
      \<lparr>in_kind = Float64Histogram, in_name = NameDelivererProviderDur,
       in_description = ''Push-provider round-trip latency per attempt, labelled by provider+result_class.'',
       in_unit = ''s''\<rparr>,
      \<lparr>in_kind = Int64Histogram, in_name = NameDelivererAttempts,
       in_description = ''Number of provider attempts made per notification before reaching a terminal outcome.'',
       in_unit = []\<rparr>,
      \<lparr>in_kind = Int64Counter, in_name = NameDelivererDecryptFailed,
       in_description = ''Total encryption-policy-violation terminal outcomes (FR-016). An alert target.'',
       in_unit = []\<rparr>]"

subsection \<open>Points\<close>

definition OutcomeAccepted :: string where
  "OutcomeAccepted = ''accepted''"

definition OutcomeValidationFailed :: string where
  "OutcomeValidationFailed = ''validation_failed''"

definition OutcomeAuthFailed :: string where
  "OutcomeAuthFailed = ''auth_failed''"

definition OutcomeSubstrateUnavailable :: string where
  "OutcomeSubstrateUnavailable = ''substrate_unavailable''"

definition OutcomeInternal :: string where
  "OutcomeInternal = ''internal''"

lemmas outcome_label_defs =
  OutcomeAccepted_def OutcomeValidationFailed_def OutcomeAuthFailed_def
  OutcomeSubstrateUnavailable_def OutcomeInternal_def

definition ResultSuccess :: string where
  "ResultSuccess = ''success''"

definition ResultTransient :: string where
  "ResultTransient = ''transient''"

definition ResultPermanent :: string where
  "ResultPermanent = ''permanent''"

lemmas result_label_defs = ResultSuccess_def ResultTransient_def ResultPermanent_def

datatype point =
    WriterSubmissions string string
  | WriterSubmitDur string string
  | WriterPublishDur
  | DelivererConsumed
  | DelivererOutcomes string string string
  | DelivererAttempts int string string
  | DelivererDecryptFailed
  | DelivererProviderDur string string

type_synonym points = "point list"

definition RecordWriterSubmission :: "string \<Rightarrow> string \<Rightarrow> points \<Rightarrow> points" where
  "RecordWriterSubmission outcome service ps =
     ps @ [WriterSubmissions outcome service, WriterSubmitDur outcome service]"

definition RecordPublishDuration :: "points \<Rightarrow> points" where
  "RecordPublishDuration ps = ps @ [WriterPublishDur]"

definition RecordConsumed :: "points \<Rightarrow> points" where
  "RecordConsumed ps = ps @ [DelivererConsumed]"

definition RecordOutcome :: "string \<Rightarrow> string \<Rightarrow> string \<Rightarrow> int \<Rightarrow> points \<Rightarrow> points" where
  "RecordOutcome status reason provider attempts ps =
     ps @ [DelivererOutcomes status reason provider]
        @ (if 0 < attempts then [DelivererAttempts attempts status provider] else [])
        @ (if reason = ''encryption-policy-violation'' then [DelivererDecryptFailed] else [])"

definition RecordProviderAttempt :: "string \<Rightarrow> string \<Rightarrow> points \<Rightarrow> points" where
  "RecordProviderAttempt provider resultClass ps = ps @ [DelivererProviderDur provider resultClass]"

text \<open>The instrument of a point and its attributes, with the keys the helpers give them.\<close>

fun measurement :: "point \<Rightarrow> string \<times> (string \<times> string) list" where
  "measurement (WriterSubmissions oc svc) = (NameWriterSubmissions, [(AttrOutcome, oc), (AttrService, svc)])"
| "measurement (WriterSubmitDur oc svc) = (NameWriterSubmitDur, [(AttrOutcome, oc), (AttrService, svc)])"
| "measurement WriterPublishDur = (NameWriterPublishDur, [])"
| "measurement DelivererConsumed = (NameDelivererConsumed, [])"
| "measurement (DelivererOutcomes st rs pn) =
     (NameDelivererOutcomes, [(AttrStatus, st), (AttrReason, rs), (AttrProvider, pn)])"
| "measurement (DelivererAttempts n st pn) =
     (NameDelivererAttempts, [(AttrStatus, st), (AttrProvider, pn)])"
| "measurement DelivererDecryptFailed = (NameDelivererDecryptFailed, [])"
| "measurement (DelivererProviderDur pn cls) =
     (NameDelivererProviderDur, [(AttrProvider, pn), (AttrResultClass, cls)])"

text \<open>
  Every point is on exactly one instrument that was created, under attribute keys that are distinct
  on it, so a series of a dashboard is determined by the values a point carries.
\<close>

lemma measured_instruments:
  "distinct (map in_name initInstruments)"
  "fst (measurement p) \<in> in_name ` set initInstruments"
  "distinct (map fst (snd (measurement p)))"
  by (simp_all add: initInstruments_def metric_name_defs)
     (cases p; simp add: metric_name_defs attr_key_defs)+

text \<open>Which points count a terminal outcome, a provider call, a submission.\<close>

fun is_outcome_point :: "point \<Rightarrow> bool" where
  "is_outcome_point (DelivererOutcomes _ _ _) = True"
| "is_outcome_point _ = False"

fun is_attempt_point :: "point \<Rightarrow> bool" where
  "is_attempt_point (DelivererProviderDur _ _) = True"
| "is_attempt_point _ = False"

fun is_submission_point :: "point \<Rightarrow> bool" where
  "is_submission_point (WriterSubmissions _ _) = True"
| "is_submission_point _ = False"

lemmas record_defs =
  RecordWriterSubmission_def RecordPublishDuration_def RecordConsumed_def RecordOutcome_def
  RecordProviderAttempt_def

lemma filter_outcome_points [simp]:
  "filter is_outcome_point (RecordOutcome s r p n ps)
     = filter is_outcome_point ps @ [DelivererOutcomes s r p]"
  "filter is_outcome_point (RecordProviderAttempt p c ps) = filter is_outcome_point ps"
  "filter is_outcome_point (RecordConsumed ps) = filter is_outcome_point ps"
  by (simp_all add: record_defs)

lemma filter_attempt_points [simp]:
  "filter is_attempt_point (RecordOutcome s r p n ps) = filter is_attempt_point ps"
  "filter is_attempt_point (RecordProviderAttempt p c ps)
     = filter is_attempt_point ps @ [DelivererProviderDur p c]"
  "filter is_attempt_point (RecordConsumed ps) = filter is_attempt_point ps"
  by (simp_all add: record_defs)

end
