(* ===== verification/Ingest.thy ===== *)
theory Ingest
  imports Pulsarlib Metrics
begin

text \<open>
  \<open>internal/writer/ingest\<close>: validation of a submitted notification against the rules of
  \<open>data-model.md\<close>, and \<open>Accept\<close>, which validates, assigns the server-controlled fields and
  publishes. The validators of the source append to a slice through a pointer; each definition
  below returns the list of what its source appends, and \<open>Validate\<close> runs them in the source's
  order. The entries of \<open>Content.data\<close> come in the order of the map's range loop, which Go leaves
  open: the list is that order.
\<close>

subsection \<open>Validation\<close>

text \<open>The three compiled regular expressions; Go's dollar sign matches at the end of text only.\<close>

definition pushoverKeyRE :: "string \<Rightarrow> bool" where
  "pushoverKeyRE s \<longleftrightarrow> length s = 30 \<and> list_all is_alnum s"

definition deviceRE :: "string \<Rightarrow> bool" where
  "deviceRE s \<longleftrightarrow> s \<noteq> [] \<and> list_all (\<lambda>c. is_alnum c \<or> c = CHR ''_'' \<or> c = CHR ''-'') s"

definition dataKeyRE :: "string \<Rightarrow> bool" where
  "dataKeyRE s =
     (case s of
        [] \<Rightarrow> False
      | c # cs \<Rightarrow> (is_lower c \<or> is_upper c \<or> c = CHR ''_'')
          \<and> list_all (\<lambda>c. is_alnum c \<or> c = CHR ''_'') cs)"

definition validate_entry :: "string \<times> string \<Rightarrow> field_error list" where
  "validate_entry kv =
     (case kv of (k, v) \<Rightarrow>
       (if 64 < length k \<or> \<not> dataKeyRE k then [FieldErr ''content.data'' ''key-invalid'' k] else [])
       @ (if 512 < length v then [FieldErr ''content.data'' ''value-too-long'' k] else []))"

definition validateContent :: "content option \<Rightarrow> field_error list" where
  "validateContent c =
     (case c of
        None \<Rightarrow> [FieldErr ''content.title'' ''required'' [], FieldErr ''content.body'' ''required'' []]
      | Some _ \<Rightarrow>
          (if GetTitle c = [] then [FieldErr ''content.title'' ''required'' []]
           else if trim_space (GetTitle c) = [] then [FieldErr ''content.title'' ''whitespace-only'' []]
           else if 250 < rune_count (GetTitle c) then [FieldErr ''content.title'' ''too-long'' []]
           else [])
          @ (if GetBody c = [] then [FieldErr ''content.body'' ''required'' []]
             else if 1024 < rune_count (GetBody c) then [FieldErr ''content.body'' ''too-long'' []]
             else [])
          @ (let p = sint (GetPriority c) in
             if p < -2 \<or> 2 < p
             then [FieldErr ''content.priority'' ''out-of-range'' ''must be in [-2, 2]''] else [])
          @ (if 32 < length (GetData c) then [FieldErr ''content.data'' ''too-many-entries'' []] else [])
          @ concat (map validate_entry (GetData c)))"

definition validatePushover :: "'ts ext \<Rightarrow> pushover_target option \<Rightarrow> field_error list" where
  "validatePushover E t =
     (case t of
        None \<Rightarrow> [FieldErr ''target.pushover.user_or_group_key'' ''required'' []]
      | Some _ \<Rightarrow>
          (if GetUserOrGroupKey t = []
           then [FieldErr ''target.pushover.user_or_group_key'' ''required'' []]
           else if \<not> pushoverKeyRE (GetUserOrGroupKey t)
           then [FieldErr ''target.pushover.user_or_group_key'' ''malformed'' []] else [])
          @ (let d = GetDeviceName t in
             if d \<noteq> [] then
               (if 25 < length d then [FieldErr ''target.pushover.device_name'' ''too-long'' []] else [])
               @ (if \<not> deviceRE d then [FieldErr ''target.pushover.device_name'' ''malformed'' []] else [])
             else [])
          @ (let u = GetUrl t in
             if u \<noteq> [] then
               (if 512 < length u then [FieldErr ''target.pushover.url'' ''too-long'' []]
                else case x_url_parse E u of
                       Inl _ \<Rightarrow> [FieldErr ''target.pushover.url'' ''malformed'' []]
                     | Inr scheme \<Rightarrow>
                         if scheme = [] then [FieldErr ''target.pushover.url'' ''malformed'' []] else [])
             else [])
          @ (let ut = GetUrlTitle t in
             if ut \<noteq> [] then
               (if 100 < length ut then [FieldErr ''target.pushover.url_title'' ''too-long'' []] else [])
               @ (if GetUrl t = [] then [FieldErr ''target.pushover.url_title'' ''requires-url'' []] else [])
             else []))"

definition validateTarget :: "'ts ext \<Rightarrow> target option \<Rightarrow> field_error list" where
  "validateTarget E t =
     (case t of
        None \<Rightarrow> [FieldErr ''target'' ''missing'' []]
      | Some (Notification_Pushover p) \<Rightarrow> validatePushover E p
      | Some Target_Other \<Rightarrow> [FieldErr ''target'' ''unknown-arm'' []])"

definition validateTimestamps :: "'ts ext \<Rightarrow> 'ts notification \<Rightarrow> field_error list" where
  "validateTimestamps E n =
     (case (GetExpiresAt (Some n), GetCreatedAt (Some n)) of
        (Some ex, Some cr) \<Rightarrow>
          (if time_before (x_as_time E ex) (x_as_time E cr)
           then [FieldErr ''expires_at'' ''before-created-at'' []] else [])
      | _ \<Rightarrow> [])"

definition validateIdempotency :: "string \<Rightarrow> field_error list" where
  "validateIdempotency k =
     (if 128 < length k then [FieldErr ''idempotency_key'' ''too-long'' []] else [])"

definition validation_errors :: "'ts ext \<Rightarrow> 'ts notification \<Rightarrow> field_error list" where
  "validation_errors E n =
     validateContent (GetContent (Some n)) @ validateTarget E (GetTarget (Some n))
     @ validateTimestamps E n @ validateIdempotency (GetIdempotencyKey (Some n))"

definition Validate :: "'ts ext \<Rightarrow> 'ts notification \<Rightarrow> goerr option" where
  "Validate E n =
     (let errs = validation_errors E n in if errs = [] then None else Some (ValidationError errs))"

subsection \<open>The ingester\<close>

record 'x ingester =
  i_publisher :: "'x publisher_fn option"
  i_clock :: "'x \<Rightarrow> gotime \<times> 'x"
  i_idFn :: "'x \<Rightarrow> (goerr + string) \<times> 'x"

definition WithPublisher :: "'x publisher_fn option \<Rightarrow> 'x ingester \<Rightarrow> 'x ingester" where
  "WithPublisher p i = i\<lparr>i_publisher := p\<rparr>"

definition ingest_WithClock :: "('x \<Rightarrow> gotime \<times> 'x) \<Rightarrow> 'x ingester \<Rightarrow> 'x ingester" where
  "ingest_WithClock fn i = i\<lparr>i_clock := fn\<rparr>"

definition WithIDFunc :: "('x \<Rightarrow> (goerr + string) \<times> 'x) \<Rightarrow> 'x ingester \<Rightarrow> 'x ingester" where
  "WithIDFunc fn i = i\<lparr>i_idFn := fn\<rparr>"

lemmas ingest_option_defs [option_simps] = WithPublisher_def ingest_WithClock_def WithIDFunc_def

text \<open>\<open>uuid.NewV7\<close> is the argument \<open>newV7\<close>, \<open>time.Now\<close> the argument \<open>now\<close>.\<close>

definition newUUIDv7 :: "('x \<Rightarrow> (goerr + string) \<times> 'x) \<Rightarrow> 'x \<Rightarrow> (goerr + string) \<times> 'x" where
  "newUUIDv7 newV7 x =
     (case newV7 x of (Inl e, x') \<Rightarrow> (Inl e, x') | (Inr u, x') \<Rightarrow> (Inr u, x'))"

definition NewIngester ::
  "('x \<Rightarrow> gotime \<times> 'x) \<Rightarrow> ('x \<Rightarrow> (goerr + string) \<times> 'x) \<Rightarrow> ('x ingester \<Rightarrow> 'x ingester) list
    \<Rightarrow> goerr + 'x ingester" where
  "NewIngester now newV7 opts =
     (let i = apply_opts opts
                \<lparr>i_publisher = None, i_clock = now, i_idFn = newUUIDv7 newV7\<rparr>
      in if i_publisher i = None then Inl (NewErr ''ingest: WithPublisher is required'') else Inr i)"

text \<open>The writer's world: the metric points recorded, and everything outside the program.\<close>

record 'x writer_world =
  ww_metrics :: points
  ww_env :: 'x

record accept_result =
  ar_notification_id :: string
  ar_accepted_at :: gotime

definition assign_fields ::
  "'ts ext \<Rightarrow> string \<Rightarrow> gotime \<Rightarrow> string \<Rightarrow> 'ts notification \<Rightarrow> 'ts notification" where
  "assign_fields E nid now service n =
     n\<lparr>n_notification_id := nid, n_created_at := Some (x_ts_new E now),
       n_originating_service := service\<rparr>"

text \<open>
  \<open>Accept\<close> takes the publisher of the ingester (the constructor has checked it is not nil) and the
  writer's world, and returns the result, the world, and the notification as it leaves it, since
  it writes through the caller's pointer. The publish call is timed whether it succeeds or not.
\<close>

definition timed_publish ::
  "'x publisher_fn \<Rightarrow> publish_input \<Rightarrow> 'x writer_world \<Rightarrow> goerr option \<times> 'x writer_world" where
  "timed_publish publish inp w =
     (case publish inp (ww_env w) of
        (e, x) \<Rightarrow> (e, \<lparr>ww_metrics = RecordPublishDuration (ww_metrics w), ww_env = x\<rparr>))"

definition Accept ::
  "'ts ext \<Rightarrow> 'x ingester \<Rightarrow> 'x publisher_fn \<Rightarrow> 'ts notification option \<Rightarrow> string \<Rightarrow> 'x writer_world
    \<Rightarrow> (goerr + accept_result) \<times> 'ts notification option \<times> 'x writer_world" where
  "Accept E i publish n service w =
     (case n of
        None \<Rightarrow>
          (Inl (ValidationError [FieldErr ''notification'' ''required'' ''request body is empty'']), None, w)
      | Some m \<Rightarrow>
          (case Validate E m of
             Some verr \<Rightarrow> (Inl verr, n, w)
           | None \<Rightarrow>
               (case i_clock i (ww_env w) of (t, x1) \<Rightarrow>
                 (let now = truncate_ms t in
                  case i_idFn i x1 of
                    (Inl e, x2) \<Rightarrow>
                      (Inl (WrapErr ''ingest: generate notification_id'' e), n, w\<lparr>ww_env := x2\<rparr>)
                  | (Inr nid, x2) \<Rightarrow>
                      (let m' = assign_fields E nid now service m;
                           w2 = w\<lparr>ww_env := x2\<rparr>
                       in case x_marshal E m' of
                            Inl e \<Rightarrow> (Inl (WrapErr ''ingest: marshal notification'' e), Some m', w2)
                          | Inr body \<Rightarrow>
                              (case timed_publish publish
                                      \<lparr>in_body = body, in_notification_id = nid\<rparr> w2 of
                                 (Some e, w3) \<Rightarrow> (Inl e, Some m', w3)
                               | (None, w3) \<Rightarrow>
                                   (Inr \<lparr>ar_notification_id = nid, ar_accepted_at = now\<rparr>,
                                    Some m', w3)))))))"

end
