(* ===== verification/Ingest_Spec.thy ===== *)
theory Ingest_Spec
  imports Ingest
begin

text \<open>
  What \<open>Validate\<close> and \<open>Accept\<close> promise. The specification is the table of error codes in
  \<open>data-model.md\<close> section 7: one rule per (field, code) pair, each with the condition under which
  a notification breaks it, stated without reference to the code's control flow. The field rules of
  the sections 1 to 3, which ask for more than the code checks, are in the theory Data_Model.
\<close>

datatype rule =
    TitleRequired | TitleWhitespace | TitleTooLong
  | BodyRequired | BodyTooLong
  | PriorityRange
  | DataTooMany | DataKeyInvalid | DataValueTooLong
  | TargetMissing | TargetUnknownArm
  | UserKeyRequired | UserKeyMalformed
  | DeviceTooLong | DeviceMalformed
  | UrlTooLong | UrlMalformed
  | UrlTitleTooLong | UrlTitleRequiresUrl
  | ExpiresBeforeCreated
  | IdempotencyKeyTooLong

fun rule_tag :: "rule \<Rightarrow> string \<times> string" where
  "rule_tag TitleRequired = (''content.title'', ''required'')"
| "rule_tag TitleWhitespace = (''content.title'', ''whitespace-only'')"
| "rule_tag TitleTooLong = (''content.title'', ''too-long'')"
| "rule_tag BodyRequired = (''content.body'', ''required'')"
| "rule_tag BodyTooLong = (''content.body'', ''too-long'')"
| "rule_tag PriorityRange = (''content.priority'', ''out-of-range'')"
| "rule_tag DataTooMany = (''content.data'', ''too-many-entries'')"
| "rule_tag DataKeyInvalid = (''content.data'', ''key-invalid'')"
| "rule_tag DataValueTooLong = (''content.data'', ''value-too-long'')"
| "rule_tag TargetMissing = (''target'', ''missing'')"
| "rule_tag TargetUnknownArm = (''target'', ''unknown-arm'')"
| "rule_tag UserKeyRequired = (''target.pushover.user_or_group_key'', ''required'')"
| "rule_tag UserKeyMalformed = (''target.pushover.user_or_group_key'', ''malformed'')"
| "rule_tag DeviceTooLong = (''target.pushover.device_name'', ''too-long'')"
| "rule_tag DeviceMalformed = (''target.pushover.device_name'', ''malformed'')"
| "rule_tag UrlTooLong = (''target.pushover.url'', ''too-long'')"
| "rule_tag UrlMalformed = (''target.pushover.url'', ''malformed'')"
| "rule_tag UrlTitleTooLong = (''target.pushover.url_title'', ''too-long'')"
| "rule_tag UrlTitleRequiresUrl = (''target.pushover.url_title'', ''requires-url'')"
| "rule_tag ExpiresBeforeCreated = (''expires_at'', ''before-created-at'')"
| "rule_tag IdempotencyKeyTooLong = (''idempotency_key'', ''too-long'')"

declare rule_tag.simps [simp del]

lemmas rule_tag_sym = rule_tag.simps [symmetric]

definition blank :: "string \<Rightarrow> bool" where
  "blank s \<longleftrightarrow> (\<forall>r \<in> set (runes s). is_space r)"

definition data_key_ok :: "string \<Rightarrow> bool" where
  "data_key_ok k \<longleftrightarrow> k \<noteq> [] \<and> length k \<le> 64 \<and> \<not> is_digit (hd k)
     \<and> (\<forall>c \<in> set k. is_alnum c \<or> c = CHR ''_'')"

definition user_key_ok :: "string \<Rightarrow> bool" where
  "user_key_ok k \<longleftrightarrow> length k = 30 \<and> (\<forall>c \<in> set k. is_alnum c)"

definition device_chars_ok :: "string \<Rightarrow> bool" where
  "device_chars_ok d \<longleftrightarrow> (\<forall>c \<in> set d. is_alnum c \<or> c = CHR ''_'' \<or> c = CHR ''-'')"

definition absolute_url :: "'ts ext \<Rightarrow> string \<Rightarrow> bool" where
  "absolute_url E u \<longleftrightarrow> (\<exists>s. x_url_parse E u = Inr s \<and> s \<noteq> [])"

fun content_violates :: "content \<Rightarrow> rule \<Rightarrow> bool" where
  "content_violates c TitleRequired = (c_title c = [])"
| "content_violates c TitleWhitespace = (c_title c \<noteq> [] \<and> blank (c_title c))"
| "content_violates c TitleTooLong = (\<not> blank (c_title c) \<and> 250 < rune_count (c_title c))"
| "content_violates c BodyRequired = (c_body c = [])"
| "content_violates c BodyTooLong = (1024 < rune_count (c_body c))"
| "content_violates c PriorityRange = (2 < \<bar>sint (c_priority c)\<bar>)"
| "content_violates c DataTooMany = (32 < length (c_data c))"
| "content_violates c DataKeyInvalid = (\<exists>kv \<in> set (c_data c). \<not> data_key_ok (fst kv))"
| "content_violates c DataValueTooLong = (\<exists>kv \<in> set (c_data c). 512 < length (snd kv))"
| "content_violates c _ = False"

fun pushover_violates :: "'ts ext \<Rightarrow> pushover_target \<Rightarrow> rule \<Rightarrow> bool" where
  "pushover_violates E t UserKeyRequired = (pt_user_or_group_key t = [])"
| "pushover_violates E t UserKeyMalformed =
     (pt_user_or_group_key t \<noteq> [] \<and> \<not> user_key_ok (pt_user_or_group_key t))"
| "pushover_violates E t DeviceTooLong = (25 < length (pt_device_name t))"
| "pushover_violates E t DeviceMalformed = (\<not> device_chars_ok (pt_device_name t))"
| "pushover_violates E t UrlTooLong = (512 < length (pt_url t))"
| "pushover_violates E t UrlMalformed =
     (pt_url t \<noteq> [] \<and> length (pt_url t) \<le> 512 \<and> \<not> absolute_url E (pt_url t))"
| "pushover_violates E t UrlTitleTooLong = (100 < length (pt_url_title t))"
| "pushover_violates E t UrlTitleRequiresUrl = (pt_url_title t \<noteq> [] \<and> pt_url t = [])"
| "pushover_violates E t _ = False"

definition target_violates :: "'ts ext \<Rightarrow> target option \<Rightarrow> rule \<Rightarrow> bool" where
  "target_violates E t r =
     (case t of
        None \<Rightarrow> r = TargetMissing
      | Some Target_Other \<Rightarrow> r = TargetUnknownArm
      | Some (Notification_Pushover None) \<Rightarrow> r = UserKeyRequired
      | Some (Notification_Pushover (Some p)) \<Rightarrow> pushover_violates E p r)"

definition violates :: "'ts ext \<Rightarrow> 'ts notification \<Rightarrow> rule \<Rightarrow> bool" where
  "violates E n r \<longleftrightarrow>
     (case n_content n of
        None \<Rightarrow> r = TitleRequired \<or> r = BodyRequired
      | Some c \<Rightarrow> content_violates c r)
     \<or> target_violates E (n_target n) r
     \<or> (r = ExpiresBeforeCreated
         \<and> (\<exists>ex cr. n_expires_at n = Some ex \<and> n_created_at n = Some cr
                    \<and> x_as_time E ex < x_as_time E cr))
     \<or> (r = IdempotencyKeyTooLong \<and> 128 < length (n_idempotency_key n))"

definition tags :: "field_error list \<Rightarrow> (string \<times> string) set" where
  "tags fs = (\<lambda>f. (fe_field f, fe_code f)) ` set fs"

subsection \<open>The validators against the table, one by one\<close>

lemma tags_simps [simp]:
  "tags [] = {}"
  "tags (f # fs) = insert (fe_field f, fe_code f) (tags fs)"
  "tags (fs @ gs) = tags fs \<union> tags gs"
  by (auto simp: tags_def)

lemma tags_concat_map: "tags (concat (map f xs)) = (\<Union>x \<in> set xs. tags (f x))"
  by (induction xs) simp_all

lemma blank_trim: "blank s \<longleftrightarrow> trim_space s = []"
  by (simp add: blank_def trim_space_Nil_iff)

lemma blank_Nil [simp]: "blank []"
  by (simp add: blank_def)

lemma user_key_ok_RE: "user_key_ok k = pushoverKeyRE k"
  by (simp add: user_key_ok_def pushoverKeyRE_def list_all_iff)

lemma device_chars_ok_RE: "d \<noteq> [] \<Longrightarrow> device_chars_ok d = deviceRE d"
  by (simp add: device_chars_ok_def deviceRE_def list_all_iff)

lemma device_chars_ok_Nil [simp]: "device_chars_ok []"
  by (simp add: device_chars_ok_def)

lemma digit_not_letter: "is_digit c \<Longrightarrow> \<not> is_lower c \<and> \<not> is_upper c \<and> c \<noteq> CHR ''_''"
  by (auto simp: is_digit_def is_lower_def is_upper_def byte_def)

lemma data_key_ok_RE: "data_key_ok k \<longleftrightarrow> length k \<le> 64 \<and> dataKeyRE k"
proof (cases k)
  case Nil
  then show ?thesis by (simp add: data_key_ok_def dataKeyRE_def)
next
  case (Cons c cs)
  then show ?thesis
    using digit_not_letter[of c]
    by (auto simp: data_key_ok_def dataKeyRE_def list_all_iff is_alnum_def)
qed

lemma rune_count_0 [simp]: "rune_count [] = 0"
  by (simp add: rune_count_def)

lemma tags_if: "tags (if b then xs else ys) = (if b then tags xs else tags ys)"
  by simp

lemma mem_if: "(x \<in> (if b then S else T)) \<longleftrightarrow> b \<and> x \<in> S \<or> \<not> b \<and> x \<in> T"
  by simp

lemma tags_validate_entry:
  "x \<in> tags (validate_entry kv) \<longleftrightarrow>
     x = rule_tag DataKeyInvalid \<and> \<not> data_key_ok (fst kv)
     \<or> x = rule_tag DataValueTooLong \<and> 512 < length (snd kv)"
  by (auto simp: validate_entry_def data_key_ok_RE not_le rule_tag_sym split: prod.splits)

lemma tags_validate_entries:
  "x \<in> tags (concat (map validate_entry kvs)) \<longleftrightarrow>
     x = rule_tag DataKeyInvalid \<and> (\<exists>kv \<in> set kvs. \<not> data_key_ok (fst kv))
     \<or> x = rule_tag DataValueTooLong \<and> (\<exists>kv \<in> set kvs. 512 < length (snd kv))"
  by (auto simp: tags_concat_map tags_validate_entry)

text \<open>A set of tags given rule by rule.\<close>

definition tagged :: "(rule \<Rightarrow> bool) \<Rightarrow> (string \<times> string) set" where
  "tagged P = rule_tag ` {r. P r}"

lemma tagged_or: "tagged (\<lambda>r. P r \<or> Q r) = tagged P \<union> tagged Q"
  by (auto simp: tagged_def)

lemma tagged_eq_conj [simp]: "tagged (\<lambda>r. r = a \<and> C) = {t. t = rule_tag a \<and> C}"
  by (auto simp: tagged_def)

lemma tagged_eq [simp]: "tagged (\<lambda>r. r = a) = {rule_tag a}"
  by (auto simp: tagged_def)

definition all_rules :: "rule list" where
  "all_rules = [TitleRequired, TitleWhitespace, TitleTooLong, BodyRequired, BodyTooLong,
     PriorityRange, DataTooMany, DataKeyInvalid, DataValueTooLong, TargetMissing,
     TargetUnknownArm, UserKeyRequired, UserKeyMalformed, DeviceTooLong, DeviceMalformed,
     UrlTooLong, UrlMalformed, UrlTitleTooLong, UrlTitleRequiresUrl, ExpiresBeforeCreated,
     IdempotencyKeyTooLong]"

lemma all_rules_UNIV: "set all_rules = UNIV"
proof -
  have "r \<in> set all_rules" for r
    by (cases r) (simp_all add: all_rules_def)
  then show ?thesis by blast
qed

lemma ex_rule: "(\<exists>r. P r) \<longleftrightarrow> list_ex P all_rules"
  by (simp add: list_ex_iff all_rules_UNIV)

lemma mem_tagged: "x \<in> tagged P \<longleftrightarrow> list_ex (\<lambda>r. P r \<and> x = rule_tag r) all_rules"
  by (auto simp: tagged_def list_ex_iff all_rules_UNIV)

lemma content_tags: "tags (validateContent (Some c)) = tagged (content_violates c)"
proof (rule set_eqI)
  fix x
  have p: "sint (c_priority c) < -2 \<or> 2 < sint (c_priority c) \<longleftrightarrow> 2 < \<bar>sint (c_priority c)\<bar>"
    by linarith
  show "x \<in> tags (validateContent (Some c)) \<longleftrightarrow> x \<in> tagged (content_violates c)"
    by (simp add: mem_tagged all_rules_def validateContent_def Let_def tags_if mem_if
        tags_validate_entries blank_trim p rule_tag_sym)
      (cases "c_title c = []"; cases "c_body c = []"; simp; blast)
qed

lemma no_content_tags:
  "tags (validateContent None) = tagged (\<lambda>r. r = TitleRequired \<or> r = BodyRequired)"
  by (auto simp: validateContent_def tagged_def rule_tag_sym)

lemma pushover_tags: "tags (validatePushover E (Some t)) = tagged (pushover_violates E t)"
proof (rule set_eqI)
  fix x
  have u: "x \<in> tags (case x_url_parse E u of Inl e \<Rightarrow> [f] | Inr s \<Rightarrow> if s = [] then [f] else [])
      \<longleftrightarrow> x \<in> tags [f] \<and> \<not> absolute_url E u" for u f
    by (auto simp: absolute_url_def split: sum.splits)
  show "x \<in> tags (validatePushover E (Some t)) \<longleftrightarrow> x \<in> tagged (pushover_violates E t)"
    by (simp add: mem_tagged all_rules_def validatePushover_def Let_def tags_if mem_if u
        user_key_ok_RE not_less rule_tag_sym)
      (cases "pt_device_name t = []"; cases "pt_url t = []"; cases "pt_url_title t = []";
        simp add: device_chars_ok_RE; blast)
qed

lemma target_tags: "tags (validateTarget E t) = tagged (target_violates E t)"
proof (cases t)
  case None
  then show ?thesis
    by (simp add: validateTarget_def target_violates_def[abs_def] rule_tag_sym)
next
  case (Some a)
  show ?thesis
  proof (cases a)
    case (Notification_Pushover p)
    with Some show ?thesis
      by (cases p) (simp_all add: validateTarget_def target_violates_def[abs_def] pushover_tags
          validatePushover_def[of E None] rule_tag_sym)
  next
    case Target_Other
    with Some show ?thesis
      by (simp add: validateTarget_def target_violates_def[abs_def] rule_tag_sym)
  qed
qed

lemma timestamp_tags:
  "tags (validateTimestamps E n) =
     tagged (\<lambda>r. r = ExpiresBeforeCreated
       \<and> (\<exists>ex cr. n_expires_at n = Some ex \<and> n_created_at n = Some cr
                  \<and> x_as_time E ex < x_as_time E cr))"
  by (auto simp: validateTimestamps_def time_before_def rule_tag_sym split: option.splits)

lemma idempotency_tags:
  "tags (validateIdempotency k) = tagged (\<lambda>r. r = IdempotencyKeyTooLong \<and> 128 < length k)"
  by (auto simp: validateIdempotency_def rule_tag_sym)

lemma validation_tags: "tags (validation_errors E n) = tagged (violates E n)"
proof -
  have c: "tags (validateContent (n_content n))
      = tagged (\<lambda>r. case n_content n of None \<Rightarrow> r = TitleRequired \<or> r = BodyRequired
                     | Some c \<Rightarrow> content_violates c r)"
    by (cases "n_content n") (simp_all add: content_tags no_content_tags)
  show ?thesis
    by (simp add: validation_errors_def c target_tags timestamp_tags idempotency_tags
        violates_def[abs_def] tagged_or Un_assoc del: tagged_eq_conj)
qed

subsection \<open>Consequences for Validate\<close>

lemma tags_empty_iff: "tags fs = {} \<longleftrightarrow> fs = []"
  by (simp add: tags_def)

lemma validation_errors_Nil_iff: "validation_errors E n = [] \<longleftrightarrow> (\<forall>r. \<not> violates E n r)"
proof -
  have "validation_errors E n = [] \<longleftrightarrow> tagged (violates E n) = {}"
    by (simp add: validation_tags[symmetric] tags_empty_iff)
  then show ?thesis by (auto simp: tagged_def)
qed

lemma Validate_None_iff: "Validate E n = None \<longleftrightarrow> (\<forall>r. \<not> violates E n r)"
  by (simp add: Validate_def Let_def validation_errors_Nil_iff)

lemma Validate_Some: "Validate E n = Some e \<Longrightarrow> e = ValidationError (validation_errors E n)"
  by (auto simp: Validate_def Let_def split: if_splits)

lemma rule_tag_code_valid: "FieldErrorCode_Valid (snd (rule_tag r))"
  by (cases r) (simp_all add: rule_tag.simps FieldErrorCode_Valid_def)

lemma validation_code_valid: "f \<in> set (validation_errors E n) \<Longrightarrow> FieldErrorCode_Valid (fe_code f)"
proof -
  assume "f \<in> set (validation_errors E n)"
  then have "(fe_field f, fe_code f) \<in> tagged (violates E n)"
    by (auto simp: validation_tags[symmetric] tags_def)
  then obtain r where "rule_tag r = (fe_field f, fe_code f)"
    by (auto simp: tagged_def)
  then show ?thesis using rule_tag_code_valid[of r] by simp
qed

lemma validateContent_data_perm:
  assumes "mset d = mset d'"
  shows "mset (validateContent (Some (c\<lparr>c_data := d\<rparr>))) = mset (validateContent (Some (c\<lparr>c_data := d'\<rparr>)))"
proof -
  have "length d = length d'" using assms by (metis size_mset)
  with assms show ?thesis
    by (simp add: validateContent_def Let_def mset_concat_map_cong[of d d' validate_entry])
qed

lemma validation_errors_data_perm:
  assumes "mset d = mset d'" and "n_content n = Some c"
  shows "mset (validation_errors E (n\<lparr>n_content := Some (c\<lparr>c_data := d\<rparr>)\<rparr>))
       = mset (validation_errors E (n\<lparr>n_content := Some (c\<lparr>c_data := d'\<rparr>)\<rparr>))"
  using validateContent_data_perm[OF assms(1), of c]
  by (simp add: validation_errors_def validateTimestamps_def)

lemma violates_assigned [simp]:
  "violates E (n\<lparr>n_notification_id := a\<rparr>) = violates E n"
  "violates E (n\<lparr>n_originating_service := a\<rparr>) = violates E n"
  by (auto simp: violates_def fun_eq_iff)

lemma Validate_assigned [simp]:
  "Validate E (n\<lparr>n_notification_id := a\<rparr>) = Validate E n"
  "Validate E (n\<lparr>n_originating_service := a\<rparr>) = Validate E n"
  by (simp_all add: Validate_def validation_errors_def validateTimestamps_def)

text \<open>A valid notification has a target whose arm is set; the server's fields do not touch it.\<close>

definition addressed :: "'ts notification \<Rightarrow> bool" where
  "addressed n \<longleftrightarrow> (\<exists>t. n_target n = Some (Notification_Pushover (Some t)))"

lemma Validate_addressed:
  assumes "Validate E n = None"
  shows "addressed n"
proof -
  have v: "\<not> target_violates E (n_target n) r" for r
    using assms by (auto simp: Validate_None_iff violates_def)
  show ?thesis
  proof (cases "n_target n")
    case None
    with v[of TargetMissing] show ?thesis by (simp add: target_violates_def)
  next
    case (Some a)
    with v[of TargetUnknownArm] v[of UserKeyRequired] show ?thesis
      by (cases a) (auto simp: target_violates_def addressed_def split: option.splits)
  qed
qed

text \<open>What the wire can carry: no target, or one whose arm is set.\<close>

definition carried :: "'ts notification \<Rightarrow> bool" where
  "carried n \<longleftrightarrow> n_target n = None \<or> addressed n"

lemma carried_key [simp]: "carried (n\<lparr>n_idempotency_key := k\<rparr>) = carried n"
  by (simp add: carried_def addressed_def)

lemma addressed_assign [simp]: "addressed (assign_fields E nid now svc n) = addressed n"
  by (simp add: addressed_def assign_fields_def)

subsection \<open>Accept, branch by branch\<close>

lemma Accept_nil [simp]:
  "Accept E i publish None service w =
     (Inl (ValidationError [FieldErr ''notification'' ''required'' ''request body is empty'']), None, w)"
  by (simp add: Accept_def)

lemma Accept_invalid:
  "violates E m r \<Longrightarrow> Accept E i publish (Some m) service w
     = (Inl (ValidationError (validation_errors E m)), Some m, w)"
  using Validate_None_iff[of E m] Validate_Some[of E m]
  by (cases "Validate E m") (auto simp: Accept_def)

lemma Accept_id_error:
  assumes "\<forall>r. \<not> violates E m r" "i_clock i (ww_env w) = (t, x1)" "i_idFn i x1 = (Inl e, x2)"
  shows "Accept E i publish (Some m) service w =
     (Inl (WrapErr ''ingest: generate notification_id'' e), Some m, w\<lparr>ww_env := x2\<rparr>)"
  using assms by (simp add: Accept_def Validate_None_iff[symmetric] Let_def)

lemma Accept_marshal_error:
  assumes "\<forall>r. \<not> violates E m r" "i_clock i (ww_env w) = (t, x1)" "i_idFn i x1 = (Inr nid, x2)"
    and "m' = assign_fields E nid (truncate_ms t) service m" "x_marshal E m' = Inl e"
  shows "Accept E i publish (Some m) service w =
     (Inl (WrapErr ''ingest: marshal notification'' e), Some m', w\<lparr>ww_env := x2\<rparr>)"
  using assms by (simp add: Accept_def Validate_None_iff[symmetric] Let_def)

text \<open>The world after a publish call: one duration point, and what the publisher made of the rest.\<close>

definition after_publish :: "'x writer_world \<Rightarrow> 'x \<Rightarrow> 'x writer_world" where
  "after_publish w x = \<lparr>ww_metrics = RecordPublishDuration (ww_metrics w), ww_env = x\<rparr>"

lemma after_publish_simps [simp]:
  "ww_env (after_publish w x) = x"
  "ww_metrics (after_publish w x) = RecordPublishDuration (ww_metrics w)"
  by (simp_all add: after_publish_def)

lemma Accept_publishes:
  assumes "\<forall>r. \<not> violates E m r" "i_clock i (ww_env w) = (t, x1)" "i_idFn i x1 = (Inr nid, x2)"
    and "m' = assign_fields E nid (truncate_ms t) service m" "x_marshal E m' = Inr body"
  shows "Accept E i publish (Some m) service w =
     (case publish \<lparr>in_body = body, in_notification_id = nid\<rparr> x2 of
        (Some e, x3) \<Rightarrow> (Inl e, Some m', after_publish w x3)
      | (None, x3) \<Rightarrow>
          (Inr \<lparr>ar_notification_id = nid, ar_accepted_at = truncate_ms t\<rparr>, Some m', after_publish w x3))"
  using assms
  by (simp add: Accept_def Validate_None_iff[symmetric] Let_def timed_publish_def after_publish_def
      split: prod.split option.split)

lemmas Accept_branches = Accept_invalid Accept_id_error Accept_marshal_error Accept_publishes

text \<open>Inversion of a successful call.\<close>

lemma Accept_success:
  assumes "Accept E i publish n service w = (Inr res, n', w')"
  obtains m t x1 x2 x3 body where
    "n = Some m" "\<forall>r. \<not> violates E m r" "i_clock i (ww_env w) = (t, x1)"
    "i_idFn i x1 = (Inr (ar_notification_id res), x2)" "ar_accepted_at res = truncate_ms t"
    "n' = Some (assign_fields E (ar_notification_id res) (truncate_ms t) service m)"
    "x_marshal E (assign_fields E (ar_notification_id res) (truncate_ms t) service m) = Inr body"
    "publish \<lparr>in_body = body, in_notification_id = ar_notification_id res\<rparr> x2 = (None, x3)"
    "w' = after_publish w x3"
proof -
  from assms obtain m where m: "n = Some m" "Validate E m = None"
    by (auto simp: Accept_def split: option.splits)
  then have v: "\<forall>r. \<not> violates E m r" by (simp add: Validate_None_iff)
  obtain t x1 where c: "i_clock i (ww_env w) = (t, x1)" by force
  obtain idr x2 where d: "i_idFn i x1 = (idr, x2)" by force
  from assms m c d obtain nid where nid: "idr = Inr nid"
    by (cases idr) (auto simp: Accept_def Let_def)
  define m' where "m' = assign_fields E nid (truncate_ms t) service m"
  from assms m c d nid obtain body where b: "x_marshal E m' = Inr body"
    by (cases "x_marshal E m'") (auto simp: Accept_def Let_def m'_def)
  obtain r x3 where p: "publish \<lparr>in_body = body, in_notification_id = nid\<rparr> x2 = (r, x3)" by force
  from assms p have "r = None" "w' = after_publish w x3" "n' = Some m'"
    "res = \<lparr>ar_notification_id = nid, ar_accepted_at = truncate_ms t\<rparr>"
    unfolding m(1) Accept_publishes[OF v c d[unfolded nid] m'_def b] by (auto split: option.splits)
  with that m v c d nid b p show thesis by (simp add: m'_def)
qed

text \<open>Whatever happens, the counters get at most the duration point.\<close>

lemma Accept_metrics:
  "Accept E i publish n service w = (r, n', w') \<Longrightarrow>
   ww_metrics w' = ww_metrics w \<or> ww_metrics w' = RecordPublishDuration (ww_metrics w)"
  by (auto simp: Accept_def Let_def timed_publish_def split: option.splits prod.splits sum.splits)

text \<open>
  With a publisher that keeps its contract, an error of \<open>Accept\<close> is a validation error, a typed
  publish error, or one of the two internal failures.
\<close>

fun is_internal_accept_error :: "goerr \<Rightarrow> bool" where
  "is_internal_accept_error (WrapErr p e) =
     (p = ''ingest: generate notification_id'' \<or> p = ''ingest: marshal notification'')"
| "is_internal_accept_error _ = False"

context publisher
begin

lemma Accept_error_classes:
  assumes "Accept E i publish n service w = (Inl e, n', w')"
  shows "is_validation e \<or> is_internal_accept_error e \<or> classified e \<noteq> None"
proof (cases n)
  case None
  with assms show ?thesis by auto
next
  case (Some m)
  show ?thesis
  proof (cases "Validate E m")
    case (Some v)
    with assms \<open>n = Some m\<close> Validate_Some[OF Some] show ?thesis by (auto simp: Accept_def)
  next
    case None
    with assms \<open>n = Some m\<close> show ?thesis
      by (auto simp: Accept_def Let_def timed_publish_def split: prod.splits sum.splits option.splits
          dest: publish_classified)
  qed
qed

end

subsection \<open>Properties\<close>

text \<open>Every code \<open>Validate\<close> puts on the wire is one of the closed list the OpenAPI document
  allows, whatever the input.\<close>

lemma validation_codes_documented:
  "fe_code ` set (validation_errors E n) \<subseteq> {c. FieldErrorCode_Valid c}"
  using validation_code_valid[of _ E n] by auto

text \<open>The iteration order of the \<open>data\<close> map does not change the field errors reported, counted
  with multiplicity; only their order may differ.\<close>

lemma validation_map_order_irrelevant:
  assumes "mset d = mset d'" and "n_content n = Some c"
  shows "mset (validation_errors E (n\<lparr>n_content := Some (c\<lparr>c_data := d\<rparr>)\<rparr>))
       = mset (validation_errors E (n\<lparr>n_content := Some (c\<lparr>c_data := d'\<rparr>)\<rparr>))"
  by (rule validation_errors_data_perm[OF assms])

lemma Validate_server_fields:
  "Validate E (n\<lparr>n_notification_id := a, n_originating_service := s\<rparr>) = Validate E n"
  "n_expires_at n = None \<Longrightarrow> Validate E (n\<lparr>n_created_at := c\<rparr>) = Validate E n"
  by (simp_all add: Validate_def validation_errors_def validateTimestamps_def)

lemma Accept_server_fields:
  "Accept E i publish (Some n) service w = (Inr res, n', w') \<Longrightarrow>
   Accept E i publish (Some (n\<lparr>n_notification_id := a, n_originating_service := s\<rparr>)) service w = (Inr res, n', w')"
  "Accept E i publish (Some n) service w = (Inr res, n', w') \<Longrightarrow> n_expires_at n = None \<Longrightarrow>
   Accept E i publish (Some (n\<lparr>n_created_at := c\<rparr>)) service w = (Inr res, n', w')"
  by (auto simp: Accept_def Validate_server_fields assign_fields_def Let_def
      split: option.splits prod.splits sum.splits)

text \<open>C14: What \<open>Accept\<close> publishes under an identifier is the caller's notification with the three
  server-assigned fields overwritten and nothing else changed; the identifier and the instant it
  returns are the ones published. What the caller had put into these fields is not refused, as the
  comment of the message and \<open>data-model.md\<close> ask for, but ignored: with any other identifier and
  service, and without an expiry any other creation time, the same happens.\<close>

theorem accept_assigns_server_fields:
  assumes "Accept E i publish (Some n) service w = (Inr res, n', w')"
  shows "(\<exists>m body x2. n' = Some m \<and> x_marshal E m = Inr body
       \<and> publish \<lparr>in_body = body, in_notification_id = n_notification_id m\<rparr> x2 = (None, ww_env w')
       \<and> n_notification_id m = ar_notification_id res
       \<and> n_created_at m = Some (x_ts_new E (ar_accepted_at res))
       \<and> n_originating_service m = service
       \<and> n_content m = n_content n \<and> n_target m = n_target n \<and> n_expires_at m = n_expires_at n
       \<and> n_idempotency_key m = n_idempotency_key n)
     \<and> (\<forall>a s. Accept E i publish (Some (n\<lparr>n_notification_id := a, n_originating_service := s\<rparr>)) service w
          = (Inr res, n', w'))
     \<and> (n_expires_at n = None \<longrightarrow>
          (\<forall>c. Accept E i publish (Some (n\<lparr>n_created_at := c\<rparr>)) service w = (Inr res, n', w')))"
proof (intro conjI allI impI)
  show "\<exists>m body x2. n' = Some m \<and> x_marshal E m = Inr body
     \<and> publish \<lparr>in_body = body, in_notification_id = n_notification_id m\<rparr> x2 = (None, ww_env w')
     \<and> n_notification_id m = ar_notification_id res
     \<and> n_created_at m = Some (x_ts_new E (ar_accepted_at res))
     \<and> n_originating_service m = service
     \<and> n_content m = n_content n \<and> n_target m = n_target n \<and> n_expires_at m = n_expires_at n
     \<and> n_idempotency_key m = n_idempotency_key n"
    using assms by (cases rule: Accept_success) (auto simp: assign_fields_def)
qed (use assms in \<open>simp_all add: Accept_server_fields\<close>)

text \<open>An expiry is compared with a creation time the caller sent, not with the one assigned: without the
  former, any expiry is published, and so may lie before the creation time of the message.\<close>

lemma expiry_not_checked_against_assigned_time:
  assumes "n_created_at n = None" and "\<forall>r. \<not> violates E n r"
  shows "\<forall>r. \<not> violates E (n\<lparr>n_expires_at := Some ex\<rparr>) r"
  using assms by (auto simp: violates_def)

text \<open>C25: A notification that breaks a rule is refused before anything happens: \<open>Accept\<close> returns the
  field errors, reads no clock, draws no identifier, publishes nothing and leaves the notification
  as it was.\<close>

theorem invalid_not_published:
  assumes "violates E m r"
  shows "Accept E i publish (Some m) service w
     = (Inl (ValidationError (validation_errors E m)), Some m, w)"
  by (rule Accept_invalid[OF assms])

text \<open>With the Apache publisher, an error of \<open>Accept\<close> is a validation error, a failure to draw
  the identifier or to marshal, or a publish error marked transient, so that every failure of the
  broker is answered as retryable.\<close>

lemma accept_errors_with_apache:
  assumes "Accept E i (apache_publish K p) n service w = (Inl e, n', w')"
  shows "is_validation e \<or> is_internal_accept_error e \<or> apache.classified e = Some True"
proof -
  from assms have "is_validation e \<or> is_internal_accept_error e
      \<or> (\<exists>inp y y'. apache_publish K p inp y = (Some e, y'))"
    by (auto simp: Accept_def Let_def timed_publish_def dest: Validate_Some
        split: option.splits sum.splits prod.splits)
  then show ?thesis
    by (auto simp: apache.classified_def errors_as_here dest!: apache_publish_transient)
qed

end
