(* ===== verification/HttpServer.thy ===== *)
theory HttpServer
  imports Auth Envelope Ingest_Spec
begin

text \<open>
  \<open>internal/writer/httpserver\<close>: the submission handler (\<open>handlers.go\<close>), the generated parameter
  binding (\<open>ServerInterfaceWrapper\<close>), and the middleware stack of the server (\<open>router.go\<close>). The
  router of gorilla/mux is an argument \<open>serve\<close>, given the routes the source registers.
\<close>

subsection \<open>Decoding the request\<close>

definition contentTypeJSON :: string where
  "contentTypeJSON = ''application/json''"

definition contentTypeProtobuf :: string where
  "contentTypeProtobuf = ''application/x-protobuf''"

definition contentTypeProtobufAlt :: string where
  "contentTypeProtobufAlt = ''application/protobuf''"

definition maxRequestBodyBytes :: nat where
  "maxRequestBodyBytes = 2 ^ 20"

definition contentTypeOf :: "'ts ext \<Rightarrow> request \<Rightarrow> string" where
  "contentTypeOf E r =
     (let ct = header_get (r_header r) ''Content-Type'';
          ct' = takeWhile (\<lambda>c. c \<noteq> CHR '';'') ct
      in trim_space (to_lower (x_ulower E) ct'))"

text \<open>\<open>io.ReadAll(http.MaxBytesReader(nil, r.Body, limit))\<close>.\<close>

definition read_body :: "request \<Rightarrow> goerr + string" where
  "read_body r =
     (if maxRequestBodyBytes < length (r_body r)
      then Inl (ForeignErr ''http: request body too large'' None)
      else case r_body_err r of Some e \<Rightarrow> Inl e | None \<Rightarrow> Inr (r_body r))"

definition decodeBody :: "'ts ext \<Rightarrow> request \<Rightarrow> string \<Rightarrow> problem + 'ts notification" where
  "decodeBody E r rid =
     (let ct = contentTypeOf E r in
      case read_body r of
        Inl _ \<Rightarrow> Inl (ValidationFailed rid (r_path r) ''could not read request body'' [])
      | Inr body \<Rightarrow>
          (if ct = contentTypeJSON then
             (case x_pj_unmarshal E body of
                Inl e \<Rightarrow> Inl (ValidationFailed rid (r_path r) (''invalid JSON: '' @ error_string e) [])
              | Inr n \<Rightarrow> Inr n)
           else if ct = contentTypeProtobuf \<or> ct = contentTypeProtobufAlt then
             (case x_unmarshal E body of
                Inl e \<Rightarrow> Inl (ValidationFailed rid (r_path r) (''invalid protobuf: '' @ error_string e) [])
              | Inr n \<Rightarrow> Inr n)
           else Inl (UnsupportedContentType rid (r_path r) ct)))"

subsection \<open>The handler\<close>

record 'x handlers =
  h_ingester :: "'x ingester option"
  h_requestID :: "(request \<Rightarrow> string) option"

definition WithIngester :: "'x ingester option \<Rightarrow> 'x handlers \<Rightarrow> 'x handlers" where
  "WithIngester i h = h\<lparr>h_ingester := i\<rparr>"

definition WithRequestIDExtractor :: "(request \<Rightarrow> string) option \<Rightarrow> 'x handlers \<Rightarrow> 'x handlers" where
  "WithRequestIDExtractor fn h = h\<lparr>h_requestID := fn\<rparr>"

definition default_requestID :: "request \<Rightarrow> string" where
  "default_requestID r = header_get (r_header r) ''X-Request-Id''"

definition NewHandlers :: "('x handlers \<Rightarrow> 'x handlers) list \<Rightarrow> goerr + 'x handlers" where
  "NewHandlers opts =
     (let h = apply_opts opts \<lparr>h_ingester = None, h_requestID = None\<rparr> in
      if h_ingester h = None then Inl (NewErr ''httpserver: WithIngester is required'')
      else Inr (if h_requestID h = None then h\<lparr>h_requestID := Some default_requestID\<rparr> else h))"

lemmas handlers_option_defs [option_simps] = WithIngester_def WithRequestIDExtractor_def

definition outcomeForIngestError :: "goerr \<Rightarrow> string" where
  "outcomeForIngestError err =
     (if errors_as is_validation err \<noteq> None then OutcomeValidationFailed
      else case errors_as is_publish err of
             Some (PublishError transient _) \<Rightarrow>
               (if transient then OutcomeSubstrateUnavailable else OutcomeInternal)
           | _ \<Rightarrow> OutcomeInternal)"

definition writeIngestError ::
  "'ts ext \<Rightarrow> response_writer \<Rightarrow> request \<Rightarrow> string \<Rightarrow> goerr \<Rightarrow> response_writer" where
  "writeIngestError E w r rid err =
     (case errors_as is_validation err of
        Some (ValidationError flds) \<Rightarrow>
          write_problem E
            (ValidationFailed rid (r_path r) (error_string (ValidationError flds)) flds) w
      | _ \<Rightarrow>
          (case errors_as is_publish err of
             Some (PublishError transient _) \<Rightarrow>
               (if transient then
                  write_problem E
                    (SubstrateUnavailable rid (r_path r)
                       ''messaging substrate is temporarily unavailable'')
                    (set_header ''Retry-After'' ''5'' w)
                else write_problem E (Internal rid (r_path r)) w)
           | _ \<Rightarrow> write_problem E (Internal rid (r_path r)) w))"

record submitData =
  sd_notification_id :: string
  sd_accepted_at :: string

definition submitData_json :: "submitData \<Rightarrow> json" where
  "submitData_json d = JObject
     [(''notification_id'', JString (sd_notification_id d)),
      (''accepted_at'', JString (sd_accepted_at d))]"

text \<open>
  The handler up to the deferred metric: the outcome label and the service name the deferred
  function will read, the writer, and the world after \<open>Accept\<close>.
\<close>

definition submit_core ::
  "'ts ext \<Rightarrow> 'x ingester \<Rightarrow> 'x publisher_fn \<Rightarrow> string \<Rightarrow> response_writer \<Rightarrow> request
    \<Rightarrow> string option \<Rightarrow> 'x writer_world \<Rightarrow> string \<times> string \<times> response_writer \<times> 'x writer_world" where
  "submit_core E i publish rid w r idem x =
     (case decodeBody E r rid of
        Inl perr \<Rightarrow> (OutcomeValidationFailed, [], write_problem E perr w, x)
      | Inr n \<Rightarrow>
          (case FromContext r of
             None \<Rightarrow> (OutcomeAuthFailed, [], write_problem E (AuthenticationRequired rid (r_path r)) w, x)
           | Some p \<Rightarrow>
               (let n1 = (case idem of None \<Rightarrow> n | Some k \<Rightarrow> n\<lparr>n_idempotency_key := k\<rparr>) in
                case Accept E i publish (Some n1) (service_name p) x of
                  (Inl err, _, x') \<Rightarrow>
                    (outcomeForIngestError err, service_name p, writeIngestError E w r rid err, x')
                | (Inr res, _, x') \<Rightarrow>
                    (OutcomeAccepted, service_name p,
                     write_envelope E submitData_json 202 rid
                       \<lparr>sd_notification_id = ar_notification_id res,
                        sd_accepted_at = format_ms (ar_accepted_at res)\<rparr> w,
                     x'))))"

text \<open>
  \<open>requestID\<close> and the ingester are never nil in a value \<open>NewHandlers\<close> returned, nor the publisher
  in a value \<open>NewIngester\<close> returned; a nil one is a panic.
\<close>

definition SubmitNotification ::
  "'ts ext \<Rightarrow> 'x handlers \<Rightarrow> response_writer \<Rightarrow> request \<Rightarrow> string option
    \<Rightarrow> 'x writer_world \<Rightarrow> (response_writer \<times> 'x writer_world) handled" where
  "SubmitNotification E h w r idem x =
     (case (h_requestID h, Option.bind (h_ingester h) (\<lambda>i. map_option (Pair i) (i_publisher i))) of
        (Some f, Some (i, publish)) \<Rightarrow>
          (case submit_core E i publish (f r) w r idem x of
             (outcome, service, w', x') \<Rightarrow>
               Returned (w', x'\<lparr>ww_metrics := RecordWriterSubmission outcome service (ww_metrics x')\<rparr>))
      | _ \<Rightarrow> Panicked (w, x))"

subsection \<open>The generated wrapper\<close>

text \<open>
  \<open>ServerInterface\<close> is its one method, with the parameter object as the optional idempotency key it
  holds. \<open>bind\<close> is \<open>runtime.BindStyledParameterWithOptions\<close> for a simple string header. The wrapper
  calls its \<open>ErrorHandlerFunc\<close> on a bad parameter; calling a nil one panics. The value it sets under
  \<open>BearerAuthScopes\<close> is read by nothing and left out.
\<close>

type_synonym 'w server_interface =
  "response_writer \<Rightarrow> request \<Rightarrow> string option \<Rightarrow> 'w \<Rightarrow> (response_writer \<times> 'w) handled"

record 'w wrapper =
  siw_Handler :: "'w server_interface"
  siw_ErrorHandlerFunc :: "(goerr \<Rightarrow> 'w handler) option"
  siw_HandlerMiddlewares :: "('w handler \<Rightarrow> 'w handler) list"

definition call_error_handler :: "(goerr \<Rightarrow> 'w handler) option \<Rightarrow> goerr \<Rightarrow> 'w handler" where
  "call_error_handler eh err r w x =
     (case eh of None \<Rightarrow> Panicked (w, x) | Some f \<Rightarrow> f err r w x)"

definition wrapper_SubmitNotification ::
  "(string \<Rightarrow> goerr + string) \<Rightarrow> 'w wrapper \<Rightarrow> 'w handler" where
  "wrapper_SubmitNotification bind siw r w x =
     (let run = (\<lambda>idem. apply_opts (siw_HandlerMiddlewares siw)
                   (\<lambda>r w x. siw_Handler siw w r idem x) r w x);
          fail = (\<lambda>err. call_error_handler (siw_ErrorHandlerFunc siw) err r w x)
      in case r_header r ''Idempotency-Key'' of
           None \<Rightarrow> run None
         | Some values \<Rightarrow>
             (if length values \<noteq> 1 then
                fail (TooManyValuesForParamError ''Idempotency-Key'' (int (length values)))
              else case bind (hd values) of
                     Inl err \<Rightarrow> fail (InvalidParamFormatError ''Idempotency-Key'' err)
                   | Inr key \<Rightarrow> run (Some key)))"

subsection \<open>The middleware stack\<close>

text \<open>The lines the writer logs: those of a request, and those of the process.\<close>

datatype http_log =
    HttpRequest string string int string
  | HttpPanic string string
  | WriterStarting string string string "string list"
  | WriterListening string
  | WriterShutdownBeginning
  | WriterShutdownComplete

type_synonym 'x http_logger = "http_log \<Rightarrow> 'x \<Rightarrow> 'x"

definition on_env :: "('x \<Rightarrow> 'x) \<Rightarrow> 'x writer_world \<Rightarrow> 'x writer_world" where
  "on_env f x = x\<lparr>ww_env := f (ww_env x)\<rparr>"

lemma on_env_simps [simp]:
  "ww_metrics (on_env f x) = ww_metrics x" "ww_env (on_env f x) = f (ww_env x)"
  by (simp_all add: on_env_def)

definition RequestIDFromContext :: "request \<Rightarrow> string" where
  "RequestIDFromContext r = (case ctx_request_id r of Some v \<Rightarrow> v | None \<Rightarrow> [])"

definition new_request_id :: "('x \<Rightarrow> (goerr + string) \<times> 'x) \<Rightarrow> request \<Rightarrow> 'x \<Rightarrow> string \<times> 'x" where
  "new_request_id newV7 r x =
     (let rid = header_get (r_header r) ''X-Request-Id'' in
      if rid = [] then
        (case newV7 x of
           (Inr u, x') \<Rightarrow> (''req_'' @ u, x')
         | (Inl _, x') \<Rightarrow> (''req_unknown'', x'))
      else (rid, x))"

definition requestIDMiddleware ::
  "('x \<Rightarrow> (goerr + string) \<times> 'x) \<Rightarrow> 'x writer_world handler \<Rightarrow> 'x writer_world handler" where
  "requestIDMiddleware newV7 next r w x =
     (case new_request_id newV7 r (ww_env x) of
        (rid, env') \<Rightarrow>
          next (r\<lparr>ctx_request_id := Some rid\<rparr>) (set_header ''X-Request-Id'' rid w)
            (x\<lparr>ww_env := env'\<rparr>))"

text \<open>The status a \<open>statusCapture\<close> ends with: the last code passed through it, 200 if none was.\<close>

definition captured_status :: "response_writer \<Rightarrow> response_writer \<Rightarrow> int" where
  "captured_status w w' =
     (let codes = drop (length (rw_calls w)) (rw_calls w') in if codes = [] then 200 else last codes)"

definition accessLogMiddleware ::
  "'x http_logger \<Rightarrow> 'x writer_world handler \<Rightarrow> 'x writer_world handler" where
  "accessLogMiddleware logger next r w x =
     (case next r w x of
        Returned (w', x') \<Rightarrow>
          Returned (w', on_env (logger (HttpRequest (r_method r) (r_path r) (captured_status w w')
                                          (RequestIDFromContext r))) x')
      | Panicked y \<Rightarrow> Panicked y)"

definition recoverMiddleware ::
  "'x http_logger \<Rightarrow> 'x writer_world handler \<Rightarrow> 'x writer_world handler" where
  "recoverMiddleware logger next r w x =
     (case next r w x of
        Returned y \<Rightarrow> Returned y
      | Panicked (w', x') \<Rightarrow>
          Returned (http_error ''internal server error'' 500 w',
                    on_env (logger (HttpPanic (r_path r) (RequestIDFromContext r))) x'))"

definition conditionalAuth :: "'x handler \<Rightarrow> 'x handler \<Rightarrow> 'x handler" where
  "conditionalAuth raw authed r w x = (if r_path r = ''/healthz'' then raw r w x else authed r w x)"

subsection \<open>The server\<close>

record 'x server =
  sv_handler :: "'x handlers option"
  sv_authenticator :: "(request \<Rightarrow> goerr + principal) option"
  sv_logger :: "'x http_logger option"
  sv_addr :: "string option"

definition WithHandler :: "'x handlers option \<Rightarrow> 'x server \<Rightarrow> 'x server" where
  "WithHandler h s = s\<lparr>sv_handler := h\<rparr>"

definition WithAuthenticator :: "(request \<Rightarrow> goerr + principal) option \<Rightarrow> 'x server \<Rightarrow> 'x server" where
  "WithAuthenticator a s = s\<lparr>sv_authenticator := a\<rparr>"

definition WithLogger :: "'x http_logger option \<Rightarrow> 'x server \<Rightarrow> 'x server" where
  "WithLogger l s = s\<lparr>sv_logger := l\<rparr>"

definition WithAddress :: "string \<Rightarrow> 'x server \<Rightarrow> 'x server" where
  "WithAddress addr s = s\<lparr>sv_addr := Some addr\<rparr>"

lemmas server_option_defs [option_simps] =
  WithHandler_def WithAuthenticator_def WithLogger_def WithAddress_def

text \<open>A route of the mux: an optional method, a path, a handler.\<close>

type_synonym 'x route = "string option \<times> string \<times> 'x handler"
type_synonym 'x mux = "'x route list \<Rightarrow> 'x handler"

definition healthz :: "'x handler" where
  "healthz r w x = Returned (write_header 204 w, x)"

definition server_routes ::
  "'ts ext \<Rightarrow> (string \<Rightarrow> goerr + string) \<Rightarrow> 'x handlers \<Rightarrow> 'x writer_world route list" where
  "server_routes E bind h =
     [(None, ''/healthz'', healthz),
      (Some ''POST'', ''/notifications'',
       wrapper_SubmitNotification bind
         \<lparr>siw_Handler = SubmitNotification E h, siw_ErrorHandlerFunc = None, siw_HandlerMiddlewares = []\<rparr>)]"

definition server_chain ::
  "'ts ext \<Rightarrow> (string \<Rightarrow> goerr + string) \<Rightarrow> ('x \<Rightarrow> (goerr + string) \<times> 'x)
    \<Rightarrow> 'x writer_world mux \<Rightarrow> 'x http_logger \<Rightarrow> 'x handlers \<Rightarrow> (request \<Rightarrow> goerr + principal)
    \<Rightarrow> 'x writer_world handler" where
  "server_chain E bind newV7 serve logger h authn =
     (let r = serve (server_routes E bind h);
          authed = Middleware E authn r [WithRequestIDFunc (Some RequestIDFromContext)]
      in recoverMiddleware logger
           (requestIDMiddleware newV7
             (accessLogMiddleware logger (conditionalAuth r authed))))"

definition NewServer ::
  "'ts ext \<Rightarrow> (string \<Rightarrow> goerr + string) \<Rightarrow> ('x \<Rightarrow> (goerr + string) \<times> 'x)
    \<Rightarrow> 'x writer_world mux \<Rightarrow> 'x http_logger \<Rightarrow> ('x server \<Rightarrow> 'x server) list
    \<Rightarrow> goerr + 'x writer_world handler" where
  "NewServer E bind newV7 serve default_logger opts =
     (let s = apply_opts opts
                \<lparr>sv_handler = None, sv_authenticator = None, sv_logger = None, sv_addr = None\<rparr>
      in case sv_handler s of
           None \<Rightarrow> Inl (NewErr ''httpserver: WithHandler is required'')
         | Some h \<Rightarrow>
             (case sv_authenticator s of
                None \<Rightarrow> Inl (NewErr ''httpserver: WithAuthenticator is required'')
              | Some a \<Rightarrow>
                  (let logger = (case sv_logger s of None \<Rightarrow> default_logger | Some l \<Rightarrow> l) in
                   if sv_addr s = None \<or> sv_addr s = Some [] then
                     Inl (NewErr ''httpserver: WithAddress is required'')
                   else Inr (server_chain E bind newV7 serve logger h a))))"

end
