(* ===== verification/Client.thy ===== *)
theory Client
  imports Go_Json Time_Parse Problems Envelope HttpServer
begin

text \<open>
  \<open>pkg/notificationclient\<close>: the importable client of the writer. It wraps the generated client
  (\<open>generated/client.gen.go\<close>), whose request construction is modelled with it. What the client
  uses of \<open>net/url\<close> (resolving the operation path against the server URL) and of the oapi-codegen
  runtime (styling a header parameter) are arguments, as is the HTTP doer.
\<close>

subsection \<open>Problems on the client's side\<close>

datatype sentinel =
    CErrValidationFailed
  | CErrAuthenticationRequired
  | CErrAuthenticationFailed
  | CErrIdempotencyConflict
  | CErrUnsupportedContentType
  | CErrSubstrateUnavailable
  | CErrInternal
  | CErrUnknownProblem

definition sentinelFor :: "string \<Rightarrow> sentinel" where
  "sentinelFor typeURI =
     (if typeURI = ''https://pulsar-notifcation-pipeline.example/problems/validation-failed''
      then CErrValidationFailed
      else if typeURI = ''https://pulsar-notifcation-pipeline.example/problems/authentication-required''
      then CErrAuthenticationRequired
      else if typeURI = ''https://pulsar-notifcation-pipeline.example/problems/authentication-failed''
      then CErrAuthenticationFailed
      else if typeURI = ''https://pulsar-notifcation-pipeline.example/problems/idempotency-conflict''
      then CErrIdempotencyConflict
      else if typeURI = ''https://pulsar-notifcation-pipeline.example/problems/unsupported-content-type''
      then CErrUnsupportedContentType
      else if typeURI = ''https://pulsar-notifcation-pipeline.example/problems/substrate-unavailable''
      then CErrSubstrateUnavailable
      else if typeURI = ''https://pulsar-notifcation-pipeline.example/problems/internal''
      then CErrInternal
      else CErrUnknownProblem)"

record problem_error =
  ce_TypeURI :: string
  ce_title :: string
  ce_status :: int
  ce_detail :: string
  ce_instance :: string
  ce_reqID :: string
  ce_fields :: "field_error list"
  ce_sentinel :: sentinel

text \<open>Submit returns an error of a library or one of its own, or a problem document.\<close>

datatype client_error = ClientErr goerr | ProblemErr problem_error

fun client_is :: "client_error \<Rightarrow> sentinel \<Rightarrow> bool" where
  "client_is (ProblemErr pe) s = (s = ce_sentinel pe)"
| "client_is (ClientErr _) s = False"

fun sentinel_text :: "sentinel \<Rightarrow> string" where
  "sentinel_text CErrValidationFailed = ''notificationclient: validation-failed''"
| "sentinel_text CErrAuthenticationRequired = ''notificationclient: authentication-required''"
| "sentinel_text CErrAuthenticationFailed = ''notificationclient: authentication-failed''"
| "sentinel_text CErrIdempotencyConflict = ''notificationclient: idempotency-conflict''"
| "sentinel_text CErrUnsupportedContentType = ''notificationclient: unsupported-content-type''"
| "sentinel_text CErrSubstrateUnavailable = ''notificationclient: substrate-unavailable''"
| "sentinel_text CErrInternal = ''notificationclient: internal''"
| "sentinel_text CErrUnknownProblem = ''notificationclient: unknown-problem-type''"

text \<open>The dash of the message, by its bytes in UTF-8.\<close>

definition em_dash :: string where
  "em_dash = map char_of [226, 128, 148 :: nat]"

definition problem_text :: "problem_error option \<Rightarrow> string" where
  "problem_text e =
     (case e of
        None \<Rightarrow> ''notificationclient: nil problem''
      | Some pe \<Rightarrow>
          sentinel_text (ce_sentinel pe) @ '' (status '' @ itoa (ce_status pe) @ '')''
          @ (if ce_title pe \<noteq> [] then '': '' @ ce_title pe @ '' '' @ em_dash @ '' '' @ ce_detail pe else []))"

text \<open>What a caller reads of a problem; the list of field errors is a copy.\<close>

definition pe_Type :: "problem_error \<Rightarrow> string" where
  "pe_Type e = ce_TypeURI e"

definition pe_Title :: "problem_error \<Rightarrow> string" where
  "pe_Title e = ce_title e"

definition pe_Status :: "problem_error \<Rightarrow> int" where
  "pe_Status e = ce_status e"

definition pe_Detail :: "problem_error \<Rightarrow> string" where
  "pe_Detail e = ce_detail e"

definition pe_Instance :: "problem_error \<Rightarrow> string" where
  "pe_Instance e = ce_instance e"

definition pe_RequestID :: "problem_error \<Rightarrow> string" where
  "pe_RequestID e = ce_reqID e"

definition pe_FieldErrors :: "problem_error \<Rightarrow> field_error list" where
  "pe_FieldErrors e = [] @ ce_fields e"

lemmas problem_accessors =
  pe_Type_def pe_Title_def pe_Status_def pe_Detail_def pe_Instance_def pe_RequestID_def pe_FieldErrors_def

record problem_wire =
  w_Type :: string
  w_Title :: string
  w_Status :: int
  w_Detail :: string
  w_Instance :: string
  w_RequestID :: string
  w_Errors :: "field_error list"

definition wireError_fields :: "field_error json_field list" where
  "wireError_fields =
     [(''field'', field_of fe_field (\<lambda>v s. s\<lparr>fe_field := v\<rparr>) dec_string),
      (''code'', field_of fe_code (\<lambda>v s. s\<lparr>fe_code := v\<rparr>) dec_string),
      (''message'', field_of fe_message (\<lambda>v s. s\<lparr>fe_message := v\<rparr>) dec_string)]"

definition problemWire_fields :: "problem_wire json_field list" where
  "problemWire_fields =
     [(''type'', field_of w_Type (\<lambda>v s. s\<lparr>w_Type := v\<rparr>) dec_string),
      (''title'', field_of w_Title (\<lambda>v s. s\<lparr>w_Title := v\<rparr>) dec_string),
      (''status'', field_of w_Status (\<lambda>v s. s\<lparr>w_Status := v\<rparr>) dec_int),
      (''detail'', field_of w_Detail (\<lambda>v s. s\<lparr>w_Detail := v\<rparr>) dec_string),
      (''instance'', field_of w_Instance (\<lambda>v s. s\<lparr>w_Instance := v\<rparr>) dec_string),
      (''request_id'', field_of w_RequestID (\<lambda>v s. s\<lparr>w_RequestID := v\<rparr>) dec_string),
      (''errors'', field_of w_Errors (\<lambda>v s. s\<lparr>w_Errors := v\<rparr>)
                   (dec_list (dec_struct wireError_fields) (FieldErr [] [] [])))]"

definition empty_wire :: problem_wire where
  "empty_wire = \<lparr>w_Type = [], w_Title = [], w_Status = 0, w_Detail = [], w_Instance = [],
     w_RequestID = [], w_Errors = []\<rparr>"

definition decodeProblem :: "'ts ext \<Rightarrow> string \<Rightarrow> int \<Rightarrow> problem_error" where
  "decodeProblem E body fallbackStatus =
     (let w = snd (json_unmarshal E body (dec_struct problemWire_fields) empty_wire) in
      \<lparr>ce_TypeURI = w_Type w, ce_title = w_Title w,
       ce_status = (if w_Status w = 0 then fallbackStatus else w_Status w),
       ce_detail = w_Detail w, ce_instance = w_Instance w, ce_reqID = w_RequestID w,
       ce_fields = w_Errors w, ce_sentinel = sentinelFor (w_Type w)\<rparr>)"

subsection \<open>Responses\<close>

record client_envelope =
  en_data :: submitData
  en_meta :: env_meta

definition submitData_fields :: "submitData json_field list" where
  "submitData_fields =
     [(''notification_id'', field_of sd_notification_id (\<lambda>v s. s\<lparr>sd_notification_id := v\<rparr>) dec_string),
      (''accepted_at'', field_of sd_accepted_at (\<lambda>v s. s\<lparr>sd_accepted_at := v\<rparr>) dec_string)]"

definition meta_fields :: "env_meta json_field list" where
  "meta_fields = [(''request_id'', field_of m_request_id (\<lambda>v s. s\<lparr>m_request_id := v\<rparr>) dec_string)]"

definition envelope_fields :: "client_envelope json_field list" where
  "envelope_fields =
     [(''data'', field_of en_data (\<lambda>v s. s\<lparr>en_data := v\<rparr>) (dec_struct submitData_fields)),
      (''meta'', field_of en_meta (\<lambda>v s. s\<lparr>en_meta := v\<rparr>) (dec_struct meta_fields))]"

definition empty_envelope :: client_envelope where
  "empty_envelope = \<lparr>en_data = \<lparr>sd_notification_id = [], sd_accepted_at = []\<rparr>,
     en_meta = \<lparr>m_request_id = []\<rparr>\<rparr>"

text \<open>An HTTP response: the status, the header and the body, with the error a read of it ended in.\<close>

record http_response =
  hr_status :: int
  hr_header :: header
  hr_body :: string
  hr_body_err :: "goerr option"

definition parseResponse :: "'ts ext \<Rightarrow> http_response \<Rightarrow> client_error + client_envelope" where
  "parseResponse E resp =
     (case hr_body_err resp of
        Some e \<Rightarrow> Inl (ClientErr (WrapErr ''notificationclient: read response'' e))
      | None \<Rightarrow>
          (if 200 \<le> hr_status resp \<and> hr_status resp < 300 then
             (case json_unmarshal E (hr_body resp) (dec_struct envelope_fields) empty_envelope of
                (Some e, _) \<Rightarrow> Inl (ClientErr (WrapErr ''notificationclient: decode success envelope'' e))
              | (None, env) \<Rightarrow> Inr env)
           else Inl (ProblemErr (decodeProblem E (hr_body resp) (hr_status resp)))))"

definition NotificationID :: "client_envelope \<Rightarrow> string" where
  "NotificationID r = sd_notification_id (en_data r)"

definition RequestID :: "client_envelope \<Rightarrow> string" where
  "RequestID r = m_request_id (en_meta r)"

text \<open>The zero time where the member is missing or no layout fits it.\<close>

fun first_parsed :: "layout_item list list \<Rightarrow> string \<Rightarrow> gotime" where
  "first_parsed [] s = zero_time"
| "first_parsed (l # ls) s = (case time_parse l s of Some t \<Rightarrow> t | None \<Rightarrow> first_parsed ls s)"

definition AcceptedAt :: "client_envelope \<Rightarrow> gotime" where
  "AcceptedAt r =
     (let s = sd_accepted_at (en_data r) in
      if s = [] then zero_time else first_parsed [layout_ms, RFC3339Nano, RFC3339] s)"

subsection \<open>The generated client\<close>

record http_out =
  ho_method :: string
  ho_url :: string
  ho_header :: header
  ho_body :: string

type_synonym 'x doer = "http_out \<Rightarrow> 'x \<Rightarrow> (goerr + http_response) \<times> 'x"
type_synonym request_editor = "http_out \<Rightarrow> goerr + http_out"

record 'x raw_client =
  rc_Server :: string
  rc_Client :: "'x doer option"
  rc_RequestEditors :: "request_editor list"

text \<open>
  The libraries: \<open>ux_parse\<close> parses a URL and prints it, \<open>ux_resolve server path\<close> parses the server URL, resolves the path and checks that a
  request can be made for the result; \<open>ux_style\<close> renders a simple header parameter.
\<close>

record client_libs =
  ux_parse :: "string \<Rightarrow> goerr + string"
  ux_resolve :: "string \<Rightarrow> string \<Rightarrow> goerr + string"
  ux_style :: "string \<Rightarrow> goerr + string"

type_synonym 'x generated_option = "'x raw_client \<Rightarrow> goerr + 'x raw_client"

definition generated_WithHTTPClient :: "'x doer option \<Rightarrow> 'x generated_option" where
  "generated_WithHTTPClient d c = Inr (c\<lparr>rc_Client := d\<rparr>)"

definition WithRequestEditorFn :: "request_editor \<Rightarrow> 'x generated_option" where
  "WithRequestEditorFn fn c = Inr (c\<lparr>rc_RequestEditors := rc_RequestEditors c @ [fn]\<rparr>)"

definition generated_WithBaseURL :: "client_libs \<Rightarrow> string \<Rightarrow> 'x generated_option" where
  "generated_WithBaseURL U baseURL c =
     (case ux_parse U baseURL of Inl e \<Rightarrow> Inl e | Inr u \<Rightarrow> Inr (c\<lparr>rc_Server := u\<rparr>))"

fun apply_fallible :: "('s \<Rightarrow> 'e + 's) list \<Rightarrow> 's \<Rightarrow> 'e + 's" where
  "apply_fallible [] s = Inr s"
| "apply_fallible (f # fs) s = (case f s of Inl e \<Rightarrow> Inl e | Inr s' \<Rightarrow> apply_fallible fs s')"

definition generated_NewClient ::
  "'x doer \<Rightarrow> string \<Rightarrow> 'x generated_option list \<Rightarrow> goerr + 'x raw_client" where
  "generated_NewClient default_doer server opts =
     bind_res (apply_fallible opts \<lparr>rc_Server = server, rc_Client = None, rc_RequestEditors = []\<rparr>)
       (\<lambda>c. Inr (c\<lparr>rc_Server := (if suffix ''/'' (rc_Server c) then rc_Server c else rc_Server c @ ''/''),
                  rc_Client := (case rc_Client c of None \<Rightarrow> Some default_doer | Some d \<Rightarrow> Some d)\<rparr>))"

fun applyEditors :: "request_editor list \<Rightarrow> http_out \<Rightarrow> goerr + http_out" where
  "applyEditors [] r = Inr r"
| "applyEditors (f # fs) r = (case f r of Inl e \<Rightarrow> Inl e | Inr r' \<Rightarrow> applyEditors fs r')"

definition NewSubmitNotificationRequestWithBody ::
  "client_libs \<Rightarrow> string \<Rightarrow> string option \<Rightarrow> string \<Rightarrow> string \<Rightarrow> goerr + http_out" where
  "NewSubmitNotificationRequestWithBody U server idem contentType body =
     (case ux_resolve U server ''./notifications'' of
        Inl e \<Rightarrow> Inl e
      | Inr u \<Rightarrow>
          (let h = header_set Map.empty ''Content-Type'' contentType;
               req = \<lparr>ho_method = ''POST'', ho_url = u, ho_header = h, ho_body = body\<rparr>
           in case idem of
                None \<Rightarrow> Inr req
              | Some k \<Rightarrow>
                  (case ux_style U k of
                     Inl e \<Rightarrow> Inl e
                   | Inr v \<Rightarrow> Inr (req\<lparr>ho_header := header_set h ''Idempotency-Key'' v\<rparr>))))"

text \<open>A nil doer is a panic, \<open>None\<close> here; \<open>NewClient\<close> sets one when no option has.\<close>

definition SubmitNotificationWithBody ::
  "client_libs \<Rightarrow> 'x raw_client \<Rightarrow> string option \<Rightarrow> string \<Rightarrow> string \<Rightarrow> request_editor list \<Rightarrow> 'x
    \<Rightarrow> (goerr + http_response) option \<times> 'x" where
  "SubmitNotificationWithBody U c idem contentType body editors x =
     (case NewSubmitNotificationRequestWithBody U (rc_Server c) idem contentType body of
        Inl e \<Rightarrow> (Some (Inl e), x)
      | Inr req \<Rightarrow>
          (case applyEditors (rc_RequestEditors c @ editors) req of
             Inl e \<Rightarrow> (Some (Inl e), x)
           | Inr req' \<Rightarrow>
               (case rc_Client c of
                  None \<Rightarrow> (None, x)
                | Some do \<Rightarrow> (case do req' x of (r, x') \<Rightarrow> (Some r, x')))))"

subsection \<open>The client\<close>

record 'x client =
  cl_raw :: "'x raw_client"
  cl_bearerToken :: string
  cl_userAgent :: string
  cl_contentType :: string

type_synonym 'x client_option = "'x client \<Rightarrow> goerr + 'x client"

definition WithBearerToken :: "string \<Rightarrow> 'x client_option" where
  "WithBearerToken token c = Inr (c\<lparr>cl_bearerToken := token\<rparr>)"

definition client_WithHTTPClient :: "'x doer option \<Rightarrow> 'x client_option" where
  "client_WithHTTPClient h c =
     bind_res (generated_WithHTTPClient h (cl_raw c)) (\<lambda>raw. Inr (c\<lparr>cl_raw := raw\<rparr>))"

definition WithUserAgent :: "string \<Rightarrow> 'x client_option" where
  "WithUserAgent ua c = Inr (c\<lparr>cl_userAgent := ua\<rparr>)"

definition WithContentType :: "string \<Rightarrow> 'x client_option" where
  "WithContentType ct c = Inr (c\<lparr>cl_contentType := ct\<rparr>)"

definition client_New :: "'x doer \<Rightarrow> string \<Rightarrow> 'x client_option list \<Rightarrow> goerr + 'x client" where
  "client_New default_doer baseURL opts =
     (if baseURL = [] then Inl (NewErr ''notificationclient: baseURL is required'')
      else bind_res (generated_NewClient default_doer baseURL [])
             (\<lambda>raw. apply_fallible opts
               \<lparr>cl_raw = raw, cl_bearerToken = [],
                cl_userAgent = ''pulsar-notifcation-pipeline-client/0.1'',
                cl_contentType = ''application/json''\<rparr>))"

record 'ts submit_request =
  sq_Notification :: "'ts notification option"
  sq_IdempotencyKey :: string

definition NewPushoverRequest :: "string \<Rightarrow> string \<Rightarrow> string \<Rightarrow> 'ts submit_request" where
  "NewPushoverRequest userOrGroupKey title body =
     \<lparr>sq_Notification = Some (empty_notification
        \<lparr>n_content := Some (empty_content\<lparr>c_title := title, c_body := body\<rparr>),
         n_target := Some (Notification_Pushover
           (Some (empty_pushover\<lparr>pt_user_or_group_key := userOrGroupKey\<rparr>)))\<rparr>),
      sq_IdempotencyKey = []\<rparr>"

definition submit_editor :: "'x client \<Rightarrow> request_editor" where
  "submit_editor c r =
     (let h1 = (if cl_bearerToken c \<noteq> []
                then header_set (ho_header r) ''Authorization'' (''Bearer '' @ cl_bearerToken c)
                else ho_header r);
          h2 = (if cl_userAgent c \<noteq> [] then header_set h1 ''User-Agent'' (cl_userAgent c) else h1)
      in Inr (r\<lparr>ho_header := h2\<rparr>))"

definition request_body :: "'ts ext \<Rightarrow> string \<Rightarrow> 'ts notification \<Rightarrow> goerr + string" where
  "request_body E ct n =
     (if ct = ''application/json'' \<or> ct = [] then x_pj_marshal E n
      else if ct = ''application/x-protobuf'' then x_marshal E n
      else Inl (NewErr (''notificationclient: unsupported content type: '' @ ct)))"

text \<open>
  \<open>Submit\<close> returns \<open>None\<close> where it panics, and with its result the notification as it leaves it,
  since it writes the key through the caller's pointer.
\<close>

definition Submit ::
  "'ts ext \<Rightarrow> client_libs \<Rightarrow> 'x client \<Rightarrow> 'ts submit_request option \<Rightarrow> 'x
    \<Rightarrow> (client_error + client_envelope) option \<times> 'ts submit_request option \<times> 'x" where
  "Submit E U c req x =
     (case Option.bind req (\<lambda>q. map_option (Pair q) (sq_Notification q)) of
        None \<Rightarrow> (Some (Inl (ClientErr (NewErr ''notificationclient: nil request''))), req, x)
      | Some (q, n) \<Rightarrow>
          (let key = sq_IdempotencyKey q;
               n' = (if key \<noteq> [] then n\<lparr>n_idempotency_key := key\<rparr> else n);
               q' = Some (q\<lparr>sq_Notification := Some n'\<rparr>)
           in case request_body E (cl_contentType c) n' of
                Inl e \<Rightarrow> (Some (Inl (ClientErr e)), q', x)
              | Inr body \<Rightarrow>
                  (let params = (if key \<noteq> [] then Some key else None);
                       ct = (if cl_contentType c = [] then ''application/json'' else cl_contentType c)
                   in case SubmitNotificationWithBody U (cl_raw c) params ct body [submit_editor c] x of
                        (None, x') \<Rightarrow> (None, q', x')
                      | (Some (Inl e), x') \<Rightarrow> (Some (Inl (ClientErr e)), q', x')
                      | (Some (Inr resp), x') \<Rightarrow> (Some (parseResponse E resp), q', x'))))"

subsection \<open>Decoding what the writer encodes\<close>

lemma dec_field_error: "dec_struct wireError_fields (field_error_json f) (FieldErr [] [] []) = (False, f)"
  by (cases f) (simp add: field_error_json_def wireError_fields_def decoder_defs FieldErr_def)

lemma dec_field_errors:
  "dec_list (dec_struct wireError_fields) (FieldErr [] [] []) (JArray (map field_error_json fs)) d
     = (False, fs)"
  by (induction fs) (simp_all add: dec_list_def dec_field_error)

definition wire_of :: "problem \<Rightarrow> problem_wire" where
  "wire_of p = \<lparr>w_Type = p_type p, w_Title = p_title p, w_Status = p_status p, w_Detail = p_detail p,
     w_Instance = p_instance p, w_RequestID = p_request_id p, w_Errors = p_errors p\<rparr>"

lemma catalogued_status_int: "catalogued p \<Longrightarrow> p_status p \<in> {400, 401, 409, 415, 503, 500}"
  by (auto simp: catalogued_def catalogue_status_def split: if_splits)

lemma dec_problem:
  assumes "catalogued p"
  shows "dec_struct problemWire_fields (problem_json p) empty_wire = (False, wire_of p)"
proof -
  have "dec_int (JInt (p_status p)) d = (False, p_status p)" for d
    using catalogued_status_int[OF assms] by (auto simp: dec_int_def min_int64_def max_int64_def)
  then show ?thesis
    using dec_field_errors[of "p_errors p"]
    by (simp add: problem_json_def problemWire_fields_def wire_of_def empty_wire_def dec_struct_def
        dec_member_def find_field_def field_of_def dec_string_def)
qed

lemma sentinelFor_type:
  "sentinelFor TypeValidationFailed = CErrValidationFailed"
  "sentinelFor TypeAuthenticationRequired = CErrAuthenticationRequired"
  "sentinelFor TypeAuthenticationFailed = CErrAuthenticationFailed"
  "sentinelFor TypeIdempotencyConflict = CErrIdempotencyConflict"
  "sentinelFor TypeUnsupportedContentType = CErrUnsupportedContentType"
  "sentinelFor TypeSubstrateUnavailable = CErrSubstrateUnavailable"
  "sentinelFor TypeInternal = CErrInternal"
  by (simp_all add: sentinelFor_def type_uri_defs TypeBase_def)

lemma sentinelFor_known: "sentinelFor u = CErrUnknownProblem \<longleftrightarrow> u \<notin> set catalogue"
  by (simp add: sentinelFor_def catalogue_def type_uri_defs TypeBase_def)

end
