(* ===== verification/HttpServer_Spec.thy ===== *)
theory HttpServer_Spec
  imports HttpServer
begin

text \<open>
  What a client of the writer sees: every answer of the submission handler is the 202 envelope of
  an accepted notification or one problem of the catalogue, the metric label agrees with the
  status sent, and a request that is not authenticated reaches neither the publisher nor the
  counters.
\<close>

subsection \<open>Answers of the handler\<close>

definition answers_problem ::
  "'ts ext \<Rightarrow> request \<Rightarrow> string \<Rightarrow> response_writer \<Rightarrow> response_writer \<Rightarrow> problem \<Rightarrow> bool" where
  "answers_problem E r rid w w' pr \<longleftrightarrow>
     catalogued pr \<and> p_request_id pr = rid \<and> p_instance pr = r_path r
     \<and> w' = write_problem E pr
              (if p_status pr = 503 then set_header ''Retry-After'' ''5'' w else w)"

text \<open>The label of the submissions counter for each status the handler sends.\<close>

definition label_of_status :: "int \<Rightarrow> string" where
  "label_of_status s =
     (if s = 202 then OutcomeAccepted
      else if s = 400 \<or> s = 415 then OutcomeValidationFailed
      else if s = 401 then OutcomeAuthFailed
      else if s = 503 then OutcomeSubstrateUnavailable
      else OutcomeInternal)"

lemma label_accepted_iff: "label_of_status s = OutcomeAccepted \<longleftrightarrow> s = 202"
  by (simp add: label_of_status_def outcome_label_defs)

lemma label_202: "label_of_status 202 = OutcomeAccepted"
  by (simp add: label_of_status_def)

lemma constructors_instance [simp]:
  "p_instance (ValidationFailed r i d fs) = i"
  "p_instance (AuthenticationRequired r i) = i"
  "p_instance (AuthenticationFailed r i) = i"
  "p_instance (UnsupportedContentType r i d) = i"
  "p_instance (SubstrateUnavailable r i d) = i"
  "p_instance (Internal r i) = i"
  by (simp_all add: problem_defs)

lemma answers_constructor [simp]:
  "answers_problem E r rid w (write_problem E (ValidationFailed rid (r_path r) d fs) w)
     (ValidationFailed rid (r_path r) d fs)"
  "answers_problem E r rid w (write_problem E (AuthenticationRequired rid (r_path r)) w)
     (AuthenticationRequired rid (r_path r))"
  "answers_problem E r rid w (write_problem E (UnsupportedContentType rid (r_path r) d) w)
     (UnsupportedContentType rid (r_path r) d)"
  "answers_problem E r rid w
     (write_problem E (SubstrateUnavailable rid (r_path r) d) (set_header ''Retry-After'' ''5'' w))
     (SubstrateUnavailable rid (r_path r) d)"
  "answers_problem E r rid w (write_problem E (Internal rid (r_path r)) w) (Internal rid (r_path r))"
  by (simp_all add: answers_problem_def)

lemma decodeBody_Inl:
  assumes "decodeBody E r rid = Inl perr"
  shows "answers_problem E r rid w (write_problem E perr w) perr
    \<and> label_of_status (p_status perr) = OutcomeValidationFailed"
  using assms
  by (auto simp: decodeBody_def Let_def label_of_status_def split: sum.splits if_splits)

lemma writeIngestError_answers:
  obtains pr where "answers_problem E r rid w (writeIngestError E w r rid err) pr"
    and "outcomeForIngestError err = label_of_status (p_status pr)"
    and "p_status pr \<in> {400, 503, 500}"
proof (cases "errors_as is_validation err")
  case (Some v)
  then obtain fs where "v = ValidationError fs" using errors_as_validationE by blast
  with Some show thesis
    by (intro that[OF answers_constructor(1)[of E r rid w
              "error_string (ValidationError fs)" fs, THEN back_subst[of "\<lambda>w'. answers_problem E r rid w w' _"]]])
       (simp_all add: writeIngestError_def outcomeForIngestError_def label_of_status_def)
next
  case None
  show thesis
  proof (cases "errors_as is_publish err")
    case None
    with \<open>errors_as is_validation err = None\<close> show thesis
      by (intro that[of "Internal rid (r_path r)"])
         (simp_all add: writeIngestError_def outcomeForIngestError_def label_of_status_def)
  next
    case (Some p)
    then obtain t c where "p = PublishError t c" using errors_as_publishE by blast
    note d = Some this \<open>errors_as is_validation err = None\<close>
    note defs = writeIngestError_def outcomeForIngestError_def label_of_status_def
    show thesis
    proof (cases t)
      case True
      with d show thesis
        by (intro that[of "SubstrateUnavailable rid (r_path r)
              ''messaging substrate is temporarily unavailable''"]) (simp_all add: defs)
    next
      case False
      with d show thesis
        by (intro that[of "Internal rid (r_path r)"]) (simp_all add: defs)
    qed
  qed
qed

text \<open>The handler's answer: the envelope after a successful \<open>Accept\<close>, or a problem.\<close>

definition with_key :: "string option \<Rightarrow> 'ts notification \<Rightarrow> 'ts notification" where
  "with_key idem n = (case idem of None \<Rightarrow> n | Some k \<Rightarrow> n\<lparr>n_idempotency_key := k\<rparr>)"

definition accepted_answer ::
  "'ts ext \<Rightarrow> string \<Rightarrow> accept_result \<Rightarrow> response_writer \<Rightarrow> response_writer" where
  "accepted_answer E rid res w =
     write_envelope E submitData_json 202 rid
       \<lparr>sd_notification_id = ar_notification_id res,
        sd_accepted_at = format_ms (ar_accepted_at res)\<rparr> w"

lemma submit_core_cases:
  assumes "submit_core E i publish rid w r idem x = (oc, svc, w', x')"
  obtains (accepted) n p res n' where
      "decodeBody E r rid = Inr n" "ctx_principal r = Some p" "svc = service_name p"
      "Accept E i publish (Some (with_key idem n)) (service_name p) x = (Inr res, n', x')"
      "w' = accepted_answer E rid res w" "oc = OutcomeAccepted"
    | (refused) n p err n' pr where
      "decodeBody E r rid = Inr n" "ctx_principal r = Some p" "svc = service_name p"
      "Accept E i publish (Some (with_key idem n)) (service_name p) x = (Inl err, n', x')"
      "answers_problem E r rid w w' pr" "oc = label_of_status (p_status pr)"
      "p_status pr \<in> {400, 503, 500}"
    | (early) pr where
      "answers_problem E r rid w w' pr" "oc = label_of_status (p_status pr)" "x' = x" "svc = []"
      "(\<exists>perr. decodeBody E r rid = Inl perr) \<or> ctx_principal r = None"
proof (cases "decodeBody E r rid")
  case (Inl perr)
  with assms decodeBody_Inl[OF Inl, of w] show thesis
    by (intro early[of perr]) (auto simp: submit_core_def)
next
  case (Inr n)
  show thesis
  proof (cases "ctx_principal r")
    case None
    with assms Inr show thesis
      by (intro early[of "AuthenticationRequired rid (r_path r)"])
         (auto simp: submit_core_def FromContext_def label_of_status_def)
  next
    case (Some p)
    obtain res n' y where a: "Accept E i publish (Some (with_key idem n)) (service_name p) x = (res, n', y)"
      by (metis prod_cases3)
    show thesis
    proof (cases res)
      case (Inl err)
      obtain pr where "answers_problem E r rid w (writeIngestError E w r rid err) pr"
        "outcomeForIngestError err = label_of_status (p_status pr)" "p_status pr \<in> {400, 503, 500}"
        by (rule writeIngestError_answers)
      with assms Inr Some a Inl show thesis
        by (intro refused) (auto simp: submit_core_def FromContext_def with_key_def Let_def)
    next
      case (Inr ok)
      with assms \<open>decodeBody E r rid = Inr n\<close> Some a show thesis
        by (intro accepted)
           (auto simp: submit_core_def FromContext_def with_key_def Let_def accepted_answer_def)
    qed
  qed
qed

lemma answers_status:
  assumes "answers_problem E r rid w w' pr" and "unsent w"
  shows "sent_status w' = p_status pr"
    and "rw_body w' = x_json_encode E (problem_json pr) @ [newline]"
    and "header_get (rw_sent w') ''Content-Type'' = ProblemContentType"
    and "rw_calls w' = rw_calls w @ [p_status pr]"
  using assms
  by (auto simp: answers_problem_def write_problem_def write_json_unsent set_header_def unsent_def)

lemma accepted_status:
  assumes "unsent w"
  shows "sent_status (accepted_answer E rid res w) = 202"
    and "rw_calls (accepted_answer E rid res w) = rw_calls w @ [202]"
  using assms by (simp_all add: accepted_answer_def write_envelope_def write_json_unsent)

lemma catalogued_status: "catalogued pr \<Longrightarrow> p_status pr \<noteq> 202"
  by (auto simp: catalogued_def catalogue_status_def split: if_splits)

end
