(* ===== verification/Data_Model.thy ===== *)
theory Data_Model
  imports Ingest_Spec
begin

text \<open>
  The field rules of \<open>data-model.md\<close> (sections 1 to 3) for a submitted notification, as the document
  states them, and how far \<open>Validate\<close> enforces them. A character is a UTF-8 character, a rune. The rule
  that an expiry is not before the creation time is read of the message as submitted; that the time
  assigned on acceptance is not looked at is stated apart. The uniqueness of an idempotency key
  within its window is about several submissions, and the writer keeps no record of keys.
\<close>

datatype doc_rule =
    Doc_title_length | Doc_title_space | Doc_body_length | Doc_priority
  | Doc_data_entries | Doc_data_key | Doc_data_value | Doc_content
  | Doc_target | Doc_user_key | Doc_device | Doc_sound | Doc_url | Doc_url_title | Doc_url_title_alone
  | Doc_expires | Doc_idempotency_key | Doc_id_absent | Doc_created_absent | Doc_service_absent

text \<open>The expression \<open>[a-zA-Z_][a-zA-Z0-9_]*\<close>.\<close>

definition key_shape :: "string \<Rightarrow> bool" where
  "key_shape k \<longleftrightarrow> k \<noteq> [] \<and> \<not> is_digit (hd k) \<and> (\<forall>c \<in> set k. is_alnum c \<or> c = CHR ''_'')"

fun content_breaks :: "content \<Rightarrow> doc_rule \<Rightarrow> bool" where
  "content_breaks c Doc_title_length = (c_title c = [] \<or> 250 < rune_count (c_title c))"
| "content_breaks c Doc_title_space = (trim_space (c_title c) \<noteq> c_title c)"
| "content_breaks c Doc_body_length = (c_body c = [] \<or> 1024 < rune_count (c_body c))"
| "content_breaks c Doc_priority = (sint (c_priority c) \<notin> {-2..2})"
| "content_breaks c Doc_data_entries = (32 < length (c_data c))"
| "content_breaks c Doc_data_key = (\<exists>kv \<in> set (c_data c). 64 < rune_count (fst kv) \<or> \<not> key_shape (fst kv))"
| "content_breaks c Doc_data_value = (\<exists>kv \<in> set (c_data c). 512 < rune_count (snd kv))"
| "content_breaks c _ = False"

fun pushover_breaks :: "'ts ext \<Rightarrow> pushover_target \<Rightarrow> doc_rule \<Rightarrow> bool" where
  "pushover_breaks E t Doc_user_key = (\<not> user_key_ok (pt_user_or_group_key t))"
| "pushover_breaks E t Doc_device = (pt_device_name t \<noteq> []
     \<and> (25 < rune_count (pt_device_name t) \<or> \<not> device_chars_ok (pt_device_name t)))"
| "pushover_breaks E t Doc_sound = (25 < rune_count (pt_sound t))"
| "pushover_breaks E t Doc_url = (pt_url t \<noteq> [] \<and> (512 < rune_count (pt_url t) \<or> \<not> absolute_url E (pt_url t)))"
| "pushover_breaks E t Doc_url_title = (100 < rune_count (pt_url_title t))"
| "pushover_breaks E t Doc_url_title_alone = (pt_url_title t \<noteq> [] \<and> pt_url t = [])"
| "pushover_breaks E t _ = False"

definition breaks :: "'ts ext \<Rightarrow> 'ts notification \<Rightarrow> doc_rule \<Rightarrow> bool" where
  "breaks E n d \<longleftrightarrow>
     (case n_content n of None \<Rightarrow> d = Doc_content | Some c \<Rightarrow> content_breaks c d)
     \<or> (case GetPushover (Some n) of None \<Rightarrow> d = Doc_target | Some t \<Rightarrow> pushover_breaks E t d)
     \<or> d = Doc_expires \<and> (\<exists>ex cr. n_expires_at n = Some ex \<and> n_created_at n = Some cr
                            \<and> x_as_time E ex < x_as_time E cr)
     \<or> d = Doc_idempotency_key \<and> 128 < rune_count (n_idempotency_key n)
     \<or> d = Doc_id_absent \<and> n_notification_id n \<noteq> []
     \<or> d = Doc_created_absent \<and> n_created_at n \<noteq> None
     \<or> d = Doc_service_absent \<and> n_originating_service n \<noteq> []"

text \<open>The rules no check of the code stands for.\<close>

definition unenforced :: "doc_rule set" where
  "unenforced = {Doc_title_space, Doc_sound, Doc_id_absent, Doc_created_absent, Doc_service_absent}"

text \<open>The strings the code measures in bytes and the document in characters are single-byte.\<close>

definition single_bytes :: "'ts notification \<Rightarrow> bool" where
  "single_bytes n \<longleftrightarrow> rune_count (n_idempotency_key n) = length (n_idempotency_key n)
     \<and> (\<forall>c. n_content n = Some c \<longrightarrow> (\<forall>kv \<in> set (c_data c). rune_count (snd kv) = length (snd kv)))
     \<and> (\<forall>t. GetPushover (Some n) = Some t \<longrightarrow>
          rune_count (pt_url t) = length (pt_url t) \<and> rune_count (pt_url_title t) = length (pt_url_title t))"

subsection \<open>What an accepted notification may break\<close>

lemma rune_count_le: "length s \<le> k \<Longrightarrow> \<not> k < rune_count s"
  using rune_count_le_length[of s] by simp

lemma data_key_ok_shape: "data_key_ok k \<longleftrightarrow> length k \<le> 64 \<and> key_shape k"
  by (auto simp: data_key_ok_def key_shape_def)

lemma punctuation_ascii: "is_ascii (CHR ''_'')" "is_ascii (CHR ''-'')"
  by (simp_all add: is_ascii_def byte_def)

lemma shaped_single_bytes: "key_shape k \<Longrightarrow> rune_count k = length k"
  by (rule rune_count_ascii) (auto simp: key_shape_def list_all_iff punctuation_ascii dest: is_alnum_ascii)

lemma device_single_bytes: "device_chars_ok d \<Longrightarrow> rune_count d = length d"
  by (rule rune_count_ascii) (auto simp: device_chars_ok_def list_all_iff punctuation_ascii dest: is_alnum_ascii)

lemma content_enforced:
  assumes "\<And>r. \<not> content_violates c r" and "content_breaks c d"
  shows "d = Doc_title_space"
proof -
  have "\<not> blank (c_title c)" "c_title c \<noteq> []" "rune_count (c_title c) \<le> 250"
    using assms(1)[of TitleRequired] assms(1)[of TitleWhitespace] assms(1)[of TitleTooLong] by auto
  moreover have "c_body c \<noteq> []" "rune_count (c_body c) \<le> 1024"
    using assms(1)[of BodyRequired] assms(1)[of BodyTooLong] by auto
  moreover have "sint (c_priority c) \<in> {-2..2}" "length (c_data c) \<le> 32"
    using assms(1)[of PriorityRange] assms(1)[of DataTooMany] by auto
  moreover have "\<forall>kv \<in> set (c_data c). data_key_ok (fst kv) \<and> length (snd kv) \<le> 512"
    using assms(1)[of DataKeyInvalid] assms(1)[of DataValueTooLong] by auto
  ultimately show ?thesis
    using assms(2) rune_count_le
    by (cases d) (auto simp: data_key_ok_shape shaped_single_bytes)
qed

lemma pushover_enforced:
  assumes "\<And>r. \<not> pushover_violates E t r" and "pushover_breaks E t d"
  shows "d = Doc_sound"
proof -
  have "user_key_ok (pt_user_or_group_key t)"
    using assms(1)[of UserKeyRequired] assms(1)[of UserKeyMalformed] by auto
  moreover have "length (pt_device_name t) \<le> 25" "device_chars_ok (pt_device_name t)"
    using assms(1)[of DeviceTooLong] assms(1)[of DeviceMalformed] by auto
  moreover have "length (pt_url t) \<le> 512" "pt_url t \<noteq> [] \<Longrightarrow> absolute_url E (pt_url t)"
    using assms(1)[of UrlTooLong] assms(1)[of UrlMalformed] by auto
  moreover have "length (pt_url_title t) \<le> 100" "pt_url_title t = [] \<or> pt_url t \<noteq> []"
    using assms(1)[of UrlTitleTooLong] assms(1)[of UrlTitleRequiresUrl] by auto
  ultimately show ?thesis
    using assms(2) by (cases d) (auto dest: rune_count_le)
qed

lemma accepted_breaks_unenforced:
  assumes "\<And>r. \<not> violates E n r" and "breaks E n d"
  shows "d \<in> unenforced"
proof -
  from assms(1) obtain c where c: "n_content n = Some c" "\<And>r. \<not> content_violates c r"
    by (cases "n_content n") (auto simp: violates_def)
  have "\<not> target_violates E (n_target n) r" for r using assms(1)[of r] by (simp add: violates_def)
  moreover have "addressed n" using assms(1) Validate_None_iff[of E n] Validate_addressed[of E n] by blast
  ultimately obtain t where t: "GetPushover (Some n) = Some t" "\<And>r. \<not> pushover_violates E t r"
    by (auto simp: addressed_def target_violates_def GetPushover_def)
  have ek: "\<not> breaks E n Doc_expires" "\<not> breaks E n Doc_idempotency_key"
    using assms(1)[of ExpiresBeforeCreated] assms(1)[of IdempotencyKeyTooLong] c t rune_count_le
    by (auto simp: violates_def breaks_def)
  with assms(2) content_enforced[OF c(2), of d] pushover_enforced[OF t(2), of d] c(1) t(1)
  show ?thesis by (auto simp: breaks_def unenforced_def)
qed

subsection \<open>What a notification that follows the document comes to\<close>

lemma GetPushover_arm: "GetPushover (Some n) = Some t \<Longrightarrow> n_target n = Some (Notification_Pushover (Some t))"
  by (auto simp: GetPushover_def split: option.splits target.splits)

lemma documented_accepted:
  assumes "\<And>d. breaks E n d \<Longrightarrow> d \<in> unenforced - {Doc_title_space}" and "single_bytes n"
  shows "\<not> violates E n r"
proof -
  obtain c where c: "n_content n = Some c"
    using assms(1)[of Doc_content] by (cases "n_content n") (auto simp: breaks_def unenforced_def)
  obtain t where t: "GetPushover (Some n) = Some t"
    using assms(1)[of Doc_target] by (cases "GetPushover (Some n)") (auto simp: breaks_def unenforced_def)
  have cb: "\<not> content_breaks c d" if "d \<notin> unenforced - {Doc_title_space}" for d
    using assms(1)[of d] that c by (auto simp: breaks_def)
  have pb: "\<not> pushover_breaks E t d" if "d \<notin> unenforced" for d
    using assms(1)[of d] that t by (auto simp: breaks_def)
  have bytes: "rune_count (n_idempotency_key n) = length (n_idempotency_key n)"
    "\<forall>kv \<in> set (c_data c). rune_count (snd kv) = length (snd kv)"
    "rune_count (pt_url t) = length (pt_url t)" "rune_count (pt_url_title t) = length (pt_url_title t)"
    using assms(2) c t by (auto simp: single_bytes_def)
  note u = unenforced_def
  have "\<not> content_violates c r"
    using cb[of Doc_title_length] cb[of Doc_title_space] cb[of Doc_body_length] cb[of Doc_priority]
      cb[of Doc_data_entries] cb[of Doc_data_key] cb[of Doc_data_value] bytes(2)
    by (cases r) (auto simp: u blank_trim data_key_ok_shape shaped_single_bytes)
  moreover have "\<not> pushover_violates E t r"
    using pb[of Doc_user_key] pb[of Doc_device] pb[of Doc_url] pb[of Doc_url_title] pb[of Doc_url_title_alone]
      bytes(3,4)
    by (cases r) (auto simp: u user_key_ok_def dest!: device_single_bytes)
  moreover have "\<not> breaks E n Doc_expires" "\<not> breaks E n Doc_idempotency_key"
    using assms(1)[of Doc_expires] assms(1)[of Doc_idempotency_key] by (auto simp: u)
  ultimately show ?thesis
    using c GetPushover_arm[OF t] bytes(1) by (auto simp: violates_def target_violates_def breaks_def)
qed

subsection \<open>The rules left out\<close>

text \<open>A notification that is accepted and breaks all of them.\<close>

definition lax_content :: content where
  "lax_content = empty_content\<lparr>c_title := ''Hi '', c_body := ''there''\<rparr>"

definition lax_target :: pushover_target where
  "lax_target = empty_pushover\<lparr>pt_user_or_group_key := replicate 30 (CHR ''u''), pt_sound := replicate 26 (CHR ''s'')\<rparr>"

definition lax :: "'ts \<Rightarrow> 'ts notification" where
  "lax ts = empty_notification\<lparr>n_notification_id := ''mine'', n_created_at := Some ts,
     n_originating_service := ''someone'', n_content := Some lax_content,
     n_target := Some (Notification_Pushover (Some lax_target))\<rparr>"

lemma lax_breaks: "breaks E (lax ts) d \<longleftrightarrow> d \<in> unenforced"
proof -
  have a: "list_all is_ascii ''Hi ''" "list_all is_ascii ''there''" "list_all is_ascii (replicate 26 (CHR ''s''))"
    by (simp_all add: is_ascii_def byte_def list_all_iff)
  have "trim_space ''Hi '' \<noteq> ''Hi ''"
    by (simp only: trim_space_def runes_ascii[OF a(1)]) (simp add: trim_right_by_def is_space_single byte_def)
  moreover have "user_key_ok (replicate 30 (CHR ''u''))"
    by (simp add: user_key_ok_def char_class_defs)
  ultimately show ?thesis
    by (cases d) (simp_all add: lax_def lax_content_def lax_target_def breaks_def unenforced_def GetPushover_def
        empty_notification_def empty_content_def empty_pushover_def rune_count_ascii[OF a(1)]
        rune_count_ascii[OF a(2)] rune_count_ascii[OF a(3)])
qed

lemma lax_accepted: "\<not> violates E (lax ts) r"
proof -
  have a: "list_all is_ascii ''Hi ''" "list_all is_ascii ''there''" by (simp_all add: is_ascii_def byte_def)
  have "user_key_ok (replicate 30 (CHR ''u''))" by (simp add: user_key_ok_def char_class_defs)
  moreover have "\<not> blank ''Hi ''"
    by (simp only: blank_def runes_ascii[OF a(1)]) (simp add: is_space_single byte_def)
  ultimately show ?thesis
    by (cases r) (simp_all add: lax_def lax_content_def lax_target_def violates_def target_violates_def
        empty_notification_def empty_content_def empty_pushover_def rune_count_ascii[OF a(1)]
        rune_count_ascii[OF a(2)])
qed

text \<open>C6: \<open>Validate\<close> against the documents. As (field, code) pairs it reports exactly the rules of the table of
  error codes a notification breaks, whatever the order and nesting of its checks, and accepts it
  exactly when it breaks none. Against the field rules of \<open>data-model.md\<close>: what it accepts breaks none
  of them but the five the code has no check for (white space around the title, the length of the
  sound, the three server-assigned fields left empty), and there is a notification it accepts that
  breaks all five; and it accepts what follows the document in all rules with a check and has no
  white space around the title, as long as the lengths the code takes in bytes and the document in
  characters agree. An expiry is compared with a creation time the caller sent only: without one, any
  expiry is accepted, so also one before the creation time the writer assigns.\<close>

theorem validate_reports_broken_rules:
  "tags (validation_errors E n) = {rule_tag r | r. violates E n r}
   \<and> (Validate E n = None \<longleftrightarrow> (\<forall>r. \<not> violates E n r))
   \<and> (Validate E n = None \<longrightarrow> {d. breaks E n d} \<subseteq> unenforced)
   \<and> ({d. breaks E n d} \<subseteq> unenforced - {Doc_title_space} \<and> single_bytes n \<longrightarrow> Validate E n = None)
   \<and> Validate E (lax ts) = None \<and> {d. breaks E (lax ts) d} = unenforced
   \<and> (n_created_at n = None \<and> Validate E n = None \<longrightarrow>
        (\<forall>ex. Validate E (n\<lparr>n_expires_at := Some ex\<rparr>) = None))"
proof (intro conjI impI)
  show "tags (validation_errors E n) = {rule_tag r | r. violates E n r}"
    using validation_tags[of E n] by (simp add: tagged_def setcompr_eq_image)
  show "Validate E n = None \<longleftrightarrow> (\<forall>r. \<not> violates E n r)" by (rule Validate_None_iff)
  show "{d. breaks E n d} \<subseteq> unenforced" if "Validate E n = None"
    using that accepted_breaks_unenforced by (auto simp: Validate_None_iff)
  show "Validate E n = None" if "{d. breaks E n d} \<subseteq> unenforced - {Doc_title_space} \<and> single_bytes n"
    using that documented_accepted[of E n] by (auto simp: Validate_None_iff)
  show "\<forall>ex. Validate E (n\<lparr>n_expires_at := Some ex\<rparr>) = None" if "n_created_at n = None \<and> Validate E n = None"
    using that expiry_not_checked_against_assigned_time[of n E] by (simp add: Validate_None_iff)
qed (simp_all add: Validate_None_iff lax_accepted lax_breaks)

end
