(* ===== verification/Server_Spec.thy ===== *)
theory Server_Spec
  imports HttpServer_Spec Data_Model
begin

text \<open>
  Properties of the writer's whole request path: middleware stack, authentication, router,
  parameter binding and handler. What is used of gorilla/mux is \<open>mux_contract\<close>: the first route
  whose method and path match runs, and a request that matches none changes nothing but the
  response.
\<close>

fun route_matches :: "request \<Rightarrow> 'x route \<Rightarrow> bool" where
  "route_matches r (m, p, _) = ((m = None \<or> m = Some (r_method r)) \<and> p = r_path r)"

definition mux_contract :: "'x mux \<Rightarrow> bool" where
  "mux_contract serve \<longleftrightarrow> (\<forall>routes r w x.
     (case find (route_matches r) routes of
        Some (_, _, h) \<Rightarrow> serve routes r w x = h r w x
      | None \<Rightarrow> (\<exists>w'. serve routes r w x = Returned (w', x))))"

text \<open>A mux that does just that, for the witnesses.\<close>

definition simple_mux :: "'x mux" where
  "simple_mux routes r w x =
     (case find (route_matches r) routes of
        Some (_, _, h) \<Rightarrow> h r w x
      | None \<Rightarrow> Returned (http_error ''404 page not found'' 404 w, x))"

lemma simple_mux_contract: "mux_contract simple_mux"
  by (auto simp: mux_contract_def simple_mux_def split: option.split)

definition notifications_path :: string where
  "notifications_path = ''/notifications''"

lemma find_notifications:
  assumes "r_method r = ''POST''" and "r_path r = notifications_path"
  shows "find (route_matches r) (server_routes E bind h) =
    Some (Some ''POST'', notifications_path,
      wrapper_SubmitNotification bind
        \<lparr>siw_Handler = SubmitNotification E h, siw_ErrorHandlerFunc = None, siw_HandlerMiddlewares = []\<rparr>)"
  using assms by (simp add: server_routes_def notifications_path_def)

lemma mux_notifications:
  assumes "mux_contract serve" and "r_method r = ''POST''" and "r_path r = notifications_path"
  shows "serve (server_routes E bind h) r w x =
    wrapper_SubmitNotification bind
      \<lparr>siw_Handler = SubmitNotification E h, siw_ErrorHandlerFunc = None, siw_HandlerMiddlewares = []\<rparr> r w x"
proof -
  have "case find (route_matches r) (server_routes E bind h) of
      Some (_, _, f) \<Rightarrow> serve (server_routes E bind h) r w x = f r w x
    | None \<Rightarrow> (\<exists>w'. serve (server_routes E bind h) r w x = Returned (w', x))"
    using assms(1) unfolding mux_contract_def by blast
  then show ?thesis by (simp add: find_notifications[OF assms(2,3)])
qed

subsection \<open>Request identifiers\<close>

lemma new_request_id_nonempty: "new_request_id newV7 r x = (rid, x') \<Longrightarrow> rid \<noteq> []"
  by (auto simp: new_request_id_def Let_def split: if_splits prod.splits sum.splits)

lemma auth_request_id_router:
  "ctx_request_id r = Some rid \<Longrightarrow> rid \<noteq> [] \<Longrightarrow>
   auth_request_id (apply_opts [WithRequestIDFunc (Some RequestIDFromContext)] \<lparr>mo_requestID = None\<rparr>) r
     = rid"
  by (simp add: auth_request_id_def WithRequestIDFunc_def RequestIDFromContext_def)

lemma BearerToken_ctx [simp]: "BearerToken (r\<lparr>ctx_request_id := v\<rparr>) = BearerToken r"
  by (simp add: BearerToken_def)

lemma Authenticate_ctx [simp]: "Authenticate b (r\<lparr>ctx_request_id := v\<rparr>) = Authenticate b r"
  by (simp add: Authenticate_def)

lemma captured_append: "rw_calls w' = rw_calls w @ [s] \<Longrightarrow> captured_status w w' = s"
  by (simp add: captured_status_def)

subsection \<open>Rejected requests\<close>

text \<open>The stack around a rejected request, for any authenticator that keeps the contract.\<close>

context authenticator
begin

lemma chain_rejects:
  assumes "r_path r \<noteq> ''/healthz''"
    and "new_request_id newV7 r (ww_env x) = (rid, env')"
    and "authenticate (r\<lparr>ctx_request_id := Some rid\<rparr>) = Inl e"
  obtains pr where
    "server_chain E bind newV7 serve logger h authenticate r new_writer x
       = Returned (write_problem E pr (set_header ''X-Request-Id'' rid new_writer),
           x\<lparr>ww_env := logger (HttpRequest (r_method r) (r_path r) 401 rid) env'\<rparr>)"
    and "p_status pr = 401" and "catalogued pr" and "p_request_id pr = rid" and "p_instance pr = r_path r"
    and "p_type pr = TypeAuthenticationRequired \<and> errors_is e ErrNoCredentials
       \<or> p_type pr = TypeAuthenticationFailed \<and> errors_is e ErrInvalidCredentials"
proof -
  let ?r = "r\<lparr>ctx_request_id := Some rid\<rparr>"
  let ?w = "set_header ''X-Request-Id'' rid new_writer"
  let ?x = "x\<lparr>ww_env := env'\<rparr>"
  let ?opts = "[WithRequestIDFunc (Some RequestIDFromContext)]"
  have rid: "auth_request_id (apply_opts ?opts \<lparr>mo_requestID = None\<rparr>) ?r = rid"
    by (rule auth_request_id_router) (simp_all add: new_request_id_nonempty[OF assms(2)])
  obtain pr where m: "Middleware E authenticate (serve (server_routes E bind h)) ?opts ?r ?w ?x
        = Returned (write_problem E pr ?w, ?x)"
    and p: "p_status pr = 401" "catalogued pr" "p_request_id pr = rid" "p_instance pr = r_path ?r"
      "p_type pr = TypeAuthenticationRequired \<and> errors_is e ErrNoCredentials
       \<or> p_type pr = TypeAuthenticationFailed \<and> errors_is e ErrInvalidCredentials"
    by (rule middleware_rejects[OF assms(3) rid])
  have "captured_status ?w (write_problem E pr ?w) = 401"
    by (rule captured_append) (simp add: write_problem_def write_json_unsent p(1))
  with m assms(1,2) have "server_chain E bind newV7 serve logger h authenticate r new_writer x
       = Returned (write_problem E pr ?w,
           x\<lparr>ww_env := logger (HttpRequest (r_method r) (r_path r) 401 rid) env'\<rparr>)"
    by (simp add: server_chain_def recoverMiddleware_def requestIDMiddleware_def
        accessLogMiddleware_def conditionalAuth_def on_env_def RequestIDFromContext_def Let_def)
  with p that show thesis by simp
qed

end

text \<open>C13: A request other than the health check whose bearer token is missing or not in the table
  is answered with the matching 401 problem, which carries the request's identifier, and has no
  other effect: the counters stay as they were and outside the program only the identifier was
  drawn and one access-log line written. The publisher is not reached.\<close>

theorem unauthenticated_rejected:
  assumes "r_path r \<noteq> ''/healthz''"
    and "BearerToken r = [] \<or> b (BearerToken r) = None"
    and "new_request_id newV7 r (ww_env x) = (rid, env')"
  shows "\<exists>pr. server_chain E bind newV7 serve logger h (Authenticate b) r new_writer x
       = Returned (write_problem E pr (set_header ''X-Request-Id'' rid new_writer),
           x\<lparr>ww_env := logger (HttpRequest (r_method r) (r_path r) 401 rid) env'\<rparr>)
     \<and> catalogued pr \<and> p_status pr = 401 \<and> p_request_id pr = rid \<and> p_instance pr = r_path r
     \<and> p_type pr = (if BearerToken r = [] then TypeAuthenticationRequired else TypeAuthenticationFailed)"
proof -
  let ?e = "if BearerToken r = [] then ErrNoCredentials else ErrInvalidCredentials"
  have "Authenticate b (r\<lparr>ctx_request_id := Some rid\<rparr>) = Inl ?e"
    using assms(2) by (auto simp: Authenticate_def)
  then obtain pr where "server_chain E bind newV7 serve logger h (Authenticate b) r new_writer x
       = Returned (write_problem E pr (set_header ''X-Request-Id'' rid new_writer),
           x\<lparr>ww_env := logger (HttpRequest (r_method r) (r_path r) 401 rid) env'\<rparr>)"
    and "catalogued pr" "p_status pr = 401" "p_request_id pr = rid" "p_instance pr = r_path r"
    and "p_type pr = TypeAuthenticationRequired \<and> errors_is ?e ErrNoCredentials
       \<or> p_type pr = TypeAuthenticationFailed \<and> errors_is ?e ErrInvalidCredentials"
    by (rule bearer.chain_rejects[OF assms(1,3)])
  then show ?thesis
    by (intro exI[of _ pr]) (auto simp: errors_is_def split: if_splits)
qed

subsection \<open>Authenticated submissions\<close>

text \<open>The idempotency key the binding passes on, \<open>None\<close> where it refuses the header.\<close>

definition bind_key :: "(string \<Rightarrow> goerr + string) \<Rightarrow> request \<Rightarrow> string option option" where
  "bind_key bind r =
     (case r_header r ''Idempotency-Key'' of
        None \<Rightarrow> Some None
      | Some [v] \<Rightarrow> (case bind v of Inr k \<Rightarrow> Some (Some k) | Inl _ \<Rightarrow> None)
      | Some _ \<Rightarrow> None)"

lemma wrapper_runs:
  "bind_key bind r = Some idem \<Longrightarrow>
   wrapper_SubmitNotification bind
     \<lparr>siw_Handler = SubmitNotification E h, siw_ErrorHandlerFunc = None, siw_HandlerMiddlewares = []\<rparr> r w x
   = SubmitNotification E h w r idem x"
  by (auto simp: bind_key_def wrapper_SubmitNotification_def Let_def
      split: option.splits list.splits sum.splits)

lemma wrapper_refuses:
  "bind_key bind r = None \<Longrightarrow>
   wrapper_SubmitNotification bind
     \<lparr>siw_Handler = SubmitNotification E h, siw_ErrorHandlerFunc = None, siw_HandlerMiddlewares = []\<rparr> r w x
   = Panicked (w, x)"
  by (auto simp: bind_key_def wrapper_SubmitNotification_def call_error_handler_def Let_def
      split: option.splits list.splits sum.splits)

lemma bind_key_ctx [simp]:
  "bind_key bind (r\<lparr>ctx_request_id := v, ctx_principal := p\<rparr>) = bind_key bind r"
  by (simp add: bind_key_def)

text \<open>The request and the world the handler of an authenticated submission gets.\<close>

definition authed_request :: "string \<Rightarrow> principal \<Rightarrow> request \<Rightarrow> request" where
  "authed_request rid p r = r\<lparr>ctx_request_id := Some rid, ctx_principal := Some p\<rparr>"

lemma authed_request_simps [simp]:
  "r_path (authed_request rid p r) = r_path r"
  "r_method (authed_request rid p r) = r_method r"
  "ctx_principal (authed_request rid p r) = Some p"
  "RequestIDFromContext (authed_request rid p r) = rid"
  "bind_key bind (authed_request rid p r) = bind_key bind r"
  by (simp_all add: authed_request_def RequestIDFromContext_def)

lemma decodeBody_authed [simp]: "decodeBody E (authed_request rid p r) = decodeBody E r"
proof -
  have "contentTypeOf E (authed_request rid p r) = contentTypeOf E r"
    and "read_body (authed_request rid p r) = read_body r"
    by (simp_all add: authed_request_def contentTypeOf_def read_body_def split: option.split)
  then show ?thesis by (simp add: decodeBody_def[abs_def] Let_def cong: sum.case_cong if_cong)
qed

lemma chain_authenticated:
  assumes "mux_contract serve" and "r_method r = ''POST''" and "r_path r = notifications_path"
    and "new_request_id newV7 r (ww_env x) = (rid, env')"
    and "authn (r\<lparr>ctx_request_id := Some rid\<rparr>) = Inr p"
  shows "server_chain E bind newV7 serve logger h authn r new_writer x =
     recoverMiddleware logger
       (\<lambda>_ _ _. case wrapper_SubmitNotification bind
            \<lparr>siw_Handler = SubmitNotification E h, siw_ErrorHandlerFunc = None, siw_HandlerMiddlewares = []\<rparr>
            (authed_request rid p r) (set_header ''X-Request-Id'' rid new_writer) (x\<lparr>ww_env := env'\<rparr>) of
          Returned (w', x') \<Rightarrow>
            Returned (w', on_env (logger (HttpRequest (r_method r) (r_path r)
              (captured_status (set_header ''X-Request-Id'' rid new_writer) w') rid)) x')
        | Panicked y \<Rightarrow> Panicked y) r new_writer x"
proof -
  let ?r = "authed_request rid p r"
  have "serve (server_routes E bind h) ?r w y = wrapper_SubmitNotification bind
      \<lparr>siw_Handler = SubmitNotification E h, siw_ErrorHandlerFunc = None, siw_HandlerMiddlewares = []\<rparr> ?r w y" for w y
    by (rule mux_notifications) (simp_all add: assms)
  moreover have "r_path r \<noteq> ''/healthz''" using assms(3) by (simp add: notifications_path_def)
  ultimately show ?thesis
    using assms
    by (simp add: server_chain_def requestIDMiddleware_def accessLogMiddleware_def recoverMiddleware_def
        conditionalAuth_def Middleware_def RequestIDFromContext_def Let_def authed_request_def split: handled.split)
qed

text \<open>C36: A repeated or unparsable \<open>Idempotency-Key\<close> header on an authenticated submission is
  answered by the recovery middleware: the generated wrapper calls its error handler, which the
  server leaves nil. The answer is a plain-text 500, no problem document, the submission is not
  counted, and the panic is logged with an empty request identifier.\<close>

theorem bad_idempotency_header_panics:
  assumes "mux_contract serve" and "r_method r = ''POST''" and "r_path r = notifications_path"
    and "new_request_id newV7 r (ww_env x) = (rid, env')"
    and "authn (r\<lparr>ctx_request_id := Some rid\<rparr>) = Inr p"
    and "ctx_request_id r = None" and "bind_key bind r = None"
  shows "\<exists>w'. server_chain E bind newV7 serve logger h authn r new_writer x
       = Returned (w', x\<lparr>ww_env := logger (HttpPanic notifications_path []) env'\<rparr>)
     \<and> sent_status w' = 500
     \<and> header_get (rw_sent w') ''Content-Type'' = ''text/plain; charset=utf-8''
     \<and> rw_body w' = ''internal server error'' @ [newline]"
  unfolding chain_authenticated[where serve = serve and r = r and x = x and rid = rid
      and env' = env' and authn = authn and p = p, OF assms(1-5)]
  using assms(3,6,7)
  by (auto simp: wrapper_refuses recoverMiddleware_def RequestIDFromContext_def http_error_def
      writer_defs new_writer_def sent_status_def on_env_def Let_def)

text \<open>What an authenticated submission with a well-formed key header comes to.\<close>

lemma submission_outcome:
  assumes "mux_contract serve" and "r_method r = ''POST''" and "r_path r = notifications_path"
    and "new_request_id newV7 r (ww_env x) = (rid, env')"
    and "authn (r\<lparr>ctx_request_id := Some rid\<rparr>) = Inr p"
    and "bind_key bind r = Some idem"
    and h: "h_ingester h = Some i" "i_publisher i = Some publish" "h_requestID h = Some RequestIDFromContext"
    and s: "submit_core E i publish rid (set_header ''X-Request-Id'' rid new_writer)
              (authed_request rid p r) idem (x\<lparr>ww_env := env'\<rparr>) = (oc, svc, w', x'')"
  shows "server_chain E bind newV7 serve logger h authn r new_writer x =
     Returned (w', \<lparr>ww_metrics = RecordWriterSubmission oc svc (ww_metrics x''),
        ww_env = logger (HttpRequest (r_method r) (r_path r)
              (captured_status (set_header ''X-Request-Id'' rid new_writer) w') rid) (ww_env x'')\<rparr>)"
  unfolding chain_authenticated[where serve = serve and r = r and x = x and rid = rid
      and env' = env' and authn = authn and p = p, OF assms(1-5)]
  by (simp add: wrapper_runs assms(6) SubmitNotification_def h s recoverMiddleware_def on_env_def)

text \<open>
  The setting of the remaining properties: an authenticated \<open>POST /notifications\<close> with a
  well-formed key header, on a server whose handler was built the way \<open>cmd/writer\<close> builds it.
\<close>

definition submission_setup ::
  "'x writer_world mux \<Rightarrow> (string \<Rightarrow> goerr + string) \<Rightarrow> ('x \<Rightarrow> (goerr + string) \<times> 'x)
    \<Rightarrow> (request \<Rightarrow> goerr + principal) \<Rightarrow> 'x handlers \<Rightarrow> 'x ingester \<Rightarrow> 'x publisher_fn
    \<Rightarrow> request \<Rightarrow> 'x \<Rightarrow> string \<Rightarrow> 'x \<Rightarrow> principal \<Rightarrow> string option \<Rightarrow> bool" where
  "submission_setup serve bind newV7 authn h i publish r env rid env' p idem \<longleftrightarrow>
     mux_contract serve \<and> r_method r = ''POST'' \<and> r_path r = notifications_path
     \<and> new_request_id newV7 r env = (rid, env')
     \<and> authn (r\<lparr>ctx_request_id := Some rid\<rparr>) = Inr p
     \<and> bind_key bind r = Some idem
     \<and> h_ingester h = Some i \<and> i_publisher i = Some publish
     \<and> h_requestID h = Some RequestIDFromContext"

text \<open>A notification was published: it broke no rule, and the publisher took its bytes.\<close>

definition published ::
  "'ts ext \<Rightarrow> 'x ingester \<Rightarrow> 'x publisher_fn \<Rightarrow> string \<Rightarrow> 'ts notification \<Rightarrow> 'x
    \<Rightarrow> string \<Rightarrow> gotime \<Rightarrow> 'x \<Rightarrow> bool" where
  "published E i publish svc n x nid at x3 \<longleftrightarrow>
     (\<forall>rule. \<not> violates E n rule) \<and>
     (\<exists>t x1 x2 body. at = truncate_ms t \<and> i_clock i x = (t, x1) \<and> i_idFn i x1 = (Inr nid, x2)
        \<and> x_marshal E (assign_fields E nid at svc n) = Inr body
        \<and> publish \<lparr>in_body = body, in_notification_id = nid\<rparr> x2 = (None, x3))"

lemma Accept_Inr_published:
  "Accept E i publish (Some n) svc w = (Inr res, n', w') \<Longrightarrow>
   published E i publish svc n (ww_env w) (ar_notification_id res) (ar_accepted_at res) (ww_env w')
   \<and> ww_metrics w' = RecordPublishDuration (ww_metrics w)"
  by (erule Accept_success) (auto simp: published_def)

lemma published_Accept:
  assumes "published E i publish svc n (ww_env w) nid at x3"
  shows "Accept E i publish (Some n) svc w =
    (Inr \<lparr>ar_notification_id = nid, ar_accepted_at = at\<rparr>, Some (assign_fields E nid at svc n),
     after_publish w x3)"
  using assms by (auto simp: published_def Accept_publishes)

lemma unsent_with_id: "unsent (set_header ''X-Request-Id'' rid new_writer)"
  by simp

lemma submission_answered_core:
  assumes sub: "submission_setup serve bind newV7 authn h i publish r (ww_env x) rid env' p idem"
  shows "\<exists>svc w' env'' ps.
     server_chain E bind newV7 serve logger h authn r new_writer x
       = Returned (w', \<lparr>
           ww_metrics = RecordWriterSubmission (label_of_status (sent_status w')) svc ps,
           ww_env = logger (HttpRequest ''POST'' notifications_path (sent_status w') rid) env''\<rparr>)
     \<and> ((\<exists>n nid at. decodeBody E r rid = Inr n \<and> svc = service_name p
           \<and> published E i publish svc (with_key idem n) env' nid at env''
           \<and> ps = RecordPublishDuration (ww_metrics x)
           \<and> w' = accepted_answer E rid \<lparr>ar_notification_id = nid, ar_accepted_at = at\<rparr>
                    (set_header ''X-Request-Id'' rid new_writer))
        \<or> (ps = ww_metrics x \<or> ps = RecordPublishDuration (ww_metrics x))
          \<and> (\<exists>pr. answers_problem E r rid (set_header ''X-Request-Id'' rid new_writer) w' pr))"
proof -
  let ?w = "set_header ''X-Request-Id'' rid new_writer" and ?r = "authed_request rid p r"
  obtain oc svc w' x'' where
    s: "submit_core E i publish rid ?w ?r idem (x\<lparr>ww_env := env'\<rparr>) = (oc, svc, w', x'')"
    by (metis prod_cases4)
  note result = submission_outcome[where serve = serve and r = r and x = x and rid = rid
      and env' = env' and authn = authn and p = p, OF _ _ _ _ _ _ _ _ _ s]
  have path: "r_path r = notifications_path" "r_method r = ''POST''"
    using sub by (auto simp: submission_setup_def)
  have chain: "server_chain E bind newV7 serve logger h authn r new_writer x =
     Returned (w', \<lparr>ww_metrics = RecordWriterSubmission oc svc (ww_metrics x''),
        ww_env = logger (HttpRequest ''POST'' notifications_path (captured_status ?w w') rid) (ww_env x'')\<rparr>)"
    using sub by (subst result) (auto simp: submission_setup_def)
  have problem: ?thesis
    if "answers_problem E r rid ?w w' pr" and "oc = label_of_status (p_status pr)"
      and "ww_metrics x'' = ww_metrics x \<or> ww_metrics x'' = RecordPublishDuration (ww_metrics x)" for pr
    using that chain answers_status(1,4)[OF that(1) unsent_with_id]
    by (intro exI[of _ svc] exI[of _ w'] exI[of _ "ww_env x''"] exI[of _ "ww_metrics x''"])
       (auto simp: captured_append)
  have same: "answers_problem E (authed_request rid q r) rid v v' pr = answers_problem E r rid v v' pr"
    for q v v' pr
    by (simp add: answers_problem_def)
  show ?thesis
    using s
  proof (cases rule: submit_core_cases)
    case (accepted n q res n')
    have st: "sent_status w' = 202" "captured_status ?w w' = 202"
      by (simp_all add: accepted(5) accepted_status unsent_with_id captured_append)
    have pub: "published E i publish (service_name p) (with_key idem n) env'
        (ar_notification_id res) (ar_accepted_at res) (ww_env x'')"
      "ww_metrics x'' = RecordPublishDuration (ww_metrics x)"
      using accepted by (auto dest!: Accept_Inr_published)
    obtain nid at where res: "res = \<lparr>ar_notification_id = nid, ar_accepted_at = at\<rparr>"
      by (cases res) blast
    show ?thesis
      using chain st accepted pub
      by (intro exI[of _ svc] exI[of _ w'] exI[of _ "ww_env x''"] exI[of _ "ww_metrics x''"])
         (auto simp: label_202 res intro!: exI[of _ n] exI[of _ nid] exI[of _ at])
  next
    case (refused n q err n' pr)
    then show ?thesis by (intro problem[of pr]) (auto simp: same dest!: Accept_metrics)
  next
    case (early pr)
    then show ?thesis by (intro problem[of pr]) (simp_all add: same)
  qed
qed

text \<open>C4: On an authenticated, well-formed submission the server always answers. The answer is the
  202 envelope with the identifier and instant of a notification that broke no rule and was taken
  by the publisher, or one problem of the catalogue with the request's identifier and path. The
  submissions counter gets exactly one pair of points, whose label is the one for the status sent,
  and the access log one line with that status.\<close>

theorem submission_answered:
  assumes sub: "submission_setup serve bind newV7 authn h i publish r (ww_env x) rid env' p idem"
  shows "\<exists>svc w' env'' ps.
     server_chain E bind newV7 serve logger h authn r new_writer x
       = Returned (w', \<lparr>
           ww_metrics = RecordWriterSubmission (label_of_status (sent_status w')) svc ps,
           ww_env = logger (HttpRequest ''POST'' notifications_path (sent_status w') rid) env''\<rparr>)
     \<and> ((\<exists>n nid at. decodeBody E r rid = Inr n \<and> svc = service_name p
           \<and> published E i publish svc (with_key idem n) env' nid at env''
           \<and> ps = RecordPublishDuration (ww_metrics x)
           \<and> w' = accepted_answer E rid \<lparr>ar_notification_id = nid, ar_accepted_at = at\<rparr>
                    (set_header ''X-Request-Id'' rid new_writer))
        \<or> (ps = ww_metrics x \<or> ps = RecordPublishDuration (ww_metrics x))
          \<and> (\<exists>pr. answers_problem E r rid (set_header ''X-Request-Id'' rid new_writer) w' pr))"
  by (rule submission_answered_core[OF sub])

lemma published_chain:
  assumes sub: "submission_setup serve bind newV7 authn h i publish r (ww_env x) rid env' p idem"
    and "decodeBody E r rid = Inr n"
    and "published E i publish (service_name p) (with_key idem n) env' nid at env''"
  shows "server_chain E bind newV7 serve logger h authn r new_writer x
       = Returned (accepted_answer E rid \<lparr>ar_notification_id = nid, ar_accepted_at = at\<rparr>
                     (set_header ''X-Request-Id'' rid new_writer),
           \<lparr>ww_metrics = RecordWriterSubmission OutcomeAccepted (service_name p)
                            (RecordPublishDuration (ww_metrics x)),
            ww_env = logger (HttpRequest ''POST'' notifications_path 202 rid) env''\<rparr>)"
proof -
  let ?w = "set_header ''X-Request-Id'' rid new_writer" and ?r = "authed_request rid p r"
  have s: "submit_core E i publish rid ?w ?r idem (x\<lparr>ww_env := env'\<rparr>) =
      (OutcomeAccepted, service_name p,
       accepted_answer E rid \<lparr>ar_notification_id = nid, ar_accepted_at = at\<rparr> ?w,
       after_publish (x\<lparr>ww_env := env'\<rparr>) env'')"
    using assms(2) published_Accept[of E i publish "service_name p" "with_key idem n" "x\<lparr>ww_env := env'\<rparr>"]
      assms(3)
    by (simp add: submit_core_def FromContext_def Let_def with_key_def[symmetric] accepted_answer_def)
  have "captured_status ?w (accepted_answer E rid res ?w) = 202" for res
    by (simp add: accepted_status unsent_with_id captured_append)
  then show ?thesis
    using sub
    by (subst submission_outcome[where serve = serve and r = r and x = x and rid = rid
          and env' = env' and authn = authn and p = p, OF _ _ _ _ _ _ _ _ _ s])
       (auto simp: submission_setup_def)
qed

text \<open>C28: Conversely, a submission whose body decodes to a notification that breaks none of the rules the
  writer checks and that the publisher takes is answered 202, with the identifier and the instant it
  was published under. Of the rules of \<open>data-model.md\<close> it can break only the five the writer has no check
  for, and it may break all of these (\<open>lax\<close>): the document wants such a submission refused.\<close>

theorem published_is_accepted:
  assumes sub: "submission_setup serve bind newV7 authn h i publish r (ww_env x) rid env' p idem"
    and "decodeBody E r rid = Inr n"
    and "published E i publish (service_name p) (with_key idem n) env' nid at env''"
  shows "server_chain E bind newV7 serve logger h authn r new_writer x
       = Returned (accepted_answer E rid \<lparr>ar_notification_id = nid, ar_accepted_at = at\<rparr>
                     (set_header ''X-Request-Id'' rid new_writer),
           \<lparr>ww_metrics = RecordWriterSubmission OutcomeAccepted (service_name p)
                            (RecordPublishDuration (ww_metrics x)),
            ww_env = logger (HttpRequest ''POST'' notifications_path 202 rid) env''\<rparr>)
     \<and> {d. breaks E (with_key idem n) d} \<subseteq> unenforced"
proof
  have "\<not> violates E (with_key idem n) q" for q using assms(3) by (simp add: published_def)
  then show "{d. breaks E (with_key idem n) d} \<subseteq> unenforced" using accepted_breaks_unenforced by blast
qed (rule published_chain[OF assms])

end
