(* ===== verification/Client_Spec.thy ===== *)
theory Client_Spec
  imports Client Server_Spec
begin

text \<open>
  Client and writer together: what the writer encodes the client decodes to the same values, and a
  submission through both ends in the identifier of a published notification or in a problem of the
  catalogue under the sentinel of its type.
\<close>

subsection \<open>Decoding the writer's answers\<close>

definition problem_error_of :: "problem \<Rightarrow> problem_error" where
  "problem_error_of p =
     \<lparr>ce_TypeURI = p_type p, ce_title = p_title p, ce_status = p_status p, ce_detail = p_detail p,
      ce_instance = p_instance p, ce_reqID = p_request_id p, ce_fields = p_errors p,
      ce_sentinel = sentinelFor (p_type p)\<rparr>"

text \<open>
  On the way through \<open>encoding/json\<close> the strings of a document are coerced to valid UTF-8; a detail
  that quotes a path or a header of the request may hold other bytes.
\<close>

definition utf8_field :: "field_error \<Rightarrow> field_error" where
  "utf8_field f = FieldErr (utf8_text (fe_field f)) (utf8_text (fe_code f)) (utf8_text (fe_message f))"

definition utf8_problem :: "problem \<Rightarrow> problem" where
  "utf8_problem p =
     \<lparr>p_type = utf8_text (p_type p), p_title = utf8_text (p_title p), p_status = p_status p,
      p_detail = utf8_text (p_detail p), p_instance = utf8_text (p_instance p),
      p_request_id = utf8_text (p_request_id p), p_errors = map utf8_field (p_errors p)\<rparr>"

lemma json_text_field_error: "json_text (field_error_json f) = field_error_json (utf8_field f)"
  by (simp add: field_error_json_def utf8_field_def FieldErr_def ascii_eval)

lemma json_text_problem: "json_text (problem_json p) = problem_json (utf8_problem p)"
  by (simp add: problem_json_def utf8_problem_def json_text_field_error o_def ascii_eval)

lemma problem_json_codable: "integral (problem_json p)" "json_depth (problem_json p) \<le> 10000"
proof -
  have f: "integral (field_error_json f)" "json_depth (field_error_json f) = 1" for f
    by (simp_all add: field_error_json_def)
  then show "integral (problem_json p)" by (simp add: problem_json_def list_all_iff)
  have "foldr max (map json_depth (map field_error_json (p_errors p))) 0 \<le> 1"
    by (rule foldr_max_le) (auto simp: f)
  then show "json_depth (problem_json p) \<le> 10000" by (simp add: problem_json_def)
qed

lemma catalogue_ascii: "u \<in> set catalogue \<Longrightarrow> list_all is_ascii u"
  by (auto simp: catalogue_def type_uri_defs TypeBase_def is_ascii_def byte_def)

lemma catalogued_type_utf8: "catalogued p \<Longrightarrow> utf8_text (p_type p) = p_type p"
  using catalogue_status_dom[of "p_type p"] by (auto simp: catalogued_def intro: utf8_text_ascii catalogue_ascii)

lemma catalogued_utf8: "catalogued p \<Longrightarrow> catalogued (utf8_problem p)"
  using catalogued_type_utf8[of p] by (simp add: catalogued_def utf8_problem_def)

lemma decode_written_problem:
  assumes "json_codec E" and "catalogued p"
  shows "decodeProblem E (x_json_encode E (problem_json p) @ [newline]) st = problem_error_of (utf8_problem p)"
proof -
  have c: "catalogued (utf8_problem p)" by (rule catalogued_utf8[OF assms(2)])
  then have "p_status (utf8_problem p) \<noteq> 0" using catalogued_status_int[OF c] by auto
  then show ?thesis
    using assms(1) c
    by (simp add: decodeProblem_def json_unmarshal_def json_codecD problem_json_codable json_text_problem
        dec_problem problem_error_of_def wire_of_def Let_def)
qed

lemma catalogued_known: "catalogued p \<Longrightarrow> sentinelFor (p_type p) \<noteq> CErrUnknownProblem"
  using catalogue_status_dom[of "p_type p"] by (auto simp: sentinelFor_known catalogued_def)

text \<open>What the client sees of a response the writer produced.\<close>

definition response_of :: "response_writer \<Rightarrow> http_response" where
  "response_of w = \<lparr>hr_status = sent_status w, hr_header = rw_sent w, hr_body = rw_body w, hr_body_err = None\<rparr>"

lemma decoded_problem:
  assumes "json_codec E" and "answers_problem E r rid w w' pr" and "unsent w"
  shows "parseResponse E (response_of w') = Inl (ProblemErr (problem_error_of (utf8_problem pr)))"
proof -
  have c: "catalogued pr" using assms(2) by (simp add: answers_problem_def)
  have st: "sent_status w' = p_status pr" "rw_body w' = x_json_encode E (problem_json pr) @ [newline]"
    using answers_status[OF assms(2,3)] by simp_all
  show ?thesis
    using catalogued_status_int[OF c] decode_written_problem[OF assms(1) c]
    by (auto simp: parseResponse_def response_of_def st)
qed

text \<open>C27: Every problem of the catalogue survives the wire: the client's \<open>ProblemError\<close> has the type and
  the status the writer put into the document, and title, detail, instance, request identifier and
  field errors as text, as its accessors return them, and \<open>errors.Is\<close> finds exactly the sentinel of
  its type, never the unknown one. As text means that bytes that are no UTF-8 come back as U+FFFD;
  a valid string comes back as it was.\<close>

theorem problem_roundtrip:
  assumes "json_codec E" and "answers_problem E r rid w w' pr" and "unsent w"
  shows "\<exists>pe. parseResponse E (response_of w') = Inl (ProblemErr pe)
     \<and> pe_Type pe = p_type pr \<and> pe_Title pe = utf8_text (p_title pr) \<and> pe_Status pe = p_status pr
     \<and> pe_Detail pe = utf8_text (p_detail pr) \<and> pe_Instance pe = utf8_text (r_path r)
     \<and> pe_RequestID pe = utf8_text rid \<and> pe_FieldErrors pe = map utf8_field (p_errors pr)
     \<and> (\<forall>s. valid_utf8 s \<longrightarrow> utf8_text s = s)
     \<and> (client_is (ProblemErr pe) s \<longleftrightarrow> s = sentinelFor (p_type pr))
     \<and> sentinelFor (p_type pr) \<noteq> CErrUnknownProblem"
  using decoded_problem[OF assms] catalogued_known[of pr] assms(2) catalogued_type_utf8[of pr]
  by (intro exI[of _ "problem_error_of (utf8_problem pr)"])
     (simp add: problem_error_of_def utf8_problem_def answers_problem_def problem_accessors utf8_text_valid)

lemma format_ms_ascii: "list_all is_ascii (format_ms t)"
proof -
  have d: "list_all is_ascii (itoa_nat n)" for n
    using itoa_nat_digits[of n] by (auto simp: list_all_iff is_digit_def is_ascii_def)
  have p: "list_all is_ascii (pad w n)" for w n
    using d[of n] by (auto simp: pad_def Let_def list_all_iff is_ascii_def byte_def)
  show ?thesis
    by (simp add: format_ms_def Let_def p is_ascii_def byte_def split: prod.split)
qed

text \<open>The writer's success document, coerced.\<close>

lemma json_text_success:
  "json_text (success_json submitData_json (env_New rid \<lparr>sd_notification_id = nid, sd_accepted_at = format_ms t\<rparr>))
   = success_json submitData_json
       (env_New (utf8_text rid) \<lparr>sd_notification_id = utf8_text nid, sd_accepted_at = format_ms t\<rparr>)"
  using utf8_text_ascii[OF format_ms_ascii, of t]
  by (simp add: success_json_def env_New_def submitData_json_def ascii_eval)

lemma success_json_codable:
  "integral (success_json submitData_json s)" "json_depth (success_json submitData_json s) \<le> 10000"
  by (simp_all add: success_json_def submitData_json_def)

lemma parse_accepted:
  assumes "json_codec E" and "unsent w"
  shows "\<exists>env. parseResponse E (response_of (accepted_answer E rid res w)) = Inr env
     \<and> NotificationID env = utf8_text (ar_notification_id res) \<and> RequestID env = utf8_text rid
     \<and> sd_accepted_at (en_data env) = format_ms (ar_accepted_at res)"
proof -
  have "rw_body (accepted_answer E rid res w) = x_json_encode E (success_json submitData_json
      (env_New rid \<lparr>sd_notification_id = ar_notification_id res,
        sd_accepted_at = format_ms (ar_accepted_at res)\<rparr>)) @ [newline]"
    using write_json_unsent[OF assms(2)] by (simp add: accepted_answer_def write_envelope_def)
  then have "parseResponse E (response_of (accepted_answer E rid res w)) =
      (case dec_struct envelope_fields (success_json submitData_json (env_New (utf8_text rid)
          \<lparr>sd_notification_id = utf8_text (ar_notification_id res),
           sd_accepted_at = format_ms (ar_accepted_at res)\<rparr>)) empty_envelope of
         (e, v) \<Rightarrow> (if e then Inl (ClientErr (WrapErr ''notificationclient: decode success envelope''
                      (ForeignErr ''json: type'' None))) else Inr v))"
    using accepted_status(1)[OF assms(2), of E rid res]
    by (simp add: parseResponse_def response_of_def json_unmarshal_def json_codecD[OF assms(1)]
        success_json_codable json_text_success split: prod.split)
  then show ?thesis
    by (simp add: success_json_def env_New_def submitData_json_def envelope_fields_def submitData_fields_def
        meta_fields_def empty_envelope_def decoder_defs NotificationID_def RequestID_def)
qed

text \<open>C23: A successful submission survives the wire: from the writer's 202 answer the client reads back
  the notification and request identifiers as text (a valid UTF-8 string as it was, other bytes as
  U+FFFD) and, for every instant of the years 1 to 9999, exactly the instant at which the writer
  stamped the notification, to the millisecond it was cut to.\<close>

theorem accepted_roundtrip:
  assumes "json_codec E" and "unsent w"
    and "0 \<le> ar_accepted_at res" and "ar_accepted_at res < 3652059 * 86400 * second"
  shows "\<exists>env. parseResponse E (response_of (accepted_answer E rid res w)) = Inr env
     \<and> NotificationID env = utf8_text (ar_notification_id res) \<and> RequestID env = utf8_text rid
     \<and> (\<forall>s. valid_utf8 s \<longrightarrow> utf8_text s = s)
     \<and> AcceptedAt env = truncate_ms (ar_accepted_at res)"
proof -
  obtain env where env: "parseResponse E (response_of (accepted_answer E rid res w)) = Inr env"
    "NotificationID env = utf8_text (ar_notification_id res)" "RequestID env = utf8_text rid"
    "sd_accepted_at (en_data env) = format_ms (ar_accepted_at res)"
    using parse_accepted[OF assms(1,2)] by blast
  from env(4) have "AcceptedAt env = truncate_ms (ar_accepted_at res)"
    using parse_format[OF assms(3,4)] by (simp add: AcceptedAt_def)
  with env show ?thesis by (auto simp: utf8_text_valid)
qed

subsection \<open>The whole path\<close>

text \<open>The transport: the writer's handler as the client's doer, for a URL's path function.\<close>

definition to_request :: "(string \<Rightarrow> string) \<Rightarrow> http_out \<Rightarrow> request" where
  "to_request upath o' =
     \<lparr>r_method = ho_method o', r_path = upath (ho_url o'), r_header = ho_header o', r_body = ho_body o',
      r_body_err = None, ctx_principal = None, ctx_request_id = None\<rparr>"

definition writer_doer :: "(string \<Rightarrow> string) \<Rightarrow> 'x handler \<Rightarrow> 'x doer" where
  "writer_doer upath serve o' x =
     (case serve (to_request upath o') new_writer x of
        Returned (w, x') \<Rightarrow> (Inr (response_of w), x')
      | Panicked (w, x') \<Rightarrow> (Inl (ForeignErr ''EOF'' None), x'))"

lemma contentType_json:
  "header_get (r_header r) ''Content-Type'' = ''application/json'' \<Longrightarrow> contentTypeOf E r = contentTypeJSON"
proof -
  have t: "tight ''application/json''"
    by (simp add: tight_def is_space_single char_class_defs)
  have l: "to_lower u ''application/json'' = ''application/json''" for u
    using t by (subst to_lower_ascii) (simp_all add: lower_ascii_def char_class_defs)
  assume "header_get (r_header r) ''Content-Type'' = ''application/json''"
  then show ?thesis
    by (simp add: contentTypeOf_def Let_def l trim_space_tight[OF t] contentTypeJSON_def)
qed

text \<open>The request \<open>Submit\<close> sends for a JSON client.\<close>

definition submit_header :: "'x client \<Rightarrow> string option \<Rightarrow> header" where
  "submit_header c key =
     (let h0 = header_set Map.empty ''Content-Type'' ''application/json'';
          h1 = (case key of None \<Rightarrow> h0 | Some v \<Rightarrow> header_set h0 ''Idempotency-Key'' v);
          h2 = (if cl_bearerToken c \<noteq> []
                then header_set h1 ''Authorization'' (''Bearer '' @ cl_bearerToken c) else h1)
      in if cl_userAgent c \<noteq> [] then header_set h2 ''User-Agent'' (cl_userAgent c) else h2)"

lemma submit_header_get:
  "header_get (submit_header c key) ''Content-Type'' = ''application/json''"
  "cl_bearerToken c \<noteq> [] \<Longrightarrow>
    header_get (submit_header c key) ''Authorization'' = ''Bearer '' @ cl_bearerToken c"
  "submit_header c None ''Idempotency-Key'' = None"
  "submit_header c (Some v) ''Idempotency-Key'' = Some [v]"
  by (cases key; simp add: submit_header_def Let_def header_set_def header_get_def)+

text \<open>
  The codecs on the way render what they read back: JSON text as \<open>json_codec\<close> says, protojson a message
  whose target, if there is one, is set.
\<close>

definition wire_libs :: "'ts ext \<Rightarrow> bool" where
  "wire_libs E \<longleftrightarrow>
     json_codec E
     \<and> (\<forall>n body. carried n \<and> x_pj_marshal E n = Inr body \<longrightarrow> x_pj_unmarshal E body = Inr n)"

text \<open>
  Where the client's server URL leads: it parses, and the operation's path resolved against it is
  \<open>/notifications\<close>, so it has no base path of its own. And a key the styled header carries: it binds
  to itself.
\<close>

definition leads_to :: "client_libs \<Rightarrow> (string \<Rightarrow> string) \<Rightarrow> string \<Rightarrow> string \<Rightarrow> bool" where
  "leads_to U upath server u \<longleftrightarrow> ux_resolve U server ''./notifications'' = Inr u \<and> upath u = notifications_path"

definition key_binds :: "client_libs \<Rightarrow> (string \<Rightarrow> goerr + string) \<Rightarrow> string \<Rightarrow> bool" where
  "key_binds U bind k \<longleftrightarrow> (\<exists>v. ux_style U k = Inr v \<and> bind v = Inr k)"

definition key_option :: "string \<Rightarrow> string option" where
  "key_option k = (if k = [] then None else Some k)"

lemma with_key_option: "with_key (key_option k) (if k \<noteq> [] then n\<lparr>n_idempotency_key := k\<rparr> else n)
    = (if k \<noteq> [] then n\<lparr>n_idempotency_key := k\<rparr> else n)"
  by (simp add: with_key_def key_option_def)

lemma Submit_sends:
  assumes u: "leads_to U upath (rc_Server (cl_raw c)) u"
    and k: "sq_IdempotencyKey q = [] \<or> key_binds U bind (sq_IdempotencyKey q)"
    and c: "cl_contentType c = ''application/json''" "rc_RequestEditors (cl_raw c) = []"
      "rc_Client (cl_raw c) = Some do"
    and q: "sq_Notification q = Some n"
    and n': "n' = (if sq_IdempotencyKey q \<noteq> [] then n\<lparr>n_idempotency_key := sq_IdempotencyKey q\<rparr> else n)"
    and m: "x_pj_marshal E n' = Inr body"
  obtains key where "Submit E U c (Some q) x =
       (case do \<lparr>ho_method = ''POST'', ho_url = u, ho_header = submit_header c key, ho_body = body\<rparr> x of
          (Inl e, x') \<Rightarrow> (Some (Inl (ClientErr e)), Some (q\<lparr>sq_Notification := Some n'\<rparr>), x')
        | (Inr resp, x') \<Rightarrow> (Some (parseResponse E resp), Some (q\<lparr>sq_Notification := Some n'\<rparr>), x'))"
    and "case key of None \<Rightarrow> key_option (sq_IdempotencyKey q) = None
         | Some v \<Rightarrow> \<exists>k. key_option (sq_IdempotencyKey q) = Some k \<and> bind v = Inr k"
proof -
  let ?k = "sq_IdempotencyKey q"
  obtain v where v: "?k \<noteq> [] \<Longrightarrow> ux_style U ?k = Inr v \<and> bind v = Inr ?k"
    using k unfolding key_binds_def by blast
  show thesis
  proof (rule that[of "if ?k = [] then None else Some v"])
    show "Submit E U c (Some q) x =
       (case do \<lparr>ho_method = ''POST'', ho_url = u,
            ho_header = submit_header c (if ?k = [] then None else Some v), ho_body = body\<rparr> x of
          (Inl e, x') \<Rightarrow> (Some (Inl (ClientErr e)), Some (q\<lparr>sq_Notification := Some n'\<rparr>), x')
        | (Inr resp, x') \<Rightarrow> (Some (parseResponse E resp), Some (q\<lparr>sq_Notification := Some n'\<rparr>), x'))"
      using q c u v m n'
      by (cases "?k = []")
         (simp_all add: leads_to_def Submit_def SubmitNotificationWithBody_def request_body_def submit_editor_def
            NewSubmitNotificationRequestWithBody_def submit_header_def Let_def
            split: prod.split sum.split)
  qed (use v in \<open>auto simp: key_option_def\<close>)
qed

text \<open>The request the client sends is a submission the writer's chain is set up for, with its body.\<close>

lemma client_submission:
  assumes libs: "wire_libs E" "mux_contract serve"
    and r: "r = to_request upath
      \<lparr>ho_method = ''POST'', ho_url = u, ho_header = submit_header c key, ho_body = body\<rparr>"
    and u: "upath u = notifications_path"
    and c: "tight (cl_bearerToken c)" "cl_bearerToken c \<noteq> []" "b (cl_bearerToken c) = Some p"
    and h: "h_ingester h = Some i" "i_publisher i = Some publish" "h_requestID h = Some RequestIDFromContext"
    and key: "case key of None \<Rightarrow> key_option k = None
         | Some v \<Rightarrow> \<exists>k'. key_option k = Some k' \<and> bind v = Inr k'"
    and body: "carried n" "x_pj_marshal E n = Inr body" "length body \<le> maxRequestBodyBytes"
    and id: "new_request_id newV7 r (ww_env x) = (rid, env')"
  shows "submission_setup serve bind newV7 (Authenticate b) h i publish r (ww_env x) rid env' p (key_option k)"
    and "decodeBody E r rid = Inr n"
proof -
  have hd: "r_header r = submit_header c key" "r_body r = body" "r_body_err r = None"
    "r_method r = ''POST''" "r_path r = notifications_path"
    by (simp_all add: r to_request_def u)
  have tok: "BearerToken r = cl_bearerToken c"
    by (rule BearerToken_tight[OF c(1)]) (simp add: hd submit_header_get c(2) bearer_prefix_def)
  have key': "bind_key bind r = Some (key_option k)"
    using key by (cases key) (auto simp: bind_key_def hd submit_header_get)
  show "submission_setup serve bind newV7 (Authenticate b) h i publish r (ww_env x) rid env' p (key_option k)"
    unfolding submission_setup_def
    using libs(2) id key' h tok c(2,3) by (simp add: Authenticate_Inr_iff hd)
  show "decodeBody E r rid = Inr n"
    using libs(1) body contentType_json[of r E]
    by (simp add: decodeBody_def read_body_def hd submit_header_get wire_libs_def Let_def)
qed

text \<open>What the client makes of the writer's answer: the identifier and the time, or the problem.\<close>

lemma client_reads_answer:
  assumes "json_codec E" and "unsent w"
    and "(\<exists>nid at. Q nid at \<and> w' = accepted_answer E rid \<lparr>ar_notification_id = nid, ar_accepted_at = at\<rparr> w)
         \<or> (\<exists>pr. answers_problem E r rid w w' pr)"
  shows "case parseResponse E (response_of w') of
      Inr env \<Rightarrow> sent_status w' = 202 \<and> RequestID env = utf8_text rid
        \<and> (\<exists>nid at. NotificationID env = utf8_text nid \<and> sd_accepted_at (en_data env) = format_ms at \<and> Q nid at)
    | Inl err \<Rightarrow> \<exists>pe. err = ProblemErr pe \<and> ce_status pe = sent_status w' \<and> ce_reqID pe = utf8_text rid
        \<and> \<not> client_is err CErrUnknownProblem \<and> client_is err (sentinelFor (ce_TypeURI pe))"
  using assms(3)
proof (elim disjE exE conjE)
  fix nid at assume "Q nid at" and w': "w' = accepted_answer E rid \<lparr>ar_notification_id = nid, ar_accepted_at = at\<rparr> w"
  obtain env where "parseResponse E (response_of w') = Inr env" "NotificationID env = utf8_text nid"
    "RequestID env = utf8_text rid" "sd_accepted_at (en_data env) = format_ms at"
    using parse_accepted[OF assms(1,2), of rid "\<lparr>ar_notification_id = nid, ar_accepted_at = at\<rparr>"]
    unfolding w' by auto
  moreover have "sent_status w' = 202" unfolding w' by (rule accepted_status(1)[OF assms(2)])
  ultimately show ?thesis using \<open>Q nid at\<close> by auto
next
  fix pr assume pr: "answers_problem E r rid w w' pr"
  then have c: "catalogued pr" "p_request_id pr = rid" by (simp_all add: answers_problem_def)
  with decoded_problem[OF assms(1) pr assms(2)] catalogued_known[OF catalogued_utf8[OF c(1)]]
    answers_status(1)[OF pr assms(2)]
  show ?thesis by (auto simp: problem_error_of_def utf8_problem_def)
qed

text \<open>C1: End to end: a JSON client with a token of the table, whose server URL leads to the writer, sends
  for every notification it can marshal (its target, if any, set) one \<open>POST /notifications\<close> with the
  marshalled body, which the writer answers under the request identifier \<open>rid\<close> it settles on for
  this request. Either the client is told the identifier and the time of a notification that broke no
  rule and was published for the token's service by this very request, in the world the publish call
  leaves and the access log line of the 202 follows; or it gets a problem of the catalogue,
  recognised by its sentinel, with the status in the access log. Both carry \<open>rid\<close> as text.\<close>

theorem end_to_end:
  assumes libs: "wire_libs E" "mux_contract serve"
    and u: "leads_to U upath (rc_Server (cl_raw c)) u"
    and c: "cl_contentType c = ''application/json''" "rc_RequestEditors (cl_raw c) = []"
      "rc_Client (cl_raw c) = Some (writer_doer upath
         (server_chain E bind newV7 serve logger h (Authenticate b)))"
      "tight (cl_bearerToken c)" "cl_bearerToken c \<noteq> []" "b (cl_bearerToken c) = Some p"
    and h: "h_ingester h = Some i" "i_publisher i = Some publish" "h_requestID h = Some RequestIDFromContext"
    and q: "sq_Notification q = Some n"
      "n' = (if sq_IdempotencyKey q \<noteq> [] then n\<lparr>n_idempotency_key := sq_IdempotencyKey q\<rparr> else n)"
      "carried n" "x_pj_marshal E n' = Inr body" "length body \<le> maxRequestBodyBytes"
      "sq_IdempotencyKey q = [] \<or> key_binds U bind (sq_IdempotencyKey q)"
  shows "\<exists>ho res x' rid env' env''. ho_method ho = ''POST'' \<and> ho_url ho = u \<and> ho_body ho = body
     \<and> new_request_id newV7 (to_request upath ho) (ww_env x) = (rid, env')
     \<and> Submit E U c (Some q) x = (Some res, Some (q\<lparr>sq_Notification := Some n'\<rparr>), x')
     \<and> (case res of
          Inr env \<Rightarrow> RequestID env = utf8_text rid
            \<and> ww_env x' = logger (HttpRequest ''POST'' notifications_path 202 rid) env''
            \<and> (\<exists>nid at. NotificationID env = utf8_text nid \<and> sd_accepted_at (en_data env) = format_ms at
                 \<and> published E i publish (service_name p) n' env' nid at env'')
        | Inl err \<Rightarrow> \<exists>pe. err = ProblemErr pe \<and> ce_reqID pe = utf8_text rid
            \<and> ww_env x' = logger (HttpRequest ''POST'' notifications_path (ce_status pe) rid) env''
            \<and> \<not> client_is err CErrUnknownProblem \<and> client_is err (sentinelFor (ce_TypeURI pe)))"
proof -
  let ?chain = "server_chain E bind newV7 serve logger h (Authenticate b)"
  obtain key where S: "Submit E U c (Some q) x =
       (case writer_doer upath ?chain
            \<lparr>ho_method = ''POST'', ho_url = u, ho_header = submit_header c key, ho_body = body\<rparr> x of
          (Inl e, x') \<Rightarrow> (Some (Inl (ClientErr e)), Some (q\<lparr>sq_Notification := Some n'\<rparr>), x')
        | (Inr resp, x') \<Rightarrow> (Some (parseResponse E resp), Some (q\<lparr>sq_Notification := Some n'\<rparr>), x'))"
    and key: "case key of None \<Rightarrow> key_option (sq_IdempotencyKey q) = None
         | Some v \<Rightarrow> \<exists>k. key_option (sq_IdempotencyKey q) = Some k \<and> bind v = Inr k"
    by (rule Submit_sends[OF u q(6) c(1-3) q(1,2,4)])
  let ?ho = "\<lparr>ho_method = ''POST'', ho_url = u, ho_header = submit_header c key, ho_body = body\<rparr>"
  let ?r = "to_request upath ?ho"
  obtain rid env' where id: "new_request_id newV7 ?r (ww_env x) = (rid, env')" by force
  have n': "carried n'" using q(2,3) by simp
  have path: "upath u = notifications_path" using u by (simp add: leads_to_def)
  note sub = client_submission[where b = b and u = u and c = c, OF libs refl path c(4-6) h key n' q(4,5) id]
  have wk: "with_key (key_option (sq_IdempotencyKey q)) n' = n'"
    unfolding q(2) by (rule with_key_option)
  let ?w = "set_header ''X-Request-Id'' rid new_writer"
  obtain w' env'' x' where run: "?chain ?r new_writer x = Returned (w', x')"
    and log: "ww_env x' = logger (HttpRequest ''POST'' notifications_path (sent_status w') rid) env''"
    and alt: "(\<exists>nid at. published E i publish (service_name p) n' env' nid at env''
           \<and> w' = accepted_answer E rid \<lparr>ar_notification_id = nid, ar_accepted_at = at\<rparr> ?w)
        \<or> (\<exists>pr. answers_problem E ?r rid ?w w' pr)"
    using submission_answered_core[OF sub(1), of E logger] sub(2) wk by fastforce
  have codec: "json_codec E" using libs(1) by (simp add: wire_libs_def)
  have "Submit E U c (Some q) x =
      (Some (parseResponse E (response_of w')), Some (q\<lparr>sq_Notification := Some n'\<rparr>), x')"
    by (simp add: S writer_doer_def run)
  with client_reads_answer[OF codec unsent_with_id alt] log id show ?thesis
    by (intro exI[of _ ?ho] exI[of _ "parseResponse E (response_of w')"] exI[of _ x'] exI[of _ rid]
        exI[of _ env'] exI[of _ env'']) (auto split: sum.split)
qed

end
