(* ===== verification/Url_Form.thy ===== *)
theory Url_Form
  imports Go_Strings "HOL-Library.AList" "HOL-Library.List_Lexorder" "HOL-Library.Char_ord"
begin

text \<open>
  The part of \<open>net/url\<close> the Pushover backend uses: \<open>url.Values\<close> with one value per key, its \<open>Set\<close>
  and \<open>Encode\<close>, and a decoder to state what the encoding means to the receiver.
\<close>

type_synonym form = "(string \<times> string) list"

definition form_set :: "string \<Rightarrow> string \<Rightarrow> form \<Rightarrow> form" where
  "form_set k v f = AList.update k v f"

definition form_get :: "form \<Rightarrow> string \<Rightarrow> string option" where
  "form_get f k = map_of f k"

lemma form_get_set [simp]: "form_get (form_set k v f) = (form_get f)(k \<mapsto> v)"
  by (rule ext) (simp add: form_get_def form_set_def update_conv)

lemma form_get_Nil [simp]: "form_get [] = Map.empty"
  by (rule ext) (simp add: form_get_def)

lemma distinct_form_set: "distinct (map fst f) \<Longrightarrow> distinct (map fst (form_set k v f))"
  by (simp add: form_set_def distinct_update)

subsection \<open>Query escaping\<close>

definition hex_digit :: "nat \<Rightarrow> char" where
  "hex_digit n = char_of (if n < 10 then 48 + n else 55 + n)"

definition hex_val :: "char \<Rightarrow> nat" where
  "hex_val c = (if is_digit c then byte c - 48 else byte c - 55)"

definition unescaped :: "char \<Rightarrow> bool" where
  "unescaped c \<longleftrightarrow> is_alnum c \<or> c = CHR ''-'' \<or> c = CHR ''_'' \<or> c = CHR ''.'' \<or> c = CHR ''~''"

definition escape_char :: "char \<Rightarrow> string" where
  "escape_char c =
     (if unescaped c then [c]
      else if c = CHR '' '' then [CHR ''+'']
      else [CHR ''%'', hex_digit (byte c div 16), hex_digit (byte c mod 16)])"

definition QueryEscape :: "string \<Rightarrow> string" where
  "QueryEscape s = concat (map escape_char s)"

fun query_unescape :: "string \<Rightarrow> string" where
  "query_unescape [] = []"
| "query_unescape (c # s) =
     (if c = CHR ''%'' then
        (case s of a # b # s' \<Rightarrow> char_of (16 * hex_val a + hex_val b) # query_unescape (drop 2 s)
         | _ \<Rightarrow> query_unescape s)
      else if c = CHR ''+'' then CHR '' '' # query_unescape s
      else c # query_unescape s)"

lemma byte_hex_digit: "n < 16 \<Longrightarrow> byte (hex_digit n) = (if n < 10 then 48 + n else 55 + n)"
  by (simp add: hex_digit_def)

lemma hex_val_digit: "n < 16 \<Longrightarrow> hex_val (hex_digit n) = n"
  by (simp add: hex_val_def is_digit_def byte_hex_digit)

lemma char_of_byte [simp]: "char_of (byte c) = c"
  by (simp add: byte_def)

lemma unescaped_not_special: "unescaped c \<Longrightarrow> c \<notin> {CHR ''%'', CHR ''+'', CHR ''&'', CHR ''=''}"
  by (auto simp: unescaped_def char_class_defs)

lemma unescape_escape_char: "query_unescape (escape_char c @ s) = c # query_unescape s"
proof (cases "unescaped c")
  case True
  then show ?thesis using unescaped_not_special[OF True] by (simp add: escape_char_def)
next
  case False
  show ?thesis
  proof (cases "c = CHR '' ''")
    case True
    then show ?thesis using False by (simp add: escape_char_def)
  next
    case nsp: False
    have "byte c div 16 < 16" and "16 * (byte c div 16) + byte c mod 16 = byte c"
      using byte_bound[of c] by auto
    then show ?thesis using False nsp by (simp add: escape_char_def hex_val_digit)
  qed
qed

lemma unescape_QueryEscape: "query_unescape (QueryEscape s @ t) = s @ query_unescape t"
  by (induction s) (simp_all add: QueryEscape_def unescape_escape_char)

lemma query_roundtrip: "query_unescape (QueryEscape s) = s"
  using unescape_QueryEscape[of s "[]"] by simp

lemma hex_digit_plain: "n < 16 \<Longrightarrow> hex_digit n \<notin> {CHR ''&'', CHR ''=''}"
  using byte_hex_digit[of n] by (auto simp: byte_def split: if_splits)

lemma QueryEscape_plain: "c \<in> set (QueryEscape s) \<Longrightarrow> c \<notin> {CHR ''&'', CHR ''=''}"
proof -
  assume "c \<in> set (QueryEscape s)"
  then obtain b where b: "c \<in> set (escape_char b)" by (auto simp: QueryEscape_def)
  have "byte b div 16 < 16" "byte b mod 16 < 16" using byte_bound[of b] by auto
  from hex_digit_plain[OF this(1)] hex_digit_plain[OF this(2)] b show ?thesis
    using unescaped_not_special[of b]
    by (auto simp: escape_char_def split: if_splits)
qed

subsection \<open>Encoding a form\<close>

definition encode_pair :: "string \<times> string \<Rightarrow> string" where
  "encode_pair kv = QueryEscape (fst kv) @ CHR ''='' # QueryEscape (snd kv)"

definition Encode :: "form \<Rightarrow> string" where
  "Encode f = join_with (CHR ''&'') (map encode_pair (sort_key fst f))"

definition parse_pair :: "string \<Rightarrow> string \<times> string" where
  "parse_pair s =
     (query_unescape (takeWhile (\<lambda>c. c \<noteq> CHR ''='') s),
      query_unescape (drop 1 (dropWhile (\<lambda>c. c \<noteq> CHR ''='') s)))"

definition parse_form :: "string \<Rightarrow> form" where
  "parse_form s = (if s = [] then [] else map parse_pair (split_on (CHR ''&'') s))"

lemma parse_encode_pair: "parse_pair (encode_pair kv) = kv"
proof -
  have "takeWhile (\<lambda>c. c \<noteq> CHR ''='') (QueryEscape k @ CHR ''='' # v) = QueryEscape k"
    and "dropWhile (\<lambda>c. c \<noteq> CHR ''='') (QueryEscape k @ CHR ''='' # v) = CHR ''='' # v" for k v
    using QueryEscape_plain[of _ k] by (auto simp: takeWhile_append2 dropWhile_append2)
  then show ?thesis by (simp add: parse_pair_def encode_pair_def query_roundtrip)
qed

lemma split_on_piece: "d \<notin> set p \<Longrightarrow> split_on d (p @ d # s) = p # split_on d s"
  by (induction p) auto

lemma split_join:
  "ps \<noteq> [] \<Longrightarrow> (\<And>p. p \<in> set ps \<Longrightarrow> d \<notin> set p) \<Longrightarrow> split_on d (join_with d ps) = ps"
  by (induction d ps rule: join_with.induct) (auto simp: split_on_no_sep split_on_piece)

lemma encode_pair_plain: "CHR ''&'' \<notin> set (encode_pair kv)"
  using QueryEscape_plain[of "CHR ''&''"] by (auto simp: encode_pair_def)

lemma parse_Encode: "parse_form (Encode f) = sort_key fst f"
proof (cases "sort_key fst f")
  case Nil
  then show ?thesis by (simp add: Encode_def parse_form_def)
next
  case (Cons kv kvs)
  have "encode_pair kv \<noteq> []" by (simp add: encode_pair_def)
  then have ne: "Encode f \<noteq> []"
    by (cases kvs) (simp_all add: Encode_def Cons)
  have "split_on (CHR ''&'') (Encode f) = map encode_pair (sort_key fst f)"
    unfolding Encode_def
  proof (rule split_join)
    show "map encode_pair (sort_key fst f) \<noteq> []" by (simp add: Cons)
  next
    fix p
    assume "p \<in> set (map encode_pair (sort_key fst f))"
    then obtain q where "p = encode_pair q" by auto
    then show "CHR ''&'' \<notin> set p" using encode_pair_plain[of q] by simp
  qed
  then show ?thesis using ne by (simp add: parse_form_def o_def parse_encode_pair)
qed

lemma form_get_sort:
  assumes "distinct (map fst f)"
  shows "form_get (sort_key fst f) = form_get f"
proof -
  have d: "distinct (map fst (sort_key fst f))" using assms by (simp add: distinct_map)
  show ?thesis
  proof (rule ext)
    fix k
    have "map_of (sort_key fst f) k = Some v \<longleftrightarrow> map_of f k = Some v" for v
      using map_of_eq_Some_iff[OF d, of k v] map_of_eq_Some_iff[OF assms, of k v] by simp
    then show "form_get (sort_key fst f) k = form_get f k"
      unfolding form_get_def by (cases "map_of f k"; cases "map_of (sort_key fst f) k") auto
  qed
qed

end
