(* ===== verification/Client_Generated.thy ===== *)
theory Client_Generated
  imports Client_Spec Url_Form
begin

text \<open>
  The client generated from \<open>api/openapi.yaml\<close> beyond what the theory Client uses of it: the body and
  response types, the typed calls, \<open>ParseSubmitNotificationResponse\<close> and \<open>ClientWithResponses\<close>. The
  encoders and decoders of \<open>time.Time\<close> and of a UUID are arguments. The
  document names its members in camel case; what that means for the writer's answers is proved at
  the end.
\<close>

record g_meta =
  g_RequestId :: string

record ('t, 'u) g_data =
  g_AcceptedAt :: 't
  g_NotificationId :: 'u

record ('t, 'u) SubmitNotificationSuccess =
  g_Data :: "('t, 'u) g_data"
  g_Meta :: g_meta

record g_field_error =
  g_Code :: string
  g_Field :: string
  g_Message :: "string option"

record g_problem =
  gp_Detail :: string
  gp_Errors :: "g_field_error list option"
  gp_Instance :: string
  gp_RequestId :: string
  gp_Status :: int
  gp_Title :: string
  gp_Type :: string

text \<open>The generator emits the closed set of codes into both packages.\<close>

definition g_FieldErrorCode_Valid :: "string \<Rightarrow> bool" where
  "g_FieldErrorCode_Valid e \<longleftrightarrow>
     e = ''before-created-at'' \<or> e = ''key-invalid'' \<or> e = ''malformed'' \<or> e = ''missing''
     \<or> e = ''out-of-range'' \<or> e = ''required'' \<or> e = ''requires-url'' \<or> e = ''too-long''
     \<or> e = ''too-many-entries'' \<or> e = ''unknown-arm'' \<or> e = ''value-too-long'' \<or> e = ''whitespace-only''"

lemma same_field_codes: "g_FieldErrorCode_Valid = FieldErrorCode_Valid"
  by (simp add: fun_eq_iff g_FieldErrorCode_Valid_def FieldErrorCode_Valid_def)

text \<open>A pointer target: \<open>null\<close> sets it to nil, any other value decodes into a fresh or the old one.\<close>

definition dec_ptr :: "'a decoder \<Rightarrow> 'a \<Rightarrow> 'a option decoder" where
  "dec_ptr dec zero j d =
     (if j = JNull then (False, None)
      else case dec j (case d of None \<Rightarrow> zero | Some v \<Rightarrow> v) of (e, v) \<Rightarrow> (e, Some v))"

definition g_meta_fields :: "g_meta json_field list" where
  "g_meta_fields = [(''requestId'', field_of g_RequestId (\<lambda>v s. s\<lparr>g_RequestId := v\<rparr>) dec_string)]"

definition g_data_fields :: "'t decoder \<Rightarrow> 'u decoder \<Rightarrow> ('t, 'u) g_data json_field list" where
  "g_data_fields dec_time dec_uuid =
     [(''acceptedAt'', field_of g_AcceptedAt (\<lambda>v s. s\<lparr>g_AcceptedAt := v\<rparr>) dec_time),
      (''notificationId'', field_of g_NotificationId (\<lambda>v s. s\<lparr>g_NotificationId := v\<rparr>) dec_uuid)]"

definition g_success_fields ::
  "'t decoder \<Rightarrow> 'u decoder \<Rightarrow> ('t, 'u) SubmitNotificationSuccess json_field list" where
  "g_success_fields dec_time dec_uuid =
     [(''data'', field_of g_Data (\<lambda>v s. s\<lparr>g_Data := v\<rparr>) (dec_struct (g_data_fields dec_time dec_uuid))),
      (''meta'', field_of g_Meta (\<lambda>v s. s\<lparr>g_Meta := v\<rparr>) (dec_struct g_meta_fields))]"

definition g_error_fields :: "g_field_error json_field list" where
  "g_error_fields =
     [(''code'', field_of g_Code (\<lambda>v s. s\<lparr>g_Code := v\<rparr>) dec_string),
      (''field'', field_of g_Field (\<lambda>v s. s\<lparr>g_Field := v\<rparr>) dec_string),
      (''message'', field_of g_Message (\<lambda>v s. s\<lparr>g_Message := v\<rparr>) (dec_ptr dec_string []))]"

definition g_problem_fields :: "g_problem json_field list" where
  "g_problem_fields =
     [(''detail'', field_of gp_Detail (\<lambda>v s. s\<lparr>gp_Detail := v\<rparr>) dec_string),
      (''errors'', field_of gp_Errors (\<lambda>v s. s\<lparr>gp_Errors := v\<rparr>)
         (dec_ptr (dec_list (dec_struct g_error_fields) \<lparr>g_Code = [], g_Field = [], g_Message = None\<rparr>) [])),
      (''instance'', field_of gp_Instance (\<lambda>v s. s\<lparr>gp_Instance := v\<rparr>) dec_string),
      (''requestId'', field_of gp_RequestId (\<lambda>v s. s\<lparr>gp_RequestId := v\<rparr>) dec_string),
      (''status'', field_of gp_Status (\<lambda>v s. s\<lparr>gp_Status := v\<rparr>) dec_int),
      (''title'', field_of gp_Title (\<lambda>v s. s\<lparr>gp_Title := v\<rparr>) dec_string),
      (''type'', field_of gp_Type (\<lambda>v s. s\<lparr>gp_Type := v\<rparr>) dec_string)]"

definition empty_g_problem :: g_problem where
  "empty_g_problem = \<lparr>gp_Detail = [], gp_Errors = None, gp_Instance = [], gp_RequestId = [],
     gp_Status = 0, gp_Title = [], gp_Type = []\<rparr>"

definition empty_g_success :: "'t \<Rightarrow> 'u \<Rightarrow> ('t, 'u) SubmitNotificationSuccess" where
  "empty_g_success t0 u0 = \<lparr>g_Data = \<lparr>g_AcceptedAt = t0, g_NotificationId = u0\<rparr>, g_Meta = \<lparr>g_RequestId = []\<rparr>\<rparr>"

text \<open>
  The six problem members of the response differ only in the status they are for; \<open>pr_problem\<close> is
  the one set, with its status, if any.
\<close>

record ('t, 'u) parsed_response =
  pr_Body :: string
  pr_HTTPResponse :: "http_response option"
  pr_JSON202 :: "('t, 'u) SubmitNotificationSuccess option"
  pr_problem :: "(int \<times> g_problem) option"

definition StatusCode :: "('t, 'u) parsed_response \<Rightarrow> int" where
  "StatusCode r = (case pr_HTTPResponse r of Some rsp \<Rightarrow> hr_status rsp | None \<Rightarrow> 0)"

definition ParseSubmitNotificationResponse ::
  "'ts ext \<Rightarrow> 't decoder \<Rightarrow> 'u decoder \<Rightarrow> 't \<Rightarrow> 'u \<Rightarrow> http_response
    \<Rightarrow> goerr + ('t, 'u) parsed_response" where
  "ParseSubmitNotificationResponse E dec_time dec_uuid t0 u0 rsp =
     (case hr_body_err rsp of
        Some e \<Rightarrow> Inl e
      | None \<Rightarrow>
          (let contentType = header_get (hr_header rsp) ''Content-Type'';
               body = hr_body rsp;
               response = \<lparr>pr_Body = body, pr_HTTPResponse = Some rsp, pr_JSON202 = None, pr_problem = None\<rparr>
           in if contains contentType ''json'' \<and> hr_status rsp = 202 then
                (case json_unmarshal E body (dec_struct (g_success_fields dec_time dec_uuid))
                        (empty_g_success t0 u0) of
                   (Some e, _) \<Rightarrow> Inl e
                 | (None, dest) \<Rightarrow> Inr (response\<lparr>pr_JSON202 := Some dest\<rparr>))
              else if contains contentType ''json'' \<and> hr_status rsp \<in> {400, 401, 409, 415, 500, 503} then
                (case json_unmarshal E body (dec_struct g_problem_fields) empty_g_problem of
                   (Some e, _) \<Rightarrow> Inl e
                 | (None, dest) \<Rightarrow> Inr (response\<lparr>pr_problem := Some (hr_status rsp, dest)\<rparr>))
              else Inr response))"

subsection \<open>The request side\<close>

text \<open>The body types, with the JSON they marshal to: a nil pointer is left out, keys are sorted.\<close>

record g_content =
  gc_Body :: string
  gc_Data :: "(string \<times> string) list option"
  gc_Priority :: "int option"
  gc_Title :: string

record g_pushover_target =
  gt_DeviceName :: "string option"
  gt_Sound :: "string option"
  gt_Url :: "string option"
  gt_UrlTitle :: "string option"
  gt_UserOrGroupKey :: string

record ('t, 'u) g_notification =
  gn_Content :: g_content
  gn_CreatedAt :: "'t option"
  gn_ExpiresAt :: "'t option"
  gn_IdempotencyKey :: "string option"
  gn_NotificationId :: "'u option"
  gn_OriginatingService :: "string option"
  gn_Pushover :: g_pushover_target

definition omitempty :: "string \<Rightarrow> ('a \<Rightarrow> json) \<Rightarrow> 'a option \<Rightarrow> (string \<times> json) list" where
  "omitempty k enc v = (case v of None \<Rightarrow> [] | Some x \<Rightarrow> [(k, enc x)])"

definition g_content_json :: "g_content \<Rightarrow> json" where
  "g_content_json c = JObject ([(''body'', JString (gc_Body c))]
     @ omitempty ''data'' (\<lambda>d. JObject (map (\<lambda>(k, v). (k, JString v)) (sort_key fst d))) (gc_Data c)
     @ omitempty ''priority'' JInt (gc_Priority c) @ [(''title'', JString (gc_Title c))])"

definition g_pushover_json :: "g_pushover_target \<Rightarrow> json" where
  "g_pushover_json t = JObject (omitempty ''deviceName'' JString (gt_DeviceName t)
     @ omitempty ''sound'' JString (gt_Sound t) @ omitempty ''url'' JString (gt_Url t)
     @ omitempty ''urlTitle'' JString (gt_UrlTitle t) @ [(''userOrGroupKey'', JString (gt_UserOrGroupKey t))])"

definition g_notification_json ::
  "('t \<Rightarrow> json) \<Rightarrow> ('u \<Rightarrow> json) \<Rightarrow> ('t, 'u) g_notification \<Rightarrow> json" where
  "g_notification_json enc_time enc_uuid n = JObject ([(''content'', g_content_json (gn_Content n))]
     @ omitempty ''createdAt'' enc_time (gn_CreatedAt n) @ omitempty ''expiresAt'' enc_time (gn_ExpiresAt n)
     @ omitempty ''idempotencyKey'' JString (gn_IdempotencyKey n)
     @ omitempty ''notificationId'' enc_uuid (gn_NotificationId n)
     @ omitempty ''originatingService'' JString (gn_OriginatingService n)
     @ [(''pushover'', g_pushover_json (gn_Pushover n))])"

text \<open>
  Marshalling fails only for an instant outside the years JSON can print; the encoder of times is
  an argument and \<open>printable\<close> says which it prints.
\<close>

definition g_marshal ::
  "'ts ext \<Rightarrow> ('t \<Rightarrow> bool) \<Rightarrow> ('t \<Rightarrow> json) \<Rightarrow> ('u \<Rightarrow> json) \<Rightarrow> ('t, 'u) g_notification \<Rightarrow> goerr + string" where
  "g_marshal E printable enc_time enc_uuid n =
     (if pred_option printable (gn_CreatedAt n) \<and> pred_option printable (gn_ExpiresAt n)
      then Inr (x_json_encode E (g_notification_json enc_time enc_uuid n))
      else Inl (ForeignErr ''json: error calling MarshalJSON for type time.Time'' None))"

definition NewSubmitNotificationRequest ::
  "'ts ext \<Rightarrow> client_libs \<Rightarrow> ('t \<Rightarrow> bool) \<Rightarrow> ('t \<Rightarrow> json) \<Rightarrow> ('u \<Rightarrow> json) \<Rightarrow> string \<Rightarrow> string option
    \<Rightarrow> ('t, 'u) g_notification \<Rightarrow> goerr + http_out" where
  "NewSubmitNotificationRequest E U printable enc_time enc_uuid server idem n =
     bind_res (g_marshal E printable enc_time enc_uuid n)
       (NewSubmitNotificationRequestWithBody U server idem ''application/json'')"

definition g_SubmitNotification ::
  "'ts ext \<Rightarrow> client_libs \<Rightarrow> ('t \<Rightarrow> bool) \<Rightarrow> ('t \<Rightarrow> json) \<Rightarrow> ('u \<Rightarrow> json) \<Rightarrow> 'x raw_client \<Rightarrow> string option
    \<Rightarrow> ('t, 'u) g_notification \<Rightarrow> request_editor list \<Rightarrow> 'x \<Rightarrow> (goerr + http_response) option \<times> 'x" where
  "g_SubmitNotification E U printable enc_time enc_uuid c idem n editors x =
     (case NewSubmitNotificationRequest E U printable enc_time enc_uuid (rc_Server c) idem n of
        Inl e \<Rightarrow> (Some (Inl e), x)
      | Inr req \<Rightarrow>
          (case applyEditors (rc_RequestEditors c @ editors) req of
             Inl e \<Rightarrow> (Some (Inl e), x)
           | Inr req' \<Rightarrow>
               (case rc_Client c of
                  None \<Rightarrow> (None, x)
                | Some do \<Rightarrow> (case do req' x of (r, x') \<Rightarrow> (Some r, x')))))"

text \<open>\<open>ClientWithResponses\<close> parses what the call returned.\<close>

definition NewClientWithResponses ::
  "'x doer \<Rightarrow> string \<Rightarrow> 'x generated_option list \<Rightarrow> goerr + 'x raw_client" where
  "NewClientWithResponses default_doer server opts = generated_NewClient default_doer server opts"

definition with_response ::
  "(http_response \<Rightarrow> goerr + 'p) \<Rightarrow> (goerr + http_response) option \<times> 'x \<Rightarrow> (goerr + 'p) option \<times> 'x" where
  "with_response parse r = (case r of (res, x') \<Rightarrow> (map_option (\<lambda>q. bind_res q parse) res, x'))"

definition SubmitNotificationWithBodyWithResponse ::
  "'ts ext \<Rightarrow> client_libs \<Rightarrow> 't decoder \<Rightarrow> 'u decoder \<Rightarrow> 't \<Rightarrow> 'u \<Rightarrow> 'x raw_client \<Rightarrow> string option \<Rightarrow> string
    \<Rightarrow> string \<Rightarrow> request_editor list \<Rightarrow> 'x \<Rightarrow> (goerr + ('t, 'u) parsed_response) option \<times> 'x" where
  "SubmitNotificationWithBodyWithResponse E U dec_time dec_uuid t0 u0 c idem contentType body editors x =
     with_response (ParseSubmitNotificationResponse E dec_time dec_uuid t0 u0)
       (SubmitNotificationWithBody U c idem contentType body editors x)"

definition SubmitNotificationWithResponse ::
  "'ts ext \<Rightarrow> client_libs \<Rightarrow> ('t \<Rightarrow> bool) \<Rightarrow> ('t \<Rightarrow> json) \<Rightarrow> ('u \<Rightarrow> json) \<Rightarrow> 't decoder \<Rightarrow> 'u decoder
    \<Rightarrow> 't \<Rightarrow> 'u \<Rightarrow> 'x raw_client \<Rightarrow> string option \<Rightarrow> ('t, 'u) g_notification \<Rightarrow> request_editor list \<Rightarrow> 'x
    \<Rightarrow> (goerr + ('t, 'u) parsed_response) option \<times> 'x" where
  "SubmitNotificationWithResponse E U printable enc_time enc_uuid dec_time dec_uuid t0 u0 c idem n editors x =
     with_response (ParseSubmitNotificationResponse E dec_time dec_uuid t0 u0)
       (g_SubmitNotification E U printable enc_time enc_uuid c idem n editors x)"

text \<open>The typed call is the raw call with the marshalled body.\<close>

lemma g_SubmitNotification_body:
  "g_marshal E printable enc_time enc_uuid n = Inr b \<Longrightarrow>
   g_SubmitNotification E U printable enc_time enc_uuid c idem n editors x
     = SubmitNotificationWithBody U c idem ''application/json'' b editors x"
  by (simp add: g_SubmitNotification_def NewSubmitNotificationRequest_def SubmitNotificationWithBody_def)

subsection \<open>The writer's answers read by the generated client\<close>

lemma json_fold_ascii: "list_all is_ascii k \<Longrightarrow> json_fold k = map lower_ascii k"
proof -
  assume k: "list_all is_ascii k"
  have "json_fold_rune [c] = [lower_ascii c]" for c
    by (simp add: json_fold_rune_def)
  then show ?thesis
    using k by (simp add: json_fold_def runes_ascii o_def concat_map_single)
qed

lemma member_folds:
  "json_fold ''requestId'' = ''requestid''" "json_fold ''request_id'' = ''request_id''"
  "json_fold ''acceptedAt'' = ''acceptedat''" "json_fold ''accepted_at'' = ''accepted_at''"
  "json_fold ''notificationId'' = ''notificationid''" "json_fold ''notification_id'' = ''notification_id''"
  "json_fold ''detail'' = ''detail''" "json_fold ''errors'' = ''errors''"
  "json_fold ''instance'' = ''instance''" "json_fold ''status'' = ''status''"
  "json_fold ''title'' = ''title''" "json_fold ''type'' = ''type''"
  by (simp_all add: json_fold_ascii is_ascii_def byte_def lower_ascii_def is_upper_def char_of_def bit_0)

lemma dec_success_misses:
  "dec_struct (g_success_fields dec_time dec_uuid) (success_json submitData_json (env_New rid d))
     (empty_g_success t0 u0) = (False, empty_g_success t0 u0)"
  by (simp add: success_json_def env_New_def submitData_json_def g_success_fields_def g_data_fields_def
      g_meta_fields_def empty_g_success_def dec_struct_def dec_member_def find_field_def field_of_def
      member_folds)

text \<open>C38: The client generated from the OpenAPI document reads no identifier from the writer's
  answers: the document says \<open>requestId\<close>, \<open>notificationId\<close> and \<open>acceptedAt\<close> where the writer sends
  \<open>request_id\<close>, \<open>notification_id\<close> and \<open>accepted_at\<close>, and the JSON decoder does not match the two.
  A 202 answer parses without an error into the zero value.\<close>

theorem generated_client_reads_nothing:
  assumes "json_codec E" and "unsent w"
  shows "ParseSubmitNotificationResponse E dec_time dec_uuid t0 u0
           (response_of (accepted_answer E rid res w))
     = Inr \<lparr>pr_Body = rw_body (accepted_answer E rid res w),
            pr_HTTPResponse = Some (response_of (accepted_answer E rid res w)),
            pr_JSON202 = Some (empty_g_success t0 u0), pr_problem = None\<rparr>"
proof -
  let ?d = "\<lparr>sd_notification_id = ar_notification_id res, sd_accepted_at = format_ms (ar_accepted_at res)\<rparr>"
  have "rw_body (accepted_answer E rid res w) =
      x_json_encode E (success_json submitData_json (env_New rid ?d)) @ [newline]"
    using write_json_unsent[OF assms(2)] by (simp add: accepted_answer_def write_envelope_def)
  then have "json_unmarshal E (rw_body (accepted_answer E rid res w))
      (dec_struct (g_success_fields dec_time dec_uuid)) (empty_g_success t0 u0)
    = (None, empty_g_success t0 u0)"
    using assms(1)
    by (simp add: json_unmarshal_def json_codecD success_json_codable json_text_success dec_success_misses)
  moreover have "header_get (rw_sent (accepted_answer E rid res w)) ''Content-Type'' = ''application/json''"
    by (simp add: accepted_answer_def write_envelope_def write_json_unsent(3)[OF assms(2)])
  ultimately show ?thesis
    using accepted_status(1)[OF assms(2), of E rid res]
    by (simp add: ParseSubmitNotificationResponse_def response_of_def Let_def)
qed

end
