(* ===== verification/Server_Generated.thy ===== *)
theory Server_Generated
  imports Client_Generated "HOL-Library.AList"
begin

text \<open>
  The server generated from \<open>api/openapi.yaml\<close> (\<open>server.gen.go\<close>) beyond what the theory HttpServer
  uses of it: the router built with options, the response objects and the strict handler. The
  writer links this code but does not call it. It is generated from the same document as the client
  of the theory Client_Generated; the theory Server_Generated_Spec proves that the two fit together,
  which the hand-written handler and the generated client do not.
\<close>

subsection \<open>Types\<close>

text \<open>
  The body types have the members of the client's copies. Times and UUIDs are types of libraries:
  type variables, with their JSON codecs in one record. \<open>sc_printable\<close> says which times marshal.
\<close>

type_synonym sg_content = g_content
type_synonym sg_pushover_target = g_pushover_target
type_synonym sg_field_error = g_field_error
type_synonym sg_problem = g_problem
type_synonym ('t, 'u) sg_notification = "('t, 'u) g_notification"
type_synonym ('t, 'u) sg_success = "('t, 'u) SubmitNotificationSuccess"

record ('t, 'u) scalar_codec =
  sc_printable :: "'t \<Rightarrow> bool"
  sc_enc_time :: "'t \<Rightarrow> json"
  sc_enc_uuid :: "'u \<Rightarrow> json"
  sc_dec_time :: "'t decoder"
  sc_dec_uuid :: "'u decoder"
  sc_zero_time :: 't
  sc_zero_uuid :: 'u

text \<open>\<open>map[string]string\<close>: the members are added to the map that is there, later ones win.\<close>

definition dec_map_entry ::
  "string \<times> json \<Rightarrow> bool \<times> (string \<times> string) list \<Rightarrow> bool \<times> (string \<times> string) list" where
  "dec_map_entry kv st =
     (case dec_string (snd kv) [] of (e, v) \<Rightarrow> (fst st \<or> e, AList.update (fst kv) v (snd st)))"

definition dec_map :: "(string \<times> string) list decoder" where
  "dec_map j d =
     (case j of
        JObject kvs \<Rightarrow> fold dec_map_entry kvs (False, d)
      | JNull \<Rightarrow> (False, [])
      | _ \<Rightarrow> (True, d))"

definition g_content_fields :: "g_content json_field list" where
  "g_content_fields =
     [(''body'', field_of gc_Body (\<lambda>v s. s\<lparr>gc_Body := v\<rparr>) dec_string),
      (''data'', field_of gc_Data (\<lambda>v s. s\<lparr>gc_Data := v\<rparr>) (dec_ptr dec_map [])),
      (''priority'', field_of gc_Priority (\<lambda>v s. s\<lparr>gc_Priority := v\<rparr>) (dec_ptr dec_int 0)),
      (''title'', field_of gc_Title (\<lambda>v s. s\<lparr>gc_Title := v\<rparr>) dec_string)]"

definition g_pushover_fields :: "g_pushover_target json_field list" where
  "g_pushover_fields =
     [(''deviceName'', field_of gt_DeviceName (\<lambda>v s. s\<lparr>gt_DeviceName := v\<rparr>) (dec_ptr dec_string [])),
      (''sound'', field_of gt_Sound (\<lambda>v s. s\<lparr>gt_Sound := v\<rparr>) (dec_ptr dec_string [])),
      (''url'', field_of gt_Url (\<lambda>v s. s\<lparr>gt_Url := v\<rparr>) (dec_ptr dec_string [])),
      (''urlTitle'', field_of gt_UrlTitle (\<lambda>v s. s\<lparr>gt_UrlTitle := v\<rparr>) (dec_ptr dec_string [])),
      (''userOrGroupKey'', field_of gt_UserOrGroupKey (\<lambda>v s. s\<lparr>gt_UserOrGroupKey := v\<rparr>) dec_string)]"

definition g_notification_fields ::
  "('t, 'u) scalar_codec \<Rightarrow> ('t, 'u) g_notification json_field list" where
  "g_notification_fields K =
     [(''content'', field_of gn_Content (\<lambda>v s. s\<lparr>gn_Content := v\<rparr>) (dec_struct g_content_fields)),
      (''createdAt'', field_of gn_CreatedAt (\<lambda>v s. s\<lparr>gn_CreatedAt := v\<rparr>)
         (dec_ptr (sc_dec_time K) (sc_zero_time K))),
      (''expiresAt'', field_of gn_ExpiresAt (\<lambda>v s. s\<lparr>gn_ExpiresAt := v\<rparr>)
         (dec_ptr (sc_dec_time K) (sc_zero_time K))),
      (''idempotencyKey'', field_of gn_IdempotencyKey (\<lambda>v s. s\<lparr>gn_IdempotencyKey := v\<rparr>)
         (dec_ptr dec_string [])),
      (''notificationId'', field_of gn_NotificationId (\<lambda>v s. s\<lparr>gn_NotificationId := v\<rparr>)
         (dec_ptr (sc_dec_uuid K) (sc_zero_uuid K))),
      (''originatingService'', field_of gn_OriginatingService (\<lambda>v s. s\<lparr>gn_OriginatingService := v\<rparr>)
         (dec_ptr dec_string [])),
      (''pushover'', field_of gn_Pushover (\<lambda>v s. s\<lparr>gn_Pushover := v\<rparr>) (dec_struct g_pushover_fields))]"

definition empty_g_content :: g_content where
  "empty_g_content = \<lparr>gc_Body = [], gc_Data = None, gc_Priority = None, gc_Title = []\<rparr>"

definition empty_g_pushover :: g_pushover_target where
  "empty_g_pushover = \<lparr>gt_DeviceName = None, gt_Sound = None, gt_Url = None, gt_UrlTitle = None,
     gt_UserOrGroupKey = []\<rparr>"

definition empty_g_notification :: "('t, 'u) g_notification" where
  "empty_g_notification = \<lparr>gn_Content = empty_g_content, gn_CreatedAt = None, gn_ExpiresAt = None,
     gn_IdempotencyKey = None, gn_NotificationId = None, gn_OriginatingService = None,
     gn_Pushover = empty_g_pushover\<rparr>"

subsection \<open>The router\<close>

text \<open>
  A \<open>mux.Router\<close> is the list of its routes, the base router the one registered before;
  \<open>HandlerWithOptions\<close> adds its route to that router and returns it.
\<close>

record 'w GorillaServerOptions =
  go_BaseURL :: string
  go_BaseRouter :: "'w route list option"
  go_Middlewares :: "('w handler \<Rightarrow> 'w handler) list"
  go_ErrorHandlerFunc :: "(goerr \<Rightarrow> 'w handler) option"

definition zero_gorilla_options :: "'w GorillaServerOptions" where
  "zero_gorilla_options =
     \<lparr>go_BaseURL = [], go_BaseRouter = None, go_Middlewares = [], go_ErrorHandlerFunc = None\<rparr>"

definition text_error_handler :: "int \<Rightarrow> goerr \<Rightarrow> 'w handler" where
  "text_error_handler code err r w x = Returned (http_error (error_string err) code w, x)"

definition HandlerWithOptions ::
  "(string \<Rightarrow> goerr + string) \<Rightarrow> 'w server_interface \<Rightarrow> 'w GorillaServerOptions \<Rightarrow> 'w route list" where
  "HandlerWithOptions bind si options =
     (let r = (case go_BaseRouter options of None \<Rightarrow> [] | Some routes \<Rightarrow> routes);
          eh = (case go_ErrorHandlerFunc options of None \<Rightarrow> text_error_handler 400 | Some f \<Rightarrow> f);
          wrapper = \<lparr>siw_Handler = si, siw_ErrorHandlerFunc = Some eh,
                     siw_HandlerMiddlewares = go_Middlewares options\<rparr>
      in r @ [(Some ''POST'', go_BaseURL options @ ''/notifications'',
               wrapper_SubmitNotification bind wrapper)])"

definition gen_Handler ::
  "(string \<Rightarrow> goerr + string) \<Rightarrow> 'w server_interface \<Rightarrow> 'w route list" where
  "gen_Handler bind si = HandlerWithOptions bind si zero_gorilla_options"

definition HandlerFromMux ::
  "(string \<Rightarrow> goerr + string) \<Rightarrow> 'w server_interface \<Rightarrow> 'w route list option \<Rightarrow> 'w route list" where
  "HandlerFromMux bind si r = HandlerWithOptions bind si (zero_gorilla_options\<lparr>go_BaseRouter := r\<rparr>)"

definition HandlerFromMuxWithBaseURL ::
  "(string \<Rightarrow> goerr + string) \<Rightarrow> 'w server_interface \<Rightarrow> 'w route list option \<Rightarrow> string \<Rightarrow> 'w route list" where
  "HandlerFromMuxWithBaseURL bind si r baseURL =
     HandlerWithOptions bind si (zero_gorilla_options\<lparr>go_BaseURL := baseURL, go_BaseRouter := r\<rparr>)"

subsection \<open>Response objects\<close>

datatype ('t, 'u) response_object =
    SubmitNotification202JSONResponse "('t, 'u) SubmitNotificationSuccess"
  | SubmitNotification400ApplicationProblemPlusJSONResponse g_problem
  | SubmitNotification401ApplicationProblemPlusJSONResponse g_problem
  | SubmitNotification409ApplicationProblemPlusJSONResponse g_problem
  | SubmitNotification415ApplicationProblemPlusJSONResponse g_problem
  | SubmitNotification500ApplicationProblemPlusJSONResponse g_problem
  | SubmitNotification503ApplicationProblemPlusJSONResponse g_problem

definition g_success_json :: "('t, 'u) scalar_codec \<Rightarrow> ('t, 'u) SubmitNotificationSuccess \<Rightarrow> json" where
  "g_success_json K s = JObject
     [(''data'', JObject [(''acceptedAt'', sc_enc_time K (g_AcceptedAt (g_Data s))),
                          (''notificationId'', sc_enc_uuid K (g_NotificationId (g_Data s)))]),
      (''meta'', JObject [(''requestId'', JString (g_RequestId (g_Meta s)))])]"

definition g_field_error_json :: "g_field_error \<Rightarrow> json" where
  "g_field_error_json e = JObject ([(''code'', JString (g_Code e)), (''field'', JString (g_Field e))]
     @ omitempty ''message'' JString (g_Message e))"

definition g_problem_json :: "g_problem \<Rightarrow> json" where
  "g_problem_json p = JObject ([(''detail'', JString (gp_Detail p))]
     @ omitempty ''errors'' (\<lambda>es. JArray (map g_field_error_json es)) (gp_Errors p)
     @ [(''instance'', JString (gp_Instance p)), (''requestId'', JString (gp_RequestId p)),
        (''status'', JInt (gp_Status p)), (''title'', JString (gp_Title p)),
        (''type'', JString (gp_Type p))])"

text \<open>
  The header and the status are written before the body is encoded, so a response that does not
  marshal has sent its status. The result is the error of the encoder.
\<close>

definition Visit202 ::
  "'ts ext \<Rightarrow> ('t, 'u) scalar_codec \<Rightarrow> ('t, 'u) SubmitNotificationSuccess \<Rightarrow> response_writer
    \<Rightarrow> goerr option \<times> response_writer" where
  "Visit202 E K response w =
     (let w1 = write_header 202 (set_header ''Content-Type'' ''application/json'' w) in
      if sc_printable K (g_AcceptedAt (g_Data response))
      then (None, encode_json E (g_success_json K response) w1)
      else (Some (ForeignErr ''json: error calling MarshalJSON for type time.Time'' None), w1))"

definition visit_problem ::
  "'ts ext \<Rightarrow> int \<Rightarrow> g_problem \<Rightarrow> response_writer \<Rightarrow> goerr option \<times> response_writer" where
  "visit_problem E code response w =
     (let w1 = write_header code (set_header ''Content-Type'' ''application/problem+json'' w)
      in (None, encode_json E (g_problem_json response) w1))"

definition Visit400 :: "'ts ext \<Rightarrow> g_problem \<Rightarrow> response_writer \<Rightarrow> goerr option \<times> response_writer" where
  "Visit400 E response w = visit_problem E 400 response w"

definition Visit401 :: "'ts ext \<Rightarrow> g_problem \<Rightarrow> response_writer \<Rightarrow> goerr option \<times> response_writer" where
  "Visit401 E response w = visit_problem E 401 response w"

definition Visit409 :: "'ts ext \<Rightarrow> g_problem \<Rightarrow> response_writer \<Rightarrow> goerr option \<times> response_writer" where
  "Visit409 E response w = visit_problem E 409 response w"

definition Visit415 :: "'ts ext \<Rightarrow> g_problem \<Rightarrow> response_writer \<Rightarrow> goerr option \<times> response_writer" where
  "Visit415 E response w = visit_problem E 415 response w"

definition Visit500 :: "'ts ext \<Rightarrow> g_problem \<Rightarrow> response_writer \<Rightarrow> goerr option \<times> response_writer" where
  "Visit500 E response w = visit_problem E 500 response w"

definition Visit503 :: "'ts ext \<Rightarrow> g_problem \<Rightarrow> response_writer \<Rightarrow> goerr option \<times> response_writer" where
  "Visit503 E response w = visit_problem E 503 response w"

text \<open>The interface method.\<close>

fun VisitSubmitNotificationResponse ::
  "'ts ext \<Rightarrow> ('t, 'u) scalar_codec \<Rightarrow> ('t, 'u) response_object \<Rightarrow> response_writer
    \<Rightarrow> goerr option \<times> response_writer" where
  "VisitSubmitNotificationResponse E K (SubmitNotification202JSONResponse s) w = Visit202 E K s w"
| "VisitSubmitNotificationResponse E K (SubmitNotification400ApplicationProblemPlusJSONResponse p) w
     = Visit400 E p w"
| "VisitSubmitNotificationResponse E K (SubmitNotification401ApplicationProblemPlusJSONResponse p) w
     = Visit401 E p w"
| "VisitSubmitNotificationResponse E K (SubmitNotification409ApplicationProblemPlusJSONResponse p) w
     = Visit409 E p w"
| "VisitSubmitNotificationResponse E K (SubmitNotification415ApplicationProblemPlusJSONResponse p) w
     = Visit415 E p w"
| "VisitSubmitNotificationResponse E K (SubmitNotification500ApplicationProblemPlusJSONResponse p) w
     = Visit500 E p w"
| "VisitSubmitNotificationResponse E K (SubmitNotification503ApplicationProblemPlusJSONResponse p) w
     = Visit503 E p w"

subsection \<open>The strict handler\<close>

record ('t, 'u) SubmitNotificationRequestObject =
  ro_Params :: "string option"
  ro_JSONBody :: "('t, 'u) g_notification option"
  ro_Body :: "(string \<times> goerr option) option"

text \<open>
  What travels as \<open>interface{}\<close>: a request object or something a middleware put in its place; a
  response object, nil, or a value of another type, with the name \<open>%T\<close> prints.
\<close>

datatype ('t, 'u) any_request = ReqObject "('t, 'u) SubmitNotificationRequestObject" | ReqOther

datatype ('t, 'u) any_response = NilResponse | ValidResponse "('t, 'u) response_object" | OtherResponse string

text \<open>A strict handler function returns \<open>None\<close> where it panics.\<close>

type_synonym ('t, 'u, 'w) strict_result =
  "(goerr + ('t, 'u) any_response) option \<times> response_writer \<times> 'w"
type_synonym ('t, 'u, 'w) StrictHandlerFunc =
  "request \<Rightarrow> response_writer \<Rightarrow> ('t, 'u) any_request \<Rightarrow> 'w \<Rightarrow> ('t, 'u, 'w) strict_result"
type_synonym ('t, 'u, 'w) StrictMiddlewareFunc =
  "('t, 'u, 'w) StrictHandlerFunc \<Rightarrow> string \<Rightarrow> ('t, 'u, 'w) StrictHandlerFunc"

text \<open>The user's side, which sees no response writer.\<close>

type_synonym ('t, 'u, 'w) StrictServerInterface =
  "request \<Rightarrow> ('t, 'u) SubmitNotificationRequestObject \<Rightarrow> 'w
    \<Rightarrow> (goerr + ('t, 'u) response_object option) option \<times> 'w"

record 'w StrictHTTPServerOptions =
  so_RequestErrorHandlerFunc :: "(goerr \<Rightarrow> 'w handler) option"
  so_ResponseErrorHandlerFunc :: "(goerr \<Rightarrow> 'w handler) option"

record ('t, 'u, 'w) strictHandler =
  sh_ssi :: "('t, 'u, 'w) StrictServerInterface"
  sh_middlewares :: "('t, 'u, 'w) StrictMiddlewareFunc list"
  sh_options :: "'w StrictHTTPServerOptions"

definition NewStrictHandlerWithOptions ::
  "('t, 'u, 'w) StrictServerInterface \<Rightarrow> ('t, 'u, 'w) StrictMiddlewareFunc list
    \<Rightarrow> 'w StrictHTTPServerOptions \<Rightarrow> ('t, 'u, 'w) strictHandler" where
  "NewStrictHandlerWithOptions ssi middlewares options =
     \<lparr>sh_ssi = ssi, sh_middlewares = middlewares, sh_options = options\<rparr>"

definition NewStrictHandler ::
  "('t, 'u, 'w) StrictServerInterface \<Rightarrow> ('t, 'u, 'w) StrictMiddlewareFunc list
    \<Rightarrow> ('t, 'u, 'w) strictHandler" where
  "NewStrictHandler ssi middlewares =
     \<lparr>sh_ssi = ssi, sh_middlewares = middlewares,
      sh_options = \<lparr>so_RequestErrorHandlerFunc = Some (text_error_handler 400),
                    so_ResponseErrorHandlerFunc = Some (text_error_handler 500)\<rparr>\<rparr>"

text \<open>
  \<open>json.NewDecoder(r.Body).Decode\<close>: \<open>first\<close> reads the first value of a body, given its bytes and the
  error that ends it, and does not look at what follows.
\<close>

type_synonym json_stream = "string \<Rightarrow> goerr option \<Rightarrow> goerr + json"

definition strict_decode ::
  "json_stream \<Rightarrow> ('t, 'u) scalar_codec \<Rightarrow> request \<Rightarrow> goerr + ('t, 'u) g_notification" where
  "strict_decode first K r =
     (case first (r_body r) (r_body_err r) of
        Inl e \<Rightarrow> Inl e
      | Inr j \<Rightarrow>
          (case dec_struct (g_notification_fields K) j empty_g_notification of
             (e, n) \<Rightarrow> if e then Inl (ForeignErr ''json: type'' None) else Inr n))"

definition strict_endpoint ::
  "('t, 'u, 'w) StrictServerInterface \<Rightarrow> ('t, 'u, 'w) StrictHandlerFunc" where
  "strict_endpoint ssi r w request x =
     (case request of
        ReqOther \<Rightarrow> (None, w, x)
      | ReqObject q \<Rightarrow>
          (case ssi r q x of
             (res, x') \<Rightarrow>
               (map_option (map_sum id (\<lambda>v. case v of None \<Rightarrow> NilResponse | Some v \<Rightarrow> ValidResponse v)) res,
                w, x')))"

definition strict_answer ::
  "'ts ext \<Rightarrow> ('t, 'u) scalar_codec \<Rightarrow> 'w StrictHTTPServerOptions \<Rightarrow> request
    \<Rightarrow> ('t, 'u, 'w) strict_result \<Rightarrow> (response_writer \<times> 'w) handled" where
  "strict_answer E K opts r res =
     (case res of
        (None, w, x) \<Rightarrow> Panicked (w, x)
      | (Some (Inl err), w, x) \<Rightarrow> call_error_handler (so_ResponseErrorHandlerFunc opts) err r w x
      | (Some (Inr (ValidResponse v)), w, x) \<Rightarrow>
          (case VisitSubmitNotificationResponse E K v w of
             (Some err, w') \<Rightarrow> call_error_handler (so_ResponseErrorHandlerFunc opts) err r w' x
           | (None, w') \<Rightarrow> Returned (w', x))
      | (Some (Inr NilResponse), w, x) \<Rightarrow> Returned (w, x)
      | (Some (Inr (OtherResponse t)), w, x) \<Rightarrow>
          call_error_handler (so_ResponseErrorHandlerFunc opts)
            (NewErr (''unexpected response type: '' @ t)) r w x)"

definition strict_SubmitNotification ::
  "'ts ext \<Rightarrow> json_stream \<Rightarrow> ('t, 'u) scalar_codec \<Rightarrow> ('t, 'u, 'w) strictHandler
    \<Rightarrow> 'w server_interface" where
  "strict_SubmitNotification E first K sh w r params x =
     (let ct = header_get (r_header r) ''Content-Type'';
          json_body = (if prefix ''application/json'' ct
                       then map_sum id Some (strict_decode first K r) else Inr None)
      in case json_body of
           Inl err \<Rightarrow>
             call_error_handler (so_RequestErrorHandlerFunc (sh_options sh))
               (WrapErr ''can't decode JSON body'' err) r w x
         | Inr jb \<Rightarrow>
             (let request = \<lparr>ro_Params = params, ro_JSONBody = jb,
                    ro_Body = (if prefix ''application/x-protobuf'' ct
                               then Some (r_body r, r_body_err r) else None)\<rparr>;
                  f = fold (\<lambda>m f. m f ''SubmitNotification'') (sh_middlewares sh)
                        (strict_endpoint (sh_ssi sh))
              in strict_answer E K (sh_options sh) r (f r w (ReqObject request) x)))"

end
