(* ===== verification/Server_Generated_Spec.thy ===== *)
theory Server_Generated_Spec
  imports Server_Generated
begin

text \<open>
  The generated server as its options leave it: the default error handlers, what the strict handler
  sends when a response does not marshal, and the round trip of a submission between the generated
  client and the generated strict server.
\<close>

subsection \<open>The route\<close>

lemma mux_generated:
  assumes "mux_contract serve" and "find (route_matches r) (HandlerWithOptions bind si options) = Some (m, p, h)"
  shows "serve (HandlerWithOptions bind si options) r w x = h r w x"
  using assms(1)[unfolded mux_contract_def, rule_format, of "HandlerWithOptions bind si options" r w x] assms(2)
  by simp

lemma find_append_none: "find P xs = None \<Longrightarrow> find P (xs @ ys) = find P ys"
  by (induction xs) (auto split: if_splits)

lemma gen_Handler_serves:
  assumes "mux_contract serve" and "r_method r = ''POST''" and "r_path r = notifications_path"
  shows "serve (gen_Handler bind si) r w x = wrapper_SubmitNotification bind
     \<lparr>siw_Handler = si, siw_ErrorHandlerFunc = Some (text_error_handler 400), siw_HandlerMiddlewares = []\<rparr> r w x"
  unfolding gen_Handler_def
  by (rule mux_generated[OF assms(1)])
     (simp add: HandlerWithOptions_def zero_gorilla_options_def assms(2,3) notifications_path_def Let_def)

text \<open>The error of the binding for a header it refuses.\<close>

definition bind_error :: "(string \<Rightarrow> goerr + string) \<Rightarrow> request \<Rightarrow> goerr option" where
  "bind_error bind r =
     (case r_header r ''Idempotency-Key'' of
        None \<Rightarrow> None
      | Some values \<Rightarrow>
          (if length values \<noteq> 1
           then Some (TooManyValuesForParamError ''Idempotency-Key'' (int (length values)))
           else case bind (hd values) of
                  Inl e \<Rightarrow> Some (InvalidParamFormatError ''Idempotency-Key'' e)
                | Inr _ \<Rightarrow> None))"

lemma bind_error_key: "bind_error bind r = None \<longleftrightarrow> bind_key bind r \<noteq> None"
  by (auto simp: bind_error_def bind_key_def length_Suc_conv split: option.split list.split sum.split)

lemma wrapper_bind_error:
  "bind_error bind r = Some e \<Longrightarrow>
   wrapper_SubmitNotification bind siw r w x = call_error_handler (siw_ErrorHandlerFunc siw) e r w x"
  by (auto simp: bind_error_def wrapper_SubmitNotification_def Let_def split: option.splits if_splits sum.splits)

lemma wrapper_key:
  "bind_key bind r = Some idem \<Longrightarrow> siw_HandlerMiddlewares siw = [] \<Longrightarrow>
   wrapper_SubmitNotification bind siw r w x = siw_Handler siw w r idem x"
  by (auto simp: bind_key_def wrapper_SubmitNotification_def Let_def
      split: option.splits list.splits sum.splits)

text \<open>\<open>http.Error\<close> on a writer that has sent nothing, and on one that has.\<close>

lemma http_error_unsent:
  "unsent w \<Longrightarrow> sent_status (http_error m code w) = code"
  "unsent w \<Longrightarrow> rw_body (http_error m code w) = m @ [newline]"
  "unsent w \<Longrightarrow> header_get (rw_sent (http_error m code w)) ''Content-Type'' = ''text/plain; charset=utf-8''"
  by (simp_all add: http_error_def writer_defs sent_status_def unsent_def Let_def)


text \<open>A router built with the default options of the generated code answers a repeated or
  unparsable \<open>Idempotency-Key\<close> header with a plain-text 400 that names the fault, and does not reach
  the handler: the panic of the hand-built server on such a header is due to the nil error handler
  alone.\<close>

lemma default_options_answer_400:
  assumes "mux_contract serve" and "r_method r = ''POST''" and "r_path r = notifications_path"
    and "bind_key bind r = None" and "unsent w"
  shows "\<exists>e w'. bind_error bind r = Some e \<and> serve (gen_Handler bind si) r w x = Returned (w', x)
     \<and> sent_status w' = 400 \<and> rw_body w' = error_string e @ [newline]
     \<and> header_get (rw_sent w') ''Content-Type'' = ''text/plain; charset=utf-8''"
proof -
  obtain e where e: "bind_error bind r = Some e" using assms(4) bind_error_key[of bind r] by auto
  have "serve (gen_Handler bind si) r w x = Returned (http_error (error_string e) 400 w, x)"
    by (simp add: gen_Handler_serves[OF assms(1-3)] wrapper_bind_error[OF e] call_error_handler_def
        text_error_handler_def)
  with e http_error_unsent[OF assms(5)] show ?thesis by blast
qed

subsection \<open>The strict handler\<close>

lemma strict_runs:
  assumes "sh_middlewares sh = []"
    and "if prefix ''application/json'' (header_get (r_header r) ''Content-Type'')
         then \<exists>n. strict_decode first K r = Inr n \<and> jb = Some n else jb = None"
  shows "strict_SubmitNotification E first K sh w r params x =
     strict_answer E K (sh_options sh) r (strict_endpoint (sh_ssi sh) r w
       (ReqObject \<lparr>ro_Params = params, ro_JSONBody = jb,
          ro_Body = (if prefix ''application/x-protobuf'' (header_get (r_header r) ''Content-Type'')
                     then Some (r_body r, r_body_err r) else None)\<rparr>) x)"
  using assms by (auto simp: strict_SubmitNotification_def Let_def)

text \<open>A JSON body that does not decode is refused before the user's handler is called.\<close>

lemma strict_refuses_bad_json:
  assumes "prefix ''application/json'' (header_get (r_header r) ''Content-Type'')"
    and "strict_decode first K r = Inl e" and "unsent w"
  shows "\<exists>w'. strict_SubmitNotification E first K (NewStrictHandler ssi mws) w r params x = Returned (w', x)
     \<and> sent_status w' = 400
     \<and> rw_body w' = ''can't decode JSON body: '' @ error_string e @ [newline]"
  using assms http_error_unsent[OF assms(3)]
  by (simp add: strict_SubmitNotification_def NewStrictHandler_def call_error_handler_def
      text_error_handler_def Let_def)

subsection \<open>Answers\<close>

fun response_code :: "('t, 'u) response_object \<Rightarrow> int" where
  "response_code (SubmitNotification202JSONResponse _) = 202"
| "response_code (SubmitNotification400ApplicationProblemPlusJSONResponse _) = 400"
| "response_code (SubmitNotification401ApplicationProblemPlusJSONResponse _) = 401"
| "response_code (SubmitNotification409ApplicationProblemPlusJSONResponse _) = 409"
| "response_code (SubmitNotification415ApplicationProblemPlusJSONResponse _) = 415"
| "response_code (SubmitNotification500ApplicationProblemPlusJSONResponse _) = 500"
| "response_code (SubmitNotification503ApplicationProblemPlusJSONResponse _) = 503"

fun response_success :: "('t, 'u) response_object \<Rightarrow> ('t, 'u) SubmitNotificationSuccess option" where
  "response_success (SubmitNotification202JSONResponse s) = Some s"
| "response_success _ = None"

fun response_problem :: "('t, 'u) response_object \<Rightarrow> g_problem option" where
  "response_problem (SubmitNotification202JSONResponse _) = None"
| "response_problem (SubmitNotification400ApplicationProblemPlusJSONResponse p) = Some p"
| "response_problem (SubmitNotification401ApplicationProblemPlusJSONResponse p) = Some p"
| "response_problem (SubmitNotification409ApplicationProblemPlusJSONResponse p) = Some p"
| "response_problem (SubmitNotification415ApplicationProblemPlusJSONResponse p) = Some p"
| "response_problem (SubmitNotification500ApplicationProblemPlusJSONResponse p) = Some p"
| "response_problem (SubmitNotification503ApplicationProblemPlusJSONResponse p) = Some p"

lemmas visit_defs = Visit400_def Visit401_def Visit409_def Visit415_def Visit500_def Visit503_def
  visit_problem_def Visit202_def

lemma visit_problem_case:
  "response_problem v = Some p \<Longrightarrow>
   VisitSubmitNotificationResponse E K v w = visit_problem E (response_code v) p w
   \<and> response_code v \<in> {400, 401, 409, 415, 500, 503} \<and> response_success v = None"
  by (cases v) (simp_all add: visit_defs)

lemma visit_success_case:
  "response_success v = Some s \<Longrightarrow> v = SubmitNotification202JSONResponse s"
  by (cases v) simp_all

lemma response_either: "(\<exists>s. response_success v = Some s) \<or> (\<exists>p. response_problem v = Some p)"
  by (cases v) simp_all

text \<open>A response marshals unless it is a success whose instant JSON cannot print.\<close>

definition response_prints :: "('t, 'u) scalar_codec \<Rightarrow> ('t, 'u) response_object \<Rightarrow> bool" where
  "response_prints K v \<longleftrightarrow> pred_option (\<lambda>s. sc_printable K (g_AcceptedAt (g_Data s))) (response_success v)"

definition problem_type_of :: "int \<Rightarrow> string" where
  "problem_type_of code = (if code = 202 then ''application/json'' else ''application/problem+json'')"

definition response_json :: "('t, 'u) scalar_codec \<Rightarrow> ('t, 'u) response_object \<Rightarrow> json" where
  "response_json K v =
     (case response_problem v of
        Some p \<Rightarrow> g_problem_json p
      | None \<Rightarrow> (case response_success v of Some s \<Rightarrow> g_success_json K s | None \<Rightarrow> JNull))"

lemma visit_prints:
  assumes "response_prints K v"
  shows "VisitSubmitNotificationResponse E K v w =
     (None, write_json E (problem_type_of (response_code v)) (response_code v) (response_json K v) w)"
  using assms
  by (cases v) (simp_all add: visit_defs response_prints_def problem_type_of_def response_json_def write_json_def)


subsection \<open>Decoding what the generated code encodes\<close>

text \<open>The codecs of times and UUIDs read back what they print, and print no \<open>null\<close>.\<close>

definition scalar_laws :: "('t, 'u) scalar_codec \<Rightarrow> bool" where
  "scalar_laws K \<longleftrightarrow>
     (\<forall>t d. sc_printable K t \<longrightarrow> sc_enc_time K t \<noteq> JNull \<and> sc_dec_time K (sc_enc_time K t) d = (False, t))
     \<and> (\<forall>u d. sc_enc_uuid K u \<noteq> JNull \<and> sc_dec_uuid K (sc_enc_uuid K u) d = (False, u))"

text \<open>A number in a Go \<open>int\<close>.\<close>

definition int_range :: "int \<Rightarrow> bool" where
  "int_range i \<longleftrightarrow> min_int64 \<le> i \<and> i \<le> max_int64"

lemma dec_int_range: "int_range i \<Longrightarrow> dec_int (JInt i) d = (False, i)"
  by (simp add: dec_int_def int_range_def)

lemma dec_string_JString [simp]: "dec_string (JString s) d = (False, s)"
  by (simp add: dec_string_def)

lemma dec_ptr_enc:
  "enc v \<noteq> JNull \<Longrightarrow> (\<And>d. dec (enc v) d = (False, v)) \<Longrightarrow> dec_ptr dec z (enc v) d = (False, Some v)"
  by (simp add: dec_ptr_def)

lemmas struct_defs = dec_struct_def dec_member_def find_field_def field_of_def

lemma dec_g_field_error:
  "dec_struct g_error_fields (g_field_error_json f) \<lparr>g_Code = [], g_Field = [], g_Message = None\<rparr> = (False, f)"
  by (cases f; cases "g_Message f")
     (simp_all add: g_field_error_json_def g_error_fields_def struct_defs omitempty_def dec_ptr_def)

lemma dec_g_field_errors:
  "dec_list (dec_struct g_error_fields) \<lparr>g_Code = [], g_Field = [], g_Message = None\<rparr>
     (JArray (map g_field_error_json fs)) d = (False, fs)"
  by (induction fs) (simp_all add: dec_list_def dec_g_field_error)

lemma dec_g_problem:
  assumes "int_range (gp_Status p)"
  shows "dec_struct g_problem_fields (g_problem_json p) empty_g_problem = (False, p)"
  using dec_int_range[OF assms] dec_g_field_errors
  by (cases p; cases "gp_Errors p")
     (simp_all add: g_problem_json_def g_problem_fields_def struct_defs omitempty_def dec_ptr_def
       empty_g_problem_def)

lemma dec_g_success:
  assumes "scalar_laws K" and "sc_printable K (g_AcceptedAt (g_Data s))"
  shows "dec_struct (g_success_fields (sc_dec_time K) (sc_dec_uuid K)) (g_success_json K s)
     (empty_g_success t0 u0) = (False, s)"
proof -
  obtain t u m where s: "s = \<lparr>g_Data = \<lparr>g_AcceptedAt = t, g_NotificationId = u\<rparr>, g_Meta = \<lparr>g_RequestId = m\<rparr>\<rparr>"
    by (metis SubmitNotificationSuccess.cases g_data.cases g_meta.cases)
  show ?thesis
    using assms
    by (simp add: s scalar_laws_def g_success_json_def g_success_fields_def g_data_fields_def g_meta_fields_def
        struct_defs empty_g_success_def)
qed

text \<open>The map of a notification, in the order of its keys, as the encoder prints it.\<close>

lemma update_fresh: "k \<notin> set (map fst acc) \<Longrightarrow> AList.update k v acc = acc @ [(k, v)]"
  by (induction acc) auto

lemma dec_map_entries:
  "distinct (map fst (acc @ d)) \<Longrightarrow>
   fold dec_map_entry (map (\<lambda>(k, v). (k, JString v)) d) (e, acc) = (e, acc @ d)"
proof (induction d arbitrary: acc)
  case (Cons kv d)
  obtain k v where kv: "kv = (k, v)" by force
  have "AList.update k v acc = acc @ [(k, v)]"
    by (rule update_fresh) (use Cons.prems kv in auto)
  moreover have "distinct (map fst ((acc @ [(k, v)]) @ d))" using Cons.prems by (simp add: kv)
  ultimately show ?case using Cons.IH[of "acc @ [(k, v)]"] by (simp add: kv dec_map_entry_def)
qed simp

lemma dec_map_encoded:
  "distinct (map fst d) \<Longrightarrow>
   dec_map (JObject (map (\<lambda>(k, v). (k, JString v)) (sort_key fst d))) [] = (False, sort_key fst d)"
  using dec_map_entries[of "[]" "sort_key fst d" False] by (simp add: dec_map_def distinct_map)

definition sorted_data :: "g_content \<Rightarrow> g_content" where
  "sorted_data c = c\<lparr>gc_Data := map_option (sort_key fst) (gc_Data c)\<rparr>"

definition canonical :: "('t, 'u) g_notification \<Rightarrow> ('t, 'u) g_notification" where
  "canonical n = n\<lparr>gn_Content := sorted_data (gn_Content n)\<rparr>"

text \<open>A value of the Go types: the keys of a map are distinct, an \<open>int\<close> is in range.\<close>

definition content_wf :: "g_content \<Rightarrow> bool" where
  "content_wf c \<longleftrightarrow> pred_option (\<lambda>d. distinct (map fst d)) (gc_Data c) \<and> pred_option int_range (gc_Priority c)"

lemma dec_g_content:
  assumes "content_wf c"
  shows "dec_struct g_content_fields (g_content_json c) empty_g_content = (False, sorted_data c)"
proof -
  obtain b d p t where c: "c = \<lparr>gc_Body = b, gc_Data = d, gc_Priority = p, gc_Title = t\<rparr>"
    by (metis g_content.cases)
  show ?thesis
    using assms dec_map_encoded[of "the d"] dec_int_range[of "the p"]
    by (cases d; cases p)
       (simp_all add: c content_wf_def g_content_json_def g_content_fields_def struct_defs omitempty_def
         dec_ptr_def empty_g_content_def sorted_data_def)
qed

lemma dec_g_pushover:
  "dec_struct g_pushover_fields (g_pushover_json t) empty_g_pushover = (False, t)"
proof -
  obtain a b c d e where t: "t = \<lparr>gt_DeviceName = a, gt_Sound = b, gt_Url = c, gt_UrlTitle = d, gt_UserOrGroupKey = e\<rparr>"
    by (metis g_pushover_target.cases)
  show ?thesis
    by (cases a; cases b; cases c; cases d)
       (simp_all add: t g_pushover_json_def g_pushover_fields_def struct_defs omitempty_def dec_ptr_def
         empty_g_pushover_def)
qed

lemma dec_g_notification:
  assumes "scalar_laws K" and "content_wf (gn_Content n)"
    and "pred_option (sc_printable K) (gn_CreatedAt n)" and "pred_option (sc_printable K) (gn_ExpiresAt n)"
  shows "dec_struct (g_notification_fields K) (g_notification_json (sc_enc_time K) (sc_enc_uuid K) n)
     empty_g_notification = (False, canonical n)"
proof -
  obtain c cr ex ik ni os pu where n: "n = \<lparr>gn_Content = c, gn_CreatedAt = cr, gn_ExpiresAt = ex,
      gn_IdempotencyKey = ik, gn_NotificationId = ni, gn_OriginatingService = os, gn_Pushover = pu\<rparr>"
    by (metis g_notification.cases)
  have "content_wf c" using assms(2) by (simp add: n)
  note sub = dec_g_content[OF this] dec_g_pushover[of pu]
  show ?thesis
    using assms(1,3,4)
    by (cases cr; cases ex; cases ik; cases ni; cases os)
       (simp_all add: n sub scalar_laws_def g_notification_json_def g_notification_fields_def
         dec_struct_def[of "g_notification_fields K" for K, unfolded g_notification_fields_def]
         dec_member_def find_field_def field_of_def
         omitempty_def dec_ptr_def empty_g_notification_def canonical_def)
qed

subsection \<open>Client and server\<close>

text \<open>
  The first value of a body that holds one encoded value is that value as text, under the conditions
  of \<open>json_codec\<close>.
\<close>

definition stream_codec :: "'ts ext \<Rightarrow> json_stream \<Rightarrow> bool" where
  "stream_codec E first \<longleftrightarrow> (\<forall>j. integral j \<and> json_depth j \<le> 10000 \<longrightarrow>
     first (x_json_encode E j) None = Inr (json_text j))"

lemma stream_codec_plain:
  "stream_codec E first \<Longrightarrow> plain_json j \<Longrightarrow> first (x_json_encode E j) None = Inr j"
  by (simp add: stream_codec_def plain_json_def json_text_valid)

lemma strict_decode_encoded:
  assumes "stream_codec E first" and "scalar_laws K" and "content_wf (gn_Content n)"
    and "g_marshal E (sc_printable K) (sc_enc_time K) (sc_enc_uuid K) n = Inr body"
    and "r_body r = body" and "r_body_err r = None"
    and "plain_json (g_notification_json (sc_enc_time K) (sc_enc_uuid K) n)"
  shows "strict_decode first K r = Inr (canonical n)"
proof -
  have p: "pred_option (sc_printable K) (gn_CreatedAt n)" "pred_option (sc_printable K) (gn_ExpiresAt n)"
    and b: "body = x_json_encode E (g_notification_json (sc_enc_time K) (sc_enc_uuid K) n)"
    using assms(4) by (simp_all add: g_marshal_def split: if_splits)
  have "first (r_body r) (r_body_err r) = Inr (g_notification_json (sc_enc_time K) (sc_enc_uuid K) n)"
    using assms(1,5-7) b by (simp add: stream_codec_plain)
  then show ?thesis by (simp add: strict_decode_def dec_g_notification[OF assms(2,3) p])
qed

text \<open>
  The libraries of the generated code: JSON text, read from a string and from a stream, and the codecs
  of times and identifiers.
\<close>

definition generated_libs :: "'ts ext \<Rightarrow> json_stream \<Rightarrow> ('t, 'u) scalar_codec \<Rightarrow> bool" where
  "generated_libs E first K \<longleftrightarrow> json_codec E \<and> stream_codec E first \<and> scalar_laws K"

text \<open>The request the generated client sends, as the server reads it.\<close>

lemma generated_request:
  assumes u: "leads_to U upath server u" and k: "pred_option (key_binds U bind) idem"
  obtains req where
    "NewSubmitNotificationRequestWithBody U server idem ''application/json'' body = Inr req"
    "r_method (to_request upath req) = ''POST''" "r_path (to_request upath req) = notifications_path"
    "r_body (to_request upath req) = body" "r_body_err (to_request upath req) = None"
    "header_get (r_header (to_request upath req)) ''Content-Type'' = ''application/json''"
    "bind_key bind (to_request upath req) = Some idem"
proof -
  have u: "ux_resolve U server ''./notifications'' = Inr u" "upath u = notifications_path"
    using u by (simp_all add: leads_to_def)
  let ?h = "header_set Map.empty ''Content-Type'' ''application/json''"
  let ?req = "\<lambda>h. \<lparr>ho_method = ''POST'', ho_url = u, ho_header = h, ho_body = body\<rparr>"
  show thesis
  proof (cases idem)
    case None
    with u show thesis
      by (intro that[of "?req ?h"])
         (simp_all add: NewSubmitNotificationRequestWithBody_def to_request_def bind_key_def header_set_def
           header_get_def)
  next
    case (Some i)
    obtain v where "ux_style U i = Inr v" "bind v = Inr i"
      using k Some by (auto simp: key_binds_def)
    with Some u show thesis
      by (intro that[of "?req (header_set ?h ''Idempotency-Key'' v)"])
         (simp_all add: NewSubmitNotificationRequestWithBody_def to_request_def bind_key_def header_set_def
           header_get_def)
  qed
qed

text \<open>The parsed form of a response object.\<close>

definition parsed_of :: "http_response \<Rightarrow> ('t, 'u) response_object \<Rightarrow> ('t, 'u) parsed_response" where
  "parsed_of rsp v = \<lparr>pr_Body = hr_body rsp, pr_HTTPResponse = Some rsp, pr_JSON202 = response_success v,
     pr_problem = map_option (Pair (response_code v)) (response_problem v)\<rparr>"

definition response_wf :: "('t, 'u) response_object \<Rightarrow> bool" where
  "response_wf v \<longleftrightarrow> pred_option (\<lambda>p. int_range (gp_Status p)) (response_problem v)"

lemma parse_written:
  assumes "json_codec E" and "scalar_laws K" and "response_prints K v" and "response_wf v" and "unsent w"
    and plain: "plain_json (response_json K v)"
    and w': "w' = write_json E (problem_type_of (response_code v)) (response_code v) (response_json K v) w"
  shows "ParseSubmitNotificationResponse E (sc_dec_time K) (sc_dec_uuid K) t0 u0 (response_of w')
     = Inr (parsed_of (response_of w') v)"
proof -
  note w = write_json_unsent[OF assms(5)]
  note codec = json_codec_plain[OF assms(1) plain]
  have ct: "contains ''application/problem+json'' ''json''" "contains ''application/json'' ''json''"
    by code_simp+
  show ?thesis
    using response_either[of v]
  proof
    assume "\<exists>s. response_success v = Some s"
    then obtain s where v: "v = SubmitNotification202JSONResponse s" using visit_success_case by blast
    have "sc_printable K (g_AcceptedAt (g_Data s))" using assms(3) by (simp add: v response_prints_def)
    from dec_g_success[OF assms(2) this] show ?thesis
      using codec
      by (simp add: ParseSubmitNotificationResponse_def response_of_def w' v w ct problem_type_of_def
          response_json_def json_unmarshal_def parsed_of_def Let_def)
  next
    assume "\<exists>p. response_problem v = Some p"
    then obtain p where p: "response_problem v = Some p" by blast
    have "int_range (gp_Status p)" using assms(4) by (simp add: p response_wf_def)
    from dec_g_problem[OF this] visit_problem_case[OF p, of E K w] show ?thesis
      using codec p
      by (auto simp: ParseSubmitNotificationResponse_def response_of_def w' w ct problem_type_of_def
          response_json_def json_unmarshal_def parsed_of_def Let_def)
  qed
qed

text \<open>C24: The client and the strict server generated from the OpenAPI document fit together, when the
  client's server URL leads to the server, its key survives the styled header and the strings sent
  either way are valid UTF-8 (\<open>plain_json\<close>; JSON replaces anything else). Through
  the default router and the default strict handler, the user's handler is called once, with the
  idempotency key and exactly the notification the client was given (its map in the order of the
  keys), and the client returns exactly the response object the handler answered with, in the
  member of its status, which is also the status code of the HTTP response.\<close>

theorem generated_pair_agrees:
  assumes libs: "generated_libs E first K" and mux: "mux_contract serve"
    and u: "leads_to U upath (rc_Server c) u" and k: "pred_option (key_binds U bind) idem"
    and c: "rc_RequestEditors c = []"
      "rc_Client c = Some (writer_doer upath
         (serve (gen_Handler bind (strict_SubmitNotification E first K (NewStrictHandler ssi [])))))"
    and n: "g_marshal E (sc_printable K) (sc_enc_time K) (sc_enc_uuid K) n = Inr body"
      "content_wf (gn_Content n)" "plain_json (g_notification_json (sc_enc_time K) (sc_enc_uuid K) n)"
    and ssi: "\<And>r. ssi r \<lparr>ro_Params = idem, ro_JSONBody = Some (canonical n), ro_Body = None\<rparr> x
        = (Some (Inr (Some v)), x')"
    and v: "response_prints K v" "response_wf v" "plain_json (response_json K v)"
  shows "\<exists>rsp. SubmitNotificationWithResponse E U (sc_printable K) (sc_enc_time K) (sc_enc_uuid K)
       (sc_dec_time K) (sc_dec_uuid K) t0 u0 c idem n [] x = (Some (Inr (parsed_of rsp v)), x')
     \<and> StatusCode (parsed_of rsp v) = response_code v"
proof -
  obtain req where req: "NewSubmitNotificationRequestWithBody U (rc_Server c) idem ''application/json'' body = Inr req"
    and r: "r_method (to_request upath req) = ''POST''" "r_path (to_request upath req) = notifications_path"
    "r_body (to_request upath req) = body" "r_body_err (to_request upath req) = None"
    "header_get (r_header (to_request upath req)) ''Content-Type'' = ''application/json''"
    "bind_key bind (to_request upath req) = Some idem"
    by (rule generated_request[OF u k])
  let ?sh = "NewStrictHandler ssi []" and ?r = "to_request upath req"
  let ?w = "write_json E (problem_type_of (response_code v)) (response_code v) (response_json K v) new_writer"
  have L: "json_codec E" "stream_codec E first" "scalar_laws K" using libs by (simp_all add: generated_libs_def)
  have d: "strict_decode first K ?r = Inr (canonical n)"
    by (rule strict_decode_encoded[OF L(2,3) n(2,1) r(3,4) n(3)])
  have "strict_SubmitNotification E first K ?sh new_writer ?r idem x = Returned (?w, x')"
    using d r(5)
    by (simp add: strict_runs[where jb = "Some (canonical n)"] NewStrictHandler_def strict_endpoint_def ssi
        strict_answer_def visit_prints[OF v(1)] prefix_def)
  then have "serve (gen_Handler bind (strict_SubmitNotification E first K ?sh)) ?r new_writer x = Returned (?w, x')"
    by (simp add: gen_Handler_serves[OF mux r(1,2)] wrapper_key[OF r(6)])
  then have "g_SubmitNotification E U (sc_printable K) (sc_enc_time K) (sc_enc_uuid K) c idem n [] x
      = (Some (Inr (response_of ?w)), x')"
    by (simp add: g_SubmitNotification_body[OF n(1)] SubmitNotificationWithBody_def req c writer_doer_def)
  then have "SubmitNotificationWithResponse E U (sc_printable K) (sc_enc_time K) (sc_enc_uuid K)
       (sc_dec_time K) (sc_dec_uuid K) t0 u0 c idem n [] x = (Some (Inr (parsed_of (response_of ?w) v)), x')"
    by (simp add: SubmitNotificationWithResponse_def with_response_def
        parse_written[OF L(1,3) v(1,2) unsent_new v(3) refl])
  moreover have "StatusCode (parsed_of (response_of ?w) v) = response_code v"
    using write_json_unsent[OF unsent_new] by (simp add: StatusCode_def parsed_of_def response_of_def)
  ultimately show ?thesis by blast
qed

end
