(* ===== verification/Outcomes.thy ===== *)
theory Outcomes
  imports Errors Go_Time
begin

text \<open>
  \<open>internal/deliverer/outcomes\<close>: the terminal record of a notification and the recorder that logs
  it. The interface \<open>Recorder\<close> is a function on the recorder's state; its contract is the locale
  \<open>recorder\<close> of the theory Outcome_Log.
\<close>

datatype status = StatusDelivered | StatusPermanentlyFailed | StatusExpired

fun status_string :: "status \<Rightarrow> string" where
  "status_string StatusDelivered = ''delivered''"
| "status_string StatusPermanentlyFailed = ''permanently-failed''"
| "status_string StatusExpired = ''expired''"

lemma status_string_inject [simp]: "status_string s = status_string t \<longleftrightarrow> s = t"
  by (cases s; cases t) simp_all

definition ReasonEncryptionPolicyViolation :: string where
  "ReasonEncryptionPolicyViolation = ''encryption-policy-violation''"

definition ReasonProviderRejectedRecipient :: string where
  "ReasonProviderRejectedRecipient = ''provider-rejected-recipient''"

definition ReasonProviderRejectedPayload :: string where
  "ReasonProviderRejectedPayload = ''provider-rejected-payload''"

definition ReasonProviderAuthFailed :: string where
  "ReasonProviderAuthFailed = ''provider-auth-failed''"

definition ReasonRetryBudgetExhausted :: string where
  "ReasonRetryBudgetExhausted = ''retry-budget-exhausted''"

definition ReasonExpired :: string where
  "ReasonExpired = ''expired''"

lemmas reason_defs =
  ReasonEncryptionPolicyViolation_def ReasonProviderRejectedRecipient_def
  ReasonProviderRejectedPayload_def ReasonProviderAuthFailed_def
  ReasonRetryBudgetExhausted_def ReasonExpired_def

record outcome =
  oc_NotificationID :: string
  oc_Status :: status
  oc_Reason :: string
  oc_ProviderResponse :: string
  oc_Attempts :: int
  oc_FirstAttempt :: gotime
  oc_LastAttempt :: gotime

text \<open>An outcome without a reason, a response or attempts, as the sources' literals leave them.\<close>

definition bare_outcome :: "string \<Rightarrow> status \<Rightarrow> string \<Rightarrow> outcome" where
  "bare_outcome nid st reason =
     \<lparr>oc_NotificationID = nid, oc_Status = st, oc_Reason = reason, oc_ProviderResponse = [],
      oc_Attempts = 0, oc_FirstAttempt = zero_time, oc_LastAttempt = zero_time\<rparr>"

text \<open>
  The reasons of the data model, per status: a delivered outcome has none, an expired one the
  reason \<open>expired\<close>, a failed one any other of the list.
\<close>

definition failure_reasons :: "string set" where
  "failure_reasons = {ReasonEncryptionPolicyViolation, ReasonProviderRejectedRecipient,
     ReasonProviderRejectedPayload, ReasonProviderAuthFailed, ReasonRetryBudgetExhausted}"

definition provider_reasons :: "string set" where
  "provider_reasons = {ReasonProviderRejectedRecipient, ReasonProviderRejectedPayload,
     ReasonProviderAuthFailed}"

lemma provider_reasons_failure: "r \<in> provider_reasons \<Longrightarrow> r \<in> failure_reasons"
  by (auto simp: provider_reasons_def failure_reasons_def)

definition reason_fits :: "status \<Rightarrow> string \<Rightarrow> bool" where
  "reason_fits st r =
     (case st of StatusDelivered \<Rightarrow> r = [] | StatusExpired \<Rightarrow> r = ReasonExpired
      | StatusPermanentlyFailed \<Rightarrow> r \<in> failure_reasons)"

lemma budget_reason: "ReasonRetryBudgetExhausted \<in> failure_reasons"
  and payload_reason: "ReasonProviderRejectedPayload \<in> failure_reasons"
  and policy_reason: "ReasonEncryptionPolicyViolation \<in> failure_reasons"
  by (simp_all add: failure_reasons_def)

subsection \<open>The slog recorder\<close>

datatype attr = AStr string string | AInt string int | ATime string gotime

datatype level = LevelInfo | LevelWarn | LevelError

record log_line =
  ll_level :: level
  ll_msg :: string
  ll_attrs :: "attr list"

record 'l slog_recorder =
  sr_logger :: "(log_line \<Rightarrow> 'l \<Rightarrow> 'l) option"

definition outcomes_WithLogger ::
  "(log_line \<Rightarrow> 'l \<Rightarrow> 'l) option \<Rightarrow> 'l slog_recorder \<Rightarrow> 'l slog_recorder" where
  "outcomes_WithLogger l s = s\<lparr>sr_logger := l\<rparr>"

definition NewSlogRecorder ::
  "(log_line \<Rightarrow> 'l \<Rightarrow> 'l) \<Rightarrow> ('l slog_recorder \<Rightarrow> 'l slog_recorder) list \<Rightarrow> log_line \<Rightarrow> 'l \<Rightarrow> 'l" where
  "NewSlogRecorder default_logger opts =
     (case sr_logger (apply_opts opts \<lparr>sr_logger = None\<rparr>) of
        None \<Rightarrow> default_logger
      | Some l \<Rightarrow> l)"

definition outcome_attrs :: "outcome \<Rightarrow> attr list" where
  "outcome_attrs oc =
     [AStr ''event'' ''notification.outcome'',
      AStr ''notification_id'' (oc_NotificationID oc),
      AStr ''status'' (status_string (oc_Status oc)),
      AInt ''attempts'' (oc_Attempts oc)]
     @ (if oc_Reason oc \<noteq> [] then [AStr ''reason'' (oc_Reason oc)] else [])
     @ (if oc_ProviderResponse oc \<noteq> []
        then [AStr ''provider_response'' (truncate_str (oc_ProviderResponse oc) 512)] else [])
     @ (if \<not> is_zero (oc_FirstAttempt oc) then [ATime ''first_attempt'' (oc_FirstAttempt oc)] else [])
     @ (if \<not> is_zero (oc_LastAttempt oc) then [ATime ''last_attempt'' (oc_LastAttempt oc)] else [])"

definition outcome_line :: "outcome \<Rightarrow> log_line" where
  "outcome_line oc =
     \<lparr>ll_level = (if oc_Status oc = StatusDelivered then LevelInfo else LevelWarn),
      ll_msg = ''notification outcome'', ll_attrs = outcome_attrs oc\<rparr>"

definition slog_Record :: "(log_line \<Rightarrow> 'l \<Rightarrow> 'l) \<Rightarrow> outcome \<Rightarrow> 'l \<Rightarrow> 'l" where
  "slog_Record logger oc l = logger (outcome_line oc) l"

subsection \<open>What a line says\<close>

text \<open>The identifier, the status, the reason and the number of attempts of an outcome.\<close>

record summary =
  su_id :: string
  su_status :: string
  su_reason :: string
  su_attempts :: int

definition summary_of :: "outcome \<Rightarrow> summary" where
  "summary_of oc = \<lparr>su_id = oc_NotificationID oc, su_status = status_string (oc_Status oc),
     su_reason = oc_Reason oc, su_attempts = oc_Attempts oc\<rparr>"

text \<open>Reading an outcome line back: the lookup of an attribute by its key, first match.\<close>

fun attr_str :: "string \<Rightarrow> attr list \<Rightarrow> string" where
  "attr_str k [] = []"
| "attr_str k (AStr k' v # as) = (if k = k' then v else attr_str k as)"
| "attr_str k (_ # as) = attr_str k as"

fun attr_int :: "string \<Rightarrow> attr list \<Rightarrow> int" where
  "attr_int k [] = 0"
| "attr_int k (AInt k' v # as) = (if k = k' then v else attr_int k as)"
| "attr_int k (_ # as) = attr_int k as"

definition line_summary :: "log_line \<Rightarrow> summary" where
  "line_summary l =
     \<lparr>su_id = attr_str ''notification_id'' (ll_attrs l), su_status = attr_str ''status'' (ll_attrs l),
      su_reason = attr_str ''reason'' (ll_attrs l), su_attempts = attr_int ''attempts'' (ll_attrs l)\<rparr>"

lemma line_summary_outcome: "line_summary (outcome_line oc) = summary_of oc"
  by (simp add: line_summary_def outcome_line_def outcome_attrs_def summary_of_def)

text \<open>A logged provider response is at most 512 bytes.\<close>

lemma outcome_response_bound:
  "AStr ''provider_response'' v \<in> set (outcome_attrs oc) \<Longrightarrow> length v \<le> 512"
  using length_truncate[of "oc_ProviderResponse oc" 512]
  by (auto simp: outcome_attrs_def split: if_splits)

end
