(* ===== verification/Provider.thy ===== *)
theory Provider
  imports Messages Outcomes
begin

text \<open>
  \<open>internal/deliverer/provider\<close>: the interface of push backends (its error types are in the theory
  Errors) and the sandbox backend. The contract of \<open>PushProvider\<close> is the locale
  \<open>push_provider\<close>: a failed push returns one of the two typed errors, and a permanent one carries a
  reason of the data model. The invariant \<open>ok\<close> is on the part of the world the backend keeps.
\<close>

record push_result =
  pr_ProviderResponse :: string

type_synonym ('ts, 'x) push_fn =
  "'ts notification option \<Rightarrow> 'x \<Rightarrow> (goerr + push_result option) \<times> 'x"

record ('ts, 'x) push_provider_value =
  pv_Name :: string
  pv_Push :: "('ts, 'x) push_fn"

definition safeResponse :: "push_result option \<Rightarrow> string" where
  "safeResponse r = (case r of None \<Rightarrow> [] | Some x \<Rightarrow> pr_ProviderResponse x)"

text \<open>The classes of a provider error, as the retry package names them.\<close>

fun typed_push_error :: "goerr \<Rightarrow> bool" where
  "typed_push_error (PermanentError r _ _) = (r \<in> provider_reasons)"
| "typed_push_error (TransientError _ _) = True"
| "typed_push_error _ = False"

lemma typed_push_error_cases:
  assumes "typed_push_error e"
  obtains (permanent) r s c where "e = PermanentError r s c" "r \<in> provider_reasons"
    | (transient) s c where "e = TransientError s c"
  using assms by (cases e) auto

locale push_provider =
  fixes push :: "('ts, 'x) push_fn" and ok :: "'x \<Rightarrow> bool"
  assumes push_ok: "ok x \<Longrightarrow> push n x = (res, x') \<Longrightarrow> ok x'"
    and push_typed: "ok x \<Longrightarrow> push n x = (Inl e, x') \<Longrightarrow> typed_push_error e"
    and push_result: "ok x \<Longrightarrow> push n x = (Inr r, x') \<Longrightarrow> r \<noteq> None"
begin

lemma push_error_sentinel:
  assumes "ok x" and "push n x = (Inl e, x')"
  shows "errors_is e ErrPermanent \<noteq> errors_is e ErrTransient"
  using push_typed[OF assms] by (cases e) (auto simp: errors_is_def)

lemma push_permanent_reason:
  "ok x \<Longrightarrow> push n x = (Inl (PermanentError r s c), x') \<Longrightarrow> r \<in> provider_reasons"
  using push_typed[of x n "PermanentError r s c" x'] by simp

end

subsection \<open>The sandbox backend\<close>

record 'ts sandbox =
  sb_delivered :: "'ts notification list"
  sb_scripted :: "goerr option list"
  sb_pos :: nat

definition WithScriptedErrors :: "goerr option list \<Rightarrow> 'ts sandbox \<Rightarrow> 'ts sandbox" where
  "WithScriptedErrors sq p = p\<lparr>sb_scripted := sq\<rparr>"

definition sandbox_New :: "('ts sandbox \<Rightarrow> 'ts sandbox) list \<Rightarrow> 'ts sandbox" where
  "sandbox_New opts = apply_opts opts \<lparr>sb_delivered = [], sb_scripted = [], sb_pos = 0\<rparr>"

definition sandbox_name :: string where
  "sandbox_name = ''sandbox''"

definition sandbox_accept :: "('ts, 'ts sandbox) push_fn" where
  "sandbox_accept n p =
     (case n of
        None \<Rightarrow> (Inl (PermanentError ''provider-rejected-payload'' [] (Some (NewErr ''nil notification''))), p)
      | Some m \<Rightarrow>
          (Inr (Some \<lparr>pr_ProviderResponse = ''sandbox:accepted''\<rparr>),
           p\<lparr>sb_delivered := sb_delivered p @ [m]\<rparr>))"

definition sandbox_Push :: "('ts, 'ts sandbox) push_fn" where
  "sandbox_Push n p =
     (if sb_pos p < length (sb_scripted p) then
        (let p' = p\<lparr>sb_pos := sb_pos p + 1\<rparr> in
         case sb_scripted p ! sb_pos p of
           Some e \<Rightarrow> (Inl e, p')
         | None \<Rightarrow> sandbox_accept n p')
      else sandbox_accept n p)"

definition Delivered :: "'ts sandbox \<Rightarrow> 'ts notification list" where
  "Delivered p = sb_delivered p"

definition Attempts :: "'ts sandbox \<Rightarrow> nat" where
  "Attempts p = sb_pos p + length (sb_delivered p)"

text \<open>A script keeps the provider contract when every error on it is a typed one.\<close>

definition typed_script :: "'ts sandbox \<Rightarrow> bool" where
  "typed_script p \<longleftrightarrow> (\<forall>e. Some e \<in> set (sb_scripted p) \<longrightarrow> typed_push_error e)"

lemma sandbox_accept_frame [frame_simps]:
  "sandbox_accept n p = (r, p') \<Longrightarrow> sb_scripted p' = sb_scripted p \<and> sb_pos p' = sb_pos p"
  by (auto simp: sandbox_accept_def split: option.splits)

lemma sandbox_accept_typed: "sandbox_accept n p = (Inl e, p') \<Longrightarrow> typed_push_error e"
  by (auto simp: sandbox_accept_def provider_reasons_def reason_defs split: option.splits)

lemma sandbox_accept_result: "sandbox_accept n p = (Inr r, p') \<Longrightarrow> r \<noteq> None"
  by (auto simp: sandbox_accept_def split: option.splits)

lemma sandbox_Push_cases:
  assumes "sandbox_Push n p = (r, p')"
  obtains (scripted) e where "sb_pos p < length (sb_scripted p)" "sb_scripted p ! sb_pos p = Some e"
      "r = Inl e" "p' = p\<lparr>sb_pos := sb_pos p + 1\<rparr>"
    | (step) "sb_pos p < length (sb_scripted p)" "sb_scripted p ! sb_pos p = None"
      "sandbox_accept n (p\<lparr>sb_pos := sb_pos p + 1\<rparr>) = (r, p')"
    | (after) "length (sb_scripted p) \<le> sb_pos p" "sandbox_accept n p = (r, p')"
  using assms
  by (cases "sb_pos p < length (sb_scripted p)"; cases "sb_scripted p ! sb_pos p")
     (auto simp: sandbox_Push_def Let_def)

interpretation sandbox: push_provider "sandbox_Push" "typed_script"
proof
  fix x :: "'ts sandbox" and n r x'
  assume x: "typed_script x" and p: "sandbox_Push n x = (r, x')"
  from p show "typed_script x'"
    by (cases rule: sandbox_Push_cases)
       (use x in \<open>auto simp: typed_script_def dest!: sandbox_accept_frame\<close>)
next
  fix x :: "'ts sandbox" and n e x'
  assume x: "typed_script x" and p: "sandbox_Push n x = (Inl e, x')"
  from p show "typed_push_error e"
  proof (cases rule: sandbox_Push_cases)
    case (scripted e')
    then have "Some e \<in> set (sb_scripted x)" by (metis nth_mem sum.inject(1))
    with x show ?thesis by (auto simp: typed_script_def)
  qed (auto dest: sandbox_accept_typed)
next
  fix x :: "'ts sandbox" and n r x'
  assume "typed_script x" and p: "sandbox_Push n x = (Inr r, x')"
  from p show "r \<noteq> None"
    by (cases rule: sandbox_Push_cases) (auto dest: sandbox_accept_result)
qed

text \<open>
  What \<open>Attempts\<close> counts: a delivery and a scripted entry count one each, so a push that a nil
  entry of the script lets through is counted twice, and a nil notification after the script not
  at all.
\<close>

lemma Attempts_scripted_success:
  assumes "sb_pos p < length (sb_scripted p)" and "sb_scripted p ! sb_pos p = None"
    and "sandbox_Push (Some n) p = (r, p')"
  shows "Attempts p' = Attempts p + 2"
  using assms by (auto simp: Attempts_def sandbox_Push_def sandbox_accept_def Let_def)

lemma Attempts_otherwise:
  assumes "\<not> (sb_pos p < length (sb_scripted p) \<and> sb_scripted p ! sb_pos p = None)"
    and "sandbox_Push (Some n) p = (r, p')"
  shows "Attempts p' = Attempts p + 1"
  using assms
  by (auto simp: Attempts_def sandbox_Push_def sandbox_accept_def Let_def split: if_splits option.splits)

text \<open>The sandbox counts a push that a nil entry of its script lets through twice: \<open>Attempts\<close>
  adds the position in the script to the number of deliveries, so it is not the number of pushes.\<close>

lemma sandbox_counts_scripted_success_twice:
  assumes "sb_pos p < length (sb_scripted p)" and "sb_scripted p ! sb_pos p = None"
    and "sandbox_Push (Some n) p = (r, p')"
  shows "Attempts p' = Attempts p + 2"
  by (rule Attempts_scripted_success[OF assms])

end
