(* ===== verification/Retry.thy ===== *)
theory Retry
  imports Errors Go_Time
begin

text \<open>
  \<open>internal/deliverer/retry\<close>: the classifier and the bounded-backoff iterator. Durations are 64-bit
  words compared as signed numbers, so the doubling of the base wraps as the source's does. The
  random number is a multiple of \<open>2 ^ -53\<close>, the form \<open>rand.Float64\<close> draws, and is given by its
  numerator; the products and conversions of \<open>float64\<close> are written out as rounding to 53
  significant bits, ties to even.
\<close>

datatype retry_class = ClassPermanent | ClassTransient

definition Classify :: "goerr option \<Rightarrow> retry_class" where
  "Classify err =
     (case err of
        None \<Rightarrow> ClassPermanent
      | Some e \<Rightarrow>
          (if errors_is e ErrTransient then ClassTransient
           else if errors_is e ErrPermanent then ClassPermanent
           else ClassTransient))"

lemma Classify_permanent_iff: "Classify (Some e) = ClassPermanent \<longleftrightarrow> errors_is e ErrPermanent"
  using errors_is_exclusive[of e] by (auto simp: Classify_def)

subsection \<open>Rounding to 53 bits\<close>

fun bit_len :: "nat \<Rightarrow> nat" where
  "bit_len n = (if n = 0 then 0 else Suc (bit_len (n div 2)))"

declare bit_len.simps [simp del]

definition round53 :: "nat \<Rightarrow> nat" where
  "round53 m =
     (let e = bit_len m - 53; u = 2 ^ e; q = m div u; r = m mod u in
      if e = 0 then m
      else if u < 2 * r \<or> u = 2 * r \<and> odd q then (q + 1) * u
      else q * u)"

lemma bit_len_le_iff: "bit_len n \<le> k \<longleftrightarrow> n < 2 ^ k"
proof (induction n arbitrary: k rule: bit_len.induct)
  case (1 n)
  show ?case
  proof (cases k)
    case 0
    then show ?thesis by (subst bit_len.simps) simp
  next
    case (Suc j)
    show ?thesis
    proof (cases "n = 0")
      case True
      then show ?thesis by (subst bit_len.simps) simp
    next
      case False
      then have "bit_len n \<le> k \<longleftrightarrow> n div 2 < 2 ^ j"
        using "1.IH"[OF False, of j] by (subst bit_len.simps) (simp add: Suc)
      also have "\<dots> \<longleftrightarrow> n < 2 ^ k" by (simp add: Suc div_less_iff_less_mult mult.commute)
      finally show ?thesis .
    qed
  qed
qed

lemma bit_len_mono: "m \<le> n \<Longrightarrow> bit_len m \<le> bit_len n"
  using bit_len_le_iff[of n "bit_len n"] bit_len_le_iff[of m "bit_len n"] by simp

lemma round53_small: "m < 2 ^ 53 \<Longrightarrow> round53 m = m"
  by (simp add: round53_def bit_len_le_iff Let_def)

text \<open>Rounding does not pass a multiple of the unit that bounds the number.\<close>

lemma round53_le_multiple:
  assumes "m \<le> b" and "2 ^ (bit_len m - 53) dvd b"
  shows "round53 m \<le> b"
proof -
  let ?u = "2 ^ (bit_len m - 53) :: nat"
  obtain c where c: "b = ?u * c" using assms(2) by (rule dvdE)
  have le: "m div ?u * ?u \<le> m" by simp
  have up: "(m div ?u + 1) * ?u \<le> b" if "0 < m mod ?u"
  proof -
    have "m div ?u < c"
    proof (rule ccontr)
      assume "\<not> m div ?u < c"
      then have "?u * c \<le> ?u * (m div ?u)" by simp
      also have "\<dots> < m" using that by (metis less_add_same_cancel1 mult_div_mod_eq)
      finally show False using assms(1) c by simp
    qed
    then show ?thesis using c by (metis Suc_eq_plus1 Suc_leI mult.commute mult_le_mono2)
  qed
  have down: "m div ?u * ?u \<le> b" using le assms(1) by (rule order_trans)
  show ?thesis
  proof (cases "m mod ?u = 0")
    case True
    then show ?thesis using down assms(1) by (simp add: round53_def Let_def)
  next
    case False
    then have "(m div ?u + 1) * ?u \<le> b" by (intro up) simp
    with down assms(1) show ?thesis by (simp add: round53_def Let_def)
  qed
qed

lemma round53_product_le:
  assumes "k \<le> 2 ^ 53" and "b < 2 ^ 53"
  shows "round53 (k * b) \<le> 2 ^ 53 * b"
proof (rule round53_le_multiple)
  show le: "k * b \<le> 2 ^ 53 * b" using assms(1) by simp
  have "(2 :: nat) ^ 53 * b < 2 ^ 53 * 2 ^ 53"
    by (rule mult_strict_left_mono) (use assms(2) in simp_all)
  with le have "k * b < 2 ^ 53 * 2 ^ 53" by (rule order_le_less_trans)
  then have "k * b < 2 ^ 106" by simp
  then have "bit_len (k * b) - 53 \<le> 53" using bit_len_le_iff[of "k * b" 106] by simp
  then show "2 ^ (bit_len (k * b) - 53) dvd 2 ^ 53 * b"
    by (metis dvd_mult2 le_imp_power_dvd)
qed

subsection \<open>The policy\<close>

record 'x policy =
  rp_MaxAttempts :: int
  rp_InitialBackoff :: duration
  rp_MaxBackoff :: duration
  rp_rng :: "'x \<Rightarrow> nat \<times> 'x"

definition WithMaxAttempts :: "int \<Rightarrow> 'x policy \<Rightarrow> 'x policy" where
  "WithMaxAttempts n p = p\<lparr>rp_MaxAttempts := n\<rparr>"

definition WithInitialBackoff :: "duration \<Rightarrow> 'x policy \<Rightarrow> 'x policy" where
  "WithInitialBackoff d p = p\<lparr>rp_InitialBackoff := d\<rparr>"

definition WithMaxBackoff :: "duration \<Rightarrow> 'x policy \<Rightarrow> 'x policy" where
  "WithMaxBackoff d p = p\<lparr>rp_MaxBackoff := d\<rparr>"

definition WithRNG :: "('x \<Rightarrow> nat \<times> 'x) \<Rightarrow> 'x policy \<Rightarrow> 'x policy" where
  "WithRNG fn p = p\<lparr>rp_rng := fn\<rparr>"

definition NewPolicy :: "('x \<Rightarrow> nat \<times> 'x) \<Rightarrow> ('x policy \<Rightarrow> 'x policy) list \<Rightarrow> 'x policy" where
  "NewPolicy rand_Float64 opts = apply_opts opts
     \<lparr>rp_MaxAttempts = 5, rp_InitialBackoff = word_of_int (500 * millisecond),
      rp_MaxBackoff = word_of_int (30 * second), rp_rng = rand_Float64\<rparr>"

lemmas policy_option_defs [option_simps] =
  WithMaxAttempts_def WithInitialBackoff_def WithMaxBackoff_def WithRNG_def

subsection \<open>The iterator\<close>

record 'x iterator =
  it_policy :: "'x policy"
  it_attempt :: int

definition NewIterator :: "'x policy \<Rightarrow> 'x iterator" where
  "NewIterator p = \<lparr>it_policy = p, it_attempt = 0\<rparr>"

definition Done :: "'x iterator \<Rightarrow> bool" where
  "Done i \<longleftrightarrow> rp_MaxAttempts (it_policy i) \<le> it_attempt i"

definition Attempt :: "'x iterator \<Rightarrow> int" where
  "Attempt i = it_attempt i"

text \<open>The doubling loop, by the number of iterations left.\<close>

fun double_loop :: "nat \<Rightarrow> duration \<Rightarrow> duration \<Rightarrow> duration" where
  "double_loop 0 base max_backoff = base"
| "double_loop (Suc n) base max_backoff =
     (let base' = base * 2 in
      if sint max_backoff \<le> sint base' then max_backoff else double_loop n base' max_backoff)"

definition backoff_base :: "'x policy \<Rightarrow> int \<Rightarrow> duration" where
  "backoff_base p attempt =
     (let base = double_loop (nat (attempt - 1)) (rp_InitialBackoff p) (rp_MaxBackoff p) in
      if sint (rp_MaxBackoff p) < sint base then rp_MaxBackoff p else base)"

text \<open>\<open>time.Duration(rng() * float64(base))\<close>, with truncation towards zero.\<close>

definition jitter :: "nat \<Rightarrow> duration \<Rightarrow> duration" where
  "jitter k base =
     (let b = sint base;
          m = round53 (k * round53 (nat \<bar>b\<bar>)) div 2 ^ 53
      in word_of_int (if b < 0 then - int m else int m))"

definition Next :: "'x iterator \<Rightarrow> 'x \<Rightarrow> (duration \<times> 'x iterator) \<times> 'x" where
  "Next i x =
     (let i' = i\<lparr>it_attempt := it_attempt i + 1\<rparr>;
          base = backoff_base (it_policy i') (it_attempt i')
      in case rp_rng (it_policy i') x of (k, x') \<Rightarrow> ((jitter k base, i'), x'))"

lemma Next_iterator:
  "Next i x = ((d, i'), x') \<Longrightarrow> i' = i\<lparr>it_attempt := it_attempt i + 1\<rparr>"
  by (auto simp: Next_def Let_def split: prod.splits)

subsection \<open>What the loop computes\<close>

lemma sint_double:
  assumes "- (2 ^ 62) \<le> sint (b :: int64)" and "sint b < 2 ^ 62"
  shows "sint (b * 2) = 2 * sint b"
proof -
  have "b * 2 = word_of_int (2 * sint b)" by simp
  also have "sint \<dots> = 2 * sint b"
    by (rule sint_word_of_int64) (use assms in \<open>auto simp: min_int64_def max_int64_def\<close>)
  finally show ?thesis .
qed

lemma double_loop_closed:
  assumes "0 \<le> sint base" and "sint base < 2 ^ 62" and "sint max_backoff \<le> 2 ^ 62" and "0 < n"
  shows "sint (double_loop n base max_backoff) = min (sint max_backoff) (sint base * 2 ^ n)"
  using assms
proof (induction n arbitrary: base)
  case (Suc n)
  have d: "sint (base * 2) = 2 * sint base"
    by (rule sint_double) (use Suc.prems in simp_all)
  show ?case
  proof (cases "sint max_backoff \<le> 2 * sint base")
    case True
    have "2 * sint base \<le> 2 * sint base * 2 ^ n"
      using Suc.prems(1) by (simp add: mult_le_cancel_left1 not_less)
    with True d show ?thesis by (simp add: Let_def min_def mult.assoc)
  next
    case False
    with d Suc.prems Suc.IH[of "base * 2"] show ?thesis
      by (cases n) (auto simp: Let_def min_def mult.assoc)
  qed
qed simp

lemma backoff_base_closed:
  assumes "0 \<le> sint (rp_InitialBackoff p)" and "sint (rp_InitialBackoff p) < 2 ^ 62"
    and "sint (rp_MaxBackoff p) \<le> 2 ^ 62" and "0 < k"
  shows "sint (backoff_base p k) =
    min (sint (rp_MaxBackoff p)) (sint (rp_InitialBackoff p) * 2 ^ nat (k - 1))"
proof (cases "nat (k - 1)")
  case 0
  then show ?thesis by (simp add: backoff_base_def Let_def min_def)
next
  case (Suc n)
  then show ?thesis
    using double_loop_closed[OF assms(1-3), of "nat (k - 1)"]
    by (simp add: backoff_base_def Let_def min_def)
qed

lemma jitter_bounds:
  assumes "k \<le> 2 ^ 53" and "0 \<le> sint base" and "sint base < 2 ^ 53"
  shows "0 \<le> sint (jitter k base)" and "sint (jitter k base) \<le> sint base"
proof -
  let ?b = "nat (sint base)"
  let ?m = "round53 (k * round53 ?b) div 2 ^ 53"
  have b: "?b < 2 ^ 53" using assms(2,3) by simp
  have "round53 (k * ?b) div 2 ^ 53 \<le> (2 ^ 53 * ?b) div 2 ^ 53"
    by (rule div_le_mono) (rule round53_product_le[OF assms(1) b])
  then have m: "?m \<le> ?b" using b by (simp add: round53_small)
  have "sint (word_of_int (int ?m) :: int64) = int ?m"
    by (rule sint_word_of_int64) (use m assms(2,3) in \<open>auto simp: min_int64_def max_int64_def\<close>)
  then show "0 \<le> sint (jitter k base)" "sint (jitter k base) \<le> sint base"
    using m assms(2) by (simp_all add: jitter_def Let_def)
qed

text \<open>
  Without the bounds the doubling wraps: an initial backoff of \<open>2 ^ 62\<close> ns under a larger maximum
  becomes negative on the second attempt, and a negative backoff is not slept at all.
\<close>

lemma double_loop_wraps: "sint (double_loop 1 (2 ^ 62) (2 ^ 63 - 1)) < 0"
  by simp

subsection \<open>Properties\<close>

text \<open>C17: The base of the k-th backoff is the initial backoff doubled k - 1 times and capped at the
  maximum, without wrap-around, for an initial backoff below \<open>2 ^ 62\<close> ns and a maximum of at most
  \<open>2 ^ 62\<close> ns.\<close>

theorem backoff_is_capped_exponential:
  assumes "0 \<le> sint (rp_InitialBackoff p)" and "sint (rp_InitialBackoff p) < 2 ^ 62"
    and "sint (rp_MaxBackoff p) \<le> 2 ^ 62" and "0 < k"
  shows "sint (backoff_base p k) =
    min (sint (rp_MaxBackoff p)) (sint (rp_InitialBackoff p) * 2 ^ nat (k - 1))"
  by (rule backoff_base_closed[OF assms])

text \<open>C33: The duration \<open>Next\<close> yields is never negative and never above the capped exponential base,
  with the rounding of \<open>float64\<close> taken into account, for a random number in [0, 1] and a maximum
  below \<open>2 ^ 53\<close> ns (104 days).\<close>

theorem next_backoff_bounds:
  assumes "Next i x = ((d, i'), x')" and "fst (rp_rng (it_policy i) x) \<le> 2 ^ 53"
    and "0 \<le> sint (rp_InitialBackoff (it_policy i))" "sint (rp_InitialBackoff (it_policy i)) < 2 ^ 62"
    and "0 \<le> sint (rp_MaxBackoff (it_policy i))" "sint (rp_MaxBackoff (it_policy i)) < 2 ^ 53"
    and "0 \<le> it_attempt i"
  shows "0 \<le> sint d
     \<and> sint d \<le> min (sint (rp_MaxBackoff (it_policy i)))
                     (sint (rp_InitialBackoff (it_policy i)) * 2 ^ nat (it_attempt i))
     \<and> it_attempt i' = it_attempt i + 1"
proof -
  let ?p = "it_policy i" and ?k = "it_attempt i + 1"
  have b: "sint (backoff_base ?p ?k) =
      min (sint (rp_MaxBackoff ?p)) (sint (rp_InitialBackoff ?p) * 2 ^ nat (it_attempt i))"
    using backoff_base_closed[of ?p ?k] assms(3-7) by simp
  have d: "d = jitter (fst (rp_rng ?p x)) (backoff_base ?p ?k)"
    and i': "i' = i\<lparr>it_attempt := ?k\<rparr>"
    using assms(1) by (auto simp: Next_def Let_def split: prod.splits)
  have "0 \<le> sint (backoff_base ?p ?k)" "sint (backoff_base ?p ?k) < 2 ^ 53"
    using assms(3,5,6) by (simp_all add: b)
  from jitter_bounds[OF assms(2) this] b d i' show ?thesis by simp
qed

end
