(* ===== verification/Dispatcher.thy ===== *)
theory Dispatcher
  imports Provider Retry Metrics
begin

text \<open>
  \<open>internal/deliverer/dispatcher\<close>: choose the provider, push under the retry policy, record one
  terminal outcome. The world is the recorder's state, the metric points and everything outside
  (providers, clock, random numbers, timers and the context, whose cancellation the sleep function
  reports). The recorder is an argument: the constructor has checked that it is there.
\<close>

record ('l, 'x) dworld =
  dw_log :: 'l
  dw_metrics :: points
  dw_env :: 'x

type_synonym 'l record_fn = "outcome \<Rightarrow> 'l \<Rightarrow> 'l"
type_synonym 'x sleep_fn = "duration \<Rightarrow> 'x \<Rightarrow> goerr option \<times> 'x"

record ('ts, 'l, 'x) dispatcher =
  d_providers :: "string \<rightharpoonup> ('ts, 'x) push_provider_value"
  d_recorder :: "'l record_fn option"
  d_clock :: "'x \<Rightarrow> gotime \<times> 'x"
  d_retry :: "'x policy"
  d_sleep :: "'x sleep_fn"

definition WithProvider ::
  "string \<Rightarrow> ('ts, 'x) push_provider_value \<Rightarrow> ('ts, 'l, 'x) dispatcher \<Rightarrow> ('ts, 'l, 'x) dispatcher" where
  "WithProvider armName p d = d\<lparr>d_providers := (d_providers d)(armName \<mapsto> p)\<rparr>"

definition WithRecorder ::
  "'l record_fn option \<Rightarrow> ('ts, 'l, 'x) dispatcher \<Rightarrow> ('ts, 'l, 'x) dispatcher" where
  "WithRecorder r d = d\<lparr>d_recorder := r\<rparr>"

definition WithClock ::
  "('x \<Rightarrow> gotime \<times> 'x) \<Rightarrow> ('ts, 'l, 'x) dispatcher \<Rightarrow> ('ts, 'l, 'x) dispatcher" where
  "WithClock fn d = d\<lparr>d_clock := fn\<rparr>"

definition WithRetryPolicy ::
  "'x policy \<Rightarrow> ('ts, 'l, 'x) dispatcher \<Rightarrow> ('ts, 'l, 'x) dispatcher" where
  "WithRetryPolicy p d = d\<lparr>d_retry := p\<rparr>"

definition WithSleepFunc ::
  "'x sleep_fn \<Rightarrow> ('ts, 'l, 'x) dispatcher \<Rightarrow> ('ts, 'l, 'x) dispatcher" where
  "WithSleepFunc fn d = d\<lparr>d_sleep := fn\<rparr>"

lemmas dispatcher_option_defs [option_simps] =
  WithProvider_def WithRecorder_def WithClock_def WithRetryPolicy_def WithSleepFunc_def

text \<open>
  The default sleep waits on a timer and the context, unless there is nothing to wait for. \<open>wait\<close>
  is the outcome of that \<open>select\<close>: \<open>None\<close> when the timer fired, the context's error otherwise.
\<close>

definition default_sleep :: "'x sleep_fn \<Rightarrow> 'x sleep_fn" where
  "default_sleep wait dur x = (if sint dur \<le> 0 then (None, x) else wait dur x)"

definition dispatcher_New ::
  "('x \<Rightarrow> gotime \<times> 'x) \<Rightarrow> ('x \<Rightarrow> nat \<times> 'x) \<Rightarrow> 'x sleep_fn
    \<Rightarrow> (('ts, 'l, 'x) dispatcher \<Rightarrow> ('ts, 'l, 'x) dispatcher) list
    \<Rightarrow> goerr + ('ts, 'l, 'x) dispatcher \<times> 'l record_fn" where
  "dispatcher_New now rand_Float64 wait opts =
     (let d = apply_opts opts
                \<lparr>d_providers = Map.empty, d_recorder = None, d_clock = now,
                 d_retry = NewPolicy rand_Float64 [WithMaxAttempts 1], d_sleep = default_sleep wait\<rparr>
      in if dom (d_providers d) = {} then
           Inl (NewErr ''dispatcher: at least one WithProvider is required'')
         else case d_recorder d of
                None \<Rightarrow> Inl (NewErr ''dispatcher: WithRecorder is required'')
              | Some r \<Rightarrow> Inr (d, r))"

definition isExpired :: "'ts ext \<Rightarrow> 'ts notification \<Rightarrow> gotime \<Rightarrow> bool \<times> gotime" where
  "isExpired E n now =
     (case GetExpiresAt (Some n) of
        None \<Rightarrow> (False, zero_time)
      | Some ts \<Rightarrow>
          (let exp = x_as_time E ts in
           if is_zero exp then (False, zero_time) else (time_after now exp, now)))"

definition resolve ::
  "('ts, 'l, 'x) dispatcher \<Rightarrow> 'ts notification \<Rightarrow> goerr + ('ts, 'x) push_provider_value" where
  "resolve d n =
     (case GetTarget (Some n) of
        Some (Notification_Pushover _) \<Rightarrow>
          (case d_providers d ''pushover'' of
             Some p \<Rightarrow> Inr p
           | None \<Rightarrow> Inl (NotImplementedError ''pushover''))
      | _ \<Rightarrow> Inl (NotImplementedError ''unknown''))"

subsection \<open>Dispatch\<close>

text \<open>The recorder and the metric are always called together, with the same status and reason.\<close>

definition finish :: "'l record_fn \<Rightarrow> outcome \<Rightarrow> string \<Rightarrow> ('l, 'x) dworld \<Rightarrow> ('l, 'x) dworld" where
  "finish rec oc pname w =
     w\<lparr>dw_log := rec oc (dw_log w),
       dw_metrics := RecordOutcome (status_string (oc_Status oc)) (oc_Reason oc) pname (oc_Attempts oc)
                       (dw_metrics w)\<rparr>"

definition attempted :: "string \<Rightarrow> string \<Rightarrow> ('l, 'x) dworld \<Rightarrow> ('l, 'x) dworld" where
  "attempted pname cls w = w\<lparr>dw_metrics := RecordProviderAttempt pname cls (dw_metrics w)\<rparr>"

datatype 'w loop_step = Stop 'w | Again gotime gotime string 'w

text \<open>One attempt, from the clock reading before the push to the end of the loop body.\<close>

definition dispatch_attempt ::
  "'l record_fn \<Rightarrow> ('ts, 'l, 'x) dispatcher \<Rightarrow> ('ts, 'x) push_provider_value \<Rightarrow> 'ts notification
    \<Rightarrow> int \<Rightarrow> gotime \<Rightarrow> ('l, 'x) dworld \<Rightarrow> ('l, 'x) dworld loop_step" where
  "dispatch_attempt rec d p n k first w =
     (case d_clock d (dw_env w) of (start, x1) \<Rightarrow>
       (let first' = (if is_zero first then start else first) in
        case pv_Push p (Some n) x1 of (res, x2) \<Rightarrow>
        case d_clock d x2 of (latest, x3) \<Rightarrow>
          (let w3 = w\<lparr>dw_env := x3\<rparr> in
           case res of
             Inr r \<Rightarrow>
               Stop (finish rec
                 \<lparr>oc_NotificationID = GetNotificationId (Some n), oc_Status = StatusDelivered,
                  oc_Reason = [], oc_ProviderResponse = safeResponse r, oc_Attempts = k,
                  oc_FirstAttempt = first', oc_LastAttempt = latest\<rparr>
                 (pv_Name p) (attempted (pv_Name p) ResultSuccess w3))
           | Inl e \<Rightarrow>
               (case errors_as is_permanent e of
                  Some pe \<Rightarrow>
                    Stop (finish rec
                      \<lparr>oc_NotificationID = GetNotificationId (Some n), oc_Status = StatusPermanentlyFailed,
                       oc_Reason = pe_reason pe, oc_ProviderResponse = pe_response pe, oc_Attempts = k,
                       oc_FirstAttempt = first', oc_LastAttempt = latest\<rparr>
                      (pv_Name p) (attempted (pv_Name p) ResultPermanent w3))
                | None \<Rightarrow>
                    Again first' latest
                      (case errors_as is_transient e of
                         Some te \<Rightarrow> te_response te
                       | None \<Rightarrow> error_string e)
                      (attempted (pv_Name p) ResultTransient w3)))))"

definition budget_outcome :: "'ts notification \<Rightarrow> string \<Rightarrow> int \<Rightarrow> gotime \<Rightarrow> gotime \<Rightarrow> outcome" where
  "budget_outcome n resp k first latest =
     \<lparr>oc_NotificationID = GetNotificationId (Some n), oc_Status = StatusPermanentlyFailed,
      oc_Reason = ReasonRetryBudgetExhausted, oc_ProviderResponse = resp, oc_Attempts = k,
      oc_FirstAttempt = first, oc_LastAttempt = latest\<rparr>"

function dispatch_loop ::
  "'l record_fn \<Rightarrow> ('ts, 'l, 'x) dispatcher \<Rightarrow> ('ts, 'x) push_provider_value \<Rightarrow> 'ts notification
    \<Rightarrow> 'x iterator \<Rightarrow> gotime \<Rightarrow> gotime \<Rightarrow> string \<Rightarrow> ('l, 'x) dworld \<Rightarrow> ('l, 'x) dworld" where
  "dispatch_loop rec d p n it first latest resp w =
     (if Done it then finish rec (budget_outcome n resp (Attempt it) first latest) (pv_Name p) w
      else
        case Next it (dw_env w) of ((backoff, it'), x1) \<Rightarrow>
        case (if 1 < Attempt it' then d_sleep d backoff x1 else (None, x1)) of
          (Some _, x2) \<Rightarrow>
            finish rec (budget_outcome n resp (Attempt it' - 1) first latest) (pv_Name p) (w\<lparr>dw_env := x2\<rparr>)
        | (None, x2) \<Rightarrow>
            (case dispatch_attempt rec d p n (Attempt it') first (w\<lparr>dw_env := x2\<rparr>) of
               Stop w' \<Rightarrow> w'
             | Again first' latest' resp' w' \<Rightarrow> dispatch_loop rec d p n it' first' latest' resp' w'))"
  by pat_completeness auto
termination
  by (relation "measure (\<lambda>(rec, d, p, n, it, first, latest, resp, w).
        nat (rp_MaxAttempts (it_policy it) - it_attempt it))")
     (auto simp: Done_def dest!: Next_iterator[OF sym] Next_iterator)

declare dispatch_loop.simps [simp del]

definition Dispatch ::
  "'ts ext \<Rightarrow> ('ts, 'l, 'x) dispatcher \<Rightarrow> 'l record_fn \<Rightarrow> 'ts notification option
    \<Rightarrow> ('l, 'x) dworld \<Rightarrow> goerr option \<times> ('l, 'x) dworld" where
  "Dispatch E d rec n w =
     (case d_clock d (dw_env w) of (now, x1) \<Rightarrow>
       (let w1 = w\<lparr>dw_env := x1\<rparr> in
        case n of
          None \<Rightarrow> (Some (NewErr ''dispatcher: nil notification''), w1)
        | Some m \<Rightarrow>
            (let (expired, exp) = isExpired E m now in
             if expired then
               (None, finish rec
                  \<lparr>oc_NotificationID = GetNotificationId n, oc_Status = StatusExpired,
                   oc_Reason = ReasonExpired, oc_ProviderResponse = [], oc_Attempts = 0,
                   oc_FirstAttempt = exp, oc_LastAttempt = exp\<rparr> [] w1)
             else
               (case resolve d m of
                  Inl _ \<Rightarrow>
                    (None, finish rec
                       \<lparr>oc_NotificationID = GetNotificationId n, oc_Status = StatusPermanentlyFailed,
                        oc_Reason = ReasonProviderRejectedPayload, oc_ProviderResponse = [],
                        oc_Attempts = 0, oc_FirstAttempt = now, oc_LastAttempt = now\<rparr> [] w1)
                | Inr p \<Rightarrow>
                    (None, dispatch_loop rec d p m (NewIterator (d_retry d)) zero_time zero_time [] w1)))))"

end
