(* ===== verification/Dispatcher_Spec.thy ===== *)
theory Dispatcher_Spec
  imports Dispatcher
begin

text \<open>
  The dispatcher's contract: every notification comes to exactly one recorded outcome, the provider
  attempts it reports are the ones made, transient failures are retried up to the budget and a
  permanent one stops at once, and every reason is one of the data model's.
  The metric points serve as the trace of what happened.
\<close>

subsection \<open>Traces\<close>

definition attempt_points :: "points \<Rightarrow> points" where
  "attempt_points ps = filter is_attempt_point ps"

definition outcome_points :: "points \<Rightarrow> points" where
  "outcome_points ps = filter is_outcome_point ps"

text \<open>Attempts of the given classes were made, and nothing was concluded.\<close>

definition ran :: "string \<Rightarrow> string list \<Rightarrow> ('l, 'x) dworld \<Rightarrow> ('l, 'x) dworld \<Rightarrow> bool" where
  "ran pname cls w w' \<longleftrightarrow>
     dw_log w' = dw_log w
     \<and> attempt_points (dw_metrics w') = attempt_points (dw_metrics w) @ map (DelivererProviderDur pname) cls
     \<and> outcome_points (dw_metrics w') = outcome_points (dw_metrics w)"

text \<open>Exactly one outcome was recorded and counted, after attempts of the given classes.\<close>

definition concluded ::
  "'l record_fn \<Rightarrow> outcome \<Rightarrow> string \<Rightarrow> string list \<Rightarrow> ('l, 'x) dworld \<Rightarrow> ('l, 'x) dworld \<Rightarrow> bool" where
  "concluded rec oc pname cls w w' \<longleftrightarrow>
     dw_log w' = rec oc (dw_log w)
     \<and> attempt_points (dw_metrics w') = attempt_points (dw_metrics w) @ map (DelivererProviderDur pname) cls
     \<and> outcome_points (dw_metrics w') = outcome_points (dw_metrics w)
         @ [DelivererOutcomes (status_string (oc_Status oc)) (oc_Reason oc) pname]"

lemma finish_env [simp]: "dw_env (finish rec oc pname w) = dw_env w"
  by (simp add: finish_def)

lemma ran_env [simp]: "ran pname [] w (w\<lparr>dw_env := x\<rparr>)"
  by (simp add: ran_def)

lemma ran_refl [simp]: "ran pname [] w w"
  by (simp add: ran_def)

lemma concluded_finish: "ran pname cls w w' \<Longrightarrow> concluded rec oc pname cls w (finish rec oc pname w')"
  by (simp add: ran_def concluded_def finish_def attempt_points_def outcome_points_def)

lemma ran_attempted: "ran pname cls w w' \<Longrightarrow> ran pname (cls @ [c]) w (attempted pname c w')"
  by (simp add: ran_def attempted_def attempt_points_def outcome_points_def)

lemma ran_env_right: "ran pname cls w (w'\<lparr>dw_env := x\<rparr>) = ran pname cls w w'"
  by (simp add: ran_def)

lemma concluded_env: "concluded rec oc pname cls (w\<lparr>dw_env := x\<rparr>) w' = concluded rec oc pname cls w w'"
  by (simp add: concluded_def)

lemma concluded_after_ran:
  "ran pname cls w w1 \<Longrightarrow> concluded rec oc pname cls' w1 w2 \<Longrightarrow> concluded rec oc pname (cls @ cls') w w2"
  by (simp add: ran_def concluded_def)

subsection \<open>One attempt\<close>

text \<open>
  The provider returned this result in an outside state with the invariant \<open>I\<close>; \<open>env_ok\<close> says that
  the calls of the loop keep it.
\<close>

definition pushed ::
  "('x \<Rightarrow> bool) \<Rightarrow> ('ts, 'x) push_provider_value \<Rightarrow> 'ts notification \<Rightarrow> goerr + push_result option
    \<Rightarrow> 'x \<Rightarrow> bool" where
  "pushed I p n r x \<longleftrightarrow> I x \<and> fst (pv_Push p (Some n) x) = r"

definition env_ok ::
  "('x \<Rightarrow> bool) \<Rightarrow> ('ts, 'l, 'x) dispatcher \<Rightarrow> ('ts, 'x) push_provider_value \<Rightarrow> bool" where
  "env_ok I d p \<longleftrightarrow> (\<forall>x. I x \<longrightarrow>
     I (snd (d_clock d x)) \<and> I (snd (rp_rng (d_retry d) x))
     \<and> (\<forall>dur. I (snd (d_sleep d dur x))) \<and> (\<forall>n. I (snd (pv_Push p n x))))"

lemma env_okD:
  assumes "env_ok I d p" and "I x"
  shows "d_clock d x = (t, x') \<Longrightarrow> I x'" "rp_rng (d_retry d) x = (k, x') \<Longrightarrow> I x'"
    and "d_sleep d dur x = (e, x') \<Longrightarrow> I x'" "pv_Push p m x = (r, x') \<Longrightarrow> I x'"
  using assms unfolding env_ok_def by (metis snd_conv)+

lemma env_ok_True [simp]: "env_ok (\<lambda>_. True) d p"
  by (simp add: env_ok_def)

lemma dispatch_attempt_cases:
  assumes ok: "env_ok I d p" "I (dw_env w)"
  obtains (delivered) oc w3 r x where
      "dispatch_attempt rec d p n k first w = Stop (finish rec oc (pv_Name p) w3)"
      "ran (pv_Name p) [ResultSuccess] w w3"
      "oc_Status oc = StatusDelivered" "oc_Reason oc = []" "oc_ProviderResponse oc = safeResponse r"
      "oc_Attempts oc = k" "oc_NotificationID oc = n_notification_id n" "pushed I p n (Inr r) x"
    | (permanent) oc w3 e pe x where
      "dispatch_attempt rec d p n k first w = Stop (finish rec oc (pv_Name p) w3)"
      "ran (pv_Name p) [ResultPermanent] w w3"
      "oc_Status oc = StatusPermanentlyFailed" "errors_as is_permanent e = Some pe"
      "oc_Reason oc = pe_reason pe" "oc_ProviderResponse oc = pe_response pe"
      "oc_Attempts oc = k" "oc_NotificationID oc = n_notification_id n" "pushed I p n (Inl e) x"
    | (transient) first' latest resp w3 e x where
      "dispatch_attempt rec d p n k first w = Again first' latest resp w3"
      "ran (pv_Name p) [ResultTransient] w w3" "errors_as is_permanent e = None"
      "pushed I p n (Inl e) x" "I (dw_env w3)"
proof -
  obtain start x1 where c1: "d_clock d (dw_env w) = (start, x1)" by force
  obtain res x2 where pu: "pv_Push p (Some n) x1 = (res, x2)" by force
  obtain latest x3 where c2: "d_clock d x2 = (latest, x3)" by force
  note i1 = env_okD(1)[OF ok c1]
  note i2 = env_okD(4)[OF ok(1) i1 pu]
  note i3 = env_okD(1)[OF ok(1) i2 c2]
  have r: "ran (pv_Name p) [c] w (attempted (pv_Name p) c (w\<lparr>dw_env := x3\<rparr>))" for c
    using ran_attempted[of "pv_Name p" "[]" w "w\<lparr>dw_env := x3\<rparr>" c] by simp
  note eval = c1 pu c2 dispatch_attempt_def Let_def
  show thesis
  proof (cases res)
    case (Inr q)
    with pu i1 have "pushed I p n (Inr q) x1" by (simp add: pushed_def)
    with Inr r show thesis by (intro delivered) (auto simp: eval)
  next
    case (Inl e)
    with pu i1 have p: "pushed I p n (Inl e) x1" by (simp add: pushed_def)
    show thesis
    proof (cases "errors_as is_permanent e")
      case (Some pe)
      with Inl r p show thesis by (intro permanent) (auto simp: eval)
    next
      case None
      with Inl r p i3 show thesis by (intro transient) (auto simp: eval attempted_def)
    qed
  qed
qed

subsection \<open>The retry loop\<close>

text \<open>
  What the classes of the attempts and the outcome have to do with each other: transient failures
  up to a success, up to a permanent failure, or up to the end of the budget; the last also where
  a sleep was interrupted, which comes after an attempt.
\<close>

definition interruptible :: "('ts, 'l, 'x) dispatcher \<Rightarrow> bool" where
  "interruptible d \<longleftrightarrow> (\<exists>dur x. fst (d_sleep d dur x) \<noteq> None)"

definition verdict ::
  "('x \<Rightarrow> bool) \<Rightarrow> ('ts, 'l, 'x) dispatcher \<Rightarrow> ('ts, 'x) push_provider_value \<Rightarrow> 'ts notification \<Rightarrow> int \<Rightarrow> int
    \<Rightarrow> outcome \<Rightarrow> string list \<Rightarrow> bool" where
  "verdict I d p n mx k oc cls \<longleftrightarrow>
     oc_NotificationID oc = n_notification_id n \<and> oc_Attempts oc = k + int (length cls)
     \<and> (cls \<noteq> [] \<longrightarrow> oc_Attempts oc \<le> mx) \<and>
     ((oc_Status oc = StatusDelivered \<and> oc_Reason oc = []
         \<and> (\<exists>m. cls = replicate m ResultTransient @ [ResultSuccess])
         \<and> (\<exists>r x. pushed I p n (Inr r) x \<and> oc_ProviderResponse oc = safeResponse r))
      \<or> (oc_Status oc = StatusPermanentlyFailed
         \<and> (\<exists>m. cls = replicate m ResultTransient @ [ResultPermanent])
         \<and> (\<exists>e pe x. pushed I p n (Inl e) x \<and> errors_as is_permanent e = Some pe
              \<and> oc_Reason oc = pe_reason pe \<and> oc_ProviderResponse oc = pe_response pe))
      \<or> (oc_Status oc = StatusPermanentlyFailed \<and> oc_Reason oc = ReasonRetryBudgetExhausted
         \<and> (\<exists>m. cls = replicate m ResultTransient) \<and> (mx \<le> oc_Attempts oc \<or> interruptible d \<and> 0 < oc_Attempts oc)))"

lemma verdict_attempts:
  assumes "verdict I d p n mx k oc cls"
  shows "oc_Attempts oc = k + int (length cls)" and "cls \<noteq> [] \<Longrightarrow> oc_Attempts oc \<le> mx"
  using assms unfolding verdict_def by blast+

lemma verdict_attempted:
  assumes "verdict I d p n mx 0 oc cls" and "0 < mx"
  shows "cls \<noteq> []"
  using assms unfolding verdict_def by auto

lemma replicate_shift:
  "\<exists>m. cls = replicate m a @ xs \<Longrightarrow> \<exists>m. a # cls = replicate m a @ xs"
  by (metis append_Cons replicate_Suc)

lemma verdict_Cons_transient:
  assumes "verdict I d p n mx (k + 1) oc cls" and "k < mx"
  shows "verdict I d p n mx k oc (ResultTransient # cls)"
proof -
  have "oc_Attempts oc \<le> mx" using assms by (cases cls) (auto simp: verdict_def)
  then show ?thesis
    using assms(1) replicate_shift[of cls ResultTransient] replicate_shift[of cls ResultTransient "[]"]
    unfolding verdict_def by (elim conjE disjE) simp_all
qed

text \<open>From here the loop ends in one outcome that fits its attempts; first how each branch does.\<close>

definition comes_out ::
  "('x \<Rightarrow> bool) \<Rightarrow> ('ts, 'l, 'x) dispatcher \<Rightarrow> ('ts, 'x) push_provider_value \<Rightarrow> 'ts notification \<Rightarrow> 'l record_fn
    \<Rightarrow> 'x iterator \<Rightarrow> ('l, 'x) dworld \<Rightarrow> ('l, 'x) dworld \<Rightarrow> bool" where
  "comes_out I d p n rec it w w' \<longleftrightarrow>
     (\<exists>oc cls. concluded rec oc (pv_Name p) cls w w'
        \<and> verdict I d p n (rp_MaxAttempts (it_policy it)) (it_attempt it) oc cls)"

lemma comes_out_budget:
  assumes "rp_MaxAttempts (it_policy it) \<le> it_attempt it \<or> interruptible d \<and> 0 < it_attempt it"
  shows "comes_out I d p n rec it w (finish rec (budget_outcome n resp (it_attempt it) first latest) (pv_Name p)
           (w\<lparr>dw_env := x\<rparr>))"
  unfolding comes_out_def
  by (intro exI[of _ "budget_outcome n resp (it_attempt it) first latest"] exI[of _ "[]"])
    (use assms in \<open>auto simp: concluded_finish verdict_def budget_outcome_def\<close>)

lemma comes_out_stopped:
  assumes "ran (pv_Name p) cls w w3"
    and "verdict I d p n (rp_MaxAttempts (it_policy it)) (it_attempt it) oc cls"
  shows "comes_out I d p n rec it w (finish rec oc (pv_Name p) w3)"
  unfolding comes_out_def using concluded_finish[OF assms(1)] assms(2) by blast

lemma comes_out_again:
  assumes "ran (pv_Name p) [ResultTransient] w w3"
    and "comes_out I d p n rec (it\<lparr>it_attempt := it_attempt it + 1\<rparr>) w3 w'"
    and "it_attempt it < rp_MaxAttempts (it_policy it)"
  shows "comes_out I d p n rec it w w'"
proof -
  obtain oc cls where c: "concluded rec oc (pv_Name p) cls w3 w'"
    and v: "verdict I d p n (rp_MaxAttempts (it_policy it)) (it_attempt it + 1) oc cls"
    using assms(2) by (auto simp: comes_out_def)
  have "concluded rec oc (pv_Name p) (ResultTransient # cls) w w'"
    using concluded_after_ran[OF assms(1) c] by simp
  with verdict_Cons_transient[OF v assms(3)] show ?thesis unfolding comes_out_def by blast
qed

text \<open>An attempt, and what the loop makes of it.\<close>

lemma attempt_comes_out:
  assumes ok: "env_ok I d p" "I (dw_env w)" and k: "it_attempt it < rp_MaxAttempts (it_policy it)"
    and it': "it' = it\<lparr>it_attempt := it_attempt it + 1\<rparr>"
    and again: "\<And>f l r w3. dispatch_attempt rec d p n (Attempt it') first w = Again f l r w3 \<Longrightarrow> I (dw_env w3) \<Longrightarrow>
      comes_out I d p n rec it' w3 (dispatch_loop rec d p n it' f l r w3)"
  shows "comes_out I d p n rec it w
    (case dispatch_attempt rec d p n (Attempt it') first w of
       Stop w' \<Rightarrow> w'
     | Again f l r w3 \<Rightarrow> dispatch_loop rec d p n it' f l r w3)"
proof (cases rule: dispatch_attempt_cases[OF ok, of rec n "Attempt it'" first])
  case (1 oc w3 r x)
  have "verdict I d p n (rp_MaxAttempts (it_policy it)) (it_attempt it) oc [ResultSuccess]"
    using 1 k it' by (auto simp: verdict_def Attempt_def intro: exI[of _ 0])
  with 1 show ?thesis by (simp add: comes_out_stopped)
next
  case (2 oc w3 e pe x)
  have "verdict I d p n (rp_MaxAttempts (it_policy it)) (it_attempt it) oc [ResultPermanent]"
    using 2 k it' by (auto simp: verdict_def Attempt_def intro: exI[of _ 0])
  with 2 show ?thesis by (simp add: comes_out_stopped)
next
  case (3 f l r w3 e x)
  with again[OF 3(1,5)] it' k show ?thesis by (auto intro: comes_out_again)
qed

lemma dispatch_loop_comes_out:
  "env_ok I d p \<Longrightarrow> it_policy it = d_retry d \<Longrightarrow> I (dw_env w) \<Longrightarrow>
   comes_out I d p n rec it w (dispatch_loop rec d p n it first latest resp w)"
proof (induction rec d p n it first latest resp w rule: dispatch_loop.induct)
  case (1 rec d p n it first latest resp w)
  note ok = "1.prems"(1) and pol = "1.prems"(2)
  show ?case
  proof (cases "Done it")
    case True
    then show ?thesis
      using comes_out_budget[of it d I p n rec w resp first latest "dw_env w"]
      by (subst dispatch_loop.simps) (simp add: Attempt_def Done_def)
  next
    case False
    obtain backoff it' x1 where nx: "Next it (dw_env w) = ((backoff, it'), x1)" by (metis prod.exhaust)
    then have it': "it' = it\<lparr>it_attempt := it_attempt it + 1\<rparr>" by (rule Next_iterator)
    have i1: "I x1"
      using nx pol env_okD(2)[OF ok "1.prems"(3)] by (auto simp: Next_def Let_def split: prod.splits)
    obtain se x2 where sl: "(if 1 < Attempt it' then d_sleep d backoff x1 else (None, x1)) = (se, x2)"
      by (metis prod.exhaust)
    then have i2: "I x2" using i1 env_okD(3)[OF ok i1] by (auto split: if_splits)
    show ?thesis
    proof (cases se)
      case (Some err)
      then have "interruptible d" and "0 < it_attempt it"
        using sl it'
        by (auto simp: interruptible_def Attempt_def split: if_splits intro!: exI[of _ backoff] exI[of _ x1])
      with comes_out_budget[of it d I p n rec w resp first latest x2] False nx sl Some it' show ?thesis
        by (subst dispatch_loop.simps) (simp add: Attempt_def)
    next
      case None
      let ?w2 = "w\<lparr>dw_env := x2\<rparr>"
      have "dispatch_loop rec d p n it first latest resp w =
          (case dispatch_attempt rec d p n (Attempt it') first ?w2 of
             Stop w' \<Rightarrow> w'
           | Again f l r w' \<Rightarrow> dispatch_loop rec d p n it' f l r w')"
        using False nx sl None by (subst dispatch_loop.simps) simp
      moreover have "comes_out I d p n rec it ?w2
          (case dispatch_attempt rec d p n (Attempt it') first ?w2 of
             Stop w' \<Rightarrow> w'
           | Again f l r w' \<Rightarrow> dispatch_loop rec d p n it' f l r w')"
        using "1.IH"[OF False nx[symmetric] refl sl[symmetric] None _ ok] pol it' i2 False
        by (intro attempt_comes_out[OF ok]) (auto simp: Done_def)
      ultimately have "comes_out I d p n rec it ?w2 (dispatch_loop rec d p n it first latest resp w)" by simp
      then show ?thesis by (simp add: comes_out_def concluded_env)
    qed
  qed
qed

lemma dispatch_loop_concludes:
  "env_ok I d p \<Longrightarrow> it_policy it = d_retry d \<Longrightarrow> I (dw_env w) \<Longrightarrow>
   \<exists>oc cls. concluded rec oc (pv_Name p) cls w (dispatch_loop rec d p n it first latest resp w)
     \<and> verdict I d p n (rp_MaxAttempts (it_policy it)) (it_attempt it) oc cls"
  using dispatch_loop_comes_out unfolding comes_out_def .

subsection \<open>Dispatch\<close>

text \<open>The three ways a notification can go.\<close>

lemma Dispatch_expired:
  assumes "d_clock d (dw_env w) = (now, x1)" and "isExpired E m now = (True, at)"
  shows "\<exists>oc w'. Dispatch E d rec (Some m) w = (None, w') \<and> concluded rec oc [] [] w w'
     \<and> oc_Status oc = StatusExpired \<and> oc_Reason oc = ReasonExpired \<and> oc_Attempts oc = 0
     \<and> oc_NotificationID oc = n_notification_id m \<and> dw_env w' = x1"
  using assms
  by (simp add: Dispatch_def Let_def) (rule exI, rule conjI, rule concluded_finish, simp_all)

lemma Dispatch_unresolved:
  assumes "d_clock d (dw_env w) = (now, x1)" and "isExpired E m now = (False, at)"
    and "resolve d m = Inl e"
  shows "\<exists>oc w'. Dispatch E d rec (Some m) w = (None, w') \<and> concluded rec oc [] [] w w'
     \<and> oc_Status oc = StatusPermanentlyFailed \<and> oc_Reason oc = ReasonProviderRejectedPayload
     \<and> oc_Attempts oc = 0 \<and> oc_NotificationID oc = n_notification_id m \<and> dw_env w' = x1"
  using assms
  by (simp add: Dispatch_def Let_def) (rule exI, rule conjI, rule concluded_finish, simp_all)

lemma Dispatch_pushes:
  assumes "env_ok I d p" and "I (dw_env w)"
    and "d_clock d (dw_env w) = (now, x1)" and "isExpired E m now = (False, at)"
    and "resolve d m = Inr p"
  shows "\<exists>oc cls w'. Dispatch E d rec (Some m) w = (None, w') \<and> concluded rec oc (pv_Name p) cls w w'
     \<and> verdict I d p m (rp_MaxAttempts (d_retry d)) 0 oc cls"
proof -
  have "I x1" by (rule env_okD(1)[OF assms(1,2,3)])
  then obtain oc cls where
    "concluded rec oc (pv_Name p) cls (w\<lparr>dw_env := x1\<rparr>)
       (dispatch_loop rec d p m (NewIterator (d_retry d)) zero_time zero_time [] (w\<lparr>dw_env := x1\<rparr>))"
    and "verdict I d p m (rp_MaxAttempts (d_retry d)) 0 oc cls"
    using dispatch_loop_concludes[OF assms(1), of "NewIterator (d_retry d)" "w\<lparr>dw_env := x1\<rparr>" rec m
        zero_time zero_time "[]"]
    by (auto simp: NewIterator_def)
  then show ?thesis
    using assms by (auto simp: Dispatch_def Let_def concluded_def)
qed

lemma Dispatch_cases:
  assumes "env_ok I d p" and "I (dw_env w)" and "\<forall>q. resolve d m = Inr q \<longrightarrow> q = p"
  obtains (expired) oc w' where "Dispatch E d rec (Some m) w = (None, w')" "concluded rec oc [] [] w w'"
      "oc_Status oc = StatusExpired" "oc_Reason oc = ReasonExpired" "oc_Attempts oc = 0"
      "oc_NotificationID oc = n_notification_id m"
    | (unresolved) oc w' where "Dispatch E d rec (Some m) w = (None, w')" "concluded rec oc [] [] w w'"
      "oc_Status oc = StatusPermanentlyFailed" "oc_Reason oc = ReasonProviderRejectedPayload"
      "oc_Attempts oc = 0" "oc_NotificationID oc = n_notification_id m" "resolve d m \<noteq> Inr p"
    | (pushed) oc cls w' where "Dispatch E d rec (Some m) w = (None, w')"
      "concluded rec oc (pv_Name p) cls w w'"
      "verdict I d p m (rp_MaxAttempts (d_retry d)) 0 oc cls"
proof -
  obtain now x1 where c: "d_clock d (dw_env w) = (now, x1)" by force
  obtain ex at where e: "isExpired E m now = (ex, at)" by force
  show thesis
  proof (cases ex)
    case True
    with Dispatch_expired[OF c, of E m at rec] e expired show thesis by auto
  next
    case False
    show thesis
    proof (cases "resolve d m")
      case (Inl err)
      with Dispatch_unresolved[OF c, of E m at err rec] e False unresolved show thesis by auto
    next
      case (Inr q)
      with assms(3) have "resolve d m = Inr p" by simp
      with Dispatch_pushes[OF assms(1,2) c, of E m at rec] e False pushed show thesis by auto
    qed
  qed
qed

text \<open>One terminal outcome per notification.\<close>

lemma dispatch_concludes:
  "\<exists>oc pname cls w'. Dispatch E d rec (Some m) w = (None, w')
     \<and> concluded rec oc pname cls w w'
     \<and> oc_NotificationID oc = n_notification_id m
     \<and> oc_Attempts oc = int (length cls)"
proof -
  obtain p where p: "\<forall>q. resolve d m = Inr q \<longrightarrow> q = p" by (metis sum.inject(2))
  show ?thesis
  proof (cases rule: Dispatch_cases[where I = "\<lambda>_. True" and w = w and E = E and rec = rec,
        OF env_ok_True TrueI p, case_names expired unresolved pushed])
    case (expired oc w')
    then show ?thesis by (intro exI[of _ oc] exI[of _ "[]"] exI[of _ w']) simp
  next
    case (unresolved oc w')
    then show ?thesis by (intro exI[of _ oc] exI[of _ "[]"] exI[of _ w']) simp
  next
    case (pushed oc cls w')
    then show ?thesis
      by (intro exI[of _ oc] exI[of _ "pv_Name p"] exI[of _ cls] exI[of _ w']) (simp add: verdict_def)
  qed
qed

text \<open>C12: Every notification handed to the dispatcher comes to exactly one terminal outcome, which
  carries its identifier: the recorder is called once, one outcome is counted with the same status
  and reason, no error is returned, and the attempts the outcome reports are the provider calls
  made.\<close>

theorem dispatch_one_outcome:
  "\<exists>oc pname cls w'. Dispatch E d rec (Some m) w = (None, w')
     \<and> concluded rec oc pname cls w w'
     \<and> oc_NotificationID oc = n_notification_id m
     \<and> oc_Attempts oc = int (length cls)"
  by (rule dispatch_concludes)

text \<open>A notification that has expired is never pushed: one outcome with status and reason
  \<open>expired\<close> and no attempts is recorded, and outside the program only the clock was read.\<close>

lemma expired_not_pushed:
  assumes "d_clock d (dw_env w) = (now, x1)"
    and "n_expires_at m = Some ts" and "\<not> is_zero (x_as_time E ts)" and "x_as_time E ts < now"
  shows "\<exists>oc w'. Dispatch E d rec (Some m) w = (None, w') \<and> concluded rec oc [] [] w w'
     \<and> oc_Status oc = StatusExpired \<and> oc_Reason oc = ReasonExpired \<and> oc_Attempts oc = 0
     \<and> dw_env w' = x1"
  using Dispatch_expired[OF assms(1), of E m now rec] assms(2-4)
  by (auto simp: isExpired_def time_after_def)

subsection \<open>Reasons\<close>

context push_provider
begin

text \<open>A dispatcher's decision on a typed error is the retry package's classification.\<close>

lemma decision_is_Classify:
  assumes "ok x" and "push n x = (Inl e, x')"
  shows "errors_as is_permanent e = None \<longleftrightarrow> Classify (Some e) = ClassTransient"
  using push_typed[OF assms]
  by (cases rule: typed_push_error_cases) (auto simp: errors_as_def Classify_def errors_is_def)

lemma verdict_reason:
  assumes "verdict ok d p m mx k oc cls" and "pv_Push p = push"
  shows "reason_fits (oc_Status oc) (oc_Reason oc)"
proof -
  have reason: "pe_reason pe \<in> failure_reasons"
    if "pushed ok p m (Inl e) x" and "errors_as is_permanent e = Some pe" for e pe x
  proof -
    have "push (Some m) x = (Inl e, snd (push (Some m) x))" and "ok x"
      using that(1) assms(2) by (auto simp: pushed_def prod_eq_iff)
    from push_typed[OF this(2,1)] that(2) show ?thesis
      by (cases rule: typed_push_error_cases) (auto simp: errors_as_def provider_reasons_failure)
  qed
  from assms(1) consider "oc_Status oc = StatusDelivered" "oc_Reason oc = []"
    | e pe x where "oc_Status oc = StatusPermanentlyFailed" "pushed ok p m (Inl e) x"
        "errors_as is_permanent e = Some pe" "oc_Reason oc = pe_reason pe"
    | "oc_Status oc = StatusPermanentlyFailed" "oc_Reason oc = ReasonRetryBudgetExhausted"
    unfolding verdict_def by blast
  then show ?thesis
    by cases (auto simp: reason_fits_def budget_reason intro: reason)
qed

lemma dispatch_reason_fits:
  assumes "env_ok ok d p" and "ok (dw_env w)" and "pv_Push p = push"
    and "\<forall>q. resolve d m = Inr q \<longrightarrow> q = p" and "0 < rp_MaxAttempts (d_retry d)"
  shows "\<exists>oc pname cls w'. Dispatch E d rec (Some m) w = (None, w') \<and> concluded rec oc pname cls w w'
     \<and> oc_NotificationID oc = n_notification_id m \<and> oc_Attempts oc = int (length cls)
     \<and> reason_fits (oc_Status oc) (oc_Reason oc)
     \<and> (cls \<noteq> [] \<or> oc_Status oc = StatusExpired \<or> resolve d m \<noteq> Inr p)"
proof (cases rule: Dispatch_cases[where E = E and rec = rec, OF assms(1,2,4), case_names expired unresolved pushed])
  case (expired oc w')
  then have "reason_fits (oc_Status oc) (oc_Reason oc)" by (simp add: reason_fits_def)
  with expired show ?thesis by (intro exI[of _ oc] exI[of _ "[]"] exI[of _ w']) simp
next
  case (unresolved oc w')
  then have "reason_fits (oc_Status oc) (oc_Reason oc)" by (simp add: reason_fits_def payload_reason)
  with unresolved show ?thesis by (intro exI[of _ oc] exI[of _ "[]"] exI[of _ w']) simp
next
  case (pushed oc cls w')
  have "oc_NotificationID oc = n_notification_id m" "oc_Attempts oc = int (length cls)"
    using pushed(3) by (simp_all add: verdict_def)
  with pushed verdict_reason[OF pushed(3) assms(3)] verdict_attempted[OF pushed(3) assms(5)]
  show ?thesis by blast
qed

end

text \<open>A timestamp that is present but zero does not mean "never": it is the Unix epoch, not Go's
  zero time, so the notification is expired and is not pushed.\<close>

lemma zero_expiry_is_expired:
  assumes "d_clock d (dw_env w) = (now, x1)" and "unix_epoch < now"
    and "n_expires_at m = Some ts" and "x_as_time E ts = unix_epoch"
  shows "\<exists>oc w'. Dispatch E d rec (Some m) w = (None, w') \<and> concluded rec oc [] [] w w'
     \<and> oc_Status oc = StatusExpired"
  using Dispatch_expired[OF assms(1), of E m now rec] assms(2-4) unix_epoch_not_zero
  by (auto simp: isExpired_def time_after_def)

text \<open>The dispatcher tells permanent from transient by the typed error, not by the sentinel: a
  bare \<open>ErrPermanent\<close>, which \<open>errors.Is\<close> finds and the retry package classifies as permanent, is
  retried.\<close>

lemma bare_sentinel_is_retried:
  assumes "fst (pv_Push p (Some m) (snd (d_clock d (dw_env w)))) = Inl ErrPermanent"
  shows "Classify (Some ErrPermanent) = ClassPermanent
     \<and> (\<exists>first' latest resp w'. dispatch_attempt rec d p m k first w = Again first' latest resp w')"
  using assms
  by (auto simp: Classify_def errors_is_def dispatch_attempt_def errors_as_def Let_def
      split: prod.splits)

end
