(* ===== verification/Consumer.thy ===== *)
theory Consumer
  imports Dispatcher_Spec Pulsarlib
begin

text \<open>
  \<open>internal/deliverer/consumer\<close>: the read-dispatch-acknowledge loop. The world adds to the
  dispatcher's the acknowledgements sent, oldest first; the logger acts on the outside. The loop
  may run forever, so \<open>Run\<close> is a partial function: \<open>None\<close> is a run that does not end.
\<close>

record ('l, 'm, 'x) cworld =
  cw_base :: "('l, 'x) dworld"
  cw_acks :: "'m list"

record ('m, 'x) reader =
  rd_Receive :: "'x \<Rightarrow> (goerr + 'm consumed_message) \<times> 'x"
  rd_Ack :: "'m \<Rightarrow> 'x \<Rightarrow> 'x"

type_synonym 'x logger = "log_line \<Rightarrow> 'x \<Rightarrow> 'x"
type_synonym ('ts, 'l, 'x) built_dispatcher = "('ts, 'l, 'x) dispatcher \<times> 'l record_fn"

text \<open>The fields an option may set, and the consumer the constructor returns, none of them nil.\<close>

record ('ts, 'l, 'm, 'x) consumer_options =
  cs_reader :: "('m, 'x) reader option"
  cs_dispatcher :: "('ts, 'l, 'x) built_dispatcher option"
  cs_recorder :: "'l record_fn option"
  cs_logger :: "'x logger option"

record ('ts, 'l, 'm, 'x) consumer =
  c_reader :: "('m, 'x) reader"
  c_dispatcher :: "('ts, 'l, 'x) built_dispatcher"
  c_recorder :: "'l record_fn"
  c_logger :: "'x logger"

definition WithReader ::
  "('m, 'x) reader option \<Rightarrow> ('ts, 'l, 'm, 'x) consumer_options \<Rightarrow> ('ts, 'l, 'm, 'x) consumer_options" where
  "WithReader r c = c\<lparr>cs_reader := r\<rparr>"

definition WithDispatcher ::
  "('ts, 'l, 'x) built_dispatcher option \<Rightarrow> ('ts, 'l, 'm, 'x) consumer_options
    \<Rightarrow> ('ts, 'l, 'm, 'x) consumer_options" where
  "WithDispatcher d c = c\<lparr>cs_dispatcher := d\<rparr>"

definition consumer_WithRecorder ::
  "'l record_fn option \<Rightarrow> ('ts, 'l, 'm, 'x) consumer_options \<Rightarrow> ('ts, 'l, 'm, 'x) consumer_options" where
  "consumer_WithRecorder r c = c\<lparr>cs_recorder := r\<rparr>"

definition consumer_WithLogger ::
  "'x logger option \<Rightarrow> ('ts, 'l, 'm, 'x) consumer_options \<Rightarrow> ('ts, 'l, 'm, 'x) consumer_options" where
  "consumer_WithLogger l c = c\<lparr>cs_logger := l\<rparr>"

lemmas consumer_option_defs [option_simps] =
  WithReader_def WithDispatcher_def consumer_WithRecorder_def consumer_WithLogger_def

definition consumer_New ::
  "'x logger \<Rightarrow> (('ts, 'l, 'm, 'x) consumer_options \<Rightarrow> ('ts, 'l, 'm, 'x) consumer_options) list
    \<Rightarrow> goerr + ('ts, 'l, 'm, 'x) consumer" where
  "consumer_New default_logger opts =
     (let c = apply_opts opts
                \<lparr>cs_reader = None, cs_dispatcher = None, cs_recorder = None, cs_logger = None\<rparr>
      in case cs_reader c of
           None \<Rightarrow> Inl (NewErr ''consumer: WithReader is required'')
         | Some r \<Rightarrow>
             (case cs_dispatcher c of
                None \<Rightarrow> Inl (NewErr ''consumer: WithDispatcher is required'')
              | Some d \<Rightarrow>
                  (case cs_recorder c of
                     None \<Rightarrow> Inl (NewErr ''consumer: WithRecorder is required'')
                   | Some rec \<Rightarrow>
                       Inr \<lparr>c_reader = r, c_dispatcher = d, c_recorder = rec,
                            c_logger = (case cs_logger c of None \<Rightarrow> default_logger | Some l \<Rightarrow> l)\<rparr>)))"

subsection \<open>Handling one message\<close>

definition log_env :: "'x logger \<Rightarrow> log_line \<Rightarrow> ('l, 'x) dworld \<Rightarrow> ('l, 'x) dworld" where
  "log_env logger line w = w\<lparr>dw_env := logger line (dw_env w)\<rparr>"

definition consumed_line :: "string \<Rightarrow> log_line" where
  "consumed_line nid =
     \<lparr>ll_level = LevelInfo, ll_msg = ''consumer.consumed'',
      ll_attrs = [AStr ''event'' ''notification.consumed'', AStr ''notification_id'' nid]\<rparr>"

definition handle ::
  "'ts ext \<Rightarrow> ('ts, 'l, 'm, 'x) consumer \<Rightarrow> 'm consumed_message \<Rightarrow> ('l, 'x) dworld
    \<Rightarrow> goerr option \<times> ('l, 'x) dworld" where
  "handle E c msg w =
     (let w1 = log_env (c_logger c) (consumed_line (cm_notification_id msg))
                 (w\<lparr>dw_metrics := RecordConsumed (dw_metrics w)\<rparr>)
      in case x_unmarshal E (cm_body msg) of
           Inl _ \<Rightarrow>
             (None, finish (c_recorder c)
                (bare_outcome (cm_notification_id msg) StatusPermanentlyFailed
                   ReasonProviderRejectedPayload) [] w1)
         | Inr n \<Rightarrow>
             (let n' = (if n_notification_id n = []
                        then n\<lparr>n_notification_id := cm_notification_id msg\<rparr> else n)
              in Dispatch E (fst (c_dispatcher c)) (snd (c_dispatcher c)) (Some n') w1))"

definition recordPolicyViolation ::
  "('ts, 'l, 'm, 'x) consumer \<Rightarrow> string \<Rightarrow> ('l, 'x) dworld \<Rightarrow> ('l, 'x) dworld" where
  "recordPolicyViolation c nid w =
     finish (c_recorder c) (bare_outcome nid StatusPermanentlyFailed ReasonEncryptionPolicyViolation) [] w"

subsection \<open>The loop\<close>

definition receive_error_line :: "goerr \<Rightarrow> log_line" where
  "receive_error_line e =
     \<lparr>ll_level = LevelError, ll_msg = ''consumer.receive.error'', ll_attrs = [AStr ''err'' (error_string e)]\<rparr>"

definition handle_error_line :: "string \<Rightarrow> goerr \<Rightarrow> log_line" where
  "handle_error_line nid e =
     \<lparr>ll_level = LevelError, ll_msg = ''consumer.handle.error'',
      ll_attrs = [AStr ''notification_id'' nid, AStr ''err'' (error_string e)]\<rparr>"

definition on_base ::
  "(('l, 'x) dworld \<Rightarrow> ('l, 'x) dworld) \<Rightarrow> ('l, 'm, 'x) cworld \<Rightarrow> ('l, 'm, 'x) cworld" where
  "on_base f w = w\<lparr>cw_base := f (cw_base w)\<rparr>"

definition msg_Ack :: "('m, 'x) reader \<Rightarrow> 'm \<Rightarrow> ('l, 'm, 'x) cworld \<Rightarrow> ('l, 'm, 'x) cworld" where
  "msg_Ack rd m w =
     w\<lparr>cw_base := (cw_base w)\<lparr>dw_env := rd_Ack rd m (dw_env (cw_base w))\<rparr>, cw_acks := cw_acks w @ [m]\<rparr>"

text \<open>One iteration: \<open>Inl\<close> is a return with its error, \<open>Inr\<close> the next iteration.\<close>

definition run_step ::
  "'ts ext \<Rightarrow> ('ts, 'l, 'm, 'x) consumer \<Rightarrow> ('l, 'm, 'x) cworld
    \<Rightarrow> goerr option \<times> ('l, 'm, 'x) cworld + ('l, 'm, 'x) cworld" where
  "run_step E c w =
     (case rd_Receive (c_reader c) (dw_env (cw_base w)) of
        (Inl e, x1) \<Rightarrow>
          (let w1 = on_base (\<lambda>b. b\<lparr>dw_env := x1\<rparr>) w in
           if errors_is e ContextCanceled \<or> errors_is e DeadlineExceeded then Inl (None, w1)
           else if errors_is e ErrEncryptionPolicyViolation then
             Inr (on_base (recordPolicyViolation c []) w1)
           else Inl (Some e, on_base (log_env (c_logger c) (receive_error_line e)) w1))
      | (Inr msg, x1) \<Rightarrow>
          (case handle E c msg ((cw_base w)\<lparr>dw_env := x1\<rparr>) of
             (err, b2) \<Rightarrow>
               (let b3 = (case err of
                            None \<Rightarrow> b2
                          | Some e \<Rightarrow>
                              log_env (c_logger c) (handle_error_line (cm_notification_id msg) e) b2)
                in Inr (msg_Ack (c_reader c) (cm_msg msg) (w\<lparr>cw_base := b3\<rparr>)))))"

partial_function (option) Run ::
  "'ts ext \<Rightarrow> ('ts, 'l, 'm, 'x) consumer \<Rightarrow> ('l, 'm, 'x) cworld
    \<Rightarrow> (goerr option \<times> ('l, 'm, 'x) cworld) option" where
  "Run E c w = (case run_step E c w of Inl r \<Rightarrow> Some r | Inr w' \<Rightarrow> Run E c w')"

subsection \<open>What an iteration does\<close>

definition consumed_points :: "points \<Rightarrow> nat" where
  "consumed_points ps = length (filter (\<lambda>p. p = DelivererConsumed) ps)"

text \<open>The events of a run: a message with the outcome it came to, or a policy violation.\<close>

datatype 'm event = Handled "'m consumed_message" outcome | Violated outcome

fun event_outcome :: "'m event \<Rightarrow> outcome" where
  "event_outcome (Handled _ oc) = oc"
| "event_outcome (Violated oc) = oc"

fun event_acks :: "'m event \<Rightarrow> 'm list" where
  "event_acks (Handled msg _) = [cm_msg msg]"
| "event_acks (Violated _) = []"

text \<open>
  \<open>handled E msg oc\<close>: the outcome is about that message, by the identifier of its payload or,
  where the payload has none or cannot be decoded, by the one of its properties.
\<close>

definition message_id :: "'ts ext \<Rightarrow> 'm consumed_message \<Rightarrow> string" where
  "message_id E msg =
     (case x_unmarshal E (cm_body msg) of
        Inl _ \<Rightarrow> cm_notification_id msg
      | Inr n \<Rightarrow> (if n_notification_id n = [] then cm_notification_id msg else n_notification_id n))"

fun event_ok :: "'ts ext \<Rightarrow> 'm event \<Rightarrow> bool" where
  "event_ok E (Handled msg oc) = (oc_NotificationID oc = message_id E msg)"
| "event_ok E (Violated oc) =
     (oc_NotificationID oc = [] \<and> oc_Status oc = StatusPermanentlyFailed
      \<and> oc_Reason oc = ReasonEncryptionPolicyViolation)"

text \<open>
  The world after some events: each outcome recorded once by the one recorder the consumer and the
  dispatcher share, each outcome counted once, each handled message counted and acknowledged once,
  in the order they came.
\<close>

definition logged ::
  "'l record_fn \<Rightarrow> 'm event list \<Rightarrow> ('l, 'm, 'x) cworld \<Rightarrow> ('l, 'm, 'x) cworld \<Rightarrow> bool" where
  "logged rec evs w w' \<longleftrightarrow>
     dw_log (cw_base w') = fold rec (map event_outcome evs) (dw_log (cw_base w))
     \<and> cw_acks w' = cw_acks w @ concat (map event_acks evs)
     \<and> length (outcome_points (dw_metrics (cw_base w')))
         = length (outcome_points (dw_metrics (cw_base w))) + length evs"

lemma logged_refl [simp]: "logged rec [] w w"
  by (simp add: logged_def)

lemma logged_trans: "logged rec a u v \<Longrightarrow> logged rec b v w \<Longrightarrow> logged rec (a @ b) u w"
  by (simp add: logged_def)

definition shares_recorder :: "('ts, 'l, 'm, 'x) consumer \<Rightarrow> bool" where
  "shares_recorder c \<longleftrightarrow> snd (c_dispatcher c) = c_recorder c"

lemma handle_concludes:
  assumes "shares_recorder c"
  shows "\<exists>oc w'. handle E c msg w = (None, w')
     \<and> dw_log w' = c_recorder c oc (dw_log w)
     \<and> length (outcome_points (dw_metrics w')) = Suc (length (outcome_points (dw_metrics w)))
     \<and> oc_NotificationID oc = message_id E msg"
proof (cases "x_unmarshal E (cm_body msg)")
  case (Inl e)
  then show ?thesis
    by (simp add: handle_def Let_def finish_def log_env_def message_id_def outcome_points_def
        bare_outcome_def)
       (rule exI, rule conjI, rule refl, simp)
next
  case (Inr n)
  let ?n = "if n_notification_id n = [] then n\<lparr>n_notification_id := cm_notification_id msg\<rparr> else n"
  let ?w1 = "log_env (c_logger c) (consumed_line (cm_notification_id msg))
      (w\<lparr>dw_metrics := RecordConsumed (dw_metrics w)\<rparr>)"
  have id: "n_notification_id ?n = message_id E msg" using Inr by (simp add: message_id_def)
  obtain oc pname cls w' where
    d: "Dispatch E (fst (c_dispatcher c)) (snd (c_dispatcher c)) (Some ?n) ?w1 = (None, w')"
    and "concluded (snd (c_dispatcher c)) oc pname cls ?w1 w'" "oc_NotificationID oc = n_notification_id ?n"
    using dispatch_concludes[of E "fst (c_dispatcher c)" "snd (c_dispatcher c)" ?n ?w1] by blast
  then show ?thesis
    using Inr assms id
    by (intro exI[of _ oc] exI[of _ w'])
       (simp add: handle_def Let_def concluded_def log_env_def shares_recorder_def outcome_points_def)
qed

end
