(* ===== verification/Consumer_Spec.thy ===== *)
theory Consumer_Spec
  imports Consumer
begin

text \<open>
  The loop's contract: between any two iterations every message received has been acknowledged
  exactly once, after its one outcome was recorded; the loop ends without an error only on
  cancellation; and it ends exactly when some number of iterations does.
\<close>

subsection \<open>Iterations\<close>

lemma logged_base_env:
  "logged rec evs w (w'\<lparr>cw_base := (cw_base w')\<lparr>dw_env := x\<rparr>\<rparr>) = logged rec evs w w'"
  by (simp add: logged_def)

text \<open>
  Which event a world brings: \<open>arrived\<close> compares it with what the reader returns there, and
  \<open>arrivals\<close> follows the iterations of the loop with a list of events.
\<close>

fun arrived :: "('ts, 'l, 'm, 'x) consumer \<Rightarrow> ('l, 'm, 'x) cworld \<Rightarrow> 'm event \<Rightarrow> bool" where
  "arrived c w (Handled msg _) = (fst (rd_Receive (c_reader c) (dw_env (cw_base w))) = Inr msg)"
| "arrived c w (Violated _) =
     (case fst (rd_Receive (c_reader c) (dw_env (cw_base w))) of
        Inl e \<Rightarrow> errors_is e ErrEncryptionPolicyViolation
      | Inr _ \<Rightarrow> False)"

fun arrivals ::
  "'ts ext \<Rightarrow> ('ts, 'l, 'm, 'x) consumer \<Rightarrow> ('l, 'm, 'x) cworld \<Rightarrow> 'm event list
    \<Rightarrow> ('l, 'm, 'x) cworld \<Rightarrow> bool" where
  "arrivals E c w [] w' = (w' = w)"
| "arrivals E c w (ev # evs) w' =
     (arrived c w ev \<and> (case run_step E c w of Inl _ \<Rightarrow> False | Inr w1 \<Rightarrow> arrivals E c w1 evs w'))"

lemma run_step_next:
  assumes "shares_recorder c" and "run_step E c w = Inr w'"
  shows "\<exists>ev. arrived c w ev \<and> event_ok E ev \<and> logged (c_recorder c) [ev] w w'"
proof (cases "rd_Receive (c_reader c) (dw_env (cw_base w))")
  case (Pair r x1)
  show ?thesis
  proof (cases r)
    case (Inl e)
    let ?oc = "bare_outcome [] StatusPermanentlyFailed ReasonEncryptionPolicyViolation"
    have "event_ok E (Violated ?oc)" by (simp add: bare_outcome_def)
    moreover have "arrived c w (Violated ?oc)"
      using assms(2) Pair Inl by (auto simp: run_step_def Let_def split: if_splits)
    moreover have "logged (c_recorder c) [Violated ?oc] w w'"
      using assms(2) Pair Inl
      by (auto simp: run_step_def Let_def logged_def on_base_def recordPolicyViolation_def finish_def
          outcome_points_def split: if_splits)
    ultimately show ?thesis by blast
  next
    case (Inr msg)
    obtain oc b where h: "handle E c msg ((cw_base w)\<lparr>dw_env := x1\<rparr>) = (None, b)"
      and b: "dw_log b = c_recorder c oc (dw_log (cw_base w))"
        "length (outcome_points (dw_metrics b)) = Suc (length (outcome_points (dw_metrics (cw_base w))))"
      and oc: "oc_NotificationID oc = message_id E msg"
      using handle_concludes[OF assms(1), of E msg "(cw_base w)\<lparr>dw_env := x1\<rparr>"] by auto
    have "logged (c_recorder c) [Handled msg oc] w w'"
      using assms(2) Pair Inr h b by (auto simp: run_step_def logged_def msg_Ack_def)
    with oc Pair Inr show ?thesis by (intro exI[of _ "Handled msg oc"]) simp
  qed
qed

lemma run_step_end:
  assumes "run_step E c w = Inl (e, w')"
  obtains err x1 where "rd_Receive (c_reader c) (dw_env (cw_base w)) = (Inl err, x1)"
    and "logged rec [] w w'"
    and "e = None \<longleftrightarrow> errors_is err ContextCanceled \<or> errors_is err DeadlineExceeded"
    and "e \<noteq> None \<Longrightarrow> e = Some err \<and> \<not> errors_is err ErrEncryptionPolicyViolation"
proof (cases "rd_Receive (c_reader c) (dw_env (cw_base w))")
  case (Pair r x1)
  show thesis
  proof (cases r)
    case (Inl err)
    with Pair assms show thesis
      by (intro that[of err x1])
         (auto simp: run_step_def Let_def logged_def on_base_def log_env_def split: if_splits)
  next
    case (Inr msg)
    with Pair assms show thesis by (simp add: run_step_def split: prod.splits)
  qed
qed

subsection \<open>Runs\<close>

fun run_iter ::
  "nat \<Rightarrow> 'ts ext \<Rightarrow> ('ts, 'l, 'm, 'x) consumer \<Rightarrow> ('l, 'm, 'x) cworld
    \<Rightarrow> goerr option \<times> ('l, 'm, 'x) cworld + ('l, 'm, 'x) cworld" where
  "run_iter 0 E c w = Inr w"
| "run_iter (Suc n) E c w = (case run_step E c w of Inl r \<Rightarrow> Inl r | Inr w' \<Rightarrow> run_iter n E c w')"

lemma run_iter_Run: "run_iter n E c w = Inl r \<Longrightarrow> Run E c w = Some r"
proof (induction n arbitrary: w)
  case (Suc n)
  then show ?case by (subst Run.simps) (auto split: sum.splits)
qed simp

lemma Run_run_iter:
  assumes "Run E c w = Some r"
  shows "\<exists>n. run_iter n E c w = Inl r"
proof (rule Run.raw_induct[where P = "\<lambda>E c w r. \<exists>n. run_iter n E c w = Inl r", OF _ assms])
  fix run E c w r
  assume IH: "\<And>E c w r. run E c w = Some r \<Longrightarrow> \<exists>n. run_iter n E c w = Inl r"
    and s: "(case run_step E c w of Inl q \<Rightarrow> Some q | Inr w' \<Rightarrow> run E c w') = Some r"
  show "\<exists>n. run_iter n E c w = Inl r"
  proof (cases "run_step E c w")
    case (Inl q)
    with s show ?thesis by (intro exI[of _ 1]) simp
  next
    case (Inr w')
    with s have "run E c w' = Some r" by simp
    from IH[OF this] obtain n where "run_iter n E c w' = Inl r" by blast
    with Inr show ?thesis by (intro exI[of _ "Suc n"]) simp
  qed
qed

text \<open>The consumer's loop returns a result exactly when some number of its iterations ends in
  that result.\<close>

lemma Run_iff_iterations: "Run E c w = Some r \<longleftrightarrow> (\<exists>n. run_iter n E c w = Inl r)"
  using run_iter_Run Run_run_iter by metis

lemma run_iter_logged:
  assumes "shares_recorder c"
  shows "\<exists>evs v. list_all (event_ok E) evs \<and> arrivals E c w evs v \<and> logged (c_recorder c) evs w v
     \<and> (case run_iter n E c w of
          Inl (e, w') \<Rightarrow> length evs < n \<and> run_step E c v = Inl (e, w')
        | Inr w' \<Rightarrow> length evs = n \<and> w' = v)"
proof (induction n arbitrary: w)
  case 0
  show ?case by (intro exI[of _ "[]"] exI[of _ w]) simp
next
  case (Suc n)
  show ?case
  proof (cases "run_step E c w")
    case (Inl r)
    then show ?thesis by (intro exI[of _ "[]"] exI[of _ w]) (simp split: prod.split)
  next
    case (Inr w1)
    obtain ev where ev: "arrived c w ev" "event_ok E ev" "logged (c_recorder c) [ev] w w1"
      using run_step_next[OF assms Inr] by blast
    obtain evs v where IH: "list_all (event_ok E) evs" "arrivals E c w1 evs v"
      "logged (c_recorder c) evs w1 v"
      "case run_iter n E c w1 of
          Inl (e, w') \<Rightarrow> length evs < n \<and> run_step E c v = Inl (e, w')
        | Inr w' \<Rightarrow> length evs = n \<and> w' = v"
      using Suc.IH by blast
    from IH(4) Inr have "case run_iter (Suc n) E c w of
          Inl (e, w') \<Rightarrow> length (ev # evs) < Suc n \<and> run_step E c v = Inl (e, w')
        | Inr w' \<Rightarrow> length (ev # evs) = Suc n \<and> w' = v"
      by (auto split: sum.splits)
    with ev IH(1-3) Inr logged_trans[OF ev(3) IH(3)] show ?thesis
      by (intro exI[of _ "ev # evs"] exI[of _ v]) simp
  qed
qed

text \<open>C8: After any number of iterations, the messages acknowledged are exactly the messages the
  reader delivered, each once and in order; every one of them, and every policy violation, has one
  recorded and counted outcome, under the message's identifier.\<close>

theorem consumer_acks_once:
  assumes "shares_recorder c" and "run_iter n E c w = Inr w'"
  shows "\<exists>evs. length evs = n \<and> arrivals E c w evs w' \<and> list_all (event_ok E) evs
     \<and> dw_log (cw_base w') = fold (c_recorder c) (map event_outcome evs) (dw_log (cw_base w))
     \<and> cw_acks w' = cw_acks w @ concat (map event_acks evs)
     \<and> length (outcome_points (dw_metrics (cw_base w')))
         = length (outcome_points (dw_metrics (cw_base w))) + n"
  using run_iter_logged[OF assms(1), where n = n and E = E and w = w] assms(2) by (auto simp: logged_def)

text \<open>C16: The loop returns no error only when the context was cancelled or its deadline passed; any
  error it returns is the one the reader gave, and never a policy violation. Either way the messages
  delivered before have been recorded and acknowledged in full, and nothing was done after them.\<close>

theorem Run_returns:
  assumes "shares_recorder c" and "Run E c w = Some (e, w')"
  shows "\<exists>evs v err x'. arrivals E c w evs v \<and> list_all (event_ok E) evs
     \<and> logged (c_recorder c) evs w w'
     \<and> rd_Receive (c_reader c) (dw_env (cw_base v)) = (Inl err, x')
     \<and> (e = None \<longleftrightarrow> errors_is err ContextCanceled \<or> errors_is err DeadlineExceeded)
     \<and> (e = None \<or> e = Some err \<and> \<not> errors_is err ErrEncryptionPolicyViolation)"
proof -
  obtain n where n: "run_iter n E c w = Inl (e, w')" using Run_run_iter[OF assms(2)] by blast
  obtain evs v where ev: "list_all (event_ok E) evs" "arrivals E c w evs v"
    "logged (c_recorder c) evs w v" and st: "run_step E c v = Inl (e, w')"
    using run_iter_logged[OF assms(1), where n = n and E = E and w = w] n by auto
  obtain err x' where "rd_Receive (c_reader c) (dw_env (cw_base v)) = (Inl err, x')"
    and "logged (c_recorder c) [] v w'"
    and "e = None \<longleftrightarrow> errors_is err ContextCanceled \<or> errors_is err DeadlineExceeded"
    and "e \<noteq> None \<Longrightarrow> e = Some err \<and> \<not> errors_is err ErrEncryptionPolicyViolation"
    by (rule run_step_end[OF st, of "c_recorder c"]) blast
  with ev logged_trans[OF ev(3)] show ?thesis by fastforce
qed

subsection \<open>Decryption failures of the Apache reader\<close>

definition apache_reader ::
  "('x, 'cl, 'pr, 'co, 'm) pulsar_sdk \<Rightarrow> ('cl, 'co) apache_consumer \<Rightarrow> ('m \<Rightarrow> 'x \<Rightarrow> 'x) \<Rightarrow> ('m, 'x) reader" where
  "apache_reader K ac ack = \<lparr>rd_Receive = apache_receive K ac, rd_Ack = ack\<rparr>"

text \<open>C37: A message the SDK cannot decrypt ends the worker's loop: the Apache reader hands on the
  SDK's error wrapped, not the policy sentinel, so no outcome is recorded, nothing is acknowledged,
  and \<open>Run\<close> returns the error.\<close>

theorem decrypt_failure_ends_worker:
  assumes "c_reader c = apache_reader K ac ack"
    and "sdk_receive K (ac_consumer ac) (dw_env (cw_base w)) = (Inl (ForeignErr m None), x1)"
  shows "\<exists>w'. Run E c w = Some (Some (WrapErr ''pulsarlib: receive'' (ForeignErr m None)), w')
     \<and> logged (c_recorder c) [] w w'"
  using assms
  by (subst Run.simps)
     (simp add: run_step_def apache_reader_def apache_receive_def errors_is_def Let_def logged_def
        on_base_def log_env_def)

end
