(* ===== verification/Workers.thy ===== *)
theory Workers
  imports Consumer_Spec
begin

text \<open>
  The workers of \<open>cmd/deliverer\<close>: N goroutines that run the loop of one consumer on one
  subscription, interleaved. A worker stands at one of the points of \<open>Run\<close>, \<open>handle\<close> and
  \<open>Dispatch\<close> between two calls that leave the goroutine; \<open>worker_step\<close> takes it to the next. The
  calls in between (the reader, the sleep, one push with its two clock readings, an
  acknowledgement, a recorded outcome with its metric) are steps: what they share with the other
  workers is guarded by the SDK, by a mutex or by the logger. Running by itself, a worker is the
  loop \<open>Run\<close>; the pool is in the theory Worker_Pool.
\<close>

subsection \<open>One worker\<close>

text \<open>The retry loop's variables.\<close>

record ('ts, 'm, 'x) attempt =
  at_msg :: "'m consumed_message"
  at_provider :: "('ts, 'x) push_provider_value"
  at_note :: "'ts notification"
  at_iter :: "'x iterator"
  at_first :: gotime
  at_latest :: gotime
  at_resp :: string

text \<open>
  \<open>Stopped\<close> is a worker whose \<open>Run\<close> returned, \<open>Joined\<close> one that has left the wait group.
\<close>

datatype ('ts, 'm, 'x) worker =
    Receiving
  | Violating
  | Failing goerr
  | Got "'m consumed_message"
  | Dispatching "'m consumed_message" "'ts notification"
  | Looping "('ts, 'm, 'x) attempt"
  | Sleeping duration "('ts, 'm, 'x) attempt"
  | Pushing "('ts, 'm, 'x) attempt"
  | Acking "'m consumed_message"
  | Stopped "goerr option"
  | Joined

fun worker_step ::
  "'ts ext \<Rightarrow> ('ts, 'l, 'm, 'x) consumer \<Rightarrow> ('ts, 'm, 'x) worker \<Rightarrow> ('l, 'm, 'x) cworld
    \<Rightarrow> ('ts, 'm, 'x) worker \<times> ('l, 'm, 'x) cworld" where
  "worker_step E c Receiving w =
     (case rd_Receive (c_reader c) (dw_env (cw_base w)) of
        (Inl e, x1) \<Rightarrow>
          (if errors_is e ContextCanceled \<or> errors_is e DeadlineExceeded then Stopped None
           else if errors_is e ErrEncryptionPolicyViolation then Violating
           else Failing e, on_base (\<lambda>b. b\<lparr>dw_env := x1\<rparr>) w)
      | (Inr msg, x1) \<Rightarrow> (Got msg, on_base (\<lambda>b. b\<lparr>dw_env := x1\<rparr>) w))"
| "worker_step E c Violating w = (Receiving, on_base (recordPolicyViolation c []) w)"
| "worker_step E c (Failing e) w =
     (Stopped (Some e), on_base (log_env (c_logger c) (receive_error_line e)) w)"
| "worker_step E c (Got msg) w =
     (let b1 = log_env (c_logger c) (consumed_line (cm_notification_id msg))
                 ((cw_base w)\<lparr>dw_metrics := RecordConsumed (dw_metrics (cw_base w))\<rparr>)
      in case x_unmarshal E (cm_body msg) of
           Inl _ \<Rightarrow>
             (Acking msg, w\<lparr>cw_base := finish (c_recorder c)
                (bare_outcome (cm_notification_id msg) StatusPermanentlyFailed
                   ReasonProviderRejectedPayload) [] b1\<rparr>)
         | Inr n \<Rightarrow>
             (Dispatching msg (if n_notification_id n = []
                then n\<lparr>n_notification_id := cm_notification_id msg\<rparr> else n), w\<lparr>cw_base := b1\<rparr>))"
| "worker_step E c (Dispatching msg n) w =
     (let d = fst (c_dispatcher c); rec = snd (c_dispatcher c) in
      case d_clock d (dw_env (cw_base w)) of (now, x1) \<Rightarrow>
        (let b1 = (cw_base w)\<lparr>dw_env := x1\<rparr>; (expired, exp) = isExpired E n now in
         if expired then
           (Acking msg, w\<lparr>cw_base := finish rec
              \<lparr>oc_NotificationID = GetNotificationId (Some n), oc_Status = StatusExpired,
               oc_Reason = ReasonExpired, oc_ProviderResponse = [], oc_Attempts = 0,
               oc_FirstAttempt = exp, oc_LastAttempt = exp\<rparr> [] b1\<rparr>)
         else
           (case resolve d n of
              Inl _ \<Rightarrow>
                (Acking msg, w\<lparr>cw_base := finish rec
                   \<lparr>oc_NotificationID = GetNotificationId (Some n), oc_Status = StatusPermanentlyFailed,
                    oc_Reason = ReasonProviderRejectedPayload, oc_ProviderResponse = [],
                    oc_Attempts = 0, oc_FirstAttempt = now, oc_LastAttempt = now\<rparr> [] b1\<rparr>)
            | Inr p \<Rightarrow>
                (Looping \<lparr>at_msg = msg, at_provider = p, at_note = n, at_iter = NewIterator (d_retry d),
                          at_first = zero_time, at_latest = zero_time, at_resp = []\<rparr>,
                 w\<lparr>cw_base := b1\<rparr>))))"
| "worker_step E c (Looping a) w =
     (if Done (at_iter a) then
        (Acking (at_msg a), on_base (finish (snd (c_dispatcher c))
           (budget_outcome (at_note a) (at_resp a) (Attempt (at_iter a)) (at_first a) (at_latest a))
           (pv_Name (at_provider a))) w)
      else
        (case Next (at_iter a) (dw_env (cw_base w)) of ((backoff, it'), x1) \<Rightarrow>
           (if 1 < Attempt it' then Sleeping backoff (a\<lparr>at_iter := it'\<rparr>) else Pushing (a\<lparr>at_iter := it'\<rparr>),
            on_base (\<lambda>b. b\<lparr>dw_env := x1\<rparr>) w)))"
| "worker_step E c (Sleeping backoff a) w =
     (case d_sleep (fst (c_dispatcher c)) backoff (dw_env (cw_base w)) of
        (Some _, x2) \<Rightarrow>
          (Acking (at_msg a), on_base (finish (snd (c_dispatcher c))
             (budget_outcome (at_note a) (at_resp a) (Attempt (at_iter a) - 1) (at_first a) (at_latest a))
             (pv_Name (at_provider a))) (on_base (\<lambda>b. b\<lparr>dw_env := x2\<rparr>) w))
      | (None, x2) \<Rightarrow> (Pushing a, on_base (\<lambda>b. b\<lparr>dw_env := x2\<rparr>) w))"
| "worker_step E c (Pushing a) w =
     (case dispatch_attempt (snd (c_dispatcher c)) (fst (c_dispatcher c)) (at_provider a) (at_note a)
             (Attempt (at_iter a)) (at_first a) (cw_base w) of
        Stop b \<Rightarrow> (Acking (at_msg a), w\<lparr>cw_base := b\<rparr>)
      | Again first latest resp b \<Rightarrow>
          (Looping (a\<lparr>at_first := first, at_latest := latest, at_resp := resp\<rparr>), w\<lparr>cw_base := b\<rparr>))"
| "worker_step E c (Acking msg) w = (Receiving, msg_Ack (c_reader c) (cm_msg msg) w)"
| "worker_step E c (Stopped e) w = (Stopped e, w)"
| "worker_step E c Joined w = (Joined, w)"

fun working :: "('ts, 'm, 'x) worker \<Rightarrow> bool" where
  "working (Stopped _) = False"
| "working Joined = False"
| "working _ = True"

text \<open>One worker by itself: its steps are a function of its point and the world.\<close>

definition advance ::
  "'ts ext \<Rightarrow> ('ts, 'l, 'm, 'x) consumer \<Rightarrow> ('ts, 'm, 'x) worker \<times> ('l, 'm, 'x) cworld
    \<Rightarrow> ('ts, 'm, 'x) worker \<times> ('l, 'm, 'x) cworld" where
  "advance E c = (\<lambda>(s, w). worker_step E c s w)"

definition reaches ::
  "'ts ext \<Rightarrow> ('ts, 'l, 'm, 'x) consumer \<Rightarrow> ('ts, 'm, 'x) worker \<times> ('l, 'm, 'x) cworld
    \<Rightarrow> ('ts, 'm, 'x) worker \<times> ('l, 'm, 'x) cworld \<Rightarrow> bool" where
  "reaches E c s t \<longleftrightarrow> (\<exists>k. (advance E c ^^ k) s = t)"

lemma reaches_refl [simp]: "reaches E c s s"
  unfolding reaches_def by (rule exI[of _ 0]) simp

lemma reaches_trans: "reaches E c s t \<Longrightarrow> reaches E c t u \<Longrightarrow> reaches E c s u"
  unfolding reaches_def by (metis funpow_add comp_apply)

lemma reaches_step: "reaches E c (worker_step E c s w) t \<Longrightarrow> reaches E c (s, w) t"
proof -
  have "reaches E c (s, w) (worker_step E c s w)"
    unfolding reaches_def by (rule exI[of _ 1]) (simp add: advance_def)
  then show "reaches E c (worker_step E c s w) t \<Longrightarrow> reaches E c (s, w) t" by (rule reaches_trans)
qed

lemma advance_stopped [simp]: "(advance E c ^^ k) (Stopped e, w) = (Stopped e, w)"
  by (induction k) (simp_all add: advance_def)

text \<open>From the top of the retry loop to the next push, or out of it when the sleep is interrupted.\<close>

lemma iteration_reaches:
  assumes "d = fst (c_dispatcher c)" and "\<not> Done it" and "Next it (dw_env (cw_base w)) = ((backoff, it'), x1)"
    and "(if 1 < Attempt it' then d_sleep d backoff x1 else (None, x1)) = (None, x2)" and "at_iter a = it"
  shows "reaches E c (Looping a, w) (Pushing (a\<lparr>at_iter := it'\<rparr>), on_base (\<lambda>b. b\<lparr>dw_env := x2\<rparr>) w)"
  using assms
  by (intro reaches_step) (cases "1 < Attempt it'"; simp; (intro reaches_step)?; simp add: on_base_def)

lemma interrupted_reaches:
  assumes "d = fst (c_dispatcher c)" and "\<not> Done it" and "Next it (dw_env (cw_base w)) = ((backoff, it'), x1)"
    and "(if 1 < Attempt it' then d_sleep d backoff x1 else (None, x1)) = (Some e, x2)" and "at_iter a = it"
  shows "reaches E c (Looping a, w) (Acking (at_msg a), w\<lparr>cw_base := finish (snd (c_dispatcher c))
      (budget_outcome (at_note a) (at_resp a) (Attempt it' - 1) (at_first a) (at_latest a))
      (pv_Name (at_provider a)) ((cw_base w)\<lparr>dw_env := x2\<rparr>)\<rparr>)"
proof -
  have "1 < Attempt it'" "d_sleep d backoff x1 = (Some e, x2)" using assms(4) by (auto split: if_splits)
  with assms(1-3,5) show ?thesis
    by (intro reaches_step) (simp, intro reaches_step, simp add: on_base_def)
qed

text \<open>A worker in the retry loop comes to where \<open>dispatch_loop\<close> does.\<close>

lemma loop_reaches:
  assumes "d = fst (c_dispatcher c)" and "rec = snd (c_dispatcher c)" and "b = cw_base w"
  shows "reaches E c
     (Looping \<lparr>at_msg = msg, at_provider = p, at_note = n, at_iter = it, at_first = first,
               at_latest = latest, at_resp = resp\<rparr>, w)
     (Acking msg, w\<lparr>cw_base := dispatch_loop rec d p n it first latest resp b\<rparr>)"
  using assms
proof (induction rec d p n it first latest resp b arbitrary: w rule: dispatch_loop.induct)
  case (1 rec d p n it first latest resp b)
  note [simp] = "1.prems"
  let ?a = "\<lambda>it. \<lparr>at_msg = msg, at_provider = p, at_note = n, at_iter = it, at_first = first,
               at_latest = latest, at_resp = resp\<rparr>"
  show ?case
  proof (cases "Done it")
    case True
    then show ?thesis
      by (intro reaches_step) (subst dispatch_loop.simps, simp add: on_base_def)
  next
    case False
    obtain backoff it' x1 where nx: "Next it (dw_env b) = ((backoff, it'), x1)" by (metis prod.exhaust)
    obtain se x2 where sl: "(if 1 < Attempt it' then d_sleep d backoff x1 else (None, x1)) = (se, x2)"
      by (metis prod.exhaust)
    show ?thesis
    proof (cases se)
      case (Some e)
      with interrupted_reaches[of d c it w backoff it' x1 e x2 "?a it"] False nx sl show ?thesis
        by (subst dispatch_loop.simps) simp
    next
      case None
      let ?w2 = "on_base (\<lambda>b. b\<lparr>dw_env := x2\<rparr>) w"
      note at = iteration_reaches[of d c it w backoff it' x1 x2 "?a it"]
      have un: "dispatch_loop rec d p n it first latest resp b =
          (case dispatch_attempt rec d p n (Attempt it') first (b\<lparr>dw_env := x2\<rparr>) of
             Stop w' \<Rightarrow> w'
           | Again f l r w' \<Rightarrow> dispatch_loop rec d p n it' f l r w')"
        using False nx sl None by (subst dispatch_loop.simps) simp
      have ih: "reaches E c (Looping \<lparr>at_msg = msg, at_provider = p, at_note = n, at_iter = it', at_first = f,
            at_latest = l, at_resp = r\<rparr>, w\<lparr>cw_base := b'\<rparr>)
          (Acking msg, w\<lparr>cw_base := dispatch_loop rec d p n it' f l r b'\<rparr>)"
        if "dispatch_attempt rec d p n (Attempt it') first (b\<lparr>dw_env := x2\<rparr>) = Again f l r b'" for f l r b'
        using "1.IH"[OF False nx[symmetric] refl sl[symmetric] None that, of "w\<lparr>cw_base := b'\<rparr>"] by simp
      have "reaches E c (Pushing (?a it'), ?w2) (Acking msg, w\<lparr>cw_base := dispatch_loop rec d p n it first latest resp b\<rparr>)"
        using un ih by (intro reaches_step) (auto simp: on_base_def split: loop_step.split)
      from reaches_trans[OF _ this] at False nx sl None show ?thesis by simp
    qed
  qed
qed

lemma dispatch_reaches:
  assumes "Dispatch E (fst (c_dispatcher c)) (snd (c_dispatcher c)) (Some n) (cw_base w) = (err, b)"
  shows "err = None \<and> reaches E c (Dispatching msg n, w) (Acking msg, w\<lparr>cw_base := b\<rparr>)"
proof -
  let ?d = "fst (c_dispatcher c)" and ?rec = "snd (c_dispatcher c)"
  obtain now x1 where cl: "d_clock ?d (dw_env (cw_base w)) = (now, x1)" by force
  obtain ex at where e: "isExpired E n now = (ex, at)" by force
  show ?thesis
  proof (cases "ex \<or> (\<exists>err. resolve ?d n = Inl err)")
    case True
    with assms cl e show ?thesis
      by (intro conjI reaches_step) (auto simp: Dispatch_def Let_def split: if_splits)
  next
    case False
    then obtain p where p: "\<not> ex" "resolve ?d n = Inr p" by (cases "resolve ?d n") auto
    let ?a = "\<lparr>at_msg = msg, at_provider = p, at_note = n, at_iter = NewIterator (d_retry ?d),
               at_first = zero_time, at_latest = zero_time, at_resp = []\<rparr>"
    let ?w1 = "on_base (\<lambda>b. b\<lparr>dw_env := x1\<rparr>) w"
    from cl e p have at: "reaches E c (Dispatching msg n, w) (Looping ?a, ?w1)"
      by (intro reaches_step) (simp add: Let_def on_base_def)
    have "err = None" and
      "b = dispatch_loop ?rec ?d p n (NewIterator (d_retry ?d)) zero_time zero_time [] (cw_base ?w1)"
      using assms cl e p by (simp_all add: Dispatch_def Let_def on_base_def)
    then show ?thesis
      using reaches_trans[OF at loop_reaches[OF refl refl refl]] by (simp add: on_base_def)
  qed
qed

lemma handle_reaches:
  assumes "handle E c msg (cw_base w) = (err, b)"
  shows "err = None \<and> reaches E c (Got msg, w) (Acking msg, w\<lparr>cw_base := b\<rparr>)"
proof (cases "x_unmarshal E (cm_body msg)")
  case (Inl e)
  with assms show ?thesis
    by (intro conjI reaches_step) (auto simp: handle_def Let_def)
next
  case (Inr n)
  let ?n = "if n_notification_id n = [] then n\<lparr>n_notification_id := cm_notification_id msg\<rparr> else n"
  let ?b1 = "log_env (c_logger c) (consumed_line (cm_notification_id msg))
      ((cw_base w)\<lparr>dw_metrics := RecordConsumed (dw_metrics (cw_base w))\<rparr>)"
  have "Dispatch E (fst (c_dispatcher c)) (snd (c_dispatcher c)) (Some ?n) (cw_base (w\<lparr>cw_base := ?b1\<rparr>))
      = (err, b)"
    using assms Inr by (simp add: handle_def Let_def)
  from dispatch_reaches[OF this, of msg] Inr show ?thesis
    by (intro conjI reaches_step) (simp_all add: Let_def)
qed

lemma round_reaches:
  "case run_step E c w of
     Inl (e, w') \<Rightarrow> reaches E c (Receiving, w) (Stopped e, w')
   | Inr w' \<Rightarrow> \<exists>k. (advance E c ^^ Suc k) (Receiving, w) = (Receiving, w')"
proof (cases "rd_Receive (c_reader c) (dw_env (cw_base w))")
  case (Pair r x1)
  let ?w1 = "on_base (\<lambda>b. b\<lparr>dw_env := x1\<rparr>) w"
  show ?thesis
  proof (cases r)
    case (Inl e)
    with Pair show ?thesis
      by (auto simp: run_step_def Let_def advance_def intro!: reaches_step exI[of _ "Suc 0"])
  next
    case (Inr msg)
    obtain err b where h: "handle E c msg (cw_base ?w1) = (err, b)" by force
    from handle_reaches[OF h] have err: "err = None"
      and "reaches E c (Got msg, ?w1) (Acking msg, ?w1\<lparr>cw_base := b\<rparr>)" by simp_all
    then obtain k where "(advance E c ^^ k) (Got msg, ?w1) = (Acking msg, ?w1\<lparr>cw_base := b\<rparr>)"
      unfolding reaches_def by blast
    moreover have "advance E c (Receiving, w) = (Got msg, ?w1)"
      using Pair Inr by (simp add: advance_def)
    ultimately have "(advance E c ^^ Suc (Suc k)) (Receiving, w)
        = (Receiving, msg_Ack (c_reader c) (cm_msg msg) (w\<lparr>cw_base := b\<rparr>))"
      by (simp add: funpow_swap1 advance_def on_base_def)
    then have "\<exists>k. (advance E c ^^ Suc k) (Receiving, w)
        = (Receiving, msg_Ack (c_reader c) (cm_msg msg) (w\<lparr>cw_base := b\<rparr>))" by blast
    with Pair Inr h err show ?thesis by (simp add: run_step_def on_base_def)
  qed
qed

text \<open>A worker that has stopped stays where it stopped; before that, it goes on from where it is.\<close>

lemma stops_once:
  assumes "(advance E c ^^ j) s = (Stopped e1, w1)" and "(advance E c ^^ k) s = (Stopped e2, w2)"
  shows "e1 = e2 \<and> w1 = w2"
proof -
  have "(advance E c ^^ (j + k)) s = (Stopped e2, w2)" using assms(2) by (simp add: funpow_add)
  moreover have "(advance E c ^^ (k + j)) s = (Stopped e1, w1)" using assms(1) by (simp add: funpow_add)
  ultimately show ?thesis by (simp add: add.commute)
qed

lemma stops_later:
  assumes k: "(advance E c ^^ k) s = (Stopped e, w')" and j: "(advance E c ^^ j) s = (Receiving, w1)"
  shows "j < k \<and> (advance E c ^^ (k - j)) (Receiving, w1) = (Stopped e, w')"
proof -
  have "j < k"
  proof (rule ccontr)
    assume "\<not> j < k"
    then have "j = (j - k) + k" by simp
    then have "(advance E c ^^ j) s = (advance E c ^^ (j - k)) (Stopped e, w')"
      using k by (metis funpow_add comp_apply)
    with j show False by simp
  qed
  then have "k = (k - j) + j" by simp
  with k j \<open>j < k\<close> show ?thesis by (metis funpow_add comp_apply)
qed

lemma Run_reaches:
  assumes "Run E c w = Some (e, w')"
  shows "reaches E c (Receiving, w) (Stopped e, w')"
proof -
  obtain n where "run_iter n E c w = Inl (e, w')" using assms Run_run_iter by blast
  then show ?thesis
  proof (induction n arbitrary: w)
    case (Suc n)
    show ?case
    proof (cases "run_step E c w")
      case (Inl r)
      with Suc.prems round_reaches[of E c w] show ?thesis by simp
    next
      case (Inr w1)
      then obtain j where "(advance E c ^^ Suc j) (Receiving, w) = (Receiving, w1)"
        using round_reaches[of E c w] by auto
      then have "reaches E c (Receiving, w) (Receiving, w1)"
        unfolding reaches_def by (rule exI)
      from reaches_trans[OF this] show ?thesis using Suc Inr by simp
    qed
  qed simp
qed

lemma reaches_Run:
  "(advance E c ^^ k) (Receiving, w) = (Stopped e, w') \<Longrightarrow> Run E c w = Some (e, w')"
proof (induction k arbitrary: w rule: less_induct)
  case (less k)
  show ?case
  proof (cases "run_step E c w")
    case (Inl r)
    obtain e1 w1 where r: "r = (e1, w1)" by force
    with Inl round_reaches[of E c w] obtain j where
      "(advance E c ^^ j) (Receiving, w) = (Stopped e1, w1)" unfolding reaches_def by auto
    from stops_once[OF this less.prems] Inl r show ?thesis by (subst Run.simps) simp
  next
    case (Inr w1)
    with round_reaches[of E c w] obtain j where
      "(advance E c ^^ Suc j) (Receiving, w) = (Receiving, w1)" by auto
    from stops_later[OF less.prems this] have "Suc j < k"
      "(advance E c ^^ (k - Suc j)) (Receiving, w1) = (Stopped e, w')" by simp_all
    with less.IH[of "k - Suc j" w1] Inr show ?thesis by (subst Run.simps) simp
  qed
qed

text \<open>C19: A worker alone is the loop: the steps of a single worker, one outside call at a time, lead
  from its start to a stop with an error or without one, in some world, exactly when \<open>Run\<close> returns
  with that error in that world.\<close>

theorem worker_alone_is_Run:
  "reaches E c (Receiving, w) (Stopped e, w') \<longleftrightarrow> Run E c w = Some (e, w')"
  using Run_reaches reaches_Run unfolding reaches_def by blast

end
