(* ===== verification/Worker_Pool.thy ===== *)
theory Worker_Pool
  imports Workers
begin

text \<open>
  The pool of workers \<open>cmd/deliverer\<close> starts, as a transition relation that lets any of them move.
  Its books balance at every point of every interleaving. A potential prices its steps by the
  outcomes it records; with a reader that only returns the context's error it comes to an end.
\<close>

subsection \<open>The pool\<close>

definition worker_error_line :: "nat \<Rightarrow> goerr \<Rightarrow> log_line" where
  "worker_error_line i e =
     \<lparr>ll_level = LevelError, ll_msg = ''deliverer.worker.error'',
      ll_attrs = [AInt ''worker'' (int i), AStr ''err'' (error_string e)]\<rparr>"

definition leave_pool ::
  "'x logger \<Rightarrow> nat \<Rightarrow> goerr option \<Rightarrow> ('l, 'm, 'x) cworld \<Rightarrow> ('l, 'm, 'x) cworld" where
  "leave_pool logger i err w =
     (case err of None \<Rightarrow> w | Some e \<Rightarrow> on_base (log_env logger (worker_error_line i e)) w)"

text \<open>The message a step took from the reader.\<close>

fun delivered :: "('ts, 'm, 'x) worker \<Rightarrow> ('ts, 'm, 'x) worker \<Rightarrow> 'm consumed_message list" where
  "delivered Receiving (Got msg) = [msg]"
| "delivered _ _ = []"

type_synonym ('ts, 'l, 'm, 'x) pool = "('ts, 'm, 'x) worker list \<times> ('l, 'm, 'x) cworld"

text \<open>The loop of \<open>run\<close> that starts the workers: none for a count below one.\<close>

definition pool_start :: "int \<Rightarrow> ('l, 'm, 'x) cworld \<Rightarrow> ('ts, 'l, 'm, 'x) pool" where
  "pool_start n w = (replicate (nat n) Receiving, w)"

inductive pool_step ::
  "'ts ext \<Rightarrow> ('ts, 'l, 'm, 'x) consumer \<Rightarrow> ('ts, 'l, 'm, 'x) pool \<Rightarrow> 'm consumed_message list
    \<Rightarrow> ('ts, 'l, 'm, 'x) pool \<Rightarrow> bool" for E c where
  work: "i < length ws \<Longrightarrow> working (ws ! i) \<Longrightarrow> worker_step E c (ws ! i) w = (s, w') \<Longrightarrow>
    pool_step E c (ws, w) (delivered (ws ! i) s) (ws[i := s], w')"
| leave: "i < length ws \<Longrightarrow> ws ! i = Stopped err \<Longrightarrow>
    pool_step E c (ws, w) [] (ws[i := Joined], leave_pool (c_logger c) i err w)"

text \<open>A run of the pool, with the messages delivered in it.\<close>

inductive pool_run ::
  "'ts ext \<Rightarrow> ('ts, 'l, 'm, 'x) consumer \<Rightarrow> ('ts, 'l, 'm, 'x) pool \<Rightarrow> 'm consumed_message list
    \<Rightarrow> ('ts, 'l, 'm, 'x) pool \<Rightarrow> bool" for E c where
  pool_refl: "pool_run E c p [] p"
| pool_next: "pool_run E c p got q \<Longrightarrow> pool_step E c q new r \<Longrightarrow> pool_run E c p (got @ new) r"

definition all_joined :: "('ts, 'm, 'x) worker list \<Rightarrow> bool" where
  "all_joined ws \<longleftrightarrow> list_all (\<lambda>s. s = Joined) ws"

subsection \<open>What becomes of a message\<close>

fun undecided :: "('ts, 'm, 'x) worker \<Rightarrow> 'm consumed_message list" where
  "undecided (Got msg) = [msg]"
| "undecided (Dispatching msg _) = [msg]"
| "undecided (Looping a) = [at_msg a]"
| "undecided (Sleeping _ a) = [at_msg a]"
| "undecided (Pushing a) = [at_msg a]"
| "undecided _ = []"

fun unacked :: "('ts, 'm, 'x) worker \<Rightarrow> 'm consumed_message list" where
  "unacked (Acking msg) = [msg]"
| "unacked _ = []"

fun event_msgs :: "'m event \<Rightarrow> 'm consumed_message list" where
  "event_msgs (Handled msg _) = [msg]"
| "event_msgs (Violated _) = []"

text \<open>The notification a worker has in hand is the one of its message.\<close>

fun worker_ok :: "'ts ext \<Rightarrow> ('ts, 'm, 'x) worker \<Rightarrow> bool" where
  "worker_ok E (Dispatching msg n) = (n_notification_id n = message_id E msg)"
| "worker_ok E (Looping a) = (n_notification_id (at_note a) = message_id E (at_msg a))"
| "worker_ok E (Sleeping _ a) = (n_notification_id (at_note a) = message_id E (at_msg a))"
| "worker_ok E (Pushing a) = (n_notification_id (at_note a) = message_id E (at_msg a))"
| "worker_ok E _ = True"

text \<open>The outcomes recorded and counted between two worlds are those of the events.\<close>

definition recorded ::
  "'l record_fn \<Rightarrow> 'm event list \<Rightarrow> ('l, 'm, 'x) cworld \<Rightarrow> ('l, 'm, 'x) cworld \<Rightarrow> bool" where
  "recorded rec evs w w' \<longleftrightarrow>
     dw_log (cw_base w') = fold rec (map event_outcome evs) (dw_log (cw_base w))
     \<and> length (outcome_points (dw_metrics (cw_base w')))
         = length (outcome_points (dw_metrics (cw_base w))) + length evs"

text \<open>
  The books of a pool: every message delivered has come to an outcome or is with a worker, and
  every message that came to one is acknowledged or about to be.
\<close>

definition accounts ::
  "'ts ext \<Rightarrow> 'l record_fn \<Rightarrow> ('l, 'm, 'x) cworld \<Rightarrow> 'm consumed_message list \<Rightarrow> 'm event list
    \<Rightarrow> ('ts, 'l, 'm, 'x) pool \<Rightarrow> bool" where
  "accounts E rec w0 got evs p \<longleftrightarrow> (case p of (ws, w) \<Rightarrow>
     list_all (event_ok E) evs \<and> list_all (worker_ok E) ws \<and> recorded rec evs w0 w
     \<and> mset got = mset (all_of event_msgs evs) + mset (all_of undecided ws)
     \<and> mset (cw_acks w) + mset (map cm_msg (all_of unacked ws))
         = mset (cw_acks w0) + mset (map cm_msg (all_of event_msgs evs)))"

text \<open>The same for one step of one worker.\<close>

definition step_accounts ::
  "'ts ext \<Rightarrow> 'l record_fn \<Rightarrow> 'm event list \<Rightarrow> ('ts, 'm, 'x) worker \<Rightarrow> ('l, 'm, 'x) cworld
    \<Rightarrow> ('ts, 'm, 'x) worker \<Rightarrow> ('l, 'm, 'x) cworld \<Rightarrow> bool" where
  "step_accounts E rec evs s w s' w' \<longleftrightarrow>
     list_all (event_ok E) evs \<and> worker_ok E s' \<and> recorded rec evs w w'
     \<and> undecided s @ delivered s s' = all_of event_msgs evs @ undecided s'
     \<and> mset (cw_acks w') + mset (map cm_msg (unacked s'))
         = mset (cw_acks w) + mset (map cm_msg (unacked s @ all_of event_msgs evs))"

lemma outcome_points_simps [simp]:
  "outcome_points (RecordConsumed ps) = outcome_points ps"
  "length (outcome_points (dw_metrics (finish rec oc pname b))) = Suc (length (outcome_points (dw_metrics b)))"
  by (simp_all add: outcome_points_def finish_def)

lemma delivered_other [simp]: "s \<noteq> Receiving \<Longrightarrow> delivered s s' = []"
  by (cases s) simp_all

lemma accounts_quiet:
  assumes "worker_ok E s'" and "dw_log (cw_base w') = dw_log (cw_base w)"
    and "outcome_points (dw_metrics (cw_base w')) = outcome_points (dw_metrics (cw_base w))"
    and "cw_acks w' = cw_acks w" and "undecided s @ delivered s s' = undecided s'"
    and "unacked s = []" "unacked s' = []"
  shows "\<exists>evs. step_accounts E rec evs s w s' w'"
  using assms by (intro exI[of _ "[]"]) (simp add: step_accounts_def recorded_def)

lemma accounts_concludes:
  assumes "undecided s = [msg]" and "unacked s = []" and "s \<noteq> Receiving"
    and "dw_log b = dw_log (cw_base w)"
    and "outcome_points (dw_metrics b) = outcome_points (dw_metrics (cw_base w))"
    and "oc_NotificationID oc = message_id E msg"
  shows "\<exists>evs. step_accounts E rec evs s w (Acking msg) (w\<lparr>cw_base := finish rec oc pname b\<rparr>)"
  using assms
  by (intro exI[of _ "[Handled msg oc]"]) (simp add: step_accounts_def recorded_def, simp add: finish_def)

lemma pushing_accounts:
  assumes "n_notification_id (at_note a) = message_id E (at_msg a)"
    and "worker_step E c (Pushing a) w = (s', w')" and "shares_recorder c"
  shows "\<exists>evs. step_accounts E (c_recorder c) evs (Pushing a) w s' w'"
proof (cases rule: dispatch_attempt_cases[where I = "\<lambda>_. True" and d = "fst (c_dispatcher c)"
      and p = "at_provider a" and w = "cw_base w" and rec = "c_recorder c" and n = "at_note a"
      and k = "Attempt (at_iter a)" and first = "at_first a", OF env_ok_True TrueI,
      case_names delivered permanent transient])
  case (delivered oc w3 r x)
  then have "(s', w') = (Acking (at_msg a), w\<lparr>cw_base := finish (c_recorder c) oc (pv_Name (at_provider a)) w3\<rparr>)"
    using assms by (simp add: shares_recorder_def)
  with delivered assms(1) show ?thesis
    by (auto intro!: accounts_concludes simp: ran_def)
next
  case (permanent oc w3 e pe x)
  then have "(s', w') = (Acking (at_msg a), w\<lparr>cw_base := finish (c_recorder c) oc (pv_Name (at_provider a)) w3\<rparr>)"
    using assms by (simp add: shares_recorder_def)
  with permanent assms(1) show ?thesis
    by (auto intro!: accounts_concludes simp: ran_def)
next
  case (transient f l r w3 e x)
  with assms show ?thesis
    by (auto simp: shares_recorder_def ran_def intro!: accounts_quiet)
qed

lemma worker_step_accounts:
  assumes "shares_recorder c" and "worker_ok E s" and "worker_step E c s w = (s', w')" and "working s"
  shows "\<exists>evs. step_accounts E (c_recorder c) evs s w s' w'"
proof (cases s)
  case Receiving
  with assms show ?thesis
    by (auto simp: on_base_def split: sum.splits prod.splits if_splits intro!: accounts_quiet)
next
  case Violating
  with assms show ?thesis
    by (intro exI[of _ "[Violated (bare_outcome [] StatusPermanentlyFailed ReasonEncryptionPolicyViolation)]"])
       (auto simp: step_accounts_def recorded_def on_base_def recordPolicyViolation_def bare_outcome_def finish_def
          outcome_points_def)
next
  case (Failing e)
  with assms show ?thesis
    by (auto simp: on_base_def log_env_def intro!: accounts_quiet)
next
  case (Got msg)
  show ?thesis
  proof (cases "x_unmarshal E (cm_body msg)")
    case (Inl e)
    with assms Got show ?thesis
      by (auto simp: Let_def log_env_def message_id_def bare_outcome_def intro!: accounts_concludes)
  next
    case (Inr n)
    with assms Got show ?thesis
      by (auto simp: Let_def log_env_def message_id_def intro!: accounts_quiet)
  qed
next
  case (Dispatching msg n)
  with assms show ?thesis
    by (auto simp: Let_def shares_recorder_def split: prod.splits if_splits sum.splits
        intro!: accounts_concludes accounts_quiet)
next
  case (Looping a)
  with assms show ?thesis
    by (auto simp: Let_def on_base_def shares_recorder_def budget_outcome_def split: prod.splits if_splits
        intro!: accounts_concludes accounts_quiet)
next
  case (Sleeping d a)
  with assms show ?thesis
    by (auto simp: Let_def on_base_def shares_recorder_def budget_outcome_def split: prod.splits option.splits
        intro!: accounts_concludes accounts_quiet)
next
  case (Pushing a)
  with assms pushing_accounts show ?thesis by auto
next
  case (Acking msg)
  with assms show ?thesis
    by (intro exI[of _ "[]"]) (auto simp: step_accounts_def recorded_def msg_Ack_def)
qed (use assms in auto)

lemma books_balance:
  fixes u :: "'a multiset"
  assumes "got = m + u" and "u' + us = u + us'" and "us + del = m' + us'"
  shows "got + del = m + m' + u'"
proof (rule multiset_eqI)
  fix x
  show "count (got + del) x = count (m + m' + u') x"
    using assms(1) arg_cong[OF assms(2), of "\<lambda>M. count M x"] arg_cong[OF assms(3), of "\<lambda>M. count M x"]
    by simp
qed

lemma acks_balance:
  fixes a :: "'a multiset"
  assumes "a + A = a0 + m" and "A' + As = A + As'" and "a' + As' = a + (As + m')"
  shows "a' + A' = a0 + (m + m')"
proof (rule multiset_eqI)
  fix x
  show "count (a' + A') x = count (a0 + (m + m')) x"
    using arg_cong[OF assms(1), of "\<lambda>M. count M x"] arg_cong[OF assms(2), of "\<lambda>M. count M x"]
      arg_cong[OF assms(3), of "\<lambda>M. count M x"]
    by simp
qed

lemma pool_step_accounts:
  assumes "shares_recorder c" and "pool_step E c p new q"
    and "accounts E (c_recorder c) w0 got evs p"
  shows "\<exists>evs'. accounts E (c_recorder c) w0 (got @ new) (evs @ evs') q"
  using assms(2,3)
proof cases
  case (work i ws w s w')
  note acc = assms(3)[unfolded accounts_def work(1) prod.case]
  have "worker_ok E (ws ! i)" using acc work(4) by (simp add: list_all_length)
  from worker_step_accounts[OF assms(1) this work(6) work(5)] obtain evs' where
    st: "step_accounts E (c_recorder c) evs' (ws ! i) w s w'" by blast
  have "mset (undecided (ws ! i)) + mset (delivered (ws ! i) s)
      = mset (all_of event_msgs evs') + mset (undecided s)"
    using st by (metis step_accounts_def mset_append)
  from books_balance[OF _ mset_all_of_update[OF work(4)] this] acc
  have got: "mset (got @ new) = mset (all_of event_msgs (evs @ evs')) + mset (all_of undecided (ws[i := s]))"
    using work(2) by simp
  have "image_mset cm_msg (mset (all_of unacked (ws[i := s]))) + image_mset cm_msg (mset (unacked (ws ! i)))
      = image_mset cm_msg (mset (all_of unacked ws)) + image_mset cm_msg (mset (unacked s))"
    using arg_cong[OF mset_all_of_update[OF work(4), of unacked s], of "image_mset cm_msg"] by simp
  from acks_balance[OF _ this] acc st
  have acks: "mset (cw_acks w') + mset (map cm_msg (all_of unacked (ws[i := s])))
      = mset (cw_acks w0) + mset (map cm_msg (all_of event_msgs (evs @ evs')))"
    by (simp add: step_accounts_def)
  have "list_all (worker_ok E) (ws[i := s])"
    using acc st by (simp add: step_accounts_def list_all_update)
  with got acks acc st work(3) show ?thesis
    by (intro exI[of _ evs']) (simp add: accounts_def step_accounts_def recorded_def)
next
  case (leave i ws err w)
  note acc = assms(3)[unfolded accounts_def leave(1) prod.case]
  have "cw_acks (leave_pool (c_logger c) i err w) = cw_acks w"
    and "recorded (c_recorder c) [] w (leave_pool (c_logger c) i err w)"
    by (simp_all add: leave_pool_def on_base_def log_env_def recorded_def split: option.splits)
  moreover have "mset (all_of undecided (ws[i := Joined])) = mset (all_of undecided ws)"
    and "mset (all_of unacked (ws[i := Joined])) = mset (all_of unacked ws)"
    using mset_all_of_update[OF leave(4), of undecided Joined]
      mset_all_of_update[OF leave(4), of unacked Joined] leave(5) by simp_all
  moreover have "list_all (worker_ok E) (ws[i := Joined])"
    using acc by (simp add: list_all_update)
  ultimately show ?thesis
    using acc leave(2,3) 
    by (intro exI[of _ "[]"]) (simp add: accounts_def recorded_def)
qed

lemma pool_run_accounts:
  assumes "shares_recorder c"
  shows "pool_run E c p got q \<Longrightarrow> accounts E (c_recorder c) w0 got0 evs0 p
    \<Longrightarrow> \<exists>evs. accounts E (c_recorder c) w0 (got0 @ got) (evs0 @ evs) q"
proof (induction rule: pool_run.induct)
  case (pool_refl p)
  then show ?case by (intro exI[of _ "[]"]) simp
next
  case (pool_next p got q new r)
  then obtain evs where "accounts E (c_recorder c) w0 (got0 @ got) (evs0 @ evs) q" by blast
  from pool_step_accounts[OF assms pool_next.hyps(2) this] show ?case by (metis append_assoc)
qed

lemma accounts_start: "accounts E rec w [] [] (pool_start n w)"
  by (simp add: pool_start_def accounts_def recorded_def list_all_iff)

lemma all_joined_of: "all_joined ws \<Longrightarrow> f Joined = [] \<Longrightarrow> all_of f ws = []"
  by (auto simp: all_joined_def list_all_iff)

text \<open>C18: However the workers are interleaved, no message is lost, handled twice or acknowledged
  early: at any point of a run of n workers, every message delivered has come to one recorded and
  counted outcome under its identifier, or is with a worker that has not recorded one; and every
  message with an outcome has been acknowledged once, or its worker is about to do so.\<close>

theorem workers_account_for_messages:
  assumes "shares_recorder c" and "pool_run E c (pool_start n w) got (ws, w')"
  shows "\<exists>evs. list_all (event_ok E) evs
     \<and> dw_log (cw_base w') = fold (c_recorder c) (map event_outcome evs) (dw_log (cw_base w))
     \<and> length (outcome_points (dw_metrics (cw_base w')))
         = length (outcome_points (dw_metrics (cw_base w))) + length evs
     \<and> mset got = mset (all_of event_msgs evs) + mset (all_of undecided ws)
     \<and> mset (cw_acks w') + mset (map cm_msg (all_of unacked ws))
         = mset (cw_acks w) + mset (map cm_msg (all_of event_msgs evs))"
  using pool_run_accounts[OF assms(1,2) accounts_start]
  by (auto simp: accounts_def recorded_def)

subsection \<open>Shutdown\<close>

text \<open>How many steps a worker can take once the reader's context is cancelled.\<close>

definition budget_left :: "'x iterator \<Rightarrow> nat" where
  "budget_left it = nat (rp_MaxAttempts (it_policy it) - it_attempt it)"

fun worker_size :: "('ts, 'l, 'm, 'x) consumer \<Rightarrow> ('ts, 'm, 'x) worker \<Rightarrow> nat" where
  "worker_size c Joined = 0"
| "worker_size c (Stopped _) = 1"
| "worker_size c (Failing _) = 2"
| "worker_size c Receiving = 3"
| "worker_size c Violating = 4"
| "worker_size c (Acking _) = 4"
| "worker_size c (Looping a) = 5 + 3 * budget_left (at_iter a)"
| "worker_size c (Pushing a) = 6 + 3 * budget_left (at_iter a)"
| "worker_size c (Sleeping _ a) = 7 + 3 * budget_left (at_iter a)"
| "worker_size c (Dispatching _ _) = 6 + 3 * budget_left (NewIterator (d_retry (fst (c_dispatcher c))))"
| "worker_size c (Got _) = 7 + 3 * budget_left (NewIterator (d_retry (fst (c_dispatcher c))))"

definition reader_cancelled :: "('m, 'x) reader \<Rightarrow> bool" where
  "reader_cancelled r \<longleftrightarrow> (\<forall>x. \<exists>e x'. rd_Receive r x = (Inl e, x')
     \<and> (errors_is e ContextCanceled \<or> errors_is e DeadlineExceeded))"

lemma Next_budget:
  assumes "Next it x = ((d, it'), x')" and "\<not> Done it"
  shows "Suc (budget_left it') = budget_left it"
  using assms(2) Next_iterator[OF assms(1)] by (simp add: budget_left_def Done_def)

lemma worker_step_size:
  assumes "reader_cancelled (c_reader c)" and "working s" and "worker_step E c s w = (s', w')"
  shows "worker_size c s' < worker_size c s"
proof (cases s)
  case Receiving
  obtain e x' where "rd_Receive (c_reader c) (dw_env (cw_base w)) = (Inl e, x')"
    "errors_is e ContextCanceled \<or> errors_is e DeadlineExceeded"
    using assms(1) unfolding reader_cancelled_def by blast
  with Receiving assms(3) show ?thesis by auto
next
  case (Got msg)
  with assms(3) show ?thesis by (auto simp: Let_def split: sum.splits)
next
  case (Dispatching msg n)
  with assms(3) show ?thesis by (auto simp: Let_def split: prod.splits if_splits sum.splits)
next
  case (Looping a)
  with assms(3) show ?thesis by (auto dest!: Next_budget split: prod.splits if_splits)
next
  case (Sleeping d a)
  with assms(3) show ?thesis by (auto split: prod.splits option.splits)
next
  case (Pushing a)
  with assms(3) show ?thesis by (auto split: loop_step.splits)
qed (use assms in auto)

definition pool_size :: "('ts, 'l, 'm, 'x) consumer \<Rightarrow> ('ts, 'l, 'm, 'x) pool \<Rightarrow> nat" where
  "pool_size c p = sum_list (map (worker_size c) (fst p))"

lemma pool_step_size:
  assumes "reader_cancelled (c_reader c)" and "pool_step E c p new q"
  shows "pool_size c q < pool_size c p"
  using assms(2)
  by cases (use worker_step_size[OF assms(1)] in \<open>auto simp: pool_size_def intro!: sum_list_update_less\<close>)

text \<open>
  For a reader that may still hand over messages, a potential instead: a step that records an outcome
  may raise it by less than \<open>handling_cost\<close>, every other step lowers it.
\<close>

definition handling_cost :: "('ts, 'l, 'm, 'x) consumer \<Rightarrow> nat" where
  "handling_cost c = 6 + 3 * nat (rp_MaxAttempts (d_retry (fst (c_dispatcher c))))"

fun worker_potential :: "('ts, 'l, 'm, 'x) consumer \<Rightarrow> ('ts, 'm, 'x) worker \<Rightarrow> nat" where
  "worker_potential c Joined = 0"
| "worker_potential c (Stopped _) = 1"
| "worker_potential c (Failing _) = 2"
| "worker_potential c Violating = 2"
| "worker_potential c (Looping a) = 1 + 3 * budget_left (at_iter a)"
| "worker_potential c (Pushing a) = 2 + 3 * budget_left (at_iter a)"
| "worker_potential c (Sleeping _ a) = 3 + 3 * budget_left (at_iter a)"
| "worker_potential c (Dispatching _ _) = handling_cost c - 4"
| "worker_potential c (Got _) = handling_cost c - 3"
| "worker_potential c Receiving = handling_cost c - 2"
| "worker_potential c (Acking _) = handling_cost c - 1"

abbreviation outcomes_in :: "('l, 'm, 'x) cworld \<Rightarrow> nat" where
  "outcomes_in w \<equiv> length (outcome_points (dw_metrics (cw_base w)))"

lemma attempt_outcomes:
  "dispatch_attempt rec d p n k first b = Stop b' \<Longrightarrow>
     length (outcome_points (dw_metrics b')) = Suc (length (outcome_points (dw_metrics b)))"
  "dispatch_attempt rec d p n k first b = Again f l r b' \<Longrightarrow>
     outcome_points (dw_metrics b') = outcome_points (dw_metrics b)"
  by (cases rule: dispatch_attempt_cases[where I = "\<lambda>_. True" and w = b, OF env_ok_True TrueI, of rec d p n k first];
      auto simp: ran_def)+

lemma new_budget: "3 * budget_left (NewIterator (d_retry (fst (c_dispatcher c)))) + 6 = handling_cost c"
  by (simp add: handling_cost_def budget_left_def NewIterator_def)

lemma recordPolicyViolation_outcomes:
  "length (outcome_points (dw_metrics (recordPolicyViolation c nid b))) = Suc (length (outcome_points (dw_metrics b)))"
  by (simp add: recordPolicyViolation_def)

lemma worker_step_potential:
  assumes "working s" and "worker_step E c s w = (s', w')"
  shows "Suc (worker_potential c s') + handling_cost c * outcomes_in w
    \<le> worker_potential c s + handling_cost c * outcomes_in w'"
proof -
  have c: "6 \<le> handling_cost c" by (simp add: handling_cost_def)
  show ?thesis
  proof (cases s)
    case Receiving
    with assms c show ?thesis by (auto simp: on_base_def split: sum.splits prod.splits if_splits)
  next
    case Violating
    with assms c show ?thesis by (auto simp: on_base_def recordPolicyViolation_outcomes)
  next
    case (Failing e)
    with assms c show ?thesis by (auto simp: on_base_def log_env_def)
  next
    case (Got msg)
    with assms c show ?thesis by (auto simp: Let_def log_env_def split: sum.splits)
  next
    case (Dispatching msg n)
    with assms c new_budget[of c] show ?thesis by (auto simp: Let_def split: prod.splits if_splits sum.splits)
  next
    case (Looping a)
    with assms c show ?thesis by (auto simp: on_base_def dest!: Next_budget split: prod.splits if_splits)
  next
    case (Sleeping d a)
    with assms c show ?thesis by (auto simp: on_base_def split: prod.splits option.splits)
  next
    case (Pushing a)
    with assms c show ?thesis by (auto simp: attempt_outcomes split: loop_step.splits)
  next
    case (Acking msg)
    with assms c show ?thesis by (auto simp: msg_Ack_def)
  qed (use assms in auto)
qed

definition pool_potential :: "('ts, 'l, 'm, 'x) consumer \<Rightarrow> ('ts, 'm, 'x) worker list \<Rightarrow> nat" where
  "pool_potential c ws = sum_list (map (worker_potential c) ws)"

lemma pool_potential_update:
  "i < length ws \<Longrightarrow> pool_potential c (ws[i := s]) + worker_potential c (ws ! i)
     = pool_potential c ws + worker_potential c s"
  by (induction ws arbitrary: i) (auto simp: pool_potential_def split: nat.split)

lemma pool_step_potential:
  assumes "pool_step E c (ws, w) new (ws', w')"
  shows "Suc (pool_potential c ws') + handling_cost c * outcomes_in w
    \<le> pool_potential c ws + handling_cost c * outcomes_in w'"
  using assms
proof cases
  case (work i s)
  with worker_step_potential[OF work(4,5)] pool_potential_update[of i ws c s] show ?thesis by simp
next
  case (leave i err)
  have "outcomes_in (leave_pool (c_logger c) i err w) = outcomes_in w"
    by (simp add: leave_pool_def on_base_def log_env_def split: option.split)
  with leave pool_potential_update[of i ws c Joined] show ?thesis by simp
qed

lemma pool_stuck: "(\<forall>new q. \<not> pool_step E c (ws, w) new q) \<longleftrightarrow> all_joined ws"
proof
  assume stuck: "\<forall>new q. \<not> pool_step E c (ws, w) new q"
  have "ws ! i = Joined" if i: "i < length ws" for i
  proof (rule ccontr)
    assume "ws ! i \<noteq> Joined"
    then consider "working (ws ! i)" | err where "ws ! i = Stopped err" by (cases "ws ! i") auto
    then show False
    proof cases
      case 1
      obtain s w' where "worker_step E c (ws ! i) w = (s, w')" by force
      from pool_step.work[OF i 1 this] stuck show False by blast
    next
      case (2 err)
      from pool_step.leave[OF i 2] stuck show False by blast
    qed
  qed
  then show "all_joined ws" by (simp add: all_joined_def list_all_length)
next
  assume "all_joined ws"
  then show "\<forall>new q. \<not> pool_step E c (ws, w) new q"
    by (auto simp: all_joined_def list_all_length elim!: pool_step.cases)
qed

text \<open>Once the context is cancelled the pool shuts down: whatever the workers were doing, they can
  take finitely many steps in any order, and they can take none exactly when all of them have left
  the wait group.\<close>

lemma shutdown_ends:
  assumes "reader_cancelled (c_reader c)"
  shows "wfp (\<lambda>q p. \<exists>new. pool_step E c p new q)
     \<and> ((\<forall>new q. \<not> pool_step E c (ws, w) new q) \<longleftrightarrow> all_joined ws)"
proof
  show "wfp (\<lambda>q p. \<exists>new. pool_step E c p new q)"
    by (rule wfp_if_convertible_to_nat[of _ "pool_size c"]) (auto intro: pool_step_size[OF assms])
qed (rule pool_stuck)

end
