(* ===== verification/Pushover.thy ===== *)
theory Pushover
  imports Provider Url_Form Retry Go_Json
begin

text \<open>
  \<open>internal/deliverer/provider/pushover\<close>: the Pushover backend. The HTTP client is an argument: it
  gets the URL, the content type and the body, and returns an error or the status with the bytes
  that could be read of the response body.
\<close>

definition endpointPath :: string where
  "endpointPath = ''/1/messages.json''"

type_synonym 'x http_client = "string \<Rightarrow> string \<Rightarrow> string \<Rightarrow> 'x \<Rightarrow> (goerr + int \<times> string) \<times> 'x"

record 'x pushover =
  po_appToken :: string
  po_baseURL :: string
  po_httpc :: "'x http_client"

definition WithHTTPClient :: "'x http_client \<Rightarrow> 'x pushover \<Rightarrow> 'x pushover" where
  "WithHTTPClient c p = p\<lparr>po_httpc := c\<rparr>"

definition WithBaseURL :: "string \<Rightarrow> 'x pushover \<Rightarrow> 'x pushover" where
  "WithBaseURL u p = p\<lparr>po_baseURL := trim_right_by (\<lambda>c. c = CHR ''/'') u\<rparr>"

definition WithAppToken :: "string \<Rightarrow> 'x pushover \<Rightarrow> 'x pushover" where
  "WithAppToken t p = p\<lparr>po_appToken := t\<rparr>"

lemmas pushover_option_defs [option_simps] = WithHTTPClient_def WithBaseURL_def WithAppToken_def

definition pushover_New ::
  "'x http_client \<Rightarrow> ('x pushover \<Rightarrow> 'x pushover) list \<Rightarrow> goerr + 'x pushover" where
  "pushover_New default_client opts =
     (let p = apply_opts opts
                \<lparr>po_appToken = [], po_baseURL = ''https://api.pushover.net'', po_httpc = default_client\<rparr>
      in if po_appToken p = [] then Inl (NewErr ''pushover: WithAppToken is required'') else Inr p)"

definition pushover_name :: string where
  "pushover_name = ''pushover''"

subsection \<open>The request\<close>

definition set_if :: "bool \<Rightarrow> string \<Rightarrow> string \<Rightarrow> form \<Rightarrow> form" where
  "set_if c k v f = (if c then form_set k v f else f)"

definition pushover_form :: "string \<Rightarrow> pushover_target \<Rightarrow> content \<Rightarrow> form" where
  "pushover_form token t c =
     (let f0 = form_set ''message'' (c_body c)
                 (form_set ''title'' (c_title c)
                   (form_set ''user'' (pt_user_or_group_key t) (form_set ''token'' token [])));
          f1 = set_if (c_priority c \<noteq> 0) ''priority'' (itoa (sint (c_priority c))) f0;
          f2 = set_if (pt_device_name t \<noteq> []) ''device'' (pt_device_name t) f1;
          f3 = set_if (pt_sound t \<noteq> []) ''sound'' (pt_sound t) f2;
          f4 = set_if (pt_url t \<noteq> []) ''url'' (pt_url t) f3
      in set_if (pt_url_title t \<noteq> []) ''url_title'' (pt_url_title t) f4)"

subsection \<open>The response\<close>

record pushover_resp =
  ps_Status :: int
  ps_Errors :: "string list"
  ps_Info :: string

definition pushoverResp_fields :: "pushover_resp json_field list" where
  "pushoverResp_fields =
     [(''status'', field_of ps_Status (\<lambda>v s. s\<lparr>ps_Status := v\<rparr>) dec_int),
      (''errors'', field_of ps_Errors (\<lambda>v s. s\<lparr>ps_Errors := v\<rparr>) (dec_list dec_string [])),
      (''info'', field_of ps_Info (\<lambda>v s. s\<lparr>ps_Info := v\<rparr>) dec_string)]"

definition decode_pushover :: "'ts ext \<Rightarrow> string \<Rightarrow> pushover_resp" where
  "decode_pushover E body =
     snd (json_unmarshal E body (dec_struct pushoverResp_fields)
            \<lparr>ps_Status = 0, ps_Errors = [], ps_Info = []\<rparr>)"

definition isRecipientRejection :: "'ts ext \<Rightarrow> string list \<Rightarrow> bool" where
  "isRecipientRejection E errs =
     list_ex (\<lambda>e. let le = to_lower (x_ulower E) e in
                 contains le ''user'' \<or> contains le ''token'' \<or> contains le ''device'') errs"

definition pushover_classify ::
  "'ts ext \<Rightarrow> int \<Rightarrow> string \<Rightarrow> string \<Rightarrow> goerr + push_result option" where
  "pushover_classify E st body snippet =
     (let pr = decode_pushover E body in
      if 200 \<le> st \<and> st < 300 \<and> ps_Status pr = 1 then Inr (Some \<lparr>pr_ProviderResponse = snippet\<rparr>)
      else if st = 400 then
        (if isRecipientRejection E (ps_Errors pr) then
           Inl (PermanentError ''provider-rejected-recipient'' snippet
                  (Some (NewErr ''pushover: recipient rejected'')))
         else
           Inl (PermanentError ''provider-rejected-payload'' snippet
                  (Some (NewErr ''pushover: payload rejected''))))
      else if st = 401 \<or> st = 403 then
        Inl (PermanentError ''provider-auth-failed'' snippet
               (Some (NewErr ''pushover: auth failed (check PUSHOVER_APP_TOKEN)'')))
      else if st = 429 \<or> 500 \<le> st then
        Inl (TransientError snippet (Some (NewErr (''pushover: '' @ itoa st))))
      else
        Inl (TransientError snippet (Some (NewErr (''pushover: unexpected status '' @ itoa st)))))"

subsection \<open>Push\<close>

definition pushover_Push :: "'ts ext \<Rightarrow> 'x pushover \<Rightarrow> ('ts, 'x) push_fn" where
  "pushover_Push E p n x =
     (case GetTarget n of
        Some (Notification_Pushover (Some t)) \<Rightarrow>
          (case GetContent n of
             None \<Rightarrow>
               (Inl (PermanentError ''provider-rejected-payload'' [] (Some (NewErr ''pushover: missing Content''))), x)
           | Some c \<Rightarrow>
               (let f = pushover_form (po_appToken p) t c;
                    u = po_baseURL p @ endpointPath
                in case x_url_parse E u of
                     Inl e \<Rightarrow> (Inl (TransientError [] (Some (WrapErr ''pushover: build request'' e))), x)
                   | Inr _ \<Rightarrow>
                       (case po_httpc p u ''application/x-www-form-urlencoded'' (Encode f) x of
                          (Inl e, x') \<Rightarrow>
                            (Inl (TransientError [] (Some (WrapErr ''pushover: http do'' e))), x')
                        | (Inr (st, rbody), x') \<Rightarrow>
                            (let body = take 4096 rbody
                             in (pushover_classify E st body (truncate_str body 512), x')))))
      | _ \<Rightarrow>
          (Inl (PermanentError ''provider-rejected-payload'' []
                  (Some (NewErr ''pushover: missing PushoverTarget''))), x))"

subsection \<open>Classification\<close>

lemma pushover_classify_typed: "pushover_classify E st body s = Inl e \<Longrightarrow> typed_push_error e"
  by (auto simp: pushover_classify_def Let_def provider_reasons_def reason_defs split: if_splits)

lemma pushover_classify_success: "pushover_classify E st body s = Inr r \<Longrightarrow> r \<noteq> None"
  by (auto simp: pushover_classify_def Let_def split: if_splits)

interpretation pushover: push_provider "pushover_Push E p" "\<lambda>_. True" for E p
proof
  fix x n e x'
  assume "pushover_Push E p n x = (Inl e, x')"
  then show "typed_push_error e"
    by (auto simp: pushover_Push_def Let_def provider_reasons_def reason_defs pushover_classify_typed
        split: option.splits target.splits sum.splits prod.splits)
next
  fix x n r x'
  assume "pushover_Push E p n x = (Inr r, x')"
  then show "r \<noteq> None"
    using pushover_classify_success
    by (auto simp: pushover_Push_def Let_def split: option.splits target.splits sum.splits prod.splits)
qed simp

lemma pushover_transient_iff:
  "(\<exists>e. pushover_classify E st body s = Inl e \<and> Classify (Some e) = ClassTransient) \<longleftrightarrow>
     st \<notin> {400, 401, 403}
     \<and> \<not> (200 \<le> st \<and> st < 300 \<and> ps_Status (decode_pushover E body) = 1)"
  by (auto simp: pushover_classify_def Let_def Classify_def errors_is_def)

lemma pushover_form_get:
  "form_get (pushover_form token t c) =
     [''token'' \<mapsto> token, ''user'' \<mapsto> pt_user_or_group_key t, ''title'' \<mapsto> c_title c, ''message'' \<mapsto> c_body c]
       ++ (if c_priority c \<noteq> 0 then [''priority'' \<mapsto> itoa (sint (c_priority c))] else Map.empty)
       ++ (if pt_device_name t \<noteq> [] then [''device'' \<mapsto> pt_device_name t] else Map.empty)
       ++ (if pt_sound t \<noteq> [] then [''sound'' \<mapsto> pt_sound t] else Map.empty)
       ++ (if pt_url t \<noteq> [] then [''url'' \<mapsto> pt_url t] else Map.empty)
       ++ (if pt_url_title t \<noteq> [] then [''url_title'' \<mapsto> pt_url_title t] else Map.empty)"
  by (simp add: pushover_form_def set_if_def Let_def map_add_upd)

lemma pushover_form_distinct: "distinct (map fst (pushover_form token t c))"
  by (auto simp: pushover_form_def set_if_def Let_def intro!: distinct_form_set)

text \<open>What the receiver decodes from the body Push sends is the form, field by field.\<close>

lemma pushover_body_fields:
  "form_get (parse_form (Encode (pushover_form token t c))) = form_get (pushover_form token t c)"
  by (simp add: parse_Encode form_get_sort pushover_form_distinct)

lemma pushover_response_bound:
  assumes "pushover_Push E p n x = (Inr (Some res), x')"
  shows "length (pr_ProviderResponse res) \<le> 512"
  using assms length_truncate
  by (auto simp: pushover_Push_def pushover_classify_def Let_def
      split: option.splits target.splits sum.splits prod.splits if_splits)

subsection \<open>Properties\<close>

text \<open>C34: Every failure of a push through the Pushover backend is one of the two typed errors the
  retry loop knows, and a permanent one carries a reason of the data model.\<close>

theorem pushover_errors_typed:
  assumes "pushover_Push E p n x = (Inl e, x')"
  shows "typed_push_error e \<and> errors_is e ErrPermanent \<noteq> errors_is e ErrTransient"
  using pushover.push_typed[OF TrueI assms] pushover.push_error_sentinel[OF TrueI assms] by blast

end
