(* ===== verification/Config.thy ===== *)
theory Config
  imports Errors Go_Time Messages
begin

text \<open>
  The configuration packages (\<open>internal/config\<close>, \<open>internal/writer/config\<close>,
  \<open>internal/deliverer/config\<close>) and \<open>internal/logging\<close>. \<open>env.Parse\<close> is a library: its result is an
  argument of \<open>Load\<close>. The type variable \<open>'f\<close> stands for \<open>float64\<close>, which only the tracing rate has.
\<close>

record 'f shared =
  cfg_LogLevel :: string
  cfg_MetricsEnabled :: bool
  cfg_MetricsPort :: int
  cfg_Local :: bool
  cfg_TracingEnabled :: bool
  cfg_TracingSampleRate :: 'f
  cfg_TracingService :: string
  cfg_TracingVersion :: string
  cfg_PulsarServiceURL :: string
  cfg_PulsarTopic :: string
  cfg_PulsarEncryptionKeyDir :: string
  cfg_ShutdownGracePeriod :: duration

definition LoadShared :: "(goerr + 'f shared) \<Rightarrow> goerr + 'f shared" where
  "LoadShared parsed =
     (case parsed of Inl e \<Rightarrow> Inl (WrapErr ''parse shared config'' e) | Inr s \<Rightarrow> Inr s)"

subsection \<open>The writer\<close>

record 'f writer_config =
  wc_shared :: "'f shared"
  wc_HTTPAddr :: string
  wc_BearerTokensFile :: string
  wc_IdempotencyWindow :: duration
  wc_EncryptionKeyNamesCSV :: string

text \<open>
  \<open>EncryptionKeyNames\<close> filters in place: \<open>out\<close> starts as \<open>raw[:0]\<close>, so each append overwrites the
  array the loop is reading. \<open>i\<close> is the index read next, \<open>j\<close> the length of \<open>out\<close>.
\<close>

function filter_loop :: "nat \<Rightarrow> nat \<Rightarrow> string list \<Rightarrow> string list" where
  "filter_loop i j raw =
     (if i < length raw then
        (let s = trim_space (raw ! i) in
         if s \<noteq> [] then filter_loop (i + 1) (j + 1) (raw[j := s]) else filter_loop (i + 1) j raw)
      else take j raw)"
  by pat_completeness auto
termination
  by (relation "measure (\<lambda>(i, j, raw). length raw - i)") auto

declare filter_loop.simps [simp del]

definition EncryptionKeyNames :: "'f writer_config \<Rightarrow> string list" where
  "EncryptionKeyNames c = filter_loop 0 0 (split_on (CHR '','') (wc_EncryptionKeyNamesCSV c))"

definition WithHTTPAddr :: "string \<Rightarrow> 'f writer_config \<Rightarrow> 'f writer_config" where
  "WithHTTPAddr addr c = c\<lparr>wc_HTTPAddr := addr\<rparr>"

definition WithBearerTokensFile :: "string \<Rightarrow> 'f writer_config \<Rightarrow> 'f writer_config" where
  "WithBearerTokensFile p c = c\<lparr>wc_BearerTokensFile := p\<rparr>"

definition WithIdempotencyWindow :: "duration \<Rightarrow> 'f writer_config \<Rightarrow> 'f writer_config" where
  "WithIdempotencyWindow d c = c\<lparr>wc_IdempotencyWindow := d\<rparr>"

definition WithEncryptionKeyNamesCSV :: "string \<Rightarrow> 'f writer_config \<Rightarrow> 'f writer_config" where
  "WithEncryptionKeyNamesCSV csv c = c\<lparr>wc_EncryptionKeyNamesCSV := csv\<rparr>"

definition writer_Load ::
  "(goerr + 'f writer_config) \<Rightarrow> ('f writer_config \<Rightarrow> 'f writer_config) list \<Rightarrow> goerr + 'f writer_config" where
  "writer_Load parsed opts =
     (case parsed of
        Inl e \<Rightarrow> Inl (WrapErr ''parse writer config'' e)
      | Inr c0 \<Rightarrow>
          (let c = apply_opts opts c0 in
           if EncryptionKeyNames c = [] then
             Inl (NewErr ''parse writer config: PULSAR_ENCRYPTION_KEY_NAMES must contain at least one name'')
           else Inr c))"

text \<open>The in-place loop is the trimmed, non-empty pieces: a write never runs ahead of the reads.\<close>

lemma filter_loop_spec:
  assumes "j \<le> i" and "i \<le> length raw"
  shows "filter_loop i j raw = take j raw @ filter (\<lambda>s. s \<noteq> []) (map trim_space (drop i raw))"
  using assms
proof (induction i j raw rule: filter_loop.induct)
  case (1 i j raw)
  show ?case
  proof (cases "i < length raw")
    case False
    then show ?thesis using 1(4) by (simp add: filter_loop.simps)
  next
    case True
    let ?s = "trim_space (raw ! i)"
    have d: "drop i raw = raw ! i # drop (i + 1) raw" using True by (simp add: Cons_nth_drop_Suc)
    show ?thesis
    proof (cases "?s = []")
      case True
      then show ?thesis
        using 1(2)[OF \<open>i < length raw\<close> refl] 1(3) \<open>i < length raw\<close> d
        by (subst filter_loop.simps) (simp add: Let_def)
    next
      case False
      have t: "take (j + 1) (raw[j := ?s]) = take j raw @ [?s]"
        using 1(3) True by (simp add: take_Suc_conv_app_nth)
      have "drop (i + 1) (raw[j := ?s]) = drop (i + 1) raw" using 1(3) by simp
      then show ?thesis
        using 1(1)[OF True refl] False 1(3) True d t
        by (subst filter_loop.simps) (simp add: Let_def)
    qed
  qed
qed

lemma EncryptionKeyNames_spec:
  "EncryptionKeyNames c =
     filter (\<lambda>s. s \<noteq> []) (map trim_space (split_on (CHR '','') (wc_EncryptionKeyNamesCSV c)))"
  by (simp add: EncryptionKeyNames_def filter_loop_spec)

lemma writer_Load_names: "writer_Load parsed opts = Inr c \<Longrightarrow> EncryptionKeyNames c \<noteq> []"
  by (auto simp: writer_Load_def Let_def split: sum.splits if_splits)

subsection \<open>The deliverer\<close>

type_synonym ProviderKind = string

definition ProviderPushover :: ProviderKind where
  "ProviderPushover = ''pushover''"

definition ProviderSandbox :: ProviderKind where
  "ProviderSandbox = ''sandbox''"

record 'f deliverer_config =
  dc_shared :: "'f shared"
  dc_PulsarSubscription :: string
  dc_Concurrency :: int
  dc_RetryMaxAttempts :: int
  dc_RetryInitialBackoff :: duration
  dc_RetryMaxBackoff :: duration
  dc_Provider :: ProviderKind
  dc_PushoverAppToken :: string
  dc_PushoverBaseURL :: string

definition WithConcurrency :: "int \<Rightarrow> 'f deliverer_config \<Rightarrow> 'f deliverer_config" where
  "WithConcurrency n c = c\<lparr>dc_Concurrency := n\<rparr>"

definition config_WithProvider :: "ProviderKind \<Rightarrow> 'f deliverer_config \<Rightarrow> 'f deliverer_config" where
  "config_WithProvider k c = c\<lparr>dc_Provider := k\<rparr>"

definition deliverer_Load ::
  "'ts ext \<Rightarrow> (goerr + 'f deliverer_config) \<Rightarrow> ('f deliverer_config \<Rightarrow> 'f deliverer_config) list
    \<Rightarrow> goerr + 'f deliverer_config" where
  "deliverer_Load E parsed opts =
     (case parsed of
        Inl e \<Rightarrow> Inl (WrapErr ''parse deliverer config'' e)
      | Inr c0 \<Rightarrow>
          (let c = apply_opts opts c0 in
           if dc_Provider c = ProviderPushover \<and> dc_PushoverAppToken c = [] then
             Inl (NewErr
               ''parse deliverer config: PUSHOVER_APP_TOKEN is required when PROVIDER=pushover'')
           else if dc_Provider c \<noteq> ProviderPushover \<and> dc_Provider c \<noteq> ProviderSandbox then
             Inl (NewErr (''parse deliverer config: unknown PROVIDER '' @ x_quote E (dc_Provider c)))
           else if dc_Concurrency c \<le> 0 then
             Inl (NewErr ''parse deliverer config: DELIVERER_CONCURRENCY must be > 0'')
           else if dc_RetryMaxAttempts c \<le> 0 then
             Inl (NewErr ''parse deliverer config: DELIVERER_RETRY_MAX_ATTEMPTS must be > 0'')
           else Inr c))"

lemma deliverer_Load_Inr:
  "deliverer_Load E parsed opts = Inr c \<Longrightarrow>
     0 < dc_Concurrency c \<and> 0 < dc_RetryMaxAttempts c
     \<and> (dc_Provider c = ProviderPushover \<and> dc_PushoverAppToken c \<noteq> [] \<or> dc_Provider c = ProviderSandbox)"
  by (auto simp: deliverer_Load_def Let_def split: sum.splits if_splits)

subsection \<open>Logging\<close>

datatype slog_level = LevelDebugL | LevelInfoL | LevelWarnL | LevelErrorL

text \<open>On an unknown name the level is info, together with the error.\<close>

definition LogLevelToSlogLevel :: "'ts ext \<Rightarrow> string \<Rightarrow> slog_level \<times> goerr option" where
  "LogLevelToSlogLevel E logLevel =
     (let l = to_lower (x_ulower E) logLevel in
      if l = ''debug'' then (LevelDebugL, None)
      else if l = ''info'' then (LevelInfoL, None)
      else if l = ''warn'' \<or> l = ''warning'' then (LevelWarnL, None)
      else if l = ''error'' then (LevelErrorL, None)
      else (LevelInfoL, Some (NewErr (''unknown log level: '' @ logLevel))))"

definition logging_New :: "'ts ext \<Rightarrow> (slog_level \<Rightarrow> 'logger) \<Rightarrow> string \<Rightarrow> goerr + 'logger" where
  "logging_New E json_handler level' =
     (case LogLevelToSlogLevel E level' of
        (_, Some e) \<Rightarrow> Inl e
      | (lvl, None) \<Rightarrow> Inr (json_handler lvl))"

subsection \<open>Properties\<close>

text \<open>The in-place filter of \<open>EncryptionKeyNames\<close> is safe: although every kept name overwrites
  the array being read, the result is the trimmed, non-empty pieces of the list, in order.\<close>

theorem key_names_in_place:
  "EncryptionKeyNames c =
     filter (\<lambda>s. s \<noteq> []) (map trim_space (split_on (CHR '','') (wc_EncryptionKeyNamesCSV c)))"
  by (rule EncryptionKeyNames_spec)

end
