(* ===== verification/Telemetry.thy ===== *)
theory Telemetry
  imports Config
begin

text \<open>
  \<open>internal/telemetry\<close>: \<open>Init\<close> builds the OpenTelemetry providers and, when metrics are on, starts the
  runtime and the host instrumentation, shutting the providers down again when one of them does not
  start. The libraries (ootel and the two instrumentations) are a record of functions of the
  world; a shutdown closure is a function of the world that may return an error.
\<close>

type_synonym 'x shutdown_fn = "'x \<Rightarrow> goerr option \<times> 'x"

record 'f telemetry_config =
  tc_ServiceName :: string
  tc_ServiceVersion :: string
  tc_MetricsEnabled :: bool
  tc_MetricsPort :: int
  tc_TracingEnabled :: bool
  tc_TracingSampleRate :: 'f
  tc_Local :: bool

datatype exporter_type = ExporterTypePrometheus | ExporterTypeOTLPGRPC

record 'f ootel_config =
  om_Enabled :: bool
  om_Exporter :: exporter_type
  om_Port :: int
  ot_Enabled :: bool
  ot_SampleRate :: 'f
  ot_Service :: string
  ot_Version :: string

record ('f, 'x) otel_sdk =
  otel_init :: "'f ootel_config \<Rightarrow> 'x \<Rightarrow> (goerr + 'x shutdown_fn) \<times> 'x"
  otel_runtime_start :: "'x \<Rightarrow> goerr option \<times> 'x"
  otel_host_start :: "'x \<Rightarrow> goerr option \<times> 'x"

definition ootel_config_of :: "'f telemetry_config \<Rightarrow> 'f ootel_config" where
  "ootel_config_of cfg =
     \<lparr>om_Enabled = tc_MetricsEnabled cfg,
      om_Exporter = (if tc_Local cfg then ExporterTypeOTLPGRPC else ExporterTypePrometheus),
      om_Port = tc_MetricsPort cfg, ot_Enabled = tc_TracingEnabled cfg,
      ot_SampleRate = tc_TracingSampleRate cfg, ot_Service = tc_ServiceName cfg,
      ot_Version = tc_ServiceVersion cfg\<rparr>"

definition telemetry_Init ::
  "('f, 'x) otel_sdk \<Rightarrow> 'f telemetry_config \<Rightarrow> 'x \<Rightarrow> (goerr + 'x shutdown_fn) \<times> 'x" where
  "telemetry_Init S cfg x =
     (if tc_ServiceName cfg = [] then (Inl (NewErr ''telemetry: ServiceName is required''), x)
      else case otel_init S (ootel_config_of cfg) x of
        (Inl e, x1) \<Rightarrow> (Inl (WrapErr ''telemetry: ootel init'' e), x1)
      | (Inr shutdown, x1) \<Rightarrow>
          (if tc_MetricsEnabled cfg then
             (case otel_runtime_start S x1 of
                (Some e, x2) \<Rightarrow> (Inl (WrapErr ''telemetry: runtime metrics'' e), snd (shutdown x2))
              | (None, x2) \<Rightarrow>
                  (case otel_host_start S x2 of
                     (Some e, x3) \<Rightarrow> (Inl (WrapErr ''telemetry: host metrics'' e), snd (shutdown x3))
                   | (None, x3) \<Rightarrow> (Inr shutdown, x3)))
           else (Inr shutdown, x1)))"

text \<open>The configuration both processes pass to \<open>Init\<close>.\<close>

definition telemetry_config_of :: "'f shared \<Rightarrow> 'f telemetry_config" where
  "telemetry_config_of s =
     \<lparr>tc_ServiceName = cfg_TracingService s, tc_ServiceVersion = cfg_TracingVersion s,
      tc_MetricsEnabled = cfg_MetricsEnabled s, tc_MetricsPort = cfg_MetricsPort s,
      tc_TracingEnabled = cfg_TracingEnabled s, tc_TracingSampleRate = cfg_TracingSampleRate s,
      tc_Local = cfg_Local s\<rparr>"

subsection \<open>Nothing is left running\<close>

text \<open>
  What the SDK promises about the providers, as an observation \<open>up\<close> of the world: an \<open>Init\<close> that
  fails registers none, a shutdown removes the ones its \<open>Init\<close> registered, whatever it returns,
  and starting an instrumentation does not register or remove any.
\<close>

definition otel_contract :: "('x \<Rightarrow> bool) \<Rightarrow> ('f, 'x) otel_sdk \<Rightarrow> bool" where
  "otel_contract up S \<longleftrightarrow>
     (\<forall>cfg x e x'. otel_init S cfg x = (Inl e, x') \<longrightarrow> up x' = up x)
     \<and> (\<forall>cfg x sh x'. otel_init S cfg x = (Inr sh, x') \<longrightarrow> up x' \<and> (\<forall>y. \<not> up (snd (sh y))))
     \<and> (\<forall>x. up (snd (otel_runtime_start S x)) = up x) \<and> (\<forall>x. up (snd (otel_host_start S x)) = up x)"

lemma telemetry_Init_error:
  assumes "otel_contract up S" and "telemetry_Init S cfg x = (Inl e, x')" and "\<not> up x"
  shows "\<not> up x'"
proof -
  from assms(2,3) consider "x' = x" | e0 where "otel_init S (ootel_config_of cfg) x = (Inl e0, x')"
    | sh x1 y where "otel_init S (ootel_config_of cfg) x = (Inr sh, x1)" "x' = snd (sh y)"
    by (auto simp: telemetry_Init_def split: if_splits prod.splits sum.splits option.splits)
  then show ?thesis
    using assms(1,3) unfolding otel_contract_def by cases blast+
qed

lemma telemetry_Init_ok:
  assumes "otel_contract up S" and "telemetry_Init S cfg x = (Inr sh, x')"
  shows "up x'" and "\<not> up (snd (sh y))" and "tc_ServiceName cfg \<noteq> []"
proof -
  from assms(2) obtain x1 where i: "otel_init S (ootel_config_of cfg) x = (Inr sh, x1)"
    and x': "x' = x1 \<or> x' = snd (otel_host_start S (snd (otel_runtime_start S x1)))"
    and n: "tc_ServiceName cfg \<noteq> []"
    by (auto simp: telemetry_Init_def split: if_splits prod.splits sum.splits option.splits)
  have u: "up x1" "\<not> up (snd (sh y))" using assms(1) i unfolding otel_contract_def by blast+
  show "up x'" using u(1) x' assms(1) unfolding otel_contract_def by metis
  show "\<not> up (snd (sh y))" by (rule u(2))
  show "tc_ServiceName cfg \<noteq> []" by (rule n)
qed

end
