(* ===== verification/Deliverer_Main.thy ===== *)
theory Deliverer_Main
  imports Worker_Pool Pushover Telemetry
begin

text \<open>
  \<open>cmd/deliverer\<close>: how \<open>run\<close> builds the provider, the dispatcher and the consumer from the
  configuration, with the deferred clean-up on every early return; what \<open>run\<close> does then is in the
  theory Deliverer_Process. The sandbox backend keeps its state in the process, so the outside world
  of a deliverer is a record with that state and the rest. The process has one logger: its outcome
  lines are the recorder's state, its other lines act on the rest of the world.
\<close>

record ('ts, 'y) denv =
  de_sandbox :: "'ts sandbox"
  de_rest :: 'y

subsection \<open>The provider\<close>

definition sandbox_push :: "('ts, ('ts, 'y) denv) push_fn" where
  "sandbox_push n x = (case sandbox_Push n (de_sandbox x) of (r, s) \<Rightarrow> (r, x\<lparr>de_sandbox := s\<rparr>))"

definition sandbox_value :: "('ts, ('ts, 'y) denv) push_provider_value" where
  "sandbox_value = \<lparr>pv_Name = sandbox_name, pv_Push = sandbox_push\<rparr>"

definition pushover_value ::
  "'ts ext \<Rightarrow> 'x pushover \<Rightarrow> ('ts, 'x) push_provider_value" where
  "pushover_value E p = \<lparr>pv_Name = pushover_name, pv_Push = pushover_Push E p\<rparr>"

definition buildProvider ::
  "'ts ext \<Rightarrow> ('ts, 'y) denv http_client \<Rightarrow> 'f deliverer_config \<Rightarrow> ('ts, 'y) denv
    \<Rightarrow> (goerr + ('ts, ('ts, 'y) denv) push_provider_value) \<times> ('ts, 'y) denv" where
  "buildProvider E default_client cfg x =
     (if dc_Provider cfg = ProviderPushover then
        (case pushover_New default_client
                [WithAppToken (dc_PushoverAppToken cfg), WithBaseURL (dc_PushoverBaseURL cfg)] of
           Inl e \<Rightarrow> (Inl e, x)
         | Inr p \<Rightarrow> (Inr (pushover_value E p), x))
      else if dc_Provider cfg = ProviderSandbox then
        (Inr sandbox_value, x\<lparr>de_sandbox := sandbox_New []\<rparr>)
      else (Inl (NewErr (''deliverer: unknown provider '' @ dc_Provider cfg)), x))"

text \<open>Inside the process the sandbox keeps the provider contract as long as its script does.\<close>

interpretation sandbox_process: push_provider sandbox_push "\<lambda>x. typed_script (de_sandbox x)"
proof
  fix x x' :: "('a, 'b) denv" and n res
  assume "typed_script (de_sandbox x)" and "sandbox_push n x = (res, x')"
  then show "typed_script (de_sandbox x')"
    using sandbox.push_ok by (auto simp: sandbox_push_def split: prod.splits)
next
  fix x x' :: "('a, 'b) denv" and n e
  assume "typed_script (de_sandbox x)" and "sandbox_push n x = (Inl e, x')"
  then show "typed_push_error e"
    using sandbox.push_typed by (auto simp: sandbox_push_def split: prod.splits)
next
  fix x x' :: "('a, 'b) denv" and n r
  assume "typed_script (de_sandbox x)" and "sandbox_push n x = (Inr r, x')"
  then show "r \<noteq> None"
    using sandbox.push_result by (auto simp: sandbox_push_def split: prod.splits)
qed

subsection \<open>Building the deliverer\<close>

record ('f, 'ts, 'l, 'y, 'cl, 'pr, 'co, 'm) deliverer_host =
  dh_env :: "goerr + 'f deliverer_config"
  dh_json_handler :: "slog_level \<Rightarrow> (log_line \<Rightarrow> 'l \<Rightarrow> 'l) \<times> ('ts, 'y) denv logger"
  dh_otel :: "('f, ('ts, 'y) denv) otel_sdk"
  dh_client :: "('ts, 'y) denv http_client"
  dh_sdk :: "(('ts, 'y) denv, 'cl, 'pr, 'co, 'm) pulsar_sdk"
  dh_logger_id :: nat
  dh_now :: "('ts, 'y) denv \<Rightarrow> gotime \<times> ('ts, 'y) denv"
  dh_rand :: "('ts, 'y) denv \<Rightarrow> nat \<times> ('ts, 'y) denv"
  dh_wait :: "('ts, 'y) denv sleep_fn"

definition deliverer_consumer_options ::
  "'f deliverer_config \<Rightarrow> nat \<Rightarrow> (pl_options \<Rightarrow> pl_options) list" where
  "deliverer_consumer_options cfg lg =
     [WithServiceURL (cfg_PulsarServiceURL (dc_shared cfg)),
      WithTopic (cfg_PulsarTopic (dc_shared cfg)),
      WithSubscription (dc_PulsarSubscription cfg),
      WithEncryptionKeyReader
        (Some (NewFileCryptoKeyReader (cfg_PulsarEncryptionKeyDir (dc_shared cfg)))),
      pl_WithLogger (Some lg)]"

definition configured_policy :: "('x \<Rightarrow> nat \<times> 'x) \<Rightarrow> 'f deliverer_config \<Rightarrow> 'x policy" where
  "configured_policy rand cfg = NewPolicy rand
     [WithMaxAttempts (dc_RetryMaxAttempts cfg), WithInitialBackoff (dc_RetryInitialBackoff cfg),
      WithMaxBackoff (dc_RetryMaxBackoff cfg)]"

text \<open>The reader as the consumer sees it: the closure \<open>Ack\<close> of a message acknowledges it.\<close>

definition sdk_reader ::
  "('x, 'cl, 'pr, 'co, 'm) pulsar_sdk \<Rightarrow> ('cl, 'co) apache_consumer \<Rightarrow> ('m, 'x) reader" where
  "sdk_reader K ac = apache_reader K ac (sdk_ack K (ac_consumer ac))"

text \<open>The consumed message \<open>apache_receive\<close> makes of a delivered one.\<close>

definition consumed_of ::
  "('x, 'cl, 'pr, 'co, 'm) pulsar_sdk \<Rightarrow> 'm \<Rightarrow> 'm consumed_message" where
  "consumed_of K m =
     \<lparr>cm_body = sdk_payload K m,
      cm_notification_id = (case sdk_properties K m NotificationIDProperty of None \<Rightarrow> [] | Some i \<Rightarrow> i),
      cm_msg = m\<rparr>"

lemma receive_consumed:
  "sdk_receive K (ac_consumer ac) x = (Inr m, x1) \<Longrightarrow>
   rd_Receive (sdk_reader K ac) x = (Inr (consumed_of K m), x1)"
  by (simp add: sdk_reader_def apache_reader_def apache_receive_def consumed_of_def)

definition deliverer_consumer ::
  "('f, 'ts, 'l, 'y, 'cl, 'pr, 'co, 'm) deliverer_host \<Rightarrow> 'f deliverer_config
    \<Rightarrow> (log_line \<Rightarrow> 'l \<Rightarrow> 'l) \<times> ('ts, 'y) denv logger \<Rightarrow> ('ts, ('ts, 'y) denv) push_provider_value
    \<Rightarrow> ('cl, 'co) apache_consumer \<Rightarrow> goerr + ('ts, 'l, 'm, ('ts, 'y) denv) consumer" where
  "deliverer_consumer H cfg logger push ac =
     (let rec = slog_Record (NewSlogRecorder (fst logger) [outcomes_WithLogger (Some (fst logger))])
      in bind_res (dispatcher_New (dh_now H) (dh_rand H) (dh_wait H)
                     [WithProvider ''pushover'' push, WithRecorder (Some rec),
                      WithRetryPolicy (configured_policy (dh_rand H) cfg)])
           (\<lambda>disp.
             consumer_New (snd logger)
               [WithReader (Some (sdk_reader (dh_sdk H) ac)), WithDispatcher (Some disp),
                consumer_WithRecorder (Some rec), consumer_WithLogger (Some (snd logger))]))"

record ('ts, 'l, 'm, 'y) running_deliverer =
  run_consumer :: "('ts, 'l, 'm, ('ts, 'y) denv) consumer"
  run_workers :: int
  run_close :: "('ts, 'y) denv \<Rightarrow> ('ts, 'y) denv"

definition deliverer_starting :: "'f deliverer_config \<Rightarrow> log_line" where
  "deliverer_starting cfg =
     \<lparr>ll_level = LevelInfo, ll_msg = ''deliverer.starting'',
      ll_attrs = [AStr ''provider'' (dc_Provider cfg),
        AStr ''pulsar_service_url'' (cfg_PulsarServiceURL (dc_shared cfg)),
        AStr ''pulsar_topic'' (cfg_PulsarTopic (dc_shared cfg)),
        AStr ''pulsar_subscription'' (dc_PulsarSubscription cfg),
        AInt ''concurrency'' (dc_Concurrency cfg)]\<rparr>"

text \<open>The deferred functions of \<open>run\<close>, last one first; their errors are dropped.\<close>

definition deliverer_stop ::
  "('f, 'ts, 'l, 'y, 'cl, 'pr, 'co, 'm) deliverer_host \<Rightarrow> ('ts, 'y) denv shutdown_fn
    \<Rightarrow> ('cl, 'co) apache_consumer \<Rightarrow> ('ts, 'y) denv \<Rightarrow> ('ts, 'y) denv" where
  "deliverer_stop H telShutdown ac y = snd (telShutdown (snd (consumer_close (dh_sdk H) ac y)))"

definition deliverer_run ::
  "'ts ext \<Rightarrow> ('f, 'ts, 'l, 'y, 'cl, 'pr, 'co, 'm) deliverer_host \<Rightarrow> ('ts, 'y) denv
    \<Rightarrow> (goerr + ('ts, 'l, 'm, 'y) running_deliverer) \<times> ('ts, 'y) denv" where
  "deliverer_run E H x =
     (case deliverer_Load E (dh_env H) [] of
        Inl e \<Rightarrow> (Inl e, x)
      | Inr cfg \<Rightarrow>
     (case logging_New E (dh_json_handler H) (cfg_LogLevel (dc_shared cfg)) of
        Inl e \<Rightarrow> (Inl e, x)
      | Inr logger \<Rightarrow>
     (case telemetry_Init (dh_otel H) (telemetry_config_of (dc_shared cfg))
             (snd logger (deliverer_starting cfg) x) of
        (Inl e, x1) \<Rightarrow> (Inl e, x1)
      | (Inr telShutdown, x1) \<Rightarrow>
     (case buildProvider E (dh_client H) cfg x1 of
        (Inl e, x2) \<Rightarrow> (Inl e, snd (telShutdown x2))
      | (Inr push, x2) \<Rightarrow>
     (case NewApacheConsumer (dh_sdk H) (dh_logger_id H)
             (deliverer_consumer_options cfg (dh_logger_id H)) x2 of
        (Inl e, x3) \<Rightarrow> (Inl e, snd (telShutdown x3))
      | (Inr ac, x3) \<Rightarrow>
          (case deliverer_consumer H cfg logger push ac of
             Inl e \<Rightarrow> (Inl e, deliverer_stop H telShutdown ac x3)
           | Inr c \<Rightarrow>
               (Inr \<lparr>run_consumer = c, run_workers = dc_Concurrency cfg,
                     run_close = deliverer_stop H telShutdown ac\<rparr>, x3)))))))"

subsection \<open>What a deliverer that started is\<close>

definition deliverer_recorder :: "(log_line \<Rightarrow> 'l \<Rightarrow> 'l) \<Rightarrow> 'l record_fn" where
  "deliverer_recorder logger = slog_Record (NewSlogRecorder logger [outcomes_WithLogger (Some logger)])"

definition deliverer_ready ::
  "'ts ext \<Rightarrow> ('f, 'ts, 'l, 'y, 'cl, 'pr, 'co, 'm) deliverer_host \<Rightarrow> 'f deliverer_config
    \<Rightarrow> ('ts, ('ts, 'y) denv) push_provider_value \<Rightarrow> ('cl, 'co) apache_consumer
    \<Rightarrow> (log_line \<Rightarrow> 'l \<Rightarrow> 'l) \<times> ('ts, 'y) denv logger
    \<Rightarrow> ('ts, 'l, 'm, ('ts, 'y) denv) consumer \<Rightarrow> bool" where
  "deliverer_ready E H cfg push ac logger c \<longleftrightarrow>
     c_reader c = sdk_reader (dh_sdk H) ac \<and> c_logger c = snd logger
     \<and> c_recorder c = deliverer_recorder (fst logger)
     \<and> c_dispatcher c =
         (\<lparr>d_providers = [''pushover'' \<mapsto> push], d_recorder = Some (deliverer_recorder (fst logger)),
           d_clock = dh_now H, d_retry = configured_policy (dh_rand H) cfg,
           d_sleep = default_sleep (dh_wait H)\<rparr>, deliverer_recorder (fst logger))"

lemma deliverer_consumer_ready:
  "deliverer_consumer H cfg logger push ac = Inr c \<Longrightarrow> deliverer_ready E H cfg push ac logger c"
  by (auto simp: deliverer_consumer_def dispatcher_New_def consumer_New_def option_simps Let_def
      deliverer_ready_def deliverer_recorder_def)

lemma deliverer_consumer_Inr: "\<exists>c. deliverer_consumer H cfg logger push ac = Inr c"
  by (simp add: deliverer_consumer_def dispatcher_New_def consumer_New_def option_simps Let_def)

lemma ready_dispatcher:
  assumes "deliverer_ready E H cfg push ac logger c"
  shows "shares_recorder c" and "snd (c_dispatcher c) = c_recorder c"
    and "rp_MaxAttempts (d_retry (fst (c_dispatcher c))) = dc_RetryMaxAttempts cfg"
    and "resolve (fst (c_dispatcher c)) m = Inr q \<Longrightarrow> q = push"
    and "n_target m = Some (Notification_Pushover t) \<Longrightarrow> resolve (fst (c_dispatcher c)) m = Inr push"
  using assms
  by (auto simp: deliverer_ready_def shares_recorder_def configured_policy_def NewPolicy_def
      option_simps resolve_def split: option.splits target.splits)

text \<open>The provider of a configuration \<open>Load\<close> accepted.\<close>

definition provider_of :: "'ts ext \<Rightarrow> 'f deliverer_config \<Rightarrow> ('ts, ('ts, 'y) denv) push_provider_value \<Rightarrow> bool" where
  "provider_of E cfg push \<longleftrightarrow>
     (dc_Provider cfg = ProviderPushover
        \<and> (\<exists>p. push = pushover_value E p \<and> po_appToken p = dc_PushoverAppToken cfg \<and> po_appToken p \<noteq> []))
     \<or> (dc_Provider cfg = ProviderSandbox \<and> push = sandbox_value)"

lemma buildProvider_Inr:
  "buildProvider E cl cfg x = (Inr push, x') \<Longrightarrow> provider_of E cfg push"
  by (auto simp: buildProvider_def provider_of_def pushover_New_def option_simps Let_def
      split: if_splits)

lemma deliverer_run_ready:
  assumes "deliverer_run E H x = (Inr dv, x')"
  obtains cfg push ac logger tel x1 x2 where
    "deliverer_Load E (dh_env H) [] = Inr cfg" "provider_of E cfg push"
    "deliverer_ready E H cfg push ac logger (run_consumer dv)" "run_workers dv = dc_Concurrency cfg"
    "logging_New E (dh_json_handler H) (cfg_LogLevel (dc_shared cfg)) = Inr logger"
    "telemetry_Init (dh_otel H) (telemetry_config_of (dc_shared cfg))
       (snd logger (deliverer_starting cfg) x) = (Inr tel, x1)"
    "buildProvider E (dh_client H) cfg x1 = (Inr push, x2)"
    "NewApacheConsumer (dh_sdk H) (dh_logger_id H)
       (deliverer_consumer_options cfg (dh_logger_id H)) x2 = (Inr ac, x')"
    "run_close dv = deliverer_stop H tel ac"
proof -
  from assms obtain cfg where cfg: "deliverer_Load E (dh_env H) [] = Inr cfg"
    by (auto simp: deliverer_run_def split: sum.splits)
  with assms obtain logger where lg:
    "logging_New E (dh_json_handler H) (cfg_LogLevel (dc_shared cfg)) = Inr logger"
    by (auto simp: deliverer_run_def split: sum.splits)
  from assms cfg lg obtain tel x1 where tel:
    "telemetry_Init (dh_otel H) (telemetry_config_of (dc_shared cfg))
       (snd logger (deliverer_starting cfg) x) = (Inr tel, x1)"
    by (auto simp: deliverer_run_def split: sum.splits prod.splits)
  from assms cfg lg tel obtain push x2 where
    p: "buildProvider E (dh_client H) cfg x1 = (Inr push, x2)"
    by (auto simp: deliverer_run_def split: sum.splits prod.splits)
  from assms cfg lg tel p obtain ac x3 where
    ac: "NewApacheConsumer (dh_sdk H) (dh_logger_id H)
       (deliverer_consumer_options cfg (dh_logger_id H)) x2 = (Inr ac, x3)"
    by (auto simp: deliverer_run_def split: sum.splits prod.splits)
  obtain c where c: "deliverer_consumer H cfg logger push ac = Inr c"
    using deliverer_consumer_Inr by blast
  from assms cfg lg tel p ac c have dv: "run_consumer dv = c" "run_workers dv = dc_Concurrency cfg"
    "run_close dv = deliverer_stop H tel ac" "x3 = x'"
    by (auto simp: deliverer_run_def)
  show thesis
    by (rule that[OF cfg buildProvider_Inr[OF p] deliverer_consumer_ready[OF c, folded dv(1)] dv(2) lg tel p
          ac[unfolded dv(4)] dv(3)])
qed

text \<open>A deliverer that starts is complete: it has at least one worker, at least one attempt per
  notification, a reader on the configured subscription, a provider for the target arm of the
  schema, with an application token where that is Pushover, and one recorder that consumer and
  dispatcher share.\<close>

lemma started_deliverer_is_ready:
  assumes "deliverer_run E H x = (Inr dv, x')"
  shows "\<exists>cfg push ac logger. deliverer_Load E (dh_env H) [] = Inr cfg \<and> provider_of E cfg push
     \<and> deliverer_ready E H cfg push ac logger (run_consumer dv)
     \<and> shares_recorder (run_consumer dv) \<and> 0 < run_workers dv
     \<and> 0 < rp_MaxAttempts (d_retry (fst (c_dispatcher (run_consumer dv))))"
proof -
  obtain cfg push ac logger where d: "deliverer_Load E (dh_env H) [] = Inr cfg" "provider_of E cfg push"
    "deliverer_ready E H cfg push ac logger (run_consumer dv)" "run_workers dv = dc_Concurrency cfg"
    by (rule deliverer_run_ready[OF assms])
  with ready_dispatcher(1,3)[OF d(3)] deliverer_Load_Inr[OF d(1)] show ?thesis by fastforce
qed

subsection \<open>Outcomes of a running deliverer\<close>

text \<open>The clock, the random numbers and the timers do not touch the sandbox's state.\<close>

definition leaves_sandbox :: "('f, 'ts, 'l, 'y, 'cl, 'pr, 'co, 'm) deliverer_host \<Rightarrow> bool" where
  "leaves_sandbox H \<longleftrightarrow> (\<forall>x. de_sandbox (snd (dh_now H x)) = de_sandbox x
     \<and> de_sandbox (snd (dh_rand H x)) = de_sandbox x
     \<and> (\<forall>dur. de_sandbox (snd (dh_wait H dur x)) = de_sandbox x))"

lemma sandbox_push_keeps:
  "typed_script (de_sandbox x) \<Longrightarrow> typed_script (de_sandbox (snd (sandbox_push n x)))"
  by (rule sandbox_process.push_ok[where n = n and res = "fst (sandbox_push n x)"]) simp_all

lemma ready_env_ok:
  assumes "deliverer_ready E H cfg sandbox_value ac logger c" and "leaves_sandbox H"
  shows "env_ok (\<lambda>x. typed_script (de_sandbox x)) (fst (c_dispatcher c)) sandbox_value"
    using assms sandbox_push_keeps
    by (auto simp: env_ok_def deliverer_ready_def leaves_sandbox_def default_sleep_def
        configured_policy_def NewPolicy_def option_simps sandbox_value_def)

lemma ready_concludes:
  assumes "deliverer_ready E H cfg push ac logger c" and "provider_of E cfg push"
    and "leaves_sandbox H" and "typed_script (de_sandbox (dw_env w))" and "0 < dc_RetryMaxAttempts cfg"
  shows "\<exists>oc pname cls w'. Dispatch E (fst (c_dispatcher c)) (c_recorder c) (Some m) w = (None, w')
     \<and> concluded (c_recorder c) oc pname cls w w'
     \<and> oc_NotificationID oc = n_notification_id m \<and> oc_Attempts oc = int (length cls)
     \<and> reason_fits (oc_Status oc) (oc_Reason oc)
     \<and> (cls \<noteq> [] \<or> oc_Status oc = StatusExpired \<or> resolve (fst (c_dispatcher c)) m \<noteq> Inr push)"
proof -
  note ready = ready_dispatcher[OF assms(1)]
  have r: "\<forall>q. resolve (fst (c_dispatcher c)) m = Inr q \<longrightarrow> q = push"
    and n: "0 < rp_MaxAttempts (d_retry (fst (c_dispatcher c)))"
    using ready(3,4) assms(5) by simp_all
  from assms(2) consider p where "push = pushover_value E p" | "push = sandbox_value"
    unfolding provider_of_def by blast
  then show ?thesis
  proof cases
    case (1 p)
    then have "pv_Push push = pushover_Push E p" by (simp add: pushover_value_def)
    from push_provider.dispatch_reason_fits[OF pushover.push_provider_axioms env_ok_True TrueI this r n] show ?thesis .
  next
    case 2
    then have "pv_Push push = sandbox_push" by (simp add: sandbox_value_def)
    from sandbox_process.dispatch_reason_fits[OF ready_env_ok[OF assms(1)[unfolded 2] assms(3)]
        assms(4) this[unfolded 2] r[unfolded 2] n]
    show ?thesis unfolding 2 .
  qed
qed

text \<open>C29: Every notification a started deliverer dispatches ends in one outcome under its identifier,
  whose reason is one the data model lists for its status; unless it has expired or its target is
  not the one the schema has, it was pushed at least once.\<close>

theorem started_deliverer_concludes:
  assumes "deliverer_run E H x = (Inr dv, x')" and "leaves_sandbox H"
    and "typed_script (de_sandbox (dw_env w))" and "c = run_consumer dv"
  shows "\<exists>oc pname cls w'. Dispatch E (fst (c_dispatcher c)) (c_recorder c) (Some m) w = (None, w')
     \<and> concluded (c_recorder c) oc pname cls w w'
     \<and> oc_NotificationID oc = n_notification_id m \<and> oc_Attempts oc = int (length cls)
     \<and> reason_fits (oc_Status oc) (oc_Reason oc)
     \<and> (cls \<noteq> [] \<or> oc_Status oc = StatusExpired
        \<or> (\<forall>t. n_target m \<noteq> Some (Notification_Pushover t)))"
proof -
  obtain cfg push ac logger where d: "deliverer_Load E (dh_env H) [] = Inr cfg" "provider_of E cfg push"
    "deliverer_ready E H cfg push ac logger c" "run_workers dv = dc_Concurrency cfg"
    using deliverer_run_ready[OF assms(1)] assms(4) by metis
  have n: "0 < dc_RetryMaxAttempts cfg" using deliverer_Load_Inr[OF d(1)] by simp
  from ready_concludes[OF d(3,2) assms(2,3) n, of m] ready_dispatcher(5)[OF d(3), of m]
  show ?thesis by blast
qed

end
