(* ===== verification/Writer_Main.thy ===== *)
theory Writer_Main
  imports Server_Spec Telemetry
begin

text \<open>
  \<open>cmd/writer\<close>: how \<open>run\<close> builds the writer from its configuration, in the source's order, with the
  deferred clean-up on every early return. The value returned on success is the server with the
  clean-up still owed; what \<open>run\<close> does with it is in the theory Writer_Process.
\<close>

record 'x running_writer =
  run_handler :: "'x writer_world handler"
  run_address :: string
  run_logger :: "'x http_logger"
  run_stop :: "'x \<Rightarrow> 'x"

text \<open>The libraries and the surroundings of the process, as one record.\<close>

record ('f, 'x, 'cl, 'pr, 'co, 'm) writer_host =
  wh_env :: "goerr + 'f writer_config"
  wh_json_handler :: "slog_level \<Rightarrow> 'x http_logger"
  wh_otel :: "('f, 'x) otel_sdk"
  wh_read_file :: "string \<Rightarrow> goerr + string"
  wh_open_file :: "string \<Rightarrow> goerr + opened_file"
  wh_sdk :: "('x, 'cl, 'pr, 'co, 'm) pulsar_sdk"
  wh_logger_id :: nat
  wh_now :: "'x \<Rightarrow> gotime \<times> 'x"
  wh_newV7 :: "'x \<Rightarrow> (goerr + string) \<times> 'x"
  wh_bind :: "string \<Rightarrow> goerr + string"
  wh_mux :: "'x writer_world mux"

definition writer_publisher_options ::
  "'f writer_config \<Rightarrow> nat \<Rightarrow> (pl_options \<Rightarrow> pl_options) list" where
  "writer_publisher_options cfg lg =
     [WithServiceURL (cfg_PulsarServiceURL (wc_shared cfg)),
      WithTopic (cfg_PulsarTopic (wc_shared cfg)),
      WithEncryptionKeyReader
        (Some (NewFileCryptoKeyReader (cfg_PulsarEncryptionKeyDir (wc_shared cfg)))),
      WithEncryptionKeyNames (EncryptionKeyNames cfg),
      pl_WithLogger (Some lg)]"

text \<open>From the publisher on: the parts that only need values already checked.\<close>

definition writer_server ::
  "'ts ext \<Rightarrow> ('f, 'x, 'cl, 'pr, 'co, 'm) writer_host \<Rightarrow> 'f writer_config \<Rightarrow> 'x http_logger
    \<Rightarrow> tokens \<Rightarrow> ('cl, 'pr) apache_publisher \<Rightarrow> goerr + 'x writer_world handler" where
  "writer_server E H cfg logger bearer pub =
     bind_res (NewIngester (wh_now H) (wh_newV7 H)
                 [WithPublisher (Some (apache_publish (wh_sdk H) pub))])
       (\<lambda>ingester.
         bind_res (NewHandlers
                     [WithIngester (Some ingester),
                      WithRequestIDExtractor (Some RequestIDFromContext)])
           (\<lambda>handlers.
             NewServer E (wh_bind H) (wh_newV7 H) (wh_mux H) logger
               [WithHandler (Some handlers), WithAuthenticator (Some (Authenticate bearer)),
                WithLogger (Some logger), WithAddress (wc_HTTPAddr cfg)]))"

definition writer_starting :: "'f writer_config \<Rightarrow> http_log" where
  "writer_starting cfg = WriterStarting (wc_HTTPAddr cfg) (cfg_PulsarServiceURL (wc_shared cfg))
     (cfg_PulsarTopic (wc_shared cfg)) (EncryptionKeyNames cfg)"

text \<open>The deferred functions of \<open>run\<close>, last one first; their errors are dropped.\<close>

definition writer_stop ::
  "('f, 'x, 'cl, 'pr, 'co, 'm) writer_host \<Rightarrow> 'x shutdown_fn \<Rightarrow> ('cl, 'pr) apache_publisher \<Rightarrow> 'x \<Rightarrow> 'x" where
  "writer_stop H telShutdown pub y = snd (telShutdown (snd (publisher_close (wh_sdk H) pub y)))"

definition writer_run ::
  "'ts ext \<Rightarrow> ('f, 'x, 'cl, 'pr, 'co, 'm) writer_host \<Rightarrow> 'x \<Rightarrow> (goerr + 'x running_writer) \<times> 'x" where
  "writer_run E H x =
     (case writer_Load (wh_env H) [] of
        Inl e \<Rightarrow> (Inl e, x)
      | Inr cfg \<Rightarrow>
     (case logging_New E (wh_json_handler H) (cfg_LogLevel (wc_shared cfg)) of
        Inl e \<Rightarrow> (Inl e, x)
      | Inr logger \<Rightarrow>
     (case telemetry_Init (wh_otel H) (telemetry_config_of (wc_shared cfg)) (logger (writer_starting cfg) x) of
        (Inl e, x1) \<Rightarrow> (Inl e, x1)
      | (Inr telShutdown, x1) \<Rightarrow>
     (case LoadKeySet E (wh_read_file H) (cfg_PulsarEncryptionKeyDir (wc_shared cfg))
             (EncryptionKeyNames cfg) of
        Inl e \<Rightarrow> (Inl e, snd (telShutdown x1))
      | Inr _ \<Rightarrow>
     (case NewBearer (wh_open_file H) [WithTokensFile (wc_BearerTokensFile cfg)] of
        Inl e \<Rightarrow> (Inl e, snd (telShutdown x1))
      | Inr bearer \<Rightarrow>
     (case NewApachePublisher (wh_sdk H) (wh_logger_id H)
             (writer_publisher_options cfg (wh_logger_id H)) x1 of
        (Inl e, x2) \<Rightarrow> (Inl e, snd (telShutdown x2))
      | (Inr pub, x2) \<Rightarrow>
          (case writer_server E H cfg logger bearer pub of
             Inl e \<Rightarrow> (Inl e, writer_stop H telShutdown pub x2)
           | Inr h \<Rightarrow>
               (Inr \<lparr>run_handler = h, run_address = wc_HTTPAddr cfg, run_logger = logger,
                     run_stop = writer_stop H telShutdown pub\<rparr>, x2))))))))"

subsection \<open>What a writer that started is\<close>

lemma writer_server_Inr:
  assumes "writer_server E H cfg logger bearer pub = Inr h"
  obtains hs i where
    "h = server_chain E (wh_bind H) (wh_newV7 H) (wh_mux H) logger hs (Authenticate bearer)"
    "h_ingester hs = Some i" "i_publisher i = Some (apache_publish (wh_sdk H) pub)"
    "i_clock i = wh_now H" "i_idFn i = newUUIDv7 (wh_newV7 H)"
    "h_requestID hs = Some RequestIDFromContext" "wc_HTTPAddr cfg \<noteq> []"
proof -
  let ?i = "\<lparr>i_publisher = Some (apache_publish (wh_sdk H) pub), i_clock = wh_now H,
      i_idFn = newUUIDv7 (wh_newV7 H)\<rparr>"
  let ?h = "\<lparr>h_ingester = Some ?i, h_requestID = Some RequestIDFromContext\<rparr>"
  have "NewIngester (wh_now H) (wh_newV7 H) [WithPublisher (Some (apache_publish (wh_sdk H) pub))]
      = Inr ?i"
    by (simp add: NewIngester_def option_simps Let_def)
  moreover have "NewHandlers [WithIngester (Some ?i), WithRequestIDExtractor (Some RequestIDFromContext)]
      = Inr ?h"
    by (simp add: NewHandlers_def option_simps Let_def)
  ultimately have "h = server_chain E (wh_bind H) (wh_newV7 H) (wh_mux H) logger ?h (Authenticate bearer)
      \<and> wc_HTTPAddr cfg \<noteq> []"
    using assms by (auto simp: writer_server_def NewServer_def option_simps Let_def split: if_splits)
  then show thesis by (intro that[of ?h ?i]) simp_all
qed

text \<open>The facts about a started writer, over which the properties of the server apply.\<close>

definition writer_ready ::
  "'ts ext \<Rightarrow> ('f, 'x, 'cl, 'pr, 'co, 'm) writer_host \<Rightarrow> 'f writer_config \<Rightarrow> 'x http_logger
    \<Rightarrow> tokens \<Rightarrow> ('cl, 'pr) apache_publisher \<Rightarrow> 'x handlers \<Rightarrow> 'x ingester \<Rightarrow> 'x running_writer \<Rightarrow> bool" where
  "writer_ready E H cfg logger bearer pub hs i srv \<longleftrightarrow>
     run_handler srv = server_chain E (wh_bind H) (wh_newV7 H) (wh_mux H) logger hs (Authenticate bearer)
     \<and> run_address srv = wc_HTTPAddr cfg \<and> wc_HTTPAddr cfg \<noteq> []
     \<and> h_ingester hs = Some i \<and> i_publisher i = Some (apache_publish (wh_sdk H) pub)
     \<and> i_clock i = wh_now H \<and> i_idFn i = newUUIDv7 (wh_newV7 H)
     \<and> h_requestID hs = Some RequestIDFromContext \<and> run_logger srv = logger"

lemma writer_run_ready:
  assumes "writer_run E H x = (Inr srv, x')"
  obtains cfg logger bearer pub hs i x1 telShutdown where
    "writer_Load (wh_env H) [] = Inr cfg"
    "NewBearer (wh_open_file H) [WithTokensFile (wc_BearerTokensFile cfg)] = Inr bearer"
    "LoadKeySet E (wh_read_file H) (cfg_PulsarEncryptionKeyDir (wc_shared cfg)) (EncryptionKeyNames cfg)
       = Inr \<lparr>ks_dir = cfg_PulsarEncryptionKeyDir (wc_shared cfg), ks_active_names = EncryptionKeyNames cfg\<rparr>"
    "telemetry_Init (wh_otel H) (telemetry_config_of (wc_shared cfg)) (logger (writer_starting cfg) x)
       = (Inr telShutdown, x1)"
    "logging_New E (wh_json_handler H) (cfg_LogLevel (wc_shared cfg)) = Inr logger"
    "run_stop srv = writer_stop H telShutdown pub"
    "NewApachePublisher (wh_sdk H) (wh_logger_id H)
       (writer_publisher_options cfg (wh_logger_id H)) x1 = (Inr pub, x')"
    "writer_ready E H cfg logger bearer pub hs i srv"
proof -
  from assms obtain cfg where cfg: "writer_Load (wh_env H) [] = Inr cfg"
    by (auto simp: writer_run_def split: sum.splits)
  with assms obtain logger where lg:
    "logging_New E (wh_json_handler H) (cfg_LogLevel (wc_shared cfg)) = Inr logger"
    by (auto simp: writer_run_def split: sum.splits)
  from assms cfg lg obtain tel x1 where tel:
    "telemetry_Init (wh_otel H) (telemetry_config_of (wc_shared cfg)) (logger (writer_starting cfg) x)
       = (Inr tel, x1)"
    by (auto simp: writer_run_def split: sum.splits prod.splits)
  from assms cfg lg tel obtain ks where ks: "LoadKeySet E (wh_read_file H)
      (cfg_PulsarEncryptionKeyDir (wc_shared cfg)) (EncryptionKeyNames cfg) = Inr ks"
    by (auto simp: writer_run_def split: sum.splits)
  from assms cfg lg tel ks obtain bearer where b:
    "NewBearer (wh_open_file H) [WithTokensFile (wc_BearerTokensFile cfg)] = Inr bearer"
    by (auto simp: writer_run_def split: sum.splits)
  obtain pr x2 where "NewApachePublisher (wh_sdk H) (wh_logger_id H)
      (writer_publisher_options cfg (wh_logger_id H)) x1 = (pr, x2)" by force
  with assms cfg lg tel ks b obtain pub where p: "NewApachePublisher (wh_sdk H) (wh_logger_id H)
      (writer_publisher_options cfg (wh_logger_id H)) x1 = (Inr pub, x2)"
    by (cases pr) (auto simp: writer_run_def)
  from assms cfg lg tel ks b p obtain h where h: "writer_server E H cfg logger bearer pub = Inr h"
    and srv: "run_handler srv = h" "run_address srv = wc_HTTPAddr cfg" "x' = x2"
    and st: "run_logger srv = logger" "run_stop srv = writer_stop H tel pub"
    by (auto simp: writer_run_def Let_def split: sum.splits)
  obtain hs i where
    "h = server_chain E (wh_bind H) (wh_newV7 H) (wh_mux H) logger hs (Authenticate bearer)"
    "h_ingester hs = Some i" "i_publisher i = Some (apache_publish (wh_sdk H) pub)"
    "i_clock i = wh_now H" "i_idFn i = newUUIDv7 (wh_newV7 H)"
    "h_requestID hs = Some RequestIDFromContext" "wc_HTTPAddr cfg \<noteq> []"
    by (rule writer_server_Inr[OF h])
  then have "writer_ready E H cfg logger bearer pub hs i srv"
    by (simp add: writer_ready_def srv st)
  moreover have "ks = \<lparr>ks_dir = cfg_PulsarEncryptionKeyDir (wc_shared cfg),
      ks_active_names = EncryptionKeyNames cfg\<rparr>"
    using ks by (simp add: LoadKeySet_Inr)
  ultimately show thesis
    using cfg lg b ks tel p srv(3) st(2) by (intro that) simp_all
qed

text \<open>A writer that starts has everything the properties of its server need: its configuration
  names at least one encryption key and every public key named could be read, the bearer tokens are
  those of the configured file, and its root handler is the middleware stack over a handler whose
  ingester publishes through the Pulsar producer created from that configuration.\<close>

lemma started_writer_is_ready:
  assumes "writer_run E H x = (Inr srv, x')"
  shows "\<exists>cfg logger bearer pub hs i.
     writer_Load (wh_env H) [] = Inr cfg
     \<and> NewBearer (wh_open_file H) [WithTokensFile (wc_BearerTokensFile cfg)] = Inr bearer
     \<and> EncryptionKeyNames cfg \<noteq> []
     \<and> list_all (\<lambda>n. \<not> is_err (PublicKey E (wh_read_file H)
           (NewFileCryptoKeyReader (cfg_PulsarEncryptionKeyDir (wc_shared cfg))) n)) (EncryptionKeyNames cfg)
     \<and> (\<exists>x1. NewApachePublisher (wh_sdk H) (wh_logger_id H)
           (writer_publisher_options cfg (wh_logger_id H)) x1 = (Inr pub, x'))
     \<and> writer_ready E H cfg logger bearer pub hs i srv"
proof -
  obtain cfg logger bearer pub hs i x1 tel where w:
    "writer_Load (wh_env H) [] = Inr cfg"
    "NewBearer (wh_open_file H) [WithTokensFile (wc_BearerTokensFile cfg)] = Inr bearer"
    and ks: "LoadKeySet E (wh_read_file H) (cfg_PulsarEncryptionKeyDir (wc_shared cfg)) (EncryptionKeyNames cfg)
       = Inr \<lparr>ks_dir = cfg_PulsarEncryptionKeyDir (wc_shared cfg), ks_active_names = EncryptionKeyNames cfg\<rparr>"
    and p: "NewApachePublisher (wh_sdk H) (wh_logger_id H)
       (writer_publisher_options cfg (wh_logger_id H)) x1 = (Inr pub, x')"
      "writer_ready E H cfg logger bearer pub hs i srv"
    by (rule writer_run_ready[OF assms])
  from ks have "EncryptionKeyNames cfg \<noteq> []"
    and "list_all (\<lambda>n. \<not> is_err (PublicKey E (wh_read_file H)
           (NewFileCryptoKeyReader (cfg_PulsarEncryptionKeyDir (wc_shared cfg))) n)) (EncryptionKeyNames cfg)"
    by (simp_all add: LoadKeySet_Inr list_all_iff not_is_err)
  with w p show ?thesis by blast
qed

text \<open>The submission setting of the server's properties, for a started writer.\<close>

lemma writer_submission_setup:
  assumes "writer_ready E H cfg logger bearer pub hs i srv" and "mux_contract (wh_mux H)"
    and "r_method r = ''POST''" "r_path r = notifications_path"
    and "new_request_id (wh_newV7 H) r env = (rid, env')"
    and "BearerToken r \<noteq> []" "bearer (BearerToken r) = Some p"
    and "bind_key (wh_bind H) r = Some idem"
  shows "submission_setup (wh_mux H) (wh_bind H) (wh_newV7 H) (Authenticate bearer) hs i
     (apache_publish (wh_sdk H) pub) r env rid env' p idem"
  using assms by (simp add: submission_setup_def writer_ready_def Authenticate_Inr_iff)

end
