(* ===== verification/Requests.thy ===== *)
theory Requests
  imports Server_Spec
begin

text \<open>
  The writer under load: \<open>net/http\<close> runs the handler of every request in a goroutine of its own, and
  all of them share the publisher, the counters and the log. A request stands at one of the points
  of the middleware stack, of \<open>SubmitNotification\<close> and of \<open>Accept\<close> between two calls that leave the
  goroutine; \<open>thread_step\<close> takes it to the next. The calls in between (an identifier, the clock,
  the publisher, the counters, the log) are guarded by their libraries and are steps. Running by
  itself, a request is the handler of \<open>NewServer\<close>; the requests of a connection pool are in the
  theory Request_Pool.
\<close>

subsection \<open>One request\<close>

text \<open>What the stack of \<open>NewServer\<close> is built over.\<close>

record 'x stack =
  sk_bind :: "string \<Rightarrow> goerr + string"
  sk_newV7 :: "'x \<Rightarrow> (goerr + string) \<times> 'x"
  sk_mux :: "'x writer_world mux"
  sk_logger :: "'x http_logger"
  sk_handlers :: "'x handlers"
  sk_authn :: "request \<Rightarrow> goerr + principal"

definition stack_chain :: "'ts ext \<Rightarrow> 'x stack \<Rightarrow> 'x writer_world handler" where
  "stack_chain E S = server_chain E (sk_bind S) (sk_newV7 S) (sk_mux S) (sk_logger S) (sk_handlers S) (sk_authn S)"

text \<open>
  The local variables of a submission. A receipt is what the deferred function counts it under,
  with the identifier it was published under, if it was; later points keep it, to compare.
\<close>

record 'x job =
  jb_request :: request
  jb_id :: string
  jb_rid :: string
  jb_service :: string
  jb_ingester :: "'x ingester"
  jb_publish :: "'x publisher_fn"

record receipt =
  rc_outcome :: string
  rc_service :: string
  rc_sent :: "string option"

datatype ('ts, 'x) thread =
    Arrived request
  | Identified request string
  | Clocking "'x job" "'ts notification"
  | Naming "'x job" "'ts notification" gotime
  | Sending "'x job" string gotime string
  | Measuring "'x job" string gotime "goerr option"
  | Counting "'x job" receipt response_writer
  | Logging request string "receipt option" response_writer
  | Panicking request string response_writer
  | Answered request string "receipt option" response_writer

definition start_writer :: "string \<Rightarrow> response_writer" where
  "start_writer rid = set_header ''X-Request-Id'' rid new_writer"

definition refuse :: "'ts ext \<Rightarrow> 'x job \<Rightarrow> goerr \<Rightarrow> ('ts, 'x) thread" where
  "refuse E j err = Counting j
     \<lparr>rc_outcome = outcomeForIngestError err, rc_service = jb_service j, rc_sent = None\<rparr>
     (writeIngestError E (start_writer (jb_id j)) (jb_request j) (jb_rid j) err)"

text \<open>From the handler's start to the first call of \<open>Accept\<close> that leaves the goroutine.\<close>

definition submit_begin ::
  "'ts ext \<Rightarrow> 'x handlers \<Rightarrow> request \<Rightarrow> string \<Rightarrow> principal \<Rightarrow> string option \<Rightarrow> ('ts, 'x) thread" where
  "submit_begin E h r rid p idem =
     (let r2 = authed_request rid p r; w = start_writer rid in
      case (h_requestID h, Option.bind (h_ingester h) (\<lambda>i. map_option (Pair i) (i_publisher i))) of
        (Some f, Some (i, publish)) \<Rightarrow>
          (let j = \<lparr>jb_request = r, jb_id = rid, jb_rid = f r2, jb_service = service_name p,
                    jb_ingester = i, jb_publish = publish\<rparr>
           in case decodeBody E r2 (f r2) of
                Inl perr \<Rightarrow>
                  Counting j \<lparr>rc_outcome = OutcomeValidationFailed, rc_service = [], rc_sent = None\<rparr>
                    (write_problem E perr w)
              | Inr n \<Rightarrow>
                  (let n1 = with_key idem n in
                   case Validate E n1 of Some verr \<Rightarrow> refuse E j verr | None \<Rightarrow> Clocking j n1))
      | _ \<Rightarrow> Panicking r rid w)"

text \<open>From the request identifier through authentication and routing.\<close>

definition route_request :: "'ts ext \<Rightarrow> 'x stack \<Rightarrow> request \<Rightarrow> string \<Rightarrow> 'x writer_world \<Rightarrow> ('ts, 'x) thread" where
  "route_request E S r rid x =
     (let r1 = r\<lparr>ctx_request_id := Some rid\<rparr>; w = start_writer rid in
      if r_path r = ''/healthz'' then Logging r rid None (write_header 204 w)
      else case sk_authn S r1 of
        Inl err \<Rightarrow>
          Logging r rid None
            (write_problem E (if errors_is err ErrNoCredentials then AuthenticationRequired rid (r_path r)
                              else AuthenticationFailed rid (r_path r)) w)
      | Inr p \<Rightarrow>
          (if r_method r = ''POST'' \<and> r_path r = notifications_path then
             (case bind_key (sk_bind S) r of
                None \<Rightarrow> Panicking r rid w
              | Some idem \<Rightarrow> submit_begin E (sk_handlers S) r rid p idem)
           else Logging r rid None
             (fst (handled_val (sk_mux S (server_routes E (sk_bind S) (sk_handlers S))
               (authed_request rid p r) w x)))))"

fun thread_step ::
  "'ts ext \<Rightarrow> 'x stack \<Rightarrow> ('ts, 'x) thread \<Rightarrow> 'x writer_world \<Rightarrow> ('ts, 'x) thread \<times> 'x writer_world" where
  "thread_step E S (Arrived r) x =
     (case new_request_id (sk_newV7 S) r (ww_env x) of (rid, env') \<Rightarrow> (Identified r rid, x\<lparr>ww_env := env'\<rparr>))"
| "thread_step E S (Identified r rid) x = (route_request E S r rid x, x)"
| "thread_step E S (Clocking j n) x =
     (case i_clock (jb_ingester j) (ww_env x) of (t, x1) \<Rightarrow> (Naming j n (truncate_ms t), x\<lparr>ww_env := x1\<rparr>))"
| "thread_step E S (Naming j n now) x =
     (case i_idFn (jb_ingester j) (ww_env x) of
        (Inl e, x2) \<Rightarrow> (refuse E j (WrapErr ''ingest: generate notification_id'' e), x\<lparr>ww_env := x2\<rparr>)
      | (Inr nid, x2) \<Rightarrow>
          (case x_marshal E (assign_fields E nid now (jb_service j) n) of
             Inl e \<Rightarrow> refuse E j (WrapErr ''ingest: marshal notification'' e)
           | Inr body \<Rightarrow> Sending j nid now body, x\<lparr>ww_env := x2\<rparr>))"
| "thread_step E S (Sending j nid now body) x =
     (case jb_publish j \<lparr>in_body = body, in_notification_id = nid\<rparr> (ww_env x) of
        (e, x3) \<Rightarrow> (Measuring j nid now e, x\<lparr>ww_env := x3\<rparr>))"
| "thread_step E S (Measuring j nid now e) x =
     (case e of
        Some err \<Rightarrow> refuse E j err
      | None \<Rightarrow>
          Counting j \<lparr>rc_outcome = OutcomeAccepted, rc_service = jb_service j, rc_sent = Some nid\<rparr>
            (accepted_answer E (jb_rid j) \<lparr>ar_notification_id = nid, ar_accepted_at = now\<rparr>
              (start_writer (jb_id j))),
      x\<lparr>ww_metrics := RecordPublishDuration (ww_metrics x)\<rparr>)"
| "thread_step E S (Counting j rc w) x =
     (Logging (jb_request j) (jb_id j) (Some rc) w,
      x\<lparr>ww_metrics := RecordWriterSubmission (rc_outcome rc) (rc_service rc) (ww_metrics x)\<rparr>)"
| "thread_step E S (Logging r rid rc w) x =
     (Answered r rid rc w,
      on_env (sk_logger S (HttpRequest (r_method r) (r_path r) (captured_status (start_writer rid) w) rid)) x)"
| "thread_step E S (Panicking r rid w) x =
     (Answered r rid None (http_error ''internal server error'' 500 w),
      on_env (sk_logger S (HttpPanic (r_path r) (RequestIDFromContext r))) x)"
| "thread_step E S (Answered r rid rc w) x = (Answered r rid rc w, x)"

fun answered :: "('ts, 'x) thread \<Rightarrow> bool" where
  "answered (Answered _ _ _ _) = True"
| "answered _ = False"

subsection \<open>A request by itself\<close>

definition thread_advance ::
  "'ts ext \<Rightarrow> 'x stack \<Rightarrow> ('ts, 'x) thread \<times> 'x writer_world \<Rightarrow> ('ts, 'x) thread \<times> 'x writer_world" where
  "thread_advance E S = (\<lambda>(t, x). thread_step E S t x)"

definition comes_to ::
  "'ts ext \<Rightarrow> 'x stack \<Rightarrow> ('ts, 'x) thread \<times> 'x writer_world \<Rightarrow> ('ts, 'x) thread \<times> 'x writer_world \<Rightarrow> bool" where
  "comes_to E S s t \<longleftrightarrow> (\<exists>k. (thread_advance E S ^^ k) s = t)"

lemma comes_to_refl [simp]: "comes_to E S s s"
  unfolding comes_to_def by (rule exI[of _ 0]) simp

lemma comes_to_step: "comes_to E S (thread_step E S t x) z \<Longrightarrow> comes_to E S (t, x) z"
proof -
  assume "comes_to E S (thread_step E S t x) z"
  then obtain k where "(thread_advance E S ^^ k) (thread_step E S t x) = z"
    by (auto simp: comes_to_def)
  then have "(thread_advance E S ^^ Suc k) (t, x) = z"
    by (simp only: funpow_Suc_right o_apply) (simp add: thread_advance_def)
  then show ?thesis unfolding comes_to_def by blast
qed

lemma comes_to_trans: "comes_to E S s t \<Longrightarrow> comes_to E S t u \<Longrightarrow> comes_to E S s u"
  unfolding comes_to_def by (metis funpow_add o_apply)

lemma writeIngestError_authed [simp]:
  "writeIngestError E w (authed_request rid p r) rid' err = writeIngestError E w r rid' err"
  unfolding writeIngestError_def authed_request_simps by (rule refl)

lemma comes_to_next:
  "thread_step E S t x = (t', x') \<Longrightarrow> comes_to E S (t', x') z \<Longrightarrow> comes_to E S (t, x) z"
  using comes_to_step[of E S t x z] by simp

lemma comes_to_last: "thread_step E S t x = z \<Longrightarrow> comes_to E S (t, x) z"
  using comes_to_step[of E S t x z] by simp

text \<open>\<open>Accept\<close> and what the handler makes of it, step by step.\<close>

definition accept_answer ::
  "'ts ext \<Rightarrow> 'x job \<Rightarrow> goerr + accept_result \<Rightarrow> ('ts, 'x) thread" where
  "accept_answer E j res =
     (case res of
        Inl err \<Rightarrow> refuse E j err
      | Inr ok \<Rightarrow>
          Counting j \<lparr>rc_outcome = OutcomeAccepted, rc_service = jb_service j,
              rc_sent = Some (ar_notification_id ok)\<rparr>
            (accepted_answer E (jb_rid j) ok (start_writer (jb_id j))))"

lemma Accept_comes_to:
  assumes "Accept E (jb_ingester j) (jb_publish j) (Some n) (jb_service j) x = (res, n', x')"
  shows "comes_to E S (case Validate E n of Some verr \<Rightarrow> refuse E j verr | None \<Rightarrow> Clocking j n, x)
     (accept_answer E j res, x')"
proof (cases "Validate E n")
  case (Some verr)
  with assms show ?thesis by (auto simp: Accept_def accept_answer_def)
next
  case None
  obtain t x1 where c: "i_clock (jb_ingester j) (ww_env x) = (t, x1)" by force
  obtain idr x2 where d: "i_idFn (jb_ingester j) x1 = (idr, x2)" by force
  let ?z = "(accept_answer E j res, x')"
  have "comes_to E S (Naming j n (truncate_ms t), x\<lparr>ww_env := x1\<rparr>) ?z"
  proof (cases idr)
    case (Inl e)
    with assms None c d have "?z = (refuse E j (WrapErr ''ingest: generate notification_id'' e), x\<lparr>ww_env := x2\<rparr>)"
      by (auto simp: Accept_def accept_answer_def Let_def)
    then show ?thesis by (intro comes_to_last) (simp add: d Inl)
  next
    case (Inr nid)
    let ?m = "assign_fields E nid (truncate_ms t) (jb_service j) n"
    show ?thesis
    proof (cases "x_marshal E ?m")
      case (Inl e)
      with assms None c d Inr have "?z = (refuse E j (WrapErr ''ingest: marshal notification'' e), x\<lparr>ww_env := x2\<rparr>)"
        by (auto simp: Accept_def accept_answer_def Let_def)
      with Inl show ?thesis by (intro comes_to_last) (simp add: d Inr)
    next
      case m: (Inr body)
      obtain e x3 where p: "jb_publish j \<lparr>in_body = body, in_notification_id = nid\<rparr> x2 = (e, x3)" by force
      let ?w = "\<lparr>ww_metrics = RecordPublishDuration (ww_metrics x), ww_env = x3\<rparr>"
      have "?z = (accept_answer E j (case e of Some err \<Rightarrow> Inl err
          | None \<Rightarrow> Inr \<lparr>ar_notification_id = nid, ar_accepted_at = truncate_ms t\<rparr>), ?w)"
        using assms None c d Inr m p by (auto simp: Accept_def timed_publish_def Let_def split: option.splits)
      then have "comes_to E S (Measuring j nid (truncate_ms t) e, x\<lparr>ww_env := x3\<rparr>) ?z"
        by (intro comes_to_last) (auto simp: accept_answer_def split: option.split)
      then have "comes_to E S (Sending j nid (truncate_ms t) body, x\<lparr>ww_env := x2\<rparr>) ?z"
        by (rule comes_to_next[rotated]) (simp add: p)
      then show ?thesis by (rule comes_to_next[rotated]) (simp add: d Inr m)
    qed
  qed
  then have "comes_to E S (Clocking j n, x) ?z" by (rule comes_to_next[rotated]) (simp add: c)
  with None show ?thesis by simp
qed

lemma submit_comes_to:
  assumes h: "h_requestID h = Some f" "h_ingester h = Some i" "i_publisher i = Some publish"
    and s: "submit_core E i publish (f (authed_request rid p r)) (start_writer rid) (authed_request rid p r) idem x
           = (oc, svc, w', x')"
  shows "\<exists>j sent. jb_request j = r \<and> jb_id j = rid
     \<and> comes_to E S (submit_begin E h r rid p idem, x)
         (Counting j \<lparr>rc_outcome = oc, rc_service = svc, rc_sent = sent\<rparr> w', x')"
proof -
  let ?rid = "f (authed_request rid p r)"
  let ?j = "\<lparr>jb_request = r, jb_id = rid, jb_rid = ?rid, jb_service = service_name p,
    jb_ingester = i, jb_publish = publish\<rparr>"
  show ?thesis
  proof (cases "decodeBody E r ?rid")
    case (Inl perr)
    then have "submit_begin E h r rid p idem =
        Counting ?j \<lparr>rc_outcome = OutcomeValidationFailed, rc_service = [], rc_sent = None\<rparr>
          (write_problem E perr (start_writer rid))"
      using h by (simp add: submit_begin_def Let_def)
    with Inl s show ?thesis
      by (intro exI[of _ ?j] exI[of _ None]) (simp add: submit_core_def)
  next
    case (Inr n)
    let ?n = "with_key idem n"
    have start: "submit_begin E h r rid p idem =
        (case Validate E ?n of Some verr \<Rightarrow> refuse E ?j verr | None \<Rightarrow> Clocking ?j ?n)"
      using h Inr by (simp add: submit_begin_def Let_def)
    obtain res n' y where a: "Accept E i publish (Some ?n) (service_name p) x = (res, n', y)"
      by (metis prod_cases3)
    from a have to: "comes_to E S (submit_begin E h r rid p idem, x) (accept_answer E ?j res, y)"
      unfolding start by (intro Accept_comes_to[where n' = n']) simp
    show ?thesis
    proof (cases res)
      case err: (Inl err)
      have "oc = outcomeForIngestError err" "svc = service_name p"
        "w' = writeIngestError E (start_writer rid) r ?rid err" "x' = y"
        using s a Inr err by (simp_all add: submit_core_def FromContext_def with_key_def[symmetric])
      with to err show ?thesis
        by (intro exI[of _ ?j] exI[of _ None]) (simp add: accept_answer_def refuse_def)
    next
      case ok: (Inr ok)
      have "oc = OutcomeAccepted" "svc = service_name p"
        "w' = accepted_answer E ?rid ok (start_writer rid)" "x' = y"
        using s a Inr ok
        by (simp_all add: submit_core_def FromContext_def with_key_def[symmetric] accepted_answer_def)
      with to ok show ?thesis
        by (intro exI[of _ ?j] exI[of _ "Some (ar_notification_id ok)"]) (simp add: accept_answer_def)
    qed
  qed
qed

text \<open>The stack above the log and below the recovery, on a request that has its identifier.\<close>

definition routed :: "'ts ext \<Rightarrow> 'x stack \<Rightarrow> request \<Rightarrow> string \<Rightarrow> 'x writer_world \<Rightarrow> (response_writer \<times> 'x writer_world) handled" where
  "routed E S r rid y =
     (let m = sk_mux S (server_routes E (sk_bind S) (sk_handlers S))
      in conditionalAuth m (Middleware E (sk_authn S) m [WithRequestIDFunc (Some RequestIDFromContext)])
           (r\<lparr>ctx_request_id := Some rid\<rparr>) (start_writer rid) y)"

lemma stack_chain_routed:
  assumes "new_request_id (sk_newV7 S) r (ww_env x) = (rid, env')"
  shows "stack_chain E S r new_writer x =
     (case routed E S r rid (x\<lparr>ww_env := env'\<rparr>) of
        Returned (w', x') \<Rightarrow> Returned (w', on_env (sk_logger S (HttpRequest (r_method r) (r_path r)
            (captured_status (start_writer rid) w') rid)) x')
      | Panicked (w', x') \<Rightarrow> Returned (http_error ''internal server error'' 500 w',
            on_env (sk_logger S (HttpPanic (r_path r) (RequestIDFromContext r))) x'))"
  using assms
  by (simp add: stack_chain_def server_chain_def recoverMiddleware_def requestIDMiddleware_def
      accessLogMiddleware_def routed_def start_writer_def RequestIDFromContext_def Let_def
      split: handled.split prod.split)

lemma routed_health:
  assumes "mux_contract (sk_mux S)" and "r_path r = ''/healthz''"
  shows "routed E S r rid y = Returned (write_header 204 (start_writer rid), y)"
proof -
  let ?r = "r\<lparr>ctx_request_id := Some rid\<rparr>" and ?R = "server_routes E (sk_bind S) (sk_handlers S)"
  have "find (route_matches ?r) ?R = Some (None, ''/healthz'', healthz)"
    using assms(2) by (simp add: server_routes_def)
  then have "sk_mux S ?R ?r w z = healthz ?r w z" for w z
    using assms(1)[unfolded mux_contract_def, rule_format, of ?R ?r w z] by simp
  then show ?thesis using assms(2) by (simp add: routed_def conditionalAuth_def healthz_def Let_def)
qed

lemma routed_rejected:
  assumes "r_path r \<noteq> ''/healthz''" and "rid \<noteq> []" and "sk_authn S (r\<lparr>ctx_request_id := Some rid\<rparr>) = Inl err"
  shows "routed E S r rid y = Returned
     (write_problem E (if errors_is err ErrNoCredentials then AuthenticationRequired rid (r_path r)
        else AuthenticationFailed rid (r_path r)) (start_writer rid), y)"
proof -
  have "auth_request_id (apply_opts [WithRequestIDFunc (Some RequestIDFromContext)] \<lparr>mo_requestID = None\<rparr>)
      (r\<lparr>ctx_request_id := Some rid\<rparr>) = rid"
    by (rule auth_request_id_router) (simp_all add: assms(2))
  then show ?thesis
    using assms(1,3) by (simp add: routed_def conditionalAuth_def Middleware_def Let_def)
qed

lemma routed_authed:
  assumes "r_path r \<noteq> ''/healthz''" and "sk_authn S (r\<lparr>ctx_request_id := Some rid\<rparr>) = Inr p"
  shows "routed E S r rid y = sk_mux S (server_routes E (sk_bind S) (sk_handlers S))
     (authed_request rid p r) (start_writer rid) y"
  using assms by (simp add: routed_def conditionalAuth_def Middleware_def authed_request_def Let_def)

lemma routed_submission:
  assumes "mux_contract (sk_mux S)" and "r_method r = ''POST''" and "r_path r = notifications_path"
    and "sk_authn S (r\<lparr>ctx_request_id := Some rid\<rparr>) = Inr p"
  shows "routed E S r rid y =
     (case bind_key (sk_bind S) r of
        None \<Rightarrow> Panicked (start_writer rid, y)
      | Some idem \<Rightarrow> SubmitNotification E (sk_handlers S) (start_writer rid) (authed_request rid p r) idem y)"
proof -
  have p: "r_path r \<noteq> ''/healthz''" using assms(3) by (simp add: notifications_path_def)
  have "routed E S r rid y = wrapper_SubmitNotification (sk_bind S)
     \<lparr>siw_Handler = SubmitNotification E (sk_handlers S), siw_ErrorHandlerFunc = None,
      siw_HandlerMiddlewares = []\<rparr> (authed_request rid p r) (start_writer rid) y"
    unfolding routed_authed[OF p assms(4)]
    by (rule mux_notifications[OF assms(1)]) (simp_all add: assms)
  then show ?thesis
    by (cases "bind_key (sk_bind S) r") (simp_all add: wrapper_refuses wrapper_runs)
qed

lemma routed_unmatched:
  assumes "mux_contract (sk_mux S)" and "\<not> (r_method r = ''POST'' \<and> r_path r = notifications_path)"
    and "r_path r \<noteq> ''/healthz''" and "sk_authn S (r\<lparr>ctx_request_id := Some rid\<rparr>) = Inr p"
  shows "\<exists>w'. routed E S r rid y = Returned (w', y)"
proof -
  let ?R = "server_routes E (sk_bind S) (sk_handlers S)"
  have "find (route_matches (authed_request rid p r)) ?R = None"
    using assms(2,3) by (auto simp: server_routes_def notifications_path_def)
  then show ?thesis
    using assms(1)[unfolded mux_contract_def, rule_format, of ?R "authed_request rid p r" "start_writer rid" y]
    by (simp add: routed_authed[OF assms(3,4)])
qed

text \<open>A request comes to the point its routed result says; first a submission that is authenticated.\<close>

definition comes_to_routed :: "'ts ext \<Rightarrow> 'x stack \<Rightarrow> request \<Rightarrow> string \<Rightarrow> 'x writer_world \<Rightarrow> bool" where
  "comes_to_routed E S r rid y \<longleftrightarrow>
     (case routed E S r rid y of
        Returned (w', x') \<Rightarrow> \<exists>rc. comes_to E S (route_request E S r rid y, y) (Logging r rid rc w', x')
      | Panicked (w', x') \<Rightarrow> comes_to E S (route_request E S r rid y, y) (Panicking r rid w', x'))"

lemma submission_comes_to:
  assumes mux: "mux_contract (sk_mux S)" and sub: "r_method r = ''POST''" "r_path r = notifications_path"
    and Inr: "sk_authn S (r\<lparr>ctx_request_id := Some rid\<rparr>) = Inr p"
  shows "comes_to_routed E S r rid y"
proof -
  have path: "r_path r \<noteq> ''/healthz''" using sub(2) by (simp add: notifications_path_def)
  note r = routed_submission[where S = S, OF mux sub Inr, of E y]
  have rr: "route_request E S r rid y = (case bind_key (sk_bind S) r of None \<Rightarrow> Panicking r rid (start_writer rid)
      | Some idem \<Rightarrow> submit_begin E (sk_handlers S) r rid p idem)"
    using path Inr sub by (simp add: route_request_def Let_def)
  show ?thesis
  proof (cases "bind_key (sk_bind S) r")
    case None
    with r rr show ?thesis by (simp add: comes_to_routed_def)
  next
    case (Some idem)
    let ?h = "sk_handlers S"
    consider "h_requestID ?h = None \<or> Option.bind (h_ingester ?h) (\<lambda>i. map_option (Pair i) (i_publisher i)) = None"
      | f i publish where "h_requestID ?h = Some f" "h_ingester ?h = Some i" "i_publisher i = Some publish"
      by (cases "h_requestID ?h"; cases "h_ingester ?h") (auto split: option.splits)
    then show ?thesis
    proof cases
      case 1
      then show ?thesis unfolding comes_to_routed_def r rr Some
        by (auto simp: SubmitNotification_def submit_begin_def Let_def split: option.split)
    next
      case (2 f i publish)
      obtain oc svc w' x' where s: "submit_core E i publish (f (authed_request rid p r)) (start_writer rid)
          (authed_request rid p r) idem y = (oc, svc, w', x')" by (metis prod_cases4)
      obtain j sent where j: "jb_request j = r" "jb_id j = rid"
        and to: "comes_to E S (submit_begin E ?h r rid p idem, y)
          (Counting j \<lparr>rc_outcome = oc, rc_service = svc, rc_sent = sent\<rparr> w', x')"
        using submit_comes_to[OF 2 s, of S] by blast
      let ?rc = "\<lparr>rc_outcome = oc, rc_service = svc, rc_sent = sent\<rparr>"
      have "comes_to E S (Counting j ?rc w', x') (Logging r rid (Some ?rc) w',
          x'\<lparr>ww_metrics := RecordWriterSubmission oc svc (ww_metrics x')\<rparr>)"
        by (rule comes_to_last) (simp add: j)
      from comes_to_trans[OF to this] show ?thesis
        unfolding comes_to_routed_def r rr Some using 2 s by (auto simp: SubmitNotification_def)
    qed
  qed
qed

lemma route_comes_to:
  assumes mux: "mux_contract (sk_mux S)" and "rid \<noteq> []"
  shows "comes_to_routed E S r rid y"
proof (cases "r_path r = ''/healthz''")
  case True
  then show ?thesis
    by (auto simp: comes_to_routed_def routed_health[OF mux True] route_request_def Let_def intro!: exI[of _ None])
next
  case path: False
  show ?thesis
  proof (cases "sk_authn S (r\<lparr>ctx_request_id := Some rid\<rparr>)")
    case (Inl err)
    with path show ?thesis
      by (auto simp: comes_to_routed_def routed_rejected[where S = S, OF path assms(2) Inl]
          route_request_def Let_def intro!: exI[of _ None])
  next
    case (Inr p)
    show ?thesis
    proof (cases "r_method r = ''POST'' \<and> r_path r = notifications_path")
      case False
      obtain w' where w': "routed E S r rid y = Returned (w', y)"
        using routed_unmatched[where S = S, OF mux False path Inr] by blast
      then have "sk_mux S (server_routes E (sk_bind S) (sk_handlers S)) (authed_request rid p r)
          (start_writer rid) y = Returned (w', y)"
        by (simp add: routed_authed[where S = S, OF path Inr])
      then have "route_request E S r rid y = Logging r rid None w'"
        using path Inr False by (auto simp: route_request_def Let_def)
      with w' show ?thesis by (auto simp: comes_to_routed_def intro!: exI[of _ None])
    next
      case sub: True
      show ?thesis
        by (rule submission_comes_to[OF mux sub[THEN conjunct1] sub[THEN conjunct2] Inr])
    qed
  qed
qed

lemma request_comes_to_answer:
  assumes "mux_contract (sk_mux S)"
  shows "\<exists>rid rc w' x'. comes_to E S (Arrived r, x) (Answered r rid rc w', x')
     \<and> stack_chain E S r new_writer x = Returned (w', x')"
proof -
  obtain rid env' where rid: "new_request_id (sk_newV7 S) r (ww_env x) = (rid, env')" by force
  let ?y = "x\<lparr>ww_env := env'\<rparr>"
  have start: "comes_to E S (route_request E S r rid ?y, ?y) z \<Longrightarrow> comes_to E S (Arrived r, x) z" for z
    using rid comes_to_next[of E S "Identified r rid" ?y "route_request E S r rid ?y" ?y z]
    by (intro comes_to_next[of E S "Arrived r" x "Identified r rid" ?y z]) simp_all
  note to = route_comes_to[OF assms new_request_id_nonempty[OF rid], of E r ?y, unfolded comes_to_routed_def]
  note chain = stack_chain_routed[OF rid, of E]
  show ?thesis
  proof (cases "routed E S r rid ?y")
    case (Returned q)
    obtain w' x' where q: "q = (w', x')" by force
    from to Returned q obtain rc where l: "comes_to E S (route_request E S r rid ?y, ?y) (Logging r rid rc w', x')"
      by auto
    show ?thesis
      using start[OF comes_to_trans[OF l comes_to_last[OF refl]]] chain Returned q by auto
  next
    case (Panicked q)
    obtain w' x' where q: "q = (w', x')" by force
    from to Panicked q have l: "comes_to E S (route_request E S r rid ?y, ?y) (Panicking r rid w', x')" by simp
    show ?thesis
      using start[OF comes_to_trans[OF l comes_to_last[OF refl]]] chain Panicked q by auto
  qed
qed

text \<open>C15: A request that runs by itself, one outside call at a time, is answered as the handler
  \<open>NewServer\<close> builds answers it, and leaves the same world: the points at which requests interleave
  are the points of the handler, and a panic below the recovery middleware is its answer.\<close>

theorem request_alone_is_handler:
  assumes "mux_contract (sk_mux S)"
  shows "\<exists>rid rc w' x'. comes_to E S (Arrived r, x) (Answered r rid rc w', x')
     \<and> stack_chain E S r new_writer x = Returned (w', x')"
  by (rule request_comes_to_answer[OF assms])

end
