(* ===== verification/Request_Pool.thy ===== *)
theory Request_Pool
  imports Requests
begin

text \<open>
  The requests of the writer, interleaved in any way. At every point of every interleaving the
  submissions counter, the identifiers the publisher took and the answers sent agree, and no
  request can hold up another: each is answered after a bounded number of its own steps.
\<close>

subsection \<open>The pool\<close>

type_synonym ('ts, 'x) requests = "('ts, 'x) thread list \<times> 'x writer_world"

text \<open>What the publisher took in a step.\<close>

fun sent_in :: "('ts, 'x) thread \<Rightarrow> ('ts, 'x) thread \<Rightarrow> publish_input list" where
  "sent_in (Sending _ nid _ body) (Measuring _ _ _ None) = [\<lparr>in_body = body, in_notification_id = nid\<rparr>]"
| "sent_in _ _ = []"

inductive request_step ::
  "'ts ext \<Rightarrow> 'x stack \<Rightarrow> ('ts, 'x) requests \<Rightarrow> publish_input list \<Rightarrow> ('ts, 'x) requests \<Rightarrow> bool" for E S where
  request_arrives: "request_step E S (ts, x) [] (ts @ [Arrived r], x)"
| request_moves: "i < length ts \<Longrightarrow> \<not> answered (ts ! i) \<Longrightarrow> thread_step E S (ts ! i) x = (t, x') \<Longrightarrow>
    request_step E S (ts, x) (sent_in (ts ! i) t) (ts[i := t], x')"

inductive_cases request_stepE [consumes 1, case_names arrives moves]:
  "request_step E S (ts, x) sent q"

inductive request_run ::
  "'ts ext \<Rightarrow> 'x stack \<Rightarrow> ('ts, 'x) requests \<Rightarrow> publish_input list \<Rightarrow> ('ts, 'x) requests \<Rightarrow> bool" for E S where
  run_start: "request_run E S p [] p"
| run_next: "request_run E S p sent q \<Longrightarrow> request_step E S q new q' \<Longrightarrow> request_run E S p (sent @ new) q'"

subsection \<open>The books\<close>

fun taken :: "('ts, 'x) thread \<Rightarrow> string list" where
  "taken (Measuring _ nid _ None) = [nid]"
| "taken (Counting _ rc _) = (case rc_sent rc of None \<Rightarrow> [] | Some nid \<Rightarrow> [nid])"
| "taken (Logging _ _ (Some rc) _) = (case rc_sent rc of None \<Rightarrow> [] | Some nid \<Rightarrow> [nid])"
| "taken (Answered _ _ (Some rc) _) = (case rc_sent rc of None \<Rightarrow> [] | Some nid \<Rightarrow> [nid])"
| "taken _ = []"

fun receipts :: "('ts, 'x) thread \<Rightarrow> receipt list" where
  "receipts (Logging _ _ (Some rc) _) = [rc]"
| "receipts (Answered _ _ (Some rc) _) = [rc]"
| "receipts _ = []"

definition receipt_point :: "receipt \<Rightarrow> point" where
  "receipt_point rc = WriterSubmissions (rc_outcome rc) (rc_service rc)"

definition submission_points :: "points \<Rightarrow> points" where
  "submission_points ps = filter is_submission_point ps"

lemma submission_points_record [simp]:
  "submission_points (RecordPublishDuration ps) = submission_points ps"
  "submission_points (RecordWriterSubmission oc svc ps) = submission_points ps @ [WriterSubmissions oc svc]"
  by (simp_all add: submission_points_def record_defs)

text \<open>The answer a receipt goes with, for the request and identifier it belongs to.\<close>

definition receipt_fits :: "'ts ext \<Rightarrow> request \<Rightarrow> string \<Rightarrow> receipt \<Rightarrow> response_writer \<Rightarrow> bool" where
  "receipt_fits E r rid rc w \<longleftrightarrow>
     rc_outcome rc = label_of_status (sent_status w)
     \<and> (case rc_sent rc of
          Some nid \<Rightarrow> \<exists>at. w = accepted_answer E rid \<lparr>ar_notification_id = nid, ar_accepted_at = at\<rparr> (start_writer rid)
        | None \<Rightarrow> \<exists>pr. answers_problem E r rid (start_writer rid) w pr)"

text \<open>The body of a message is an addressed notification stored under the identifier of the message.\<close>

definition input_ok :: "'ts ext \<Rightarrow> publish_input \<Rightarrow> bool" where
  "input_ok E inp \<longleftrightarrow>
     (\<exists>n. n_notification_id n = in_notification_id inp \<and> addressed n \<and> x_marshal E n = Inr (in_body inp))"

fun thread_ok :: "'ts ext \<Rightarrow> ('ts, 'x) thread \<Rightarrow> bool" where
  "thread_ok E (Clocking j n) = (jb_rid j = jb_id j \<and> addressed n)"
| "thread_ok E (Naming j n _) = (jb_rid j = jb_id j \<and> addressed n)"
| "thread_ok E (Sending j nid _ body) =
     (jb_rid j = jb_id j \<and> input_ok E \<lparr>in_body = body, in_notification_id = nid\<rparr>)"
| "thread_ok E (Measuring j _ _ _) = (jb_rid j = jb_id j)"
| "thread_ok E (Counting j rc w) = receipt_fits E (jb_request j) (jb_id j) rc w"
| "thread_ok E (Logging r rid (Some rc) w) = receipt_fits E r rid rc w"
| "thread_ok E (Answered r rid (Some rc) w) = receipt_fits E r rid rc w"
| "thread_ok E _ = True"

lemma unsent_start [simp]: "unsent (start_writer rid)"
  by (simp add: start_writer_def)

lemma refuse_ok: "jb_rid j = jb_id j \<Longrightarrow> thread_ok E (refuse E j err)"
proof -
  assume j: "jb_rid j = jb_id j"
  obtain pr where a: "answers_problem E (jb_request j) (jb_id j) (start_writer (jb_id j))
      (writeIngestError E (start_writer (jb_id j)) (jb_request j) (jb_id j) err) pr"
    and l: "outcomeForIngestError err = label_of_status (p_status pr)"
    by (rule writeIngestError_answers)
  show ?thesis
    using a l answers_status(1)[OF a unsent_start] j by (auto simp: refuse_def receipt_fits_def)
qed

lemma refuse_books [simp]: "taken (refuse E j err) = []" "receipts (refuse E j err) = []"
  by (simp_all add: refuse_def)

lemma submit_begin_ok:
  assumes "h_requestID h = Some RequestIDFromContext"
  shows "thread_ok E (submit_begin E h r rid p idem)"
    and "taken (submit_begin E h r rid p idem) = []" and "receipts (submit_begin E h r rid p idem) = []"
proof -
  have "answers_problem E r rid (start_writer rid) (write_problem E perr (start_writer rid)) perr
      \<and> label_of_status (p_status perr) = OutcomeValidationFailed" if "decodeBody E r rid = Inl perr" for perr
    using decodeBody_Inl[OF that] .
  then have "receipt_fits E r rid \<lparr>rc_outcome = OutcomeValidationFailed, rc_service = svc, rc_sent = None\<rparr>
      (write_problem E perr (start_writer rid))" if "decodeBody E r rid = Inl perr" for perr svc
    using answers_status(1)[OF _ unsent_start] that by (fastforce simp: receipt_fits_def)
  then show "thread_ok E (submit_begin E h r rid p idem)"
    using assms by (auto simp: submit_begin_def Let_def refuse_ok dest: Validate_addressed split: option.split sum.split)
  show "taken (submit_begin E h r rid p idem) = []" "receipts (submit_begin E h r rid p idem) = []"
    by (auto simp: submit_begin_def Let_def split: option.split sum.split)
qed

lemma route_request_ok:
  assumes "h_requestID (sk_handlers S) = Some RequestIDFromContext"
  shows "thread_ok E (route_request E S r rid x)"
    and "taken (route_request E S r rid x) = []" and "receipts (route_request E S r rid x) = []"
  using submit_begin_ok[OF assms] by (auto simp: route_request_def Let_def split: sum.split option.split)

lemma assigned_id:
  "addressed n \<Longrightarrow> x_marshal E (assign_fields E nid now svc n) = Inr body \<Longrightarrow>
   \<exists>m. n_notification_id m = nid \<and> addressed m \<and> x_marshal E m = Inr body"
  by (rule exI[of _ "assign_fields E nid now svc n"]) (simp, simp add: assign_fields_def)

text \<open>One step of one request.\<close>

lemma thread_step_books:
  assumes h: "h_requestID (sk_handlers S) = Some RequestIDFromContext"
    and "thread_ok E t" and "thread_step E S t x = (t', x')"
  shows "thread_ok E t'" and "taken t' = taken t @ map in_notification_id (sent_in t t')"
    and "list_all (input_ok E) (sent_in t t')"
    and "\<exists>new. receipts t' = receipts t @ new
       \<and> submission_points (ww_metrics x') = submission_points (ww_metrics x) @ map receipt_point new"
proof -
  note st = assms(2,3)
  have acc: "receipt_fits E r rid \<lparr>rc_outcome = OutcomeAccepted, rc_service = svc, rc_sent = Some nid\<rparr>
      (accepted_answer E rid \<lparr>ar_notification_id = nid, ar_accepted_at = now\<rparr> (start_writer rid))"
    for r rid svc nid now
    by (auto simp: receipt_fits_def accepted_status label_202)
  show "thread_ok E t'"
  proof (cases t)
    case (Logging r rid rc w)
    with st show ?thesis by (cases rc) auto
  next
    case (Answered r rid rc w)
    with st show ?thesis by (cases rc) auto
  next
    case (Naming j n now)
    with st show ?thesis by (auto simp: refuse_ok input_ok_def split: prod.splits sum.splits intro: assigned_id)
  qed (use st in \<open>auto simp: route_request_ok[OF h] refuse_ok acc split: prod.splits sum.splits option.splits\<close>)
  show "list_all (input_ok E) (sent_in t t')"
  proof (cases t)
    case (Sending j nid now body)
    with st show ?thesis
      by (auto split: prod.splits) (rename_tac e y, case_tac e, simp_all)
  qed simp_all
  show "taken t' = taken t @ map in_notification_id (sent_in t t')"
  proof (cases t)
    case (Logging r rid rc w)
    with st show ?thesis by (cases rc) auto
  next
    case (Sending j nid now body)
    with st show ?thesis
      by (auto split: prod.splits) (rename_tac e y, case_tac e, simp_all)
  qed (use st in \<open>auto simp: route_request_ok[OF h] split: prod.splits sum.splits option.splits\<close>)
  show "\<exists>new. receipts t' = receipts t @ new
       \<and> submission_points (ww_metrics x') = submission_points (ww_metrics x) @ map receipt_point new"
  proof (cases t)
    case (Counting j rc w)
    with st show ?thesis by (intro exI[of _ "[rc]"]) (auto simp: receipt_point_def)
  next
    case (Logging r rid rc w)
    with st show ?thesis by (cases rc) auto
  qed (use st in \<open>auto simp: route_request_ok[OF h] split: prod.splits sum.splits option.splits\<close>)
qed

definition books ::
  "'ts ext \<Rightarrow> points \<Rightarrow> publish_input list \<Rightarrow> ('ts, 'x) requests \<Rightarrow> bool" where
  "books E ps sent p \<longleftrightarrow> (case p of (ts, x) \<Rightarrow>
     list_all (thread_ok E) ts \<and> list_all (input_ok E) sent
     \<and> mset (map in_notification_id sent) = mset (all_of taken ts)
     \<and> mset (submission_points (ww_metrics x)) = mset ps + mset (map receipt_point (all_of receipts ts)))"

lemma request_step_books:
  assumes h: "h_requestID (sk_handlers S) = Some RequestIDFromContext"
    and "request_step E S (ts, x) new q" and b: "books E ps sent (ts, x)"
  shows "books E ps (sent @ new) q"
  using assms(2)
proof (cases rule: request_stepE)
  case (arrives r)
  with b show ?thesis by (simp add: books_def)
next
  case (moves i t x')
  note b' = b[unfolded books_def, simplified]
  have ok: "thread_ok E (ts ! i)" using b' moves(3) by (simp add: list_all_length)
  note s = thread_step_books[OF h ok moves(5)]
  obtain rs where rs: "receipts t = receipts (ts ! i) @ rs"
    "submission_points (ww_metrics x') = submission_points (ww_metrics x) @ map receipt_point rs"
    using s(4) by blast
  have r: "mset (all_of receipts (ts[i := t])) = mset (all_of receipts ts) + mset rs"
    using mset_all_of_update[OF moves(3), of receipts t] rs(1) by simp
  have "mset (map in_notification_id (sent @ new)) = mset (all_of taken (ts[i := t]))"
    using mset_all_of_update[OF moves(3), of taken t] s(2) b' moves(1) by simp
  moreover have "list_all (input_ok E) (sent @ new)" using b' s(3) moves(1) by simp
  moreover have "mset (submission_points (ww_metrics x'))
      = mset ps + mset (map receipt_point (all_of receipts (ts[i := t])))"
    using rs(2) b' r by (simp only: mset_map mset_append) (simp add: image_mset_union)
  moreover have "list_all (thread_ok E) (ts[i := t])" using b' s(1) by (simp add: list_all_update)
  ultimately show ?thesis using moves(2) by (simp add: books_def del: mset_append)
qed

lemma books_start: "books E (submission_points (ww_metrics x)) [] ([], x)"
  by (simp add: books_def)

lemma request_run_books:
  assumes h: "h_requestID (sk_handlers S) = Some RequestIDFromContext"
  shows "request_run E S p sent q \<Longrightarrow> books E ps sent0 p \<Longrightarrow> books E ps (sent0 @ sent) q"
proof (induction rule: request_run.induct)
  case (run_start p)
  then show ?case by simp
next
  case (run_next p sent q new q')
  obtain ts x where q: "q = (ts, x)" by force
  from request_step_books[OF h run_next.hyps(2)[unfolded q], of ps "sent0 @ sent"] run_next show ?case
    by (simp add: q)
qed

text \<open>C5: However the requests are interleaved, the books of the writer balance: at any point, the
  submissions counter has grown by exactly one point for each submission past its handler, under
  the label and service of that submission; the publisher took one message for each request that
  is answered 202 or about to be, under its identifier and with an addressed notification stored
  under that identifier as its body, and no other; and every answered submission got the 202 envelope
  of the identifier it was published under, or a problem of the catalogue with the identifier of its
  own request and the label of its status.\<close>

theorem interleaved_submissions:
  assumes "h_requestID (sk_handlers S) = Some RequestIDFromContext"
    and "request_run E S ([], x0) sent (ts, x)"
  shows "mset (submission_points (ww_metrics x))
       = mset (submission_points (ww_metrics x0)) + mset (map receipt_point (all_of receipts ts))
     \<and> mset (map in_notification_id sent) = mset (all_of taken ts) \<and> list_all (input_ok E) sent
     \<and> (\<forall>r rid rc w. Answered r rid (Some rc) w \<in> set ts \<longrightarrow> receipt_fits E r rid rc w)"
proof -
  have b: "books E (submission_points (ww_metrics x0)) sent (ts, x)"
    using request_run_books[OF assms(1,2) books_start[of E x0]] by simp
  have "receipt_fits E r rid rc w" if "Answered r rid (Some rc) w \<in> set ts" for r rid rc w
    using b that by (auto simp: books_def list_all_iff dest: bspec)
  with b show ?thesis by (simp add: books_def)
qed

lemma request_run_trans:
  "request_run E S q new q' \<Longrightarrow> request_run E S p sent q \<Longrightarrow> request_run E S p (sent @ new) q'"
proof (induction rule: request_run.induct)
  case (run_next q new q' new' r)
  from request_run.run_next[OF run_next.IH[OF run_next.prems] run_next.hyps(2)] show ?case by simp
qed simp

text \<open>A request by itself is a pool of one.\<close>

lemma thread_run_alone:
  "\<exists>sent. request_run E S ([t], x) sent (case (thread_advance E S ^^ k) (t, x) of (t', x') \<Rightarrow> ([t'], x'))"
proof (induction k)
  case 0
  show ?case by (auto intro: run_start)
next
  case (Suc k)
  obtain u y where u: "(thread_advance E S ^^ k) (t, x) = (u, y)" by force
  obtain u' y' where u': "thread_step E S u y = (u', y')" by force
  have suc: "(thread_advance E S ^^ Suc k) (t, x) = (u', y')"
    by (simp add: u) (simp add: thread_advance_def u')
  from Suc.IH obtain sent where r: "request_run E S ([t], x) sent ([u], y)" by (auto simp: u)
  show ?case
  proof (cases "answered u")
    case True
    then have "thread_step E S u y = (u, y)" by (cases u) simp_all
    with r u' show ?thesis unfolding suc by auto
  next
    case False
    from run_next[OF r request_moves[of 0 "[u]" E S y u' y']] False u' show ?thesis
      unfolding suc by auto
  qed
qed

lemma comes_to_run:
  assumes "comes_to E S (t, x) (t', x')"
  shows "\<exists>sent. request_run E S ([t], x) sent ([t'], x')"
proof -
  obtain k where k: "(thread_advance E S ^^ k) (t, x) = (t', x')" using assms unfolding comes_to_def by blast
  from thread_run_alone[of E S t x k] show ?thesis unfolding k by simp
qed

subsection \<open>No request waits for another\<close>

text \<open>How many steps a request can still take.\<close>

fun steps_left :: "('ts, 'x) thread \<Rightarrow> nat" where
  "steps_left (Arrived _) = 8"
| "steps_left (Identified _ _) = 7"
| "steps_left (Clocking _ _) = 6"
| "steps_left (Naming _ _ _) = 5"
| "steps_left (Sending _ _ _ _) = 4"
| "steps_left (Measuring _ _ _ _) = 3"
| "steps_left (Counting _ _ _) = 2"
| "steps_left (Logging _ _ _ _) = 1"
| "steps_left (Panicking _ _ _) = 1"
| "steps_left (Answered _ _ _ _) = 0"

lemma steps_left_begin: "steps_left (route_request E S r rid x) \<le> 6"
  by (auto simp: route_request_def submit_begin_def refuse_def Let_def split: sum.split option.split)

lemma steps_left_decreases:
  assumes "\<not> answered t" and "thread_step E S t x = (t', x')"
  shows "steps_left t' < steps_left t"
proof (cases t)
  case (Identified r rid)
  with assms(2) steps_left_begin[of E S r rid x] show ?thesis by auto
qed (use assms in \<open>auto simp: refuse_def split: prod.splits sum.splits option.splits\<close>)

definition requests_left :: "('ts, 'x) thread list \<Rightarrow> nat" where
  "requests_left ts = sum_list (map steps_left ts)"

lemma requests_left_decreases:
  assumes "i < length ts" and "\<not> answered (ts ! i)" and "thread_step E S (ts ! i) x = (t, x')"
  shows "requests_left (ts[i := t]) < requests_left ts"
  unfolding requests_left_def
  by (rule sum_list_update_less[OF assms(1) steps_left_decreases[OF assms(2,3)]])

end
