(* ===== verification/Writer_Process.thy ===== *)
theory Writer_Process
  imports Writer_Main Request_Pool
begin

text \<open>
  The writer process after its construction (\<open>cmd/writer\<close>, the tail of \<open>run\<close>, and \<open>main\<close>): the
  goroutine that listens, the requests it serves, the signal, the wait for one or the other, and
  the shutdown with its grace period. \<open>ListenAndServe\<close> and \<open>Shutdown\<close> are \<open>net/http\<close>: the first
  returns an error of the listener or, once \<open>Shutdown\<close> was called, \<open>ErrServerClosed\<close>; the second
  stops new requests and returns when every request is answered or the grace period has passed.
  With the return of \<open>run\<close> the process ends: a request still in flight then is not taken further.
\<close>

subsection \<open>The server value\<close>

definition server_Addr :: "'x running_writer \<Rightarrow> string" where
  "server_Addr srv = run_address srv"

definition ErrServerClosed :: goerr where
  "ErrServerClosed = ForeignErr ''http: Server closed'' None"

subsection \<open>The process\<close>

text \<open>\<open>Selecting\<close>: main waits; \<open>Stopping\<close>: main is in \<open>Shutdown\<close>; \<open>Exited\<close>: \<open>run\<close> has returned.\<close>

datatype main_phase = Selecting | Stopping | Exited "goerr option"

datatype serve_phase = Starting | Serving | ServeReturned

record ('ts, 'x) wproc =
  wp_main :: main_phase
  wp_serve :: serve_phase
  wp_errCh :: "goerr option"
  wp_signalled :: bool
  wp_requests :: "('ts, 'x) thread list"
  wp_world :: "'x writer_world"

definition proc_start :: "'x writer_world \<Rightarrow> ('ts, 'x) wproc" where
  "proc_start x = \<lparr>wp_main = Selecting, wp_serve = Starting, wp_errCh = None, wp_signalled = False,
     wp_requests = [], wp_world = x\<rparr>"

definition log_line_of :: "'x running_writer \<Rightarrow> http_log \<Rightarrow> ('ts, 'x) wproc \<Rightarrow> ('ts, 'x) wproc" where
  "log_line_of srv l p = p\<lparr>wp_world := on_env (run_logger srv l) (wp_world p)\<rparr>"

text \<open>The goroutine: it logs, listens, and passes on what \<open>ListenAndServe\<close> returned.\<close>

definition begin_listening :: "'x running_writer \<Rightarrow> ('ts, 'x) wproc \<Rightarrow> ('ts, 'x) wproc" where
  "begin_listening srv p = log_line_of srv (WriterListening (server_Addr srv)) (p\<lparr>wp_serve := Serving\<rparr>)"

definition serve_returned :: "goerr option \<Rightarrow> ('ts, 'x) wproc \<Rightarrow> ('ts, 'x) wproc" where
  "serve_returned err p = p\<lparr>wp_serve := ServeReturned,
     wp_errCh := (if err \<noteq> None \<and> err \<noteq> Some ErrServerClosed then err else wp_errCh p)\<rparr>"

text \<open>The deferred functions run with the return of \<open>run\<close>.\<close>

definition run_returns :: "'x running_writer \<Rightarrow> goerr option \<Rightarrow> ('ts, 'x) wproc \<Rightarrow> ('ts, 'x) wproc" where
  "run_returns srv r p = p\<lparr>wp_main := Exited r, wp_world := on_env (run_stop srv) (wp_world p)\<rparr>"

definition begin_shutdown :: "'x running_writer \<Rightarrow> ('ts, 'x) wproc \<Rightarrow> ('ts, 'x) wproc" where
  "begin_shutdown srv p = log_line_of srv WriterShutdownBeginning (p\<lparr>wp_main := Stopping\<rparr>)"

definition end_shutdown :: "'x running_writer \<Rightarrow> ('ts, 'x) wproc \<Rightarrow> ('ts, 'x) wproc" where
  "end_shutdown srv p = run_returns srv None (log_line_of srv WriterShutdownComplete p)"

fun running :: "main_phase \<Rightarrow> bool" where
  "running (Exited _) = False"
| "running _ = True"

text \<open>The label of a step: what the publisher took in it.\<close>

inductive wp_step ::
  "'ts ext \<Rightarrow> 'x stack \<Rightarrow> 'x running_writer \<Rightarrow> ('ts, 'x) wproc \<Rightarrow> publish_input list \<Rightarrow> ('ts, 'x) wproc \<Rightarrow> bool"
  for E S srv where
  listens: "wp_serve p = Starting \<Longrightarrow> wp_main p = Selecting \<Longrightarrow>
    wp_step E S srv p [] (begin_listening srv p)"
| listens_late: "wp_serve p = Starting \<Longrightarrow> wp_main p = Stopping \<Longrightarrow>
    wp_step E S srv p [] (serve_returned (Some ErrServerClosed) (begin_listening srv p))"
| listener_fails: "wp_serve p = Serving \<Longrightarrow> wp_main p = Selecting \<Longrightarrow> e \<noteq> ErrServerClosed \<Longrightarrow>
    wp_step E S srv p [] (serve_returned (Some e) p)"
| listener_closed: "wp_serve p = Serving \<Longrightarrow> wp_main p = Stopping \<Longrightarrow>
    wp_step E S srv p [] (serve_returned (Some ErrServerClosed) p)"
| signalled: "\<not> wp_signalled p \<Longrightarrow> wp_main p = Selecting \<Longrightarrow>
    wp_step E S srv p [] (p\<lparr>wp_signalled := True\<rparr>)"
| arrives: "wp_serve p = Serving \<Longrightarrow> wp_main p = Selecting \<Longrightarrow>
    wp_step E S srv p [] (p\<lparr>wp_requests := wp_requests p @ [Arrived r]\<rparr>)"
| moves: "running (wp_main p) \<Longrightarrow> i < length (wp_requests p) \<Longrightarrow> \<not> answered (wp_requests p ! i) \<Longrightarrow>
    thread_step E S (wp_requests p ! i) (wp_world p) = (t, x') \<Longrightarrow>
    wp_step E S srv p (sent_in (wp_requests p ! i) t)
      (p\<lparr>wp_requests := (wp_requests p)[i := t], wp_world := x'\<rparr>)"
| select_done: "wp_main p = Selecting \<Longrightarrow> wp_signalled p \<Longrightarrow>
    wp_step E S srv p [] (begin_shutdown srv p)"
| select_err: "wp_main p = Selecting \<Longrightarrow> wp_errCh p = Some e \<Longrightarrow>
    wp_step E S srv p [] (run_returns srv (Some e) p)"
| drained: "wp_main p = Stopping \<Longrightarrow> list_all answered (wp_requests p) \<Longrightarrow>
    wp_step E S srv p [] (end_shutdown srv p)"
| timed_out: "wp_main p = Stopping \<Longrightarrow> wp_step E S srv p [] (end_shutdown srv p)"

inductive wp_run ::
  "'ts ext \<Rightarrow> 'x stack \<Rightarrow> 'x running_writer \<Rightarrow> ('ts, 'x) wproc \<Rightarrow> publish_input list \<Rightarrow> ('ts, 'x) wproc \<Rightarrow> bool"
  for E S srv where
  wp_refl: "wp_run E S srv p [] p"
| wp_next: "wp_run E S srv p sent q \<Longrightarrow> wp_step E S srv q new q' \<Longrightarrow> wp_run E S srv p (sent @ new) q'"

text \<open>The exit code and the line on standard error.\<close>

definition writer_exit :: "goerr option \<Rightarrow> int \<times> string" where
  "writer_exit r = (case r of None \<Rightarrow> (0, []) | Some e \<Rightarrow> (1, ''writer: '' @ error_string e @ [newline]))"

definition writer_stack ::
  "('f, 'x, 'cl, 'pr, 'co, 'm) writer_host \<Rightarrow> 'x http_logger \<Rightarrow> tokens \<Rightarrow> 'x handlers \<Rightarrow> 'x stack" where
  "writer_stack H logger bearer hs =
     \<lparr>sk_bind = wh_bind H, sk_newV7 = wh_newV7 H, sk_mux = wh_mux H, sk_logger = logger,
      sk_handlers = hs, sk_authn = Authenticate bearer\<rparr>"

text \<open>A run of the process from its start to its exit, with the points and the world at the start.\<close>

inductive writer_process ::
  "'ts ext \<Rightarrow> ('f, 'x, 'cl, 'pr, 'co, 'm) writer_host \<Rightarrow> points \<Rightarrow> 'x \<Rightarrow> int \<times> string \<Rightarrow> 'x \<Rightarrow> bool"
  for E H ms x where
  not_started: "writer_run E H x = (Inl e, x') \<Longrightarrow> writer_process E H ms x (writer_exit (Some e)) x'"
| ran: "writer_run E H x = (Inr srv, x') \<Longrightarrow> writer_ready E H cfg logger bearer pub hs i srv \<Longrightarrow>
    wp_run E (writer_stack H logger bearer hs) srv (proc_start \<lparr>ww_metrics = ms, ww_env = x'\<rparr>) sent p \<Longrightarrow>
    wp_main p = Exited r \<Longrightarrow> writer_process E H ms x (writer_exit r) (ww_env (wp_world p))"

lemma writer_stack_chain:
  "writer_ready E H cfg logger bearer pub hs i srv \<Longrightarrow>
   run_handler srv = stack_chain E (writer_stack H logger bearer hs)"
  by (simp add: writer_ready_def stack_chain_def writer_stack_def)

subsection \<open>The control of the process\<close>

lemmas wp_defs = begin_listening_def serve_returned_def run_returns_def begin_shutdown_def
  end_shutdown_def log_line_of_def

text \<open>
  \<open>run\<close> returns nil only after a signal, and an error only when the listener failed by itself: the
  \<open>ErrServerClosed\<close> of a shutdown is never reported.
\<close>

definition control_ok :: "('ts, 'x) wproc \<Rightarrow> bool" where
  "control_ok p \<longleftrightarrow> wp_errCh p \<noteq> Some ErrServerClosed
     \<and> (case wp_main p of Selecting \<Rightarrow> True | Stopping \<Rightarrow> wp_signalled p
        | Exited None \<Rightarrow> wp_signalled p | Exited (Some e) \<Rightarrow> wp_errCh p = Some e)"

lemma control_step: "wp_step E S srv p sent q \<Longrightarrow> control_ok p \<Longrightarrow> control_ok q"
  by (induction rule: wp_step.induct)
     (auto simp: control_ok_def wp_defs split: main_phase.splits option.splits)

lemma control_run: "wp_run E S srv p sent q \<Longrightarrow> control_ok p \<Longrightarrow> control_ok q"
  by (induction rule: wp_run.induct) (auto intro: control_step)

text \<open>The requests of the process are a pool of requests.\<close>

lemma wp_step_books:
  assumes h: "h_requestID (sk_handlers S) = Some RequestIDFromContext"
  shows "wp_step E S srv p new q \<Longrightarrow> books E ps sent (wp_requests p, wp_world p)
    \<Longrightarrow> books E ps (sent @ new) (wp_requests q, wp_world q)"
proof (induction rule: wp_step.induct)
  case (arrives p r)
  from request_step_books[OF h request_arrives arrives(3)] show ?case by simp
next
  case (moves p i t x')
  from request_step_books[OF h request_moves[OF moves(2,3,4)] moves(5)] show ?case by simp
qed (simp_all add: books_def wp_defs)

lemma wp_run_books:
  assumes h: "h_requestID (sk_handlers S) = Some RequestIDFromContext"
  shows "wp_run E S srv p sent q \<Longrightarrow> books E ps sent0 (wp_requests p, wp_world p)
    \<Longrightarrow> books E ps (sent0 @ sent) (wp_requests q, wp_world q)"
proof (induction rule: wp_run.induct)
  case (wp_next p sent q new q')
  from wp_step_books[OF h wp_next.hyps(2) wp_next.IH[OF wp_next.prems]] show ?case by simp
qed simp

text \<open>The books and the control of a started process, at any point of it.\<close>

lemma writer_point:
  assumes "writer_ready E H cfg logger bearer pub hs i srv"
    and "wp_run E (writer_stack H logger bearer hs) srv (proc_start \<lparr>ww_metrics = ms, ww_env = x1\<rparr>) sent p"
  shows "control_ok p \<and> books E (submission_points ms) sent (wp_requests p, wp_world p)"
proof -
  let ?S = "writer_stack H logger bearer hs"
  have h: "h_requestID (sk_handlers ?S) = Some RequestIDFromContext"
    using assms(1) by (simp add: writer_ready_def writer_stack_def)
  have "control_ok p"
    by (rule control_run[OF assms(2)]) (simp add: control_ok_def proc_start_def)
  moreover have "books E (submission_points ms) sent (wp_requests p, wp_world p)"
    using wp_run_books[OF h assms(2), of "submission_points ms" "[]"] by (simp add: books_def proc_start_def)
  ultimately show ?thesis by blast
qed

text \<open>The two ways a started process ends, with the exit code and what is written to standard error.\<close>

definition stopped_on_signal :: "('ts, 'x) wproc \<Rightarrow> int \<times> string \<Rightarrow> bool" where
  "stopped_on_signal p code \<longleftrightarrow> wp_main p = Exited None \<and> wp_signalled p \<and> code = (0, [])"

definition listener_failed :: "('ts, 'x) wproc \<Rightarrow> int \<times> string \<Rightarrow> bool" where
  "listener_failed p code \<longleftrightarrow> (\<exists>e. wp_main p = Exited (Some e) \<and> wp_errCh p = Some e \<and> e \<noteq> ErrServerClosed
     \<and> code = (1, ''writer: '' @ error_string e @ [newline]))"

text \<open>C11: How a writer process ends. Either it did not start: its construction reported an error, which is
  the one \<open>main\<close> prints before it exits with 1. Or it started, and then
  it exits with 0 and prints nothing only after a signal, and with 1 and the listener's own error only
  if the listener reported it, never the one a shutdown makes it return. At every exit and, with the
  same start, at every other point of the process, the identifiers published are those of the
  submissions answered 202 or about to be, and the counter has one point per submission.\<close>

theorem writer_exit_reasons:
  assumes "writer_process E H ms x code x'"
  shows "(\<exists>e. writer_run E H x = (Inl e, x') \<and> code = (1, ''writer: '' @ error_string e @ [newline]))
    \<or> (\<exists>srv x1 cfg logger bearer pub hs i sent p.
         writer_run E H x = (Inr srv, x1) \<and> writer_ready E H cfg logger bearer pub hs i srv
         \<and> wp_run E (writer_stack H logger bearer hs) srv (proc_start \<lparr>ww_metrics = ms, ww_env = x1\<rparr>) sent p
         \<and> ww_env (wp_world p) = x' \<and> (stopped_on_signal p code \<or> listener_failed p code)
         \<and> (\<forall>sent q. wp_run E (writer_stack H logger bearer hs) srv
                (proc_start \<lparr>ww_metrics = ms, ww_env = x1\<rparr>) sent q \<longrightarrow>
              list_all (thread_ok E) (wp_requests q) \<and> list_all (input_ok E) sent
              \<and> mset (map in_notification_id sent) = mset (all_of taken (wp_requests q))
              \<and> mset (submission_points (ww_metrics (wp_world q)))
                  = mset (submission_points ms) + mset (map receipt_point (all_of receipts (wp_requests q)))))"
  using assms
proof cases
  case (not_started e)
  then show ?thesis by (auto simp: writer_exit_def)
next
  case (ran srv x1 cfg logger bearer pub hs i sent p r)
  have "stopped_on_signal p code \<or> listener_failed p code"
    using writer_point[OF ran(4,5)] ran(1,6)
    by (auto simp: control_ok_def writer_exit_def stopped_on_signal_def listener_failed_def split: option.splits)
  moreover note points = writer_point[OF ran(4), unfolded books_def prod.case]
  ultimately show ?thesis
    using ran(2-5) points
    by (intro disjI2 exI[of _ srv] exI[of _ x1] exI[of _ cfg] exI[of _ logger] exI[of _ bearer] exI[of _ pub]
        exI[of _ hs] exI[of _ i] exI[of _ sent] exI[of _ p]) blast
qed

lemma wp_run_trans:
  "wp_run E S srv q new q' \<Longrightarrow> wp_run E S srv p sent q \<Longrightarrow> wp_run E S srv p (sent @ new) q'"
proof (induction rule: wp_run.induct)
  case (wp_next q new q' new' r)
  from wp_run.wp_next[OF wp_next.IH[OF wp_next.prems] wp_next.hyps(2)] show ?case by simp
qed simp

text \<open>While the process serves, its requests run as the pool does.\<close>

lemma serving_runs:
  "request_run E S q0 sent q \<Longrightarrow> wp_main p = Selecting \<Longrightarrow> wp_serve p = Serving \<Longrightarrow>
   q0 = (wp_requests p, wp_world p) \<Longrightarrow>
   wp_run E S srv p sent (p\<lparr>wp_requests := fst q, wp_world := snd q\<rparr>)"
proof (induction rule: request_run.induct)
  case (run_start q0)
  then show ?case by (simp add: wp_refl)
next
  case (run_next q0 sent q new q')
  let ?p = "p\<lparr>wp_requests := fst q, wp_world := snd q\<rparr>"
  have swap: "p\<lparr>wp_world := y, wp_requests := us\<rparr> = p\<lparr>wp_requests := us, wp_world := y\<rparr>" for y us by simp
  from run_next.hyps(2) have "wp_step E S srv ?p new (p\<lparr>wp_requests := fst q', wp_world := snd q'\<rparr>)"
  proof cases
    case (request_arrives ts x r)
    with run_next.prems wp_step.arrives[of ?p E S srv r] show ?thesis by (simp add: swap)
  next
    case (request_moves i ts x t x')
    with run_next.prems wp_step.moves[of ?p i E S t x' srv] show ?thesis by (simp add: swap)
  qed
  from wp_next[OF run_next.IH[OF run_next.prems] this] show ?case .
qed

subsection \<open>Shutdown ends\<close>

text \<open>Once main is in \<open>Shutdown\<close> no request arrives, and each step uses up a part of this measure.\<close>

definition stop_measure :: "('ts, 'x) wproc \<Rightarrow> nat" where
  "stop_measure p = requests_left (wp_requests p)
     + (case wp_serve p of Starting \<Rightarrow> 1 | Serving \<Rightarrow> 1 | ServeReturned \<Rightarrow> 0) + (if running (wp_main p) then 1 else 0)"

lemma stopping_step:
  assumes "wp_main p = Stopping" and "wp_step E S srv p sent q"
  shows "stop_measure q < stop_measure p \<and> (wp_main q = Stopping \<or> wp_main q = Exited None)"
  using assms(2,1)
proof (induction rule: wp_step.induct)
  case (moves p i t x')
  then show ?case using requests_left_decreases[OF moves(2-4)] by (simp add: stop_measure_def)
qed (simp_all add: stop_measure_def wp_defs)

lemma exited_stuck: "\<not> running (wp_main p) \<Longrightarrow> \<not> wp_step E S srv p sent q"
  by (auto elim!: wp_step.cases)

lemma stopping_moves:
  assumes "wp_main p = Stopping" and "\<not> list_all answered (wp_requests p)"
  shows "\<exists>i t x'. i < length (wp_requests p) \<and> \<not> answered (wp_requests p ! i)
     \<and> thread_step E S (wp_requests p ! i) (wp_world p) = (t, x')"
  using assms(2) by (auto simp: list_all_length)

text \<open>C22: The shutdown of the writer ends. Once main is in \<open>Shutdown\<close>, the process can take finitely
  many steps in any order, whatever the requests in flight were doing; it stays in the shutdown or
  leaves it with nil, it can take no step exactly when it has left, and it can always leave it with
  every request answered.\<close>

theorem writer_shutdown_ends:
  assumes "wp_main p = Stopping"
  shows "wfp (\<lambda>q p'. wp_main p' = Stopping \<and> (\<exists>sent. wp_step E S srv p' sent q))
     \<and> (\<exists>sent q. wp_run E S srv p sent q \<and> wp_main q = Exited None \<and> list_all answered (wp_requests q)
          \<and> (\<forall>new q'. \<not> wp_step E S srv q new q'))"
proof
  show "wfp (\<lambda>q p'. wp_main p' = Stopping \<and> (\<exists>sent. wp_step E S srv p' sent q))"
    by (rule wfp_if_convertible_to_nat[of _ stop_measure]) (auto dest: stopping_step)
  have "\<exists>sent q. wp_run E S srv p0 sent q \<and> wp_main q = Stopping \<and> list_all answered (wp_requests q)"
    if "wp_run E S srv p0 n0 p'" "wp_main p' = Stopping" for p0 n0 p'
    using that
  proof (induction "requests_left (wp_requests p')" arbitrary: p' n0 rule: less_induct)
    case less
    show ?case
    proof (cases "list_all answered (wp_requests p')")
      case True
      with less.prems show ?thesis by blast
    next
      case False
      obtain i t x' where st: "i < length (wp_requests p')" "\<not> answered (wp_requests p' ! i)"
        "thread_step E S (wp_requests p' ! i) (wp_world p') = (t, x')"
        using stopping_moves[OF less.prems(2) False] by blast
      have run: "running (wp_main p')" using less.prems(2) by simp
      from less.hyps[OF _ wp_next[OF less.prems(1) wp_step.moves[OF run st]]] less.prems(2)
        requests_left_decreases[OF st]
      show ?thesis by simp
    qed
  qed
  from this[OF wp_refl assms] obtain sent q where q: "wp_run E S srv p sent q" "wp_main q = Stopping"
    "list_all answered (wp_requests q)" by blast
  let ?q = "end_shutdown srv q"
  have "wp_main ?q = Exited None" "wp_requests ?q = wp_requests q" by (simp_all add: wp_defs)
  with wp_next[OF q(1) drained[OF q(2,3)]] q(3) exited_stuck[of ?q E S srv]
  show "\<exists>sent q. wp_run E S srv p sent q \<and> wp_main q = Exited None \<and> list_all answered (wp_requests q)
          \<and> (\<forall>new q'. \<not> wp_step E S srv q new q')"
    by (intro exI[of _ "sent @ []"] exI[of _ ?q]) simp
qed

end
