(* ===== verification/Writer_Resources.thy ===== *)
theory Writer_Resources
  imports Writer_Process
begin

text \<open>
  What the writer process holds of the outside: the telemetry providers and the Pulsar clients. The
  world is observed through \<open>up\<close> (providers are registered) and \<open>opened\<close> (how many clients are open);
  whatever way the process ends, both are as they were before it started.
\<close>

subsection \<open>Environments a request leaves alone\<close>

text \<open>A property of the outside world that the calls of a request keep.\<close>

definition keeps :: "('x \<Rightarrow> bool) \<Rightarrow> ('x \<Rightarrow> 'r \<times> 'x) \<Rightarrow> bool" where
  "keeps Q f \<longleftrightarrow> (\<forall>x. Q x \<longrightarrow> Q (snd (f x)))"

lemma keepsD: "keeps Q f \<Longrightarrow> Q x \<Longrightarrow> f x = (r, x') \<Longrightarrow> Q x'"
  unfolding keeps_def by (metis snd_conv)

definition stack_keeps :: "('x \<Rightarrow> bool) \<Rightarrow> 'x stack \<Rightarrow> bool" where
  "stack_keeps Q S \<longleftrightarrow> keeps Q (sk_newV7 S) \<and> (\<forall>l x. Q x \<longrightarrow> Q (sk_logger S l x))
     \<and> (\<forall>i publish. h_ingester (sk_handlers S) = Some i \<longrightarrow> i_publisher i = Some publish \<longrightarrow>
          keeps Q (i_clock i) \<and> keeps Q (i_idFn i) \<and> (\<forall>inp. keeps Q (publish inp)))"

text \<open>The ingester and the publisher in a request's hands are those of the stack.\<close>

definition job_of_stack :: "'x stack \<Rightarrow> 'x job \<Rightarrow> bool" where
  "job_of_stack S j \<longleftrightarrow> h_ingester (sk_handlers S) = Some (jb_ingester j)
     \<and> i_publisher (jb_ingester j) = Some (jb_publish j)"

fun thread_of_stack :: "'x stack \<Rightarrow> ('ts, 'x) thread \<Rightarrow> bool" where
  "thread_of_stack S (Clocking j _) = job_of_stack S j"
| "thread_of_stack S (Naming j _ _) = job_of_stack S j"
| "thread_of_stack S (Sending j _ _ _) = job_of_stack S j"
| "thread_of_stack S _ = True"

lemma refuse_of_stack [simp]: "thread_of_stack S (refuse E j err)"
  by (simp add: refuse_def)

lemma route_of_stack: "thread_of_stack S (route_request E S r rid x)"
  by (auto simp: route_request_def submit_begin_def job_of_stack_def bind_eq_Some_conv Let_def
      split: sum.split option.split)

lemma new_request_id_keeps: "keeps Q newV7 \<Longrightarrow> keeps Q (new_request_id newV7 r)"
  unfolding keeps_def
proof (intro allI impI)
  fix x assume Q: "\<forall>x. Q x \<longrightarrow> Q (snd (newV7 x))" "Q x"
  have "snd (new_request_id newV7 r x) = x \<or> snd (new_request_id newV7 r x) = snd (newV7 x)"
    by (simp add: new_request_id_def Let_def split: prod.split sum.split)
  with Q show "Q (snd (new_request_id newV7 r x))" by auto
qed

lemma thread_step_keeps:
  assumes S: "stack_keeps Q S" and "thread_of_stack S t" and "Q (ww_env x)"
    and "thread_step E S t x = (t', x')"
  shows "thread_of_stack S t' \<and> Q (ww_env x')"
proof -
  note k = S[unfolded stack_keeps_def]
  show ?thesis
  proof (cases t)
    case (Arrived r)
    with assms(3,4) show ?thesis
      using keepsD[OF new_request_id_keeps[OF k[THEN conjunct1]]] by (auto split: prod.splits)
  next
    case (Clocking j n)
    with assms k show ?thesis
      by (auto simp: job_of_stack_def split: prod.splits intro: keepsD)
  next
    case (Naming j n now)
    with assms k have q: "Q (snd (i_idFn (jb_ingester j) (ww_env x)))"
      by (auto simp: job_of_stack_def keeps_def)
    with Naming assms show ?thesis by (auto split: prod.splits sum.splits)
  next
    case (Sending j nid now body)
    with assms k show ?thesis
      by (auto simp: job_of_stack_def split: prod.splits intro: keepsD)
  next
    case (Measuring j nid now e)
    with assms show ?thesis by (auto split: option.splits)
  qed (use assms k route_of_stack in auto)
qed

subsection \<open>What the libraries promise\<close>

definition same :: "('x \<Rightarrow> bool) \<Rightarrow> ('x \<Rightarrow> nat) \<Rightarrow> 'x \<Rightarrow> 'x \<Rightarrow> bool" where
  "same up opened x y \<longleftrightarrow> up y = up x \<and> opened y = opened x"

lemma same_refl [simp]: "same up opened x x"
  by (simp add: same_def)

lemma same_trans: "same up opened x y \<Longrightarrow> same up opened y z \<Longrightarrow> same up opened x z"
  by (simp add: same_def)

text \<open>A client counts as open from its creation to its \<open>Close\<close>; nothing else changes the count.\<close>

definition sdk_contract ::
  "('x \<Rightarrow> bool) \<Rightarrow> ('x \<Rightarrow> nat) \<Rightarrow> ('x, 'cl, 'pr, 'co, 'm) pulsar_sdk \<Rightarrow> bool" where
  "sdk_contract up opened K \<longleftrightarrow>
     (\<forall>u x e y. sdk_new_client K u x = (Inl e, y) \<longrightarrow> same up opened x y)
     \<and> (\<forall>u x c y. sdk_new_client K u x = (Inr c, y) \<longrightarrow> up y = up x \<and> opened y = Suc (opened x))
     \<and> (\<forall>c x. up (sdk_close_client K c x) = up x \<and> opened (sdk_close_client K c x) = opened x - 1)
     \<and> (\<forall>c os x. same up opened x (snd (sdk_create_producer K c os x)))
     \<and> (\<forall>c os x. same up opened x (snd (sdk_subscribe K c os x)))
     \<and> (\<forall>p x. same up opened x (sdk_close_producer K p x))
     \<and> (\<forall>c x. same up opened x (sdk_close_consumer K c x))
     \<and> (\<forall>p m x. same up opened x (snd (sdk_send K p m x)))
     \<and> (\<forall>c x. same up opened x (snd (sdk_receive K c x)))
     \<and> (\<forall>c m x. same up opened x (sdk_ack K c m x))"

text \<open>The telemetry calls open no client.\<close>

definition otel_opens_none :: "('x \<Rightarrow> nat) \<Rightarrow> ('f, 'x) otel_sdk \<Rightarrow> bool" where
  "otel_opens_none opened S \<longleftrightarrow>
     (\<forall>cfg x. opened (snd (otel_init S cfg x)) = opened x)
     \<and> (\<forall>cfg x sh x'. otel_init S cfg x = (Inr sh, x') \<longrightarrow> (\<forall>y. opened (snd (sh y)) = opened y))
     \<and> (\<forall>x. opened (snd (otel_runtime_start S x)) = opened x) \<and> (\<forall>x. opened (snd (otel_host_start S x)) = opened x)"

definition writer_contract ::
  "('x \<Rightarrow> bool) \<Rightarrow> ('x \<Rightarrow> nat) \<Rightarrow> ('f, 'x, 'cl, 'pr, 'co, 'm) writer_host \<Rightarrow> bool" where
  "writer_contract up opened H \<longleftrightarrow>
     otel_contract up (wh_otel H) \<and> otel_opens_none opened (wh_otel H) \<and> sdk_contract up opened (wh_sdk H)
     \<and> (\<forall>lvl l x. same up opened x (wh_json_handler H lvl l x))
     \<and> (\<forall>x. same up opened x (snd (wh_now H x))) \<and> (\<forall>x. same up opened x (snd (wh_newV7 H x)))"

lemma telemetry_Init_opened:
  assumes "otel_opens_none opened S" and "telemetry_Init S cfg x = (res, x')"
  shows "opened x' = opened x" and "res = Inr sh \<Longrightarrow> opened (snd (sh y)) = opened y"
proof -
  obtain ir x1 where i: "otel_init S (ootel_config_of cfg) x = (ir, x1)" by force
  obtain e2 x2 where r: "otel_runtime_start S x1 = (e2, x2)" by force
  obtain e3 x3 where h: "otel_host_start S x2 = (e3, x3)" by force
  have o1: "opened x1 = opened x" "opened x2 = opened x1" "opened x3 = opened x2"
    using assms(1) i r h unfolding otel_opens_none_def by (metis snd_conv)+
  have o2: "opened (snd (sh' y)) = opened y" if "ir = Inr sh'" for sh' y
    using assms(1) i that unfolding otel_opens_none_def by blast
  show "opened x' = opened x"
    using assms(2) i r h o1 o2
    by (auto simp: telemetry_Init_def split: if_splits sum.splits option.splits)
  show "res = Inr sh \<Longrightarrow> opened (snd (sh y)) = opened y"
    using assms(2) i r h o2
    by (auto simp: telemetry_Init_def split: if_splits sum.splits option.splits)
qed

lemma sdk_contractD:
  assumes "sdk_contract up opened K"
  shows "sdk_new_client K u x = (Inl e, y) \<Longrightarrow> same up opened x y"
    and "sdk_new_client K u x = (Inr c, y) \<Longrightarrow> up y = up x \<and> opened y = Suc (opened x)"
    and "up (sdk_close_client K c x) = up x" and "opened (sdk_close_client K c x) = opened x - 1"
    and "same up opened x (snd (sdk_create_producer K c ps x))"
    and "same up opened x (snd (sdk_subscribe K c cs x))"
    and "same up opened x (sdk_close_producer K p x)" and "same up opened x (sdk_close_consumer K co x)"
    and "same up opened x (snd (sdk_send K p pm x))" and "same up opened x (snd (sdk_receive K co x))"
    and "same up opened x (sdk_ack K co m x)"
proof -
  note c = assms[unfolded sdk_contract_def]
  show "sdk_new_client K u x = (Inl e, y) \<Longrightarrow> same up opened x y"
    using c[THEN conjunct1] by blast
  show "sdk_new_client K u x = (Inr c, y) \<Longrightarrow> up y = up x \<and> opened y = Suc (opened x)"
    using c[THEN conjunct2, THEN conjunct1] by blast
qed (insert assms, simp_all add: sdk_contract_def)

lemma NewApachePublisher_opened:
  assumes K: "sdk_contract up opened K" and n: "NewApachePublisher K dl opts x = (res, y)"
  shows "case res of Inl _ \<Rightarrow> same up opened x y | Inr _ \<Rightarrow> up y = up x \<and> opened y = Suc (opened x)"
proof (cases "validateProducer (pl_Apply opts)")
  case (Some e)
  with n show ?thesis by (auto simp: NewApachePublisher_def Let_def)
next
  case None
  let ?c = "pl_Apply opts"
  obtain cr x1 where c: "sdk_new_client K (o_serviceURL ?c) x = (cr, x1)" by force
  show ?thesis
  proof (cases cr)
    case (Inl e)
    with n None c sdk_contractD(1)[OF K c[unfolded Inl]] show ?thesis
      by (auto simp: NewApachePublisher_def Let_def)
  next
    case (Inr cl)
    let ?o = "\<lparr>po_topic = o_topic ?c, po_key_reader = o_encryptionKeyReader ?c, po_keys = o_encryptionKeyNames ?c\<rparr>"
    obtain pr x2 where p: "sdk_create_producer K cl ?o x1 = (pr, x2)" by force
    show ?thesis
      using n None c Inr p sdk_contractD(2)[OF K c[unfolded Inr]] sdk_contractD(5)[OF K, of x1 cl ?o]
      by (cases pr) (auto simp: NewApachePublisher_def same_def sdk_contractD(3,4)[OF K] Let_def)
  qed
qed

lemma publisher_close_opened:
  assumes "sdk_contract up opened K"
  shows "up (snd (publisher_close K p x)) = up x" and "opened (snd (publisher_close K p x)) = opened x - 1"
  using sdk_contractD(3,4,7)[OF assms] by (simp_all add: publisher_close_def same_def)

subsection \<open>The process\<close>

lemma writer_stop_releases:
  assumes "writer_contract up opened H"
    and "telemetry_Init (wh_otel H) cfg x0 = (Inr sh, x1)"
  shows "\<not> up (writer_stop H sh pub y)" and "opened (writer_stop H sh pub y) = opened y - 1"
  using assms telemetry_Init_ok(2)[of up "wh_otel H" cfg x0 sh x1] telemetry_Init_opened(2)[of opened "wh_otel H"]
    publisher_close_opened[of up opened "wh_sdk H"]
  by (auto simp: writer_stop_def writer_contract_def)

lemma writer_run_releases:
  assumes C: "writer_contract up opened H" and "\<not> up x" and run: "writer_run E H x = (res, x')"
  shows "case res of Inl _ \<Rightarrow> \<not> up x' \<and> opened x' = opened x | Inr _ \<Rightarrow> opened x' = Suc (opened x)"
proof -
  have L: "same up opened y (wh_json_handler H lvl l y)" for lvl l y
    using C by (simp add: writer_contract_def)
  have otel: "otel_contract up (wh_otel H)" "otel_opens_none opened (wh_otel H)"
    and K: "sdk_contract up opened (wh_sdk H)" using C by (simp_all add: writer_contract_def)
  show ?thesis
  proof (cases "writer_Load (wh_env H) []")
    case (Inl e)
    with run \<open>\<not> up x\<close> show ?thesis by (auto simp: writer_run_def)
  next
    case cfg: (Inr cfg)
    show ?thesis
    proof (cases "logging_New E (wh_json_handler H) (cfg_LogLevel (wc_shared cfg))")
      case (Inl e)
      with cfg run \<open>\<not> up x\<close> show ?thesis by (auto simp: writer_run_def)
    next
      case lg: (Inr logger)
      then obtain lvl where "logger = wh_json_handler H lvl"
        by (auto simp: logging_New_def split: prod.splits option.splits)
      then have x0: "\<not> up (logger (writer_starting cfg) x)" "opened (logger (writer_starting cfg) x) = opened x"
        using L \<open>\<not> up x\<close> by (simp_all add: same_def)
      obtain tr x1 where t: "telemetry_Init (wh_otel H) (telemetry_config_of (wc_shared cfg))
          (logger (writer_starting cfg) x) = (tr, x1)" by force
      have o1: "opened x1 = opened x" using telemetry_Init_opened(1)[OF otel(2) t] x0(2) by simp
      show ?thesis
      proof (cases tr)
        case (Inl e)
        with run cfg lg t telemetry_Init_error[OF otel(1) t[unfolded Inl] x0(1)] o1 show ?thesis
          by (auto simp: writer_run_def)
      next
        case sh: (Inr sh)
        note down = telemetry_Init_ok(2)[OF otel(1) t[unfolded sh]] telemetry_Init_opened(2)[OF otel(2) t sh]
        note stop = writer_stop_releases[OF C t[unfolded sh]]
        note pub = NewApachePublisher_opened[OF K, of "wh_logger_id H" "writer_publisher_options cfg (wh_logger_id H)" x1]
        show ?thesis
          using run cfg lg t sh o1 down stop pub
          by (auto simp: writer_run_def same_def split: sum.splits prod.splits)
      qed
    qed
  qed
qed

lemma image_witness: "Q a \<Longrightarrow> \<exists>y. Q y \<and> f a = f y"
  by blast

lemma wp_step_keeps:
  assumes S: "stack_keeps Q S" and L: "\<And>l x. Q x \<Longrightarrow> Q (run_logger srv l x)"
  shows "wp_step E S srv p sent q \<Longrightarrow> list_all (thread_of_stack S) (wp_requests p) \<Longrightarrow> Q (ww_env (wp_world p))
    \<Longrightarrow> list_all (thread_of_stack S) (wp_requests q) \<and> running (wp_main p)
      \<and> (\<exists>y. Q y \<and> ww_env (wp_world q) = (if running (wp_main q) then y else run_stop srv y))"
proof (induction rule: wp_step.induct)
  case (moves p i t x')
  have "thread_of_stack S (wp_requests p ! i)" using moves(2,5) by (simp add: list_all_length)
  from thread_step_keeps[OF S this moves(6,4)] moves(1,5) show ?case by (auto simp: list_all_update)
qed (auto simp: wp_defs L intro: image_witness[where f = "run_stop srv"])

text \<open>The invariant of a run: what the requests hold, and \<open>Q\<close> until the deferred functions run.\<close>

lemma wp_run_keeps:
  assumes S: "stack_keeps Q S" and L: "\<And>l x. Q x \<Longrightarrow> Q (run_logger srv l x)"
  shows "wp_run E S srv p sent q \<Longrightarrow> list_all (thread_of_stack S) (wp_requests p) \<Longrightarrow> Q (ww_env (wp_world p))
    \<Longrightarrow> running (wp_main p) \<Longrightarrow> list_all (thread_of_stack S) (wp_requests q)
      \<and> (\<exists>y. Q y \<and> ww_env (wp_world q) = (if running (wp_main q) then y else run_stop srv y))"
proof (induction rule: wp_run.induct)
  case (wp_next p sent q new q')
  then have IH: "list_all (thread_of_stack S) (wp_requests q)"
    "\<exists>y. Q y \<and> ww_env (wp_world q) = (if running (wp_main q) then y else run_stop srv y)" by simp_all
  have "running (wp_main q)" using wp_next.hyps(2) exited_stuck by blast
  with wp_step_keeps[OF S L wp_next.hyps(2)] IH show ?case by auto
qed auto

lemma newUUIDv7_world: "snd (newUUIDv7 newV7 x) = snd (newV7 x)"
  by (simp add: newUUIDv7_def split: prod.split sum.split)

lemma apache_publish_world: "snd (apache_publish K p inp x) = snd (sdk_send K (ap_producer p)
    \<lparr>pm_payload = in_body inp, pm_properties = [NotificationIDProperty \<mapsto> in_notification_id inp]\<rparr> x)"
  by (simp add: apache_publish_def split: prod.split option.split)

text \<open>C10: The writer leaves nothing open. Whatever way the process ends (a configuration that does not
  load, telemetry, keys, tokens or a broker that fail, an error of the listener, a signal with or
  without requests still in flight when the grace period is over), no telemetry provider is
  registered any more and every Pulsar client it opened is closed; and the exit code is 0 exactly
  when nothing was written to standard error.\<close>

theorem writer_leaves_nothing_open:
  assumes "writer_contract up opened H" and "\<not> up x" and "writer_process E H ms x (code, err) x'"
  shows "\<not> up x' \<and> opened x' = opened x \<and> (code = 0 \<longleftrightarrow> err = [])"
  using assms(3)
proof cases
  case (not_started e)
  from writer_run_releases[OF assms(1,2) not_started(2)] not_started(1) show ?thesis
    by (simp add: writer_exit_def)
next
  case (ran srv x1 cfg logger bearer pub hs i sent p r)
  let ?S = "writer_stack H logger bearer hs" and ?Q = "\<lambda>y. opened y = Suc (opened x)"
  have o1: "?Q x1" using writer_run_releases[OF assms(1,2) ran(3)] by simp
  obtain cfg' logger' pub' tel x0 where w: "logging_New E (wh_json_handler H) (cfg_LogLevel (wc_shared cfg')) = Inr logger'"
    "telemetry_Init (wh_otel H) (telemetry_config_of (wc_shared cfg')) (logger' (writer_starting cfg') x) = (Inr tel, x0)"
    "run_stop srv = writer_stop H tel pub'" "run_logger srv = logger'"
    by (rule writer_run_ready[OF ran(3)]) (simp add: writer_ready_def)
  have L: "same up opened y (wh_json_handler H lvl l y)" for lvl l y
    using assms(1) by (simp add: writer_contract_def)
  have lg: "\<exists>lvl. logger' = wh_json_handler H lvl"
    using w(1) by (auto simp: logging_New_def split: prod.splits option.splits)
  have eq: "run_logger srv = logger" using ran(4) by (simp add: writer_ready_def)
  have S: "stack_keeps ?Q ?S"
    using assms(1) ran(4) lg w(4) eq L
    by (auto simp: stack_keeps_def writer_stack_def writer_ready_def writer_contract_def keeps_def same_def
        newUUIDv7_world apache_publish_world sdk_contractD(9)[unfolded same_def])
  obtain y where y: "?Q y" "ww_env (wp_world p) = run_stop srv y"
    using wp_run_keeps[OF S _ ran(5)] o1 ran(6) lg w(4) L
    by (auto simp: proc_start_def same_def)
  have "\<not> up x'" "opened x' = opened y - 1"
    using writer_stop_releases[OF assms(1) w(2), of pub' y] y(2) w(3) ran(2) by simp_all
  with y(1) ran(1) show ?thesis by (auto simp: writer_exit_def split: option.splits)
qed

end
