(* ===== verification/Deliverer_Process.thy ===== *)
theory Deliverer_Process
  imports Deliverer_Main Writer_Resources
begin

text \<open>
  The deliverer process after its construction (\<open>cmd/deliverer\<close>, the tail of \<open>run\<close>, and \<open>main\<close>): main
  starts the workers, waits for the signal, then for the wait group, and returns. The signal
  cancels the context of the workers: from then on the reader they share is another one, of which
  nothing is assumed: it may return the context's error or still hand over messages. Main does not
  look at the workers before the signal.
\<close>

subsection \<open>The process\<close>

datatype main_state = Waiting | Draining | Returned_nil

record ('ts, 'l, 'm, 'x) dproc =
  dp_main :: main_state
  dp_cancelled :: bool
  dp_workers :: "('ts, 'm, 'x) worker list"
  dp_world :: "('l, 'm, 'x) cworld"

definition dproc_start :: "int \<Rightarrow> ('l, 'm, 'x) cworld \<Rightarrow> ('ts, 'l, 'm, 'x) dproc" where
  "dproc_start n w = (case pool_start n w of (ws, w') \<Rightarrow>
     \<lparr>dp_main = Waiting, dp_cancelled = False, dp_workers = ws, dp_world = w'\<rparr>)"

definition shutdown_line :: "string \<Rightarrow> log_line" where
  "shutdown_line msg = \<lparr>ll_level = LevelInfo, ll_msg = msg, ll_attrs = []\<rparr>"

definition deliverer_begin_shutdown ::
  "'x logger \<Rightarrow> ('ts, 'l, 'm, 'x) dproc \<Rightarrow> ('ts, 'l, 'm, 'x) dproc" where
  "deliverer_begin_shutdown logger p = p\<lparr>dp_main := Draining,
     dp_world := on_base (log_env logger (shutdown_line ''deliverer.shutdown.beginning'')) (dp_world p)\<rparr>"

text \<open>The deferred functions \<open>close\<close> run with the return of \<open>run\<close>.\<close>

definition deliverer_end_shutdown ::
  "'x logger \<Rightarrow> ('x \<Rightarrow> 'x) \<Rightarrow> ('ts, 'l, 'm, 'x) dproc \<Rightarrow> ('ts, 'l, 'm, 'x) dproc" where
  "deliverer_end_shutdown logger close p = p\<lparr>dp_main := Returned_nil,
     dp_world := on_base (\<lambda>b. b\<lparr>dw_env := close (dw_env b)\<rparr>)
       (on_base (log_env logger (shutdown_line ''deliverer.shutdown.complete'')) (dp_world p))\<rparr>"

text \<open>The consumer as the workers find it: with the reader \<open>r\<close> of the cancelled context after the signal.\<close>

definition consumer_now ::
  "('ts, 'l, 'm, 'x) consumer \<Rightarrow> ('m, 'x) reader \<Rightarrow> ('ts, 'l, 'm, 'x) dproc \<Rightarrow> ('ts, 'l, 'm, 'x) consumer" where
  "consumer_now c r p = (if dp_cancelled p then c\<lparr>c_reader := r\<rparr> else c)"

inductive dp_step ::
  "'ts ext \<Rightarrow> ('ts, 'l, 'm, 'x) consumer \<Rightarrow> ('m, 'x) reader \<Rightarrow> ('x \<Rightarrow> 'x) \<Rightarrow> ('ts, 'l, 'm, 'x) dproc
    \<Rightarrow> 'm consumed_message list \<Rightarrow> ('ts, 'l, 'm, 'x) dproc \<Rightarrow> bool" for E c r close where
  dp_pool: "dp_main p \<noteq> Returned_nil \<Longrightarrow>
    pool_step E (consumer_now c r p) (dp_workers p, dp_world p) got (ws, w) \<Longrightarrow>
    dp_step E c r close p got (p\<lparr>dp_workers := ws, dp_world := w\<rparr>)"
| dp_signal: "\<not> dp_cancelled p \<Longrightarrow> dp_step E c r close p [] (p\<lparr>dp_cancelled := True\<rparr>)"
| dp_done: "dp_main p = Waiting \<Longrightarrow> dp_cancelled p \<Longrightarrow>
    dp_step E c r close p [] (deliverer_begin_shutdown (c_logger c) p)"
| dp_waited: "dp_main p = Draining \<Longrightarrow> all_joined (dp_workers p) \<Longrightarrow>
    dp_step E c r close p [] (deliverer_end_shutdown (c_logger c) close p)"

inductive dp_run ::
  "'ts ext \<Rightarrow> ('ts, 'l, 'm, 'x) consumer \<Rightarrow> ('m, 'x) reader \<Rightarrow> ('x \<Rightarrow> 'x) \<Rightarrow> ('ts, 'l, 'm, 'x) dproc
    \<Rightarrow> 'm consumed_message list \<Rightarrow> ('ts, 'l, 'm, 'x) dproc \<Rightarrow> bool" for E c r close where
  dp_refl: "dp_run E c r close p [] p"
| dp_next: "dp_run E c r close p got q \<Longrightarrow> dp_step E c r close q new q'
    \<Longrightarrow> dp_run E c r close p (got @ new) q'"

definition deliverer_exit :: "goerr option \<Rightarrow> int \<times> string" where
  "deliverer_exit r = (case r of None \<Rightarrow> (0, []) | Some e \<Rightarrow> (1, ''deliverer: '' @ error_string e @ [newline]))"

inductive deliverer_process ::
  "'ts ext \<Rightarrow> ('f, 'ts, 'l, 'y, 'cl, 'pr, 'co, 'm) deliverer_host \<Rightarrow> 'l \<Rightarrow> points \<Rightarrow> ('ts, 'y) denv
    \<Rightarrow> ('m, ('ts, 'y) denv) reader \<Rightarrow> int \<times> string \<Rightarrow> ('ts, 'y) denv \<Rightarrow> bool" for E H l ms x r where
  deliverer_not_started: "deliverer_run E H x = (Inl e, x') \<Longrightarrow>
    deliverer_process E H l ms x r (deliverer_exit (Some e)) x'"
| deliverer_ran: "deliverer_run E H x = (Inr dv, x') \<Longrightarrow>
    dp_run E (run_consumer dv) r (run_close dv)
      (dproc_start (run_workers dv) \<lparr>cw_base = \<lparr>dw_log = l, dw_metrics = ms, dw_env = x'\<rparr>, cw_acks = []\<rparr>) got p \<Longrightarrow>
    dp_main p = Returned_nil \<Longrightarrow>
    deliverer_process E H l ms x r (deliverer_exit None) (dw_env (cw_base (dp_world p)))"

subsection \<open>Nothing is lost\<close>

lemma accounts_env:
  "accounts E rec w0 got evs (ws, on_base (log_env lg line) w) = accounts E rec w0 got evs (ws, w)"
  "accounts E rec w0 got evs (ws, on_base (\<lambda>b. b\<lparr>dw_env := f (dw_env b)\<rparr>) w) = accounts E rec w0 got evs (ws, w)"
  by (simp_all add: accounts_def recorded_def on_base_def log_env_def)

lemma dp_step_accounts:
  assumes "shares_recorder c"
  shows "dp_step E c r close p new q \<Longrightarrow> accounts E (c_recorder c) w0 got evs (dp_workers p, dp_world p)
    \<Longrightarrow> \<exists>evs'. accounts E (c_recorder c) w0 (got @ new) (evs @ evs') (dp_workers q, dp_world q)"
proof (induction rule: dp_step.induct)
  case (dp_pool p new ws w)
  have "shares_recorder (consumer_now c r p)" "c_recorder (consumer_now c r p) = c_recorder c"
    using assms by (simp_all add: consumer_now_def shares_recorder_def)
  from pool_step_accounts[OF this(1) dp_pool(2), unfolded this(2), OF dp_pool(3)] show ?case by simp
qed (auto simp: deliverer_begin_shutdown_def deliverer_end_shutdown_def accounts_env intro: exI[of _ "[]"])

lemma dp_run_accounts:
  assumes "shares_recorder c"
  shows "dp_run E c r close p got q \<Longrightarrow> accounts E (c_recorder c) w0 got0 evs0 (dp_workers p, dp_world p)
    \<Longrightarrow> \<exists>evs. accounts E (c_recorder c) w0 (got0 @ got) (evs0 @ evs) (dp_workers q, dp_world q)"
proof (induction rule: dp_run.induct)
  case (dp_refl p)
  then show ?case by (intro exI[of _ "[]"]) simp
next
  case (dp_next p got q new q')
  then obtain evs where "accounts E (c_recorder c) w0 (got0 @ got) (evs0 @ evs) (dp_workers q, dp_world q)"
    by blast
  from dp_step_accounts[OF assms dp_next.hyps(2) this] show ?case by (metis append_assoc)
qed

text \<open>Main returns only after the signal and the last worker.\<close>

definition dp_control :: "('ts, 'l, 'm, 'x) dproc \<Rightarrow> bool" where
  "dp_control p \<longleftrightarrow> (dp_main p \<noteq> Waiting \<longrightarrow> dp_cancelled p)
     \<and> (dp_main p = Returned_nil \<longrightarrow> all_joined (dp_workers p))"

lemma dp_control_step: "dp_step E c r close p new q \<Longrightarrow> dp_control p \<Longrightarrow> dp_control q"
  by (induction rule: dp_step.induct)
     (auto simp: dp_control_def deliverer_begin_shutdown_def deliverer_end_shutdown_def)

lemma dp_control_run: "dp_run E c r close p got q \<Longrightarrow> dp_control p \<Longrightarrow> dp_control q"
  by (induction rule: dp_run.induct) (auto intro: dp_control_step)

lemma shutdown_books:
  assumes "deliverer_run E H x = (Inr dv, x')" and "c = run_consumer dv"
    and "dp_run E c r (run_close dv) (dproc_start (run_workers dv) w) got p" and "dp_main p = Returned_nil"
  shows "dp_cancelled p \<and> all_joined (dp_workers p)
     \<and> mset (cw_acks (dp_world p)) = mset (cw_acks w) + mset (map cm_msg got)
     \<and> (\<exists>evs. list_all (event_ok E) evs \<and> mset (all_of event_msgs evs) = mset got
          \<and> dw_log (cw_base (dp_world p)) = fold (c_recorder c) (map event_outcome evs) (dw_log (cw_base w))
          \<and> length (outcome_points (dw_metrics (cw_base (dp_world p))))
              = length (outcome_points (dw_metrics (cw_base w))) + length evs)"
proof -
  obtain cfg push ac logger where "deliverer_ready E H cfg push ac logger c"
    using deliverer_run_ready[OF assms(1)] assms(2) by metis
  note sh = ready_dispatcher(1)[OF this]
  have "dp_control p"
    by (rule dp_control_run[OF assms(3)]) (simp add: dp_control_def dproc_start_def pool_start_def)
  with assms(4) have j: "all_joined (dp_workers p)" and sig: "dp_cancelled p" by (simp_all add: dp_control_def)
  have "accounts E (c_recorder c) w [] [] (dp_workers (dproc_start (run_workers dv) w),
      dp_world (dproc_start (run_workers dv) w))"
    using accounts_start[of E "c_recorder c" w "run_workers dv"] by (simp add: dproc_start_def pool_start_def)
  from dp_run_accounts[OF sh assms(3) this] obtain evs where
    a: "accounts E (c_recorder c) w got evs (dp_workers p, dp_world p)" by auto
  have "all_of undecided (dp_workers p) = []" "all_of unacked (dp_workers p) = []"
    using all_joined_of[OF j, of undecided] all_joined_of[OF j, of unacked] by simp_all
  with a j sig show ?thesis
    by (auto simp: accounts_def recorded_def simp del: concat_eq_Nil_conv intro!: exI[of _ evs])
qed

text \<open>C9: A shutdown loses nothing. When the process of a started deliverer has run, its workers
  interleaved in any way with each other, with the signal and with main, and \<open>run\<close> has returned, then
  the signal had come and every worker had left the wait group; every message ever delivered to one
  of them has one recorded and counted outcome under its identifier and was acknowledged exactly
  once.\<close>

theorem shutdown_drains:
  assumes "deliverer_run E H x = (Inr dv, x')" and "c = run_consumer dv"
    and "dp_run E c r (run_close dv) (dproc_start (run_workers dv) w) got p" and "dp_main p = Returned_nil"
  shows "dp_cancelled p \<and> all_joined (dp_workers p)
     \<and> mset (cw_acks (dp_world p)) = mset (cw_acks w) + mset (map cm_msg got)
     \<and> (\<exists>evs. list_all (event_ok E) evs \<and> mset (all_of event_msgs evs) = mset got
          \<and> dw_log (cw_base (dp_world p)) = fold (c_recorder c) (map event_outcome evs) (dw_log (cw_base w))
          \<and> length (outcome_points (dw_metrics (cw_base (dp_world p))))
              = length (outcome_points (dw_metrics (cw_base w))) + length evs)"
  by (rule shutdown_books[OF assms])

subsection \<open>Shutdown ends\<close>

text \<open>After the signal each step uses up a part of this measure.\<close>

definition dp_measure :: "('ts, 'l, 'm, 'x) consumer \<Rightarrow> ('ts, 'l, 'm, 'x) dproc \<Rightarrow> nat" where
  "dp_measure c p = pool_size c (dp_workers p, dp_world p)
     + (case dp_main p of Waiting \<Rightarrow> 2 | Draining \<Rightarrow> 1 | Returned_nil \<Rightarrow> 0)"

lemma pool_size_world: "pool_size c (ws, w) = pool_size c (ws, w')"
  by (simp add: pool_size_def)

lemma cancelled_step:
  assumes "reader_cancelled r" and "dp_cancelled p" and "dp_step E c r close p new q"
  shows "dp_measure (c\<lparr>c_reader := r\<rparr>) q < dp_measure (c\<lparr>c_reader := r\<rparr>) p \<and> dp_cancelled q"
  using assms(3)
proof cases
  case (dp_pool ws w)
  have "reader_cancelled (c_reader (c\<lparr>c_reader := r\<rparr>))" using assms(1) by simp
  from pool_step_size[OF this] dp_pool(3) assms(2) have
    "pool_size (c\<lparr>c_reader := r\<rparr>) (ws, w) < pool_size (c\<lparr>c_reader := r\<rparr>) (dp_workers p, dp_world p)"
    by (simp add: consumer_now_def)
  with dp_pool(1) assms(2) show ?thesis by (simp add: dp_measure_def)
qed (use assms(2) in \<open>simp_all add: dp_measure_def pool_size_def deliverer_begin_shutdown_def
  deliverer_end_shutdown_def\<close>)

lemma dp_stuck:
  assumes "dp_cancelled p"
  shows "(\<forall>new q. \<not> dp_step E c r close p new q) \<longleftrightarrow> dp_main p = Returned_nil"
proof
  assume stuck: "\<forall>new q. \<not> dp_step E c r close p new q"
  show "dp_main p = Returned_nil"
  proof (rule ccontr)
    assume run: "dp_main p \<noteq> Returned_nil"
    have "\<not> pool_step E (consumer_now c r p) (dp_workers p, dp_world p) new q" for new q
      using stuck dp_step.dp_pool[OF run] by (metis surj_pair)
    then have "all_joined (dp_workers p)" using pool_stuck by blast
    with run assms stuck dp_done dp_waited show False by (metis main_state.exhaust)
  qed
next
  assume "dp_main p = Returned_nil"
  with assms show "\<forall>new q. \<not> dp_step E c r close p new q" by (auto elim!: dp_step.cases)
qed

text \<open>
  For any reader: what a step may take is paid for by the outcomes recorded. \<open>dp_steps\<close> are runs counted
  by their steps.
\<close>

definition dp_potential :: "('ts, 'l, 'm, 'x) consumer \<Rightarrow> ('ts, 'l, 'm, 'x) dproc \<Rightarrow> nat" where
  "dp_potential c p = pool_potential c (dp_workers p)
     + (case dp_main p of Waiting \<Rightarrow> 2 | Draining \<Rightarrow> 1 | Returned_nil \<Rightarrow> 0)"

definition dp_steps ::
  "'ts ext \<Rightarrow> ('ts, 'l, 'm, 'x) consumer \<Rightarrow> ('m, 'x) reader \<Rightarrow> ('x \<Rightarrow> 'x) \<Rightarrow> nat
    \<Rightarrow> ('ts, 'l, 'm, 'x) dproc \<Rightarrow> ('ts, 'l, 'm, 'x) dproc \<Rightarrow> bool" where
  "dp_steps E c r close k = (\<lambda>p q. \<exists>new. dp_step E c r close p new q) ^^ k"

definition dp_outcomes :: "('ts, 'l, 'm, 'x) dproc \<Rightarrow> nat" where
  "dp_outcomes p = outcomes_in (dp_world p)"

lemma potential_reader: "worker_potential (c\<lparr>c_reader := r\<rparr>) = worker_potential c"
  "handling_cost (c\<lparr>c_reader := r\<rparr>) = handling_cost c"
proof -
  show h: "handling_cost (c\<lparr>c_reader := r\<rparr>) = handling_cost c" by (simp add: handling_cost_def)
  show "worker_potential (c\<lparr>c_reader := r\<rparr>) = worker_potential c"
  proof
    fix s show "worker_potential (c\<lparr>c_reader := r\<rparr>) s = worker_potential c s" by (cases s) (simp_all add: h)
  qed
qed

lemma dp_step_potential:
  assumes "dp_cancelled p" and "dp_step E c r close p new q"
  shows "Suc (dp_potential c q) + handling_cost c * dp_outcomes p
      \<le> dp_potential c p + handling_cost c * dp_outcomes q \<and> dp_cancelled q"
  using assms(2)
proof cases
  case (dp_pool ws w)
  from pool_step_potential[of E "c\<lparr>c_reader := r\<rparr>"] dp_pool(3) assms(1) have
    "Suc (pool_potential c ws) + handling_cost c * outcomes_in (dp_world p)
      \<le> pool_potential c (dp_workers p) + handling_cost c * outcomes_in w"
    by (simp add: consumer_now_def pool_potential_def potential_reader)
  with dp_pool(1) assms(1) show ?thesis by (simp add: dp_potential_def dp_outcomes_def)
qed (use assms(1) in \<open>simp_all add: dp_potential_def dp_outcomes_def deliverer_begin_shutdown_def
  deliverer_end_shutdown_def on_base_def log_env_def\<close>)

lemma dp_steps_potential:
  assumes "dp_cancelled p"
  shows "dp_steps E c r close k p q \<Longrightarrow> k + dp_potential c q + handling_cost c * dp_outcomes p
      \<le> dp_potential c p + handling_cost c * dp_outcomes q \<and> dp_cancelled q"
proof (induction k arbitrary: q)
  case 0
  with assms show ?case by (simp add: dp_steps_def)
next
  case (Suc k)
  then obtain q' new where "dp_steps E c r close k p q'" and st: "dp_step E c r close q' new q"
    by (auto simp: dp_steps_def)
  with Suc.IH have ih: "k + dp_potential c q' + handling_cost c * dp_outcomes p
      \<le> dp_potential c p + handling_cost c * dp_outcomes q'" "dp_cancelled q'" by blast+
  from dp_step_potential[OF ih(2) st] ih(1) show ?case by simp
qed

lemma budget_arith:
  fixes a b h :: nat
  assumes "Suc a + h * i \<le> b + h * j" and "j \<le> n"
  shows "a + h * (n - j) < b + h * (n - i)"
proof -
  have "h * n \<le> h * (n - i) + h * i"
    using mult_le_mono2[of n "n - i + i" h] by (simp add: distrib_left)
  moreover have "h * (n - j) + h * j = h * n"
    using assms(2) by (metis distrib_left le_add_diff_inverse2)
  ultimately show ?thesis using assms(1) by linarith
qed

text \<open>C21: The shutdown of the deliverer ends unless the reader hands over messages for ever: \<open>Run\<close> itself
  never looks at the context, so nothing is assumed of what the reader returns. After the signal has
  cancelled the context, the number of steps workers and main have taken, in any order, is at most a
  number fixed at that moment plus, for every outcome recorded since, six steps and three for every
  attempt the policy allows; so a bound on the messages the reader still delivers bounds the steps,
  and there is no infinite run that records finitely many outcomes. Nothing ever blocks for good:
  the process can take a step as long as \<open>run\<close> has not returned, and none after.\<close>

theorem deliverer_shutdown_ends:
  assumes "dp_cancelled p" and "dp_steps E c r close k p q"
  shows "k + handling_cost c * dp_outcomes p \<le> dp_potential c p + handling_cost c * dp_outcomes q
     \<and> handling_cost c = 6 + 3 * nat (rp_MaxAttempts (d_retry (fst (c_dispatcher c))))
     \<and> ((\<forall>new q'. \<not> dp_step E c r close q new q') \<longleftrightarrow> dp_main q = Returned_nil)
     \<and> wfp (\<lambda>t s. dp_cancelled s \<and> dp_outcomes t \<le> n \<and> (\<exists>new. dp_step E c r close s new t))"
proof -
  from dp_steps_potential[OF assms] have "dp_cancelled q"
    and bound: "k + handling_cost c * dp_outcomes p \<le> dp_potential c p + handling_cost c * dp_outcomes q" by simp_all
  note stuck = dp_stuck[OF this(1), of E c r close]
  have "wfp (\<lambda>t s. dp_cancelled s \<and> dp_outcomes t \<le> n \<and> (\<exists>new. dp_step E c r close s new t))"
  proof (rule wfp_if_convertible_to_nat[of _
      "\<lambda>s. dp_potential c s + handling_cost c * (n - dp_outcomes s)"])
    fix t s assume *: "dp_cancelled s \<and> dp_outcomes t \<le> n \<and> (\<exists>new. dp_step E c r close s new t)"
    then obtain new where "dp_step E c r close s new t" by blast
    from dp_step_potential[OF _ this] * have
      "Suc (dp_potential c t) + handling_cost c * dp_outcomes s \<le> dp_potential c s + handling_cost c * dp_outcomes t"
      by simp
    then show "dp_potential c t + handling_cost c * (n - dp_outcomes t)
        < dp_potential c s + handling_cost c * (n - dp_outcomes s)"
      using budget_arith[of "dp_potential c t" "handling_cost c" "dp_outcomes s" "dp_potential c s"
          "dp_outcomes t" n] * by simp
  qed
  with bound stuck show ?thesis by (simp add: handling_cost_def)
qed

lemma deliverer_stops:
  assumes "reader_cancelled r"
  shows "dp_run E c r close p0 got p \<Longrightarrow> dp_cancelled p
    \<Longrightarrow> \<exists>more q. dp_run E c r close p0 (got @ more) q \<and> dp_main q = Returned_nil"
proof (induction "dp_measure (c\<lparr>c_reader := r\<rparr>) p" arbitrary: p got rule: less_induct)
  case less
  show ?case
  proof (cases "dp_main p = Returned_nil")
    case True
    with less.prems show ?thesis by (intro exI[of _ "[]"] exI[of _ p]) simp
  next
    case False
    with dp_stuck[OF less.prems(2)] obtain new q where st: "dp_step E c r close p new q" by blast
    from cancelled_step[OF assms less.prems(2) st] less.hyps[OF _ dp_next[OF less.prems(1) st]]
    obtain more q' where "dp_run E c r close p0 ((got @ new) @ more) q'" "dp_main q' = Returned_nil" by blast
    then show ?thesis by (intro exI[of _ "new @ more"] exI[of _ q']) simp
  qed
qed

end
