(* ===== verification/Deliverer_Resources.thy ===== *)
theory Deliverer_Resources
  imports Deliverer_Process
begin

text \<open>
  What the deliverer process holds of the outside, observed as in the theory Writer_Resources: the
  telemetry providers and the Pulsar client of the consumer are released whatever way it ends.
\<close>

subsection \<open>Environments a worker leaves alone\<close>

definition consumer_keeps :: "('x \<Rightarrow> bool) \<Rightarrow> ('ts, 'l, 'm, 'x) consumer \<Rightarrow> bool" where
  "consumer_keeps Q c \<longleftrightarrow> keeps Q (rd_Receive (c_reader c)) \<and> (\<forall>m x. Q x \<longrightarrow> Q (rd_Ack (c_reader c) m x))
     \<and> (\<forall>l x. Q x \<longrightarrow> Q (c_logger c l x)) \<and> keeps Q (d_clock (fst (c_dispatcher c)))
     \<and> (\<forall>n p. resolve (fst (c_dispatcher c)) n = Inr p \<longrightarrow> env_ok Q (fst (c_dispatcher c)) p)"

text \<open>The provider and the retry policy in a worker's hands are the dispatcher's.\<close>

definition attempt_of :: "('ts, 'l, 'x) dispatcher \<Rightarrow> ('ts, 'm, 'x) attempt \<Rightarrow> bool" where
  "attempt_of d a \<longleftrightarrow> (\<exists>n. resolve d n = Inr (at_provider a)) \<and> it_policy (at_iter a) = d_retry d"

fun worker_of :: "('ts, 'l, 'x) dispatcher \<Rightarrow> ('ts, 'm, 'x) worker \<Rightarrow> bool" where
  "worker_of d (Looping a) = attempt_of d a"
| "worker_of d (Sleeping _ a) = attempt_of d a"
| "worker_of d (Pushing a) = attempt_of d a"
| "worker_of d _ = True"

lemma dispatch_attempt_keeps:
  assumes ok: "env_ok Q d p" and "Q (dw_env w)"
  shows "case dispatch_attempt rec d p n k first w of Stop w' \<Rightarrow> Q (dw_env w') | Again _ _ _ w' \<Rightarrow> Q (dw_env w')"
proof -
  obtain start x1 where c1: "d_clock d (dw_env w) = (start, x1)" by force
  obtain res x2 where pu: "pv_Push p (Some n) x1 = (res, x2)" by force
  obtain latest x3 where c2: "d_clock d x2 = (latest, x3)" by force
  have "Q x3"
    using env_okD(1)[OF ok env_okD(4)[OF ok env_okD(1)[OF assms c1] pu] c2] .
  then show ?thesis
    by (auto simp: dispatch_attempt_def c1 pu c2 finish_def attempted_def Let_def split: sum.split option.split)
qed

lemma Next_keeps:
  assumes "env_ok Q d p" and "it_policy it = d_retry d" and "Q x" and "Next it x = ((b, it'), x')"
  shows "Q x'" and "it_policy it' = d_retry d"
proof -
  obtain k y where y: "rp_rng (d_retry d) x = (k, y)" by force
  with assms(2,4) have "x' = y" by (auto simp: Next_def Let_def)
  with env_okD(2)[OF assms(1,3) y] show "Q x'" by simp
  show "it_policy it' = d_retry d" using Next_iterator[OF assms(4)] assms(2) by simp
qed

lemma worker_step_keeps:
  assumes C: "consumer_keeps Q c" and "worker_of (fst (c_dispatcher c)) s" and Q: "Q (dw_env (cw_base w))"
    and st: "worker_step E c s w = (s', w')"
  shows "worker_of (fst (c_dispatcher c)) s' \<and> Q (dw_env (cw_base w'))"
proof -
  note k = C[unfolded consumer_keeps_def]
  note defs = on_base_def finish_def log_env_def recordPolicyViolation_def msg_Ack_def
  have ok: "env_ok Q (fst (c_dispatcher c)) (at_provider a)" if "attempt_of (fst (c_dispatcher c)) a" for a
    using k that unfolding attempt_of_def by blast
  show ?thesis
  proof (cases s)
    case Receiving
    with st keepsD[OF k[THEN conjunct1] Q] show ?thesis by (auto simp: defs split: prod.splits sum.splits)
  next
    case (Got msg)
    with st Q k show ?thesis by (auto simp: defs Let_def split: sum.splits)
  next
    case (Dispatching msg n)
    have "keeps Q (d_clock (fst (c_dispatcher c)))" using k by blast
    from keepsD[OF this Q] st Dispatching show ?thesis
      by (auto simp: defs attempt_of_def NewIterator_def Let_def split: prod.splits sum.splits if_splits)
  next
    case (Looping a)
    with assms(2) have a: "attempt_of (fst (c_dispatcher c)) a" by simp
    obtain b it' x1 where nx: "Next (at_iter a) (dw_env (cw_base w)) = ((b, it'), x1)" by (metis prod.exhaust)
    note n = Next_keeps[OF ok[OF a] _ Q nx]
    show ?thesis
      using st Looping Q nx n a by (auto simp: defs attempt_of_def split: if_splits)
  next
    case (Sleeping d a)
    with assms(2) have a: "attempt_of (fst (c_dispatcher c)) a" by simp
    obtain e x2 where sl: "d_sleep (fst (c_dispatcher c)) d (dw_env (cw_base w)) = (e, x2)" by force
    with env_okD(3)[OF ok[OF a] Q sl] st Sleeping a show ?thesis by (auto simp: defs split: option.splits)
  next
    case (Pushing a)
    with assms(2) have a: "attempt_of (fst (c_dispatcher c)) a" by simp
    with dispatch_attempt_keeps[OF ok[OF a] Q, of "snd (c_dispatcher c)" "at_note a" "Attempt (at_iter a)" "at_first a"]
      st Pushing show ?thesis
      by (auto simp: attempt_of_def split: loop_step.splits)
  next
    case (Acking msg)
    with st Q k show ?thesis by (auto simp: defs)
  qed (use st Q k in \<open>auto simp: defs\<close>)
qed

definition dproc_ok :: "('x \<Rightarrow> bool) \<Rightarrow> ('ts, 'l, 'm, 'x) consumer \<Rightarrow> ('x \<Rightarrow> 'x) \<Rightarrow> ('ts, 'l, 'm, 'x) dproc \<Rightarrow> bool" where
  "dproc_ok Q c close p \<longleftrightarrow> list_all (worker_of (fst (c_dispatcher c))) (dp_workers p)
     \<and> (if dp_main p = Returned_nil then \<exists>y. Q y \<and> dw_env (cw_base (dp_world p)) = close y
        else Q (dw_env (cw_base (dp_world p))))"

lemma pool_step_keeps:
  assumes C: "consumer_keeps Q c" and "pool_step E c (ws, w) got (ws', w')"
    and "list_all (worker_of (fst (c_dispatcher c))) ws" and "Q (dw_env (cw_base w))"
  shows "list_all (worker_of (fst (c_dispatcher c))) ws' \<and> Q (dw_env (cw_base w'))"
  using assms(2)
proof cases
  case (work i s)
  have "worker_of (fst (c_dispatcher c)) (ws ! i)" using assms(3) work by (simp add: list_all_length)
  from worker_step_keeps[OF C this assms(4)] work assms(3) show ?thesis by (auto simp: list_all_update)
next
  case (leave i err)
  with assms C show ?thesis
    by (auto simp: list_all_update leave_pool_def consumer_keeps_def on_base_def log_env_def split: option.split)
qed

lemma dp_run_keeps:
  assumes C: "consumer_keeps Q c" "consumer_keeps Q (c\<lparr>c_reader := r\<rparr>)"
  shows "dp_run E c r close p got q \<Longrightarrow> dproc_ok Q c close p \<Longrightarrow> dproc_ok Q c close q"
proof (induction rule: dp_run.induct)
  case (dp_next p got q new q')
  have L: "Q x \<Longrightarrow> Q (c_logger c l x)" for l x using C(1) by (simp add: consumer_keeps_def)
  from dp_next.hyps(2) dp_next.IH[OF dp_next.prems] show ?case
  proof (induction rule: dp_step.induct)
    case (dp_pool p got ws w)
    have "consumer_keeps Q (consumer_now c r p)" "fst (c_dispatcher (consumer_now c r p)) = fst (c_dispatcher c)"
      using C by (simp_all add: consumer_now_def)
    from pool_step_keeps[OF this(1) dp_pool(2), unfolded this(2)] dp_pool(1,3) show ?case
      by (simp add: dproc_ok_def)
  next
    case (dp_waited p)
    then show ?case
      by (auto simp: dproc_ok_def deliverer_end_shutdown_def on_base_def log_env_def intro: L)
  qed (auto simp: dproc_ok_def deliverer_begin_shutdown_def on_base_def log_env_def L)
qed

subsection \<open>What the libraries promise\<close>

text \<open>The state of the sandbox, which is in the process, is not part of the observation.\<close>

definition deliverer_contract ::
  "(('ts, 'y) denv \<Rightarrow> bool) \<Rightarrow> (('ts, 'y) denv \<Rightarrow> nat) \<Rightarrow> ('f, 'ts, 'l, 'y, 'cl, 'pr, 'co, 'm) deliverer_host \<Rightarrow> bool" where
  "deliverer_contract up opened H \<longleftrightarrow>
     otel_contract up (dh_otel H) \<and> otel_opens_none opened (dh_otel H) \<and> sdk_contract up opened (dh_sdk H)
     \<and> (\<forall>lvl l x. same up opened x (snd (dh_json_handler H lvl) l x))
     \<and> (\<forall>u ct b x. same up opened x (snd (dh_client H u ct b x)))
     \<and> (\<forall>x. same up opened x (snd (dh_now H x))) \<and> (\<forall>x. same up opened x (snd (dh_rand H x)))
     \<and> (\<forall>d x. same up opened x (snd (dh_wait H d x)))
     \<and> (\<forall>s x. same up opened x (x\<lparr>de_sandbox := s\<rparr>))"

definition reader_same :: "('x \<Rightarrow> bool) \<Rightarrow> ('x \<Rightarrow> nat) \<Rightarrow> ('m, 'x) reader \<Rightarrow> bool" where
  "reader_same up opened r \<longleftrightarrow> (\<forall>x. same up opened x (snd (rd_Receive r x))) \<and> (\<forall>m x. same up opened x (rd_Ack r m x))"

lemma NewApacheConsumer_opened:
  assumes K: "sdk_contract up opened K" and n: "NewApacheConsumer K dl opts x = (res, y)"
  shows "case res of Inl _ \<Rightarrow> same up opened x y | Inr _ \<Rightarrow> up y = up x \<and> opened y = Suc (opened x)"
proof (cases "validateConsumer (pl_Apply opts)")
  case (Some e)
  with n show ?thesis by (auto simp: NewApacheConsumer_def Let_def)
next
  case None
  let ?c = "pl_Apply opts"
  obtain cr x1 where c: "sdk_new_client K (o_serviceURL ?c) x = (cr, x1)" by force
  show ?thesis
  proof (cases cr)
    case (Inl e)
    with n None c sdk_contractD(1)[OF K c[unfolded Inl]] show ?thesis
      by (auto simp: NewApacheConsumer_def Let_def)
  next
    case (Inr cl)
    let ?o = "\<lparr>co_topic = o_topic ?c, co_subscription = o_subscription ?c, co_shared = True,
      co_key_reader = o_encryptionKeyReader ?c,
      co_failure_action = (if o_failOnCryptoError ?c then CryptoFail else CryptoDiscard)\<rparr>"
    obtain co x2 where p: "sdk_subscribe K cl ?o x1 = (co, x2)" by force
    show ?thesis
      using n None c Inr p sdk_contractD(2)[OF K c[unfolded Inr]] sdk_contractD(6)[OF K, of x1 cl ?o]
      by (cases co) (auto simp: NewApacheConsumer_def same_def sdk_contractD(3,4)[OF K] Let_def)
  qed
qed

lemma deliverer_stop_releases:
  assumes C: "deliverer_contract up opened H"
    and t: "telemetry_Init (dh_otel H) cfg x0 = (Inr sh, x1)"
  shows "\<not> up (deliverer_stop H sh ac y)" and "opened (deliverer_stop H sh ac y) = opened y - 1"
proof -
  have otel: "otel_contract up (dh_otel H)" "otel_opens_none opened (dh_otel H)"
    and K: "sdk_contract up opened (dh_sdk H)" using C by (simp_all add: deliverer_contract_def)
  show "\<not> up (deliverer_stop H sh ac y)"
    using telemetry_Init_ok(2)[OF otel(1) t] by (simp add: deliverer_stop_def)
  show "opened (deliverer_stop H sh ac y) = opened y - 1"
    using telemetry_Init_opened(2)[OF otel(2) t refl] sdk_contractD(4,8)[OF K]
    by (simp add: deliverer_stop_def consumer_close_def same_def)
qed

lemma deliverer_run_releases:
  assumes C: "deliverer_contract up opened H" and "\<not> up x" and run: "deliverer_run E H x = (res, x')"
  shows "case res of Inl _ \<Rightarrow> \<not> up x' \<and> opened x' = opened x | Inr _ \<Rightarrow> opened x' = Suc (opened x)"
proof -
  have L: "same up opened y (snd (dh_json_handler H lvl) l y)" and B: "same up opened y (y\<lparr>de_sandbox := s\<rparr>)"
    for lvl l y s using C by (simp_all add: deliverer_contract_def)
  have otel: "otel_contract up (dh_otel H)" "otel_opens_none opened (dh_otel H)"
    and K: "sdk_contract up opened (dh_sdk H)" using C by (simp_all add: deliverer_contract_def)
  show ?thesis
  proof (cases "deliverer_Load E (dh_env H) []")
    case (Inl e)
    with run \<open>\<not> up x\<close> show ?thesis by (auto simp: deliverer_run_def)
  next
    case cfg: (Inr cfg)
    show ?thesis
    proof (cases "logging_New E (dh_json_handler H) (cfg_LogLevel (dc_shared cfg))")
      case (Inl e)
      with cfg run \<open>\<not> up x\<close> show ?thesis by (auto simp: deliverer_run_def)
    next
      case lg: (Inr logger)
      then obtain lvl where "logger = dh_json_handler H lvl"
        by (auto simp: logging_New_def split: prod.splits option.splits)
      then have x0: "\<not> up (snd logger (deliverer_starting cfg) x)"
        "opened (snd logger (deliverer_starting cfg) x) = opened x"
        using L \<open>\<not> up x\<close> by (simp_all add: same_def)
      obtain tr x1 where t: "telemetry_Init (dh_otel H) (telemetry_config_of (dc_shared cfg))
          (snd logger (deliverer_starting cfg) x) = (tr, x1)" by force
      have o1: "opened x1 = opened x" using telemetry_Init_opened(1)[OF otel(2) t] x0(2) by simp
      show ?thesis
      proof (cases tr)
        case (Inl e)
        with run cfg lg t telemetry_Init_error[OF otel(1) t[unfolded Inl] x0(1)] o1 show ?thesis
          by (auto simp: deliverer_run_def)
      next
        case sh: (Inr sh)
        note down = telemetry_Init_ok(2)[OF otel(1) t[unfolded sh]] telemetry_Init_opened(2)[OF otel(2) t sh]
        note stop = deliverer_stop_releases[OF C t[unfolded sh]]
        obtain pr x2 where p: "buildProvider E (dh_client H) cfg x1 = (pr, x2)" by force
        have o2: "opened x2 = opened x1"
          using p B[of x1] by (auto simp: buildProvider_def same_def split: if_splits sum.splits)
        note con = NewApacheConsumer_opened[OF K, of "dh_logger_id H" "deliverer_consumer_options cfg (dh_logger_id H)" x2]
        show ?thesis
          using run cfg lg t sh p o1 o2 down stop con
          by (auto simp: deliverer_run_def same_def split: sum.splits prod.splits)
      qed
    qed
  qed
qed

text \<open>The consumer of a started deliverer keeps the count of open clients.\<close>

lemma pushover_world:
  "(\<And>u ct b x. opened (snd (po_httpc p u ct b x)) = opened x) \<Longrightarrow> opened (snd (pushover_Push E p n x)) = opened x"
  by (auto simp: pushover_Push_def Let_def split: option.split target.split sum.split prod.split)
     (metis snd_conv)+

lemma built_push_opened:
  assumes C: "deliverer_contract up opened H" and "buildProvider E (dh_client H) cfg x = (Inr push, x')"
  shows "opened (snd (pv_Push push n y)) = opened y"
proof -
  have cl: "opened (snd (dh_client H u ct b z)) = opened z" and sb: "opened (z\<lparr>de_sandbox := s\<rparr>) = opened z"
    for u ct b z s using C by (simp_all add: deliverer_contract_def same_def)
  from assms(2) consider p where "push = pushover_value E p" "po_httpc p = dh_client H" | "push = sandbox_value"
    by (auto simp: buildProvider_def pushover_New_def option_simps Let_def split: if_splits)
  then show ?thesis
  proof cases
    case (1 p)
    then show ?thesis by (simp add: pushover_value_def pushover_world cl)
  next
    case 2
    then show ?thesis by (simp add: sandbox_value_def sandbox_push_def sb split: prod.split)
  qed
qed

lemma ready_consumer_keeps:
  assumes C: "deliverer_contract up opened H" and R: "deliverer_ready E H cfg push ac logger c"
    and lg: "logging_New E (dh_json_handler H) lv = Inr logger"
    and b: "buildProvider E (dh_client H) cfg x = (Inr push, x')"
  shows "consumer_keeps (\<lambda>y. opened y = k) c"
    and "reader_same up opened r \<Longrightarrow> consumer_keeps (\<lambda>y. opened y = k) (c\<lparr>c_reader := r\<rparr>)"
proof -
  let ?Q = "\<lambda>y. opened y = k"
  have K: "sdk_contract up opened (dh_sdk H)" using C by (simp add: deliverer_contract_def)
  have o: "opened (snd (dh_now H y)) = opened y" "opened (snd (dh_rand H y)) = opened y"
    "opened (snd (dh_wait H dur y)) = opened y" "opened (snd (dh_json_handler H lvl) l y) = opened y" for y dur lvl l
    using C by (simp_all add: deliverer_contract_def same_def)
  obtain lvl where lvl: "logger = dh_json_handler H lvl"
    using lg by (auto simp: logging_New_def split: prod.splits option.splits)
  have e: "env_ok ?Q (fst (c_dispatcher c)) push"
    using R built_push_opened[OF C b] o
    by (auto simp: env_ok_def deliverer_ready_def configured_policy_def NewPolicy_def option_simps
        default_sleep_def)
  have "env_ok ?Q (fst (c_dispatcher c)) p" if "resolve (fst (c_dispatcher c)) n = Inr p" for n p
    using ready_dispatcher(4)[OF R that] e by simp
  moreover have "?Q (c_logger c l y) = ?Q y" "keeps ?Q (d_clock (fst (c_dispatcher c)))" for l y
    using R o lvl by (simp_all add: deliverer_ready_def keeps_def)
  ultimately have rest: "(\<forall>l y. ?Q y \<longrightarrow> ?Q (c_logger c l y)) \<and> keeps ?Q (d_clock (fst (c_dispatcher c)))
     \<and> (\<forall>n p. resolve (fst (c_dispatcher c)) n = Inr p \<longrightarrow> env_ok ?Q (fst (c_dispatcher c)) p)"
    by blast
  have "opened (snd (rd_Receive (c_reader c) y)) = opened y" for y
    using R sdk_contractD(10)[OF K]
    by (auto simp: deliverer_ready_def sdk_reader_def apache_reader_def apache_receive_def same_def
        split: prod.split sum.split dest: spec) (metis snd_conv)+
  moreover have "opened (rd_Ack (c_reader c) m y) = opened y" for m y
    using R sdk_contractD(11)[OF K] by (simp add: deliverer_ready_def sdk_reader_def apache_reader_def same_def)
  ultimately show "consumer_keeps ?Q c" using rest by (simp add: consumer_keeps_def keeps_def)
  show "reader_same up opened r \<Longrightarrow> consumer_keeps ?Q (c\<lparr>c_reader := r\<rparr>)"
    using rest by (simp add: consumer_keeps_def keeps_def reader_same_def same_def)
qed

text \<open>C20: The deliverer leaves nothing open. Whatever way the process ends (a configuration that does
  not load, telemetry, a provider or a subscription that fail, a signal with messages in hand), no
  telemetry provider is registered any more and the Pulsar client it opened is closed; and the exit
  code is 0 exactly when nothing was written to standard error.\<close>

theorem deliverer_leaves_nothing_open:
  assumes "deliverer_contract up opened H" and "reader_same up opened r" and "\<not> up x"
    and "deliverer_process E H l ms x r (code, err) x'"
  shows "\<not> up x' \<and> opened x' = opened x \<and> (code = 0 \<longleftrightarrow> err = [])"
  using assms(4)
proof cases
  case (deliverer_not_started e)
  from deliverer_run_releases[OF assms(1,3) deliverer_not_started(2)] deliverer_not_started(1) show ?thesis
    by (simp add: deliverer_exit_def)
next
  case (deliverer_ran dv x1 got p)
  let ?Q = "\<lambda>y. opened y = Suc (opened x)" and ?c = "run_consumer dv"
  let ?w = "\<lparr>cw_base = \<lparr>dw_log = l, dw_metrics = ms, dw_env = x1\<rparr>, cw_acks = []\<rparr>"
  have o1: "?Q x1" using deliverer_run_releases[OF assms(1,3) deliverer_ran(3)] by simp
  obtain cfg push ac logger tel y1 y2 where d:
    "deliverer_ready E H cfg push ac logger ?c"
    "logging_New E (dh_json_handler H) (cfg_LogLevel (dc_shared cfg)) = Inr logger"
    "telemetry_Init (dh_otel H) (telemetry_config_of (dc_shared cfg))
       (snd logger (deliverer_starting cfg) x) = (Inr tel, y1)"
    "buildProvider E (dh_client H) cfg y1 = (Inr push, y2)" "run_close dv = deliverer_stop H tel ac"
    by (rule deliverer_run_ready[OF deliverer_ran(3)])
  note k = ready_consumer_keeps[OF assms(1) d(1,2,4), where k = "Suc (opened x)"]
  have "dproc_ok ?Q ?c (run_close dv) (dproc_start (run_workers dv) ?w)"
    using o1 by (simp add: dproc_ok_def dproc_start_def pool_start_def list_all_iff)
  from dp_run_keeps[OF k(1) k(2)[OF assms(2)] deliverer_ran(4) this] deliverer_ran(5)
  obtain y where y: "?Q y" "dw_env (cw_base (dp_world p)) = run_close dv y" by (auto simp: dproc_ok_def)
  have "\<not> up x'" "opened x' = opened y - 1"
    using deliverer_stop_releases[OF assms(1) d(3), of ac y] y(2) d(5) deliverer_ran(2) by simp_all
  with y(1) deliverer_ran(1) show ?thesis by (auto simp: deliverer_exit_def)
qed

end
