(* ===== verification/Outcome_Log.thy ===== *)
theory Outcome_Log
  imports Deliverer_Process
begin

text \<open>
  The log a deliverer leaves. \<open>log/slog\<close> writes a record only if its level reaches the one the handler
  was built with, which \<open>logging.New\<close> takes from \<open>LOG_LEVEL\<close>. The contract of a recorder is the locale
  \<open>recorder\<close>; it is interpreted on \<open>SlogRecorder\<close> over a handler of each level.
\<close>

subsection \<open>The handler\<close>

text \<open>The values of \<open>slog.Level\<close>.\<close>

primrec handler_rank :: "slog_level \<Rightarrow> int" where
  "handler_rank LevelDebugL = -4"
| "handler_rank LevelInfoL = 0"
| "handler_rank LevelWarnL = 4"
| "handler_rank LevelErrorL = 8"

primrec level_rank :: "level \<Rightarrow> int" where
  "level_rank LevelInfo = 0"
| "level_rank LevelWarn = 4"
| "level_rank LevelError = 8"

definition slog_handler :: "slog_level \<Rightarrow> log_line \<Rightarrow> log_line list \<Rightarrow> log_line list" where
  "slog_handler lvl l ls = (if handler_rank lvl \<le> level_rank (ll_level l) then ls @ [l] else ls)"

subsection \<open>The contract of a recorder\<close>

text \<open>
  What a reader of the records can rely on: one entry per call the recorder keeps, in order, with the
  identifier, the status, the reason and the number of attempts of the outcome.
\<close>

locale recorder =
  fixes record_outcome :: "outcome \<Rightarrow> 'l \<Rightarrow> 'l"
    and view :: "'l \<Rightarrow> summary list"
    and keeps :: "outcome \<Rightarrow> bool"
  assumes view_record: "view (record_outcome oc l) = view l @ (if keeps oc then [summary_of oc] else [])"
begin

lemma view_records: "view (fold record_outcome ocs l) = view l @ map summary_of (filter keeps ocs)"
  by (induction ocs arbitrary: l) (simp_all add: view_record)

end

text \<open>The outcomes a handler of a level writes.\<close>

fun shown :: "slog_level \<Rightarrow> outcome \<Rightarrow> bool" where
  "shown LevelDebugL oc = True"
| "shown LevelInfoL oc = True"
| "shown LevelWarnL oc = (oc_Status oc \<noteq> StatusDelivered)"
| "shown LevelErrorL oc = False"

lemma filter_shown:
  "filter (shown LevelDebugL) ocs = ocs" "filter (shown LevelInfoL) ocs = ocs"
  "filter (shown LevelWarnL) ocs = filter (\<lambda>oc. oc_Status oc \<noteq> StatusDelivered) ocs"
  "filter (shown LevelErrorL) ocs = []"
  by (induction ocs) simp_all

lemma slog_handler_outcome:
  "slog_Record (slog_handler lvl) oc ls = (if shown lvl oc then ls @ [outcome_line oc] else ls)"
  by (cases lvl) (simp_all add: slog_Record_def slog_handler_def outcome_line_def)

interpretation slog: recorder "slog_Record (slog_handler lvl)" "map line_summary" "shown lvl" for lvl
  by unfold_locales (simp add: slog_handler_outcome line_summary_outcome)

text \<open>No line carries more than 512 bytes of a provider's response.\<close>

definition response_bounded :: "log_line \<Rightarrow> bool" where
  "response_bounded l \<longleftrightarrow> (\<forall>v. AStr ''provider_response'' v \<in> set (ll_attrs l) \<longrightarrow> length v \<le> 512)"

lemma outcome_line_bounded: "response_bounded (outcome_line oc)"
  using outcome_response_bound[of _ oc] by (simp add: response_bounded_def outcome_line_def)

lemma records_bounded:
  "list_all response_bounded ls \<Longrightarrow> list_all response_bounded (fold (slog_Record (slog_handler lvl)) ocs ls)"
  by (induction ocs arbitrary: ls) (simp_all add: slog_handler_outcome outcome_line_bounded)

subsection \<open>The log of a deliverer\<close>

definition log_level :: "'ts ext \<Rightarrow> 'f deliverer_config \<Rightarrow> string" where
  "log_level E cfg = to_lower (x_ulower E) (cfg_LogLevel (dc_shared cfg))"

lemma shown_by_level:
  assumes "logging_New E mk (cfg_LogLevel (dc_shared cfg)) = Inr logger"
  obtains lvl where "logger = mk lvl"
    and "log_level E cfg \<in> {''debug'', ''info''} \<and> filter (shown lvl) ocs = ocs
      \<or> log_level E cfg \<in> {''warn'', ''warning''} \<and> filter (shown lvl) ocs = filter (\<lambda>oc. oc_Status oc \<noteq> StatusDelivered) ocs
      \<or> log_level E cfg = ''error'' \<and> filter (shown lvl) ocs = []"
proof -
  have "logger = mk LevelDebugL \<and> log_level E cfg = ''debug'' \<or> logger = mk LevelInfoL \<and> log_level E cfg = ''info''
      \<or> logger = mk LevelWarnL \<and> log_level E cfg \<in> {''warn'', ''warning''}
      \<or> logger = mk LevelErrorL \<and> log_level E cfg = ''error''"
    using assms unfolding logging_New_def LogLevelToSlogLevel_def log_level_def[symmetric]
    by (auto simp: Let_def split: if_splits)
  then show thesis
    using that[of LevelDebugL] that[of LevelInfoL] that[of LevelWarnL] that[of LevelErrorL]
    unfolding filter_shown by blast
qed

text \<open>C39: The log of a deliverer that has run and stopped. Of the outcomes of the delivered messages, one
  each, the lines added are, at \<open>LOG_LEVEL\<close> debug or info, one per outcome in the order of recording;
  at warn one per outcome that is not a delivery; at error none; and no other level starts. From each
  line the identifier, the status, the reason and the attempts can be read back, and none carries more
  than 512 bytes of a provider's response. \<open>data-model.md\<close> promises a row for every message.\<close>

theorem slog_lines_are_outcomes:
  assumes run: "deliverer_run E H x = (Inr dv, x')"
    and handler: "\<forall>lvl. fst (dh_json_handler H lvl) = slog_handler lvl"
    and p: "dp_run E (run_consumer dv) r (run_close dv) (dproc_start (run_workers dv) w) got p"
      "dp_main p = Returned_nil" and w: "dw_log (cw_base w) = []"
  shows "\<exists>cfg evs rows. deliverer_Load E (dh_env H) [] = Inr cfg
     \<and> list_all (event_ok E) evs \<and> mset (all_of event_msgs evs) = mset got
     \<and> map line_summary (dw_log (cw_base (dp_world p))) = map summary_of rows
     \<and> (log_level E cfg \<in> {''debug'', ''info''} \<and> rows = map event_outcome evs
        \<or> log_level E cfg \<in> {''warn'', ''warning''}
            \<and> rows = filter (\<lambda>oc. oc_Status oc \<noteq> StatusDelivered) (map event_outcome evs)
        \<or> log_level E cfg = ''error'' \<and> rows = [])
     \<and> list_all response_bounded (dw_log (cw_base (dp_world p)))"
proof -
  obtain cfg push ac logger where load: "deliverer_Load E (dh_env H) [] = Inr cfg"
    and ready: "deliverer_ready E H cfg push ac logger (run_consumer dv)"
    and lg: "logging_New E (dh_json_handler H) (cfg_LogLevel (dc_shared cfg)) = Inr logger"
    by (rule deliverer_run_ready[OF run])
  obtain evs where evs: "list_all (event_ok E) evs" "mset (all_of event_msgs evs) = mset got"
    and log: "dw_log (cw_base (dp_world p)) = fold (c_recorder (run_consumer dv)) (map event_outcome evs) []"
    using shutdown_books[OF run refl p] w by auto
  obtain lvl where lvl: "logger = dh_json_handler H lvl" and rows:
    "log_level E cfg \<in> {''debug'', ''info''} \<and> filter (shown lvl) (map event_outcome evs) = map event_outcome evs
      \<or> log_level E cfg \<in> {''warn'', ''warning''} \<and> filter (shown lvl) (map event_outcome evs)
          = filter (\<lambda>oc. oc_Status oc \<noteq> StatusDelivered) (map event_outcome evs)
      \<or> log_level E cfg = ''error'' \<and> filter (shown lvl) (map event_outcome evs) = []"
    by (rule shown_by_level[OF lg])
  have rec: "c_recorder (run_consumer dv) = slog_Record (slog_handler lvl)"
    using ready handler lvl
    by (simp add: deliverer_ready_def deliverer_recorder_def NewSlogRecorder_def outcomes_WithLogger_def)
  have "map line_summary (dw_log (cw_base (dp_world p)))
      = map summary_of (filter (shown lvl) (map event_outcome evs))"
    using slog.view_records[of lvl "map event_outcome evs" "[]"] by (simp add: log rec)
  moreover have "list_all response_bounded (dw_log (cw_base (dp_world p)))"
    unfolding log rec by (rule records_bounded) simp
  ultimately show ?thesis using load evs rows
    by (intro exI[of _ cfg] exI[of _ evs] exI[of _ "filter (shown lvl) (map event_outcome evs)"]) blast
qed

end
