(* ===== verification/Examples.thy ===== *)
theory Examples
  imports Server_Generated_Spec Deliverer_Resources Outcome_Log
begin

text \<open>
  Concrete instances of the parameters, for the witnesses: a text codec for JSON values, codecs for
  notifications built on it, an SDK whose topic is a queue in the world, and a writer, a client and
  a deliverer over them. Timestamps are instants. The contracts the properties assume of their
  parameters are proved for these instances.
\<close>

subsection \<open>A text codec for JSON values\<close>

text \<open>Lengths and integers are written in unary, so that every value is a prefix code.\<close>

definition ex_unary :: "nat \<Rightarrow> string" where
  "ex_unary n = replicate n (CHR ''1'') @ ''.''"

fun ex_read_unary :: "string \<Rightarrow> (nat \<times> string) option" where
  "ex_read_unary (c # s) =
     (if c = CHR ''.'' then Some (0, s)
      else if c = CHR ''1'' then map_option (\<lambda>(n, r). (Suc n, r)) (ex_read_unary s)
      else None)"
| "ex_read_unary [] = None"

definition ex_str :: "string \<Rightarrow> string" where
  "ex_str s = ex_unary (length s) @ s"

definition ex_read_str :: "string \<Rightarrow> (string \<times> string) option" where
  "ex_read_str s =
     (case ex_read_unary s of
        None \<Rightarrow> None
      | Some (n, r) \<Rightarrow> (if n \<le> length r then Some (take n r, drop n r) else None))"

fun ex_enc :: "json \<Rightarrow> string" where
  "ex_enc JNull = ''n''"
| "ex_enc (JBool b) = (if b then ''t'' else ''f'')"
| "ex_enc (JInt i) = (if i < 0 then ''-'' else ''+'') @ ex_unary (nat \<bar>i\<bar>)"
| "ex_enc (JReal s) = ''r'' @ ex_str s"
| "ex_enc (JString s) = ''s'' @ ex_str s"
| "ex_enc (JArray js) = ''a'' @ concat (map (\<lambda>j. '','' @ ex_enc j) js) @ '';''"
| "ex_enc (JObject kvs) = ''o'' @ concat (map (\<lambda>(k, j). '','' @ ex_str k @ ex_enc j) kvs) @ '';''"

text \<open>The decoder takes its fuel from the length of the text; every value uses at least one character.\<close>

fun ex_dec :: "nat \<Rightarrow> string \<Rightarrow> (json \<times> string) option"
  and ex_dec_list :: "nat \<Rightarrow> string \<Rightarrow> (json list \<times> string) option"
  and ex_dec_members :: "nat \<Rightarrow> string \<Rightarrow> ((string \<times> json) list \<times> string) option" where
  "ex_dec 0 s = None"
| "ex_dec (Suc f) s =
     (case s of
        [] \<Rightarrow> None
      | c # r \<Rightarrow>
          (if c = CHR ''n'' then Some (JNull, r)
           else if c = CHR ''t'' then Some (JBool True, r)
           else if c = CHR ''f'' then Some (JBool False, r)
           else if c = CHR ''+'' then map_option (\<lambda>(n, r'). (JInt (int n), r')) (ex_read_unary r)
           else if c = CHR ''-'' then map_option (\<lambda>(n, r'). (JInt (- int n), r')) (ex_read_unary r)
           else if c = CHR ''r'' then map_option (\<lambda>(t, r'). (JReal t, r')) (ex_read_str r)
           else if c = CHR ''s'' then map_option (\<lambda>(t, r'). (JString t, r')) (ex_read_str r)
           else if c = CHR ''a'' then map_option (\<lambda>(js, r'). (JArray js, r')) (ex_dec_list f r)
           else if c = CHR ''o'' then map_option (\<lambda>(kvs, r'). (JObject kvs, r')) (ex_dec_members f r)
           else None))"
| "ex_dec_list 0 s = None"
| "ex_dec_list (Suc f) s =
     (case s of
        [] \<Rightarrow> None
      | c # r \<Rightarrow>
          (if c = CHR '';'' then Some ([], r)
           else if c = CHR '','' then
             (case ex_dec f r of
                None \<Rightarrow> None
              | Some (j, r1) \<Rightarrow> map_option (\<lambda>(js, r2). (j # js, r2)) (ex_dec_list f r1))
           else None))"
| "ex_dec_members 0 s = None"
| "ex_dec_members (Suc f) s =
     (case s of
        [] \<Rightarrow> None
      | c # r \<Rightarrow>
          (if c = CHR '';'' then Some ([], r)
           else if c = CHR '','' then
             (case ex_read_str r of
                None \<Rightarrow> None
              | Some (k, r0) \<Rightarrow>
                  (case ex_dec f r0 of
                     None \<Rightarrow> None
                   | Some (j, r1) \<Rightarrow>
                       map_option (\<lambda>(kvs, r2). ((k, j) # kvs, r2)) (ex_dec_members f r1)))
           else None))"

lemma ex_read_unary [simp]: "ex_read_unary (ex_unary n @ r) = Some (n, r)"
  by (induction n) (simp_all add: ex_unary_def)

lemma ex_read_str [simp]: "ex_read_str (ex_str s @ r) = Some (s, r)"
  by (simp add: ex_read_str_def ex_str_def)

lemma ex_dec_list_enc:
  assumes "\<And>j f r. j \<in> set js \<Longrightarrow> length (ex_enc j) \<le> f \<Longrightarrow> ex_dec f (ex_enc j @ r) = Some (j, r)"
    and "length (concat (map (\<lambda>j. '','' @ ex_enc j) js)) < f"
  shows "ex_dec_list f (concat (map (\<lambda>j. '','' @ ex_enc j) js) @ '';'' @ r) = Some (js, r)"
  using assms
proof (induction js arbitrary: f)
  case Nil
  then show ?case by (cases f) simp_all
next
  case (Cons j js)
  then obtain g where g: "f = Suc g" by (cases f) simp_all
  have "ex_dec g (ex_enc j @ r') = Some (j, r')" for r' using Cons.prems g by simp
  moreover have "ex_dec_list g (concat (map (\<lambda>j. '','' @ ex_enc j) js) @ '';'' @ r) = Some (js, r)"
    using Cons g by simp
  ultimately show ?case by (simp add: g)
qed

abbreviation ex_member :: "string \<times> json \<Rightarrow> string" where
  "ex_member \<equiv> (\<lambda>(k, j). '','' @ ex_str k @ ex_enc j)"

lemma ex_dec_members_enc:
  assumes "\<And>kv f r. kv \<in> set kvs \<Longrightarrow> length (ex_enc (snd kv)) \<le> f \<Longrightarrow>
      ex_dec f (ex_enc (snd kv) @ r) = Some (snd kv, r)"
    and "length (concat (map ex_member kvs)) < f"
  shows "ex_dec_members f (concat (map ex_member kvs) @ '';'' @ r) = Some (kvs, r)"
  using assms
proof (induction kvs arbitrary: f)
  case Nil
  then show ?case by (cases f) simp_all
next
  case (Cons kv kvs)
  obtain k j where kv: "kv = (k, j)" by force
  obtain g where g: "f = Suc g" using Cons.prems by (cases f) simp_all
  have "ex_dec g (ex_enc j @ r') = Some (j, r')" for r' using Cons.prems(1)[of kv g r'] Cons.prems(2) g kv by simp
  moreover have "ex_dec_members g (concat (map ex_member kvs) @ '';'' @ r) = Some (kvs, r)"
    by (rule Cons.IH) (use Cons.prems g kv in simp_all)
  ultimately show ?case by (simp add: g kv)
qed

lemma ex_dec_enc: "length (ex_enc j) \<le> f \<Longrightarrow> ex_dec f (ex_enc j @ r) = Some (j, r)"
proof (induction j arbitrary: f r)
  case (JArray js)
  obtain g where g: "f = Suc g" using JArray.prems by (cases f) simp_all
  have "ex_dec_list g (concat (map (\<lambda>j. '','' @ ex_enc j) js) @ '';'' @ r) = Some (js, r)"
    by (rule ex_dec_list_enc) (use JArray g in simp_all)
  then show ?case by (simp add: g)
next
  case (JObject kvs)
  obtain g where g: "f = Suc g" using JObject.prems by (cases f) simp_all
  have "ex_dec_members g (concat (map ex_member kvs) @ '';'' @ r) = Some (kvs, r)"
    by (rule ex_dec_members_enc, rule JObject.IH) (use JObject.prems g in \<open>auto intro: snds.intros\<close>)
  then show ?case by (simp add: g)
next
  case (JInt i)
  then obtain g where "f = Suc g" by (cases f) (simp_all split: if_splits)
  then show ?case by (cases "i < 0") simp_all
next
  case JNull
  then show ?case by (cases f) simp_all
next
  case (JBool b)
  then show ?case by (cases f) (simp_all split: if_splits)
next
  case (JReal s)
  then show ?case by (cases f) simp_all
next
  case (JString s)
  then show ?case by (cases f) simp_all
qed

definition ex_encode :: "json \<Rightarrow> string" where
  "ex_encode j = ex_enc j"

definition ex_decode :: "string \<Rightarrow> json option" where
  "ex_decode s = map_option fst (ex_dec (length s) s)"

lemma ex_decode_encode: "ex_decode (ex_encode j @ r) = Some j"
  using ex_dec_enc[of j "length (ex_enc j @ r)" r] by (simp add: ex_decode_def ex_encode_def)

text \<open>The JSON encoder coerces the strings of a value first.\<close>

definition ex_json_encode :: "json \<Rightarrow> string" where
  "ex_json_encode j = ex_encode (json_text j)"

subsection \<open>A codec for notifications\<close>

fun ex_opt :: "('a \<Rightarrow> json) \<Rightarrow> 'a option \<Rightarrow> json" where
  "ex_opt f None = JNull"
| "ex_opt f (Some x) = JArray [f x]"

fun ex_read_opt :: "(json \<Rightarrow> 'a) \<Rightarrow> json \<Rightarrow> 'a option" where
  "ex_read_opt f (JArray [j]) = Some (f j)"
| "ex_read_opt f _ = None"

fun ex_string :: "json \<Rightarrow> string" where
  "ex_string (JString s) = s"
| "ex_string _ = []"

fun ex_int :: "json \<Rightarrow> int" where
  "ex_int (JInt i) = i"
| "ex_int _ = 0"

fun ex_pairs :: "json \<Rightarrow> (string \<times> string) list" where
  "ex_pairs (JObject kvs) = map (\<lambda>(k, j). (k, ex_string j)) kvs"
| "ex_pairs _ = []"

definition ex_content_json :: "content \<Rightarrow> json" where
  "ex_content_json c = JArray [JString (c_title c), JString (c_body c), JInt (sint (c_priority c)),
     JObject (map (\<lambda>(k, v). (k, JString v)) (c_data c))]"

fun ex_content :: "json \<Rightarrow> content" where
  "ex_content (JArray [t, b, p, d]) =
     \<lparr>c_title = ex_string t, c_body = ex_string b, c_priority = word_of_int (ex_int p), c_data = ex_pairs d\<rparr>"
| "ex_content _ = empty_content"

definition ex_pushover_json :: "pushover_target \<Rightarrow> json" where
  "ex_pushover_json t = JArray [JString (pt_user_or_group_key t), JString (pt_device_name t),
     JString (pt_sound t), JString (pt_url t), JString (pt_url_title t)]"

fun ex_pushover :: "json \<Rightarrow> pushover_target" where
  "ex_pushover (JArray [k, d, s, u, ut]) =
     \<lparr>pt_user_or_group_key = ex_string k, pt_device_name = ex_string d, pt_sound = ex_string s,
      pt_url = ex_string u, pt_url_title = ex_string ut\<rparr>"
| "ex_pushover _ = empty_pushover"

fun ex_target_json :: "target \<Rightarrow> json" where
  "ex_target_json (Notification_Pushover p) = ex_opt ex_pushover_json p"
| "ex_target_json Target_Other = JBool True"

fun ex_target :: "json \<Rightarrow> target" where
  "ex_target (JBool _) = Target_Other"
| "ex_target j = Notification_Pushover (ex_read_opt ex_pushover j)"

definition ex_notification_json :: "int notification \<Rightarrow> json" where
  "ex_notification_json n = JArray
     [JString (n_notification_id n), ex_opt JInt (n_created_at n), ex_opt JInt (n_expires_at n),
      JString (n_originating_service n), JString (n_idempotency_key n),
      ex_opt ex_content_json (n_content n), ex_opt ex_target_json (n_target n)]"

fun ex_notification :: "json \<Rightarrow> int notification option" where
  "ex_notification (JArray [i, cr, ex, s, k, c, t]) = Some
     \<lparr>n_notification_id = ex_string i, n_created_at = ex_read_opt ex_int cr,
      n_expires_at = ex_read_opt ex_int ex, n_originating_service = ex_string s,
      n_idempotency_key = ex_string k, n_content = ex_read_opt ex_content c,
      n_target = ex_read_opt ex_target t\<rparr>"
| "ex_notification _ = None"

lemma ex_read_opt [simp]: "(\<And>x. g (f x) = x) \<Longrightarrow> ex_read_opt g (ex_opt f x) = x"
  by (cases x) simp_all

lemma ex_content [simp]: "ex_content (ex_content_json c) = c"
  by (cases c) (simp add: ex_content_json_def comp_def split_beta)

lemma ex_pushover [simp]: "ex_pushover (ex_pushover_json t) = t"
  by (cases t) (simp add: ex_pushover_json_def)

lemma ex_target [simp]: "ex_target (ex_target_json t) = t"
proof (cases t)
  case (Notification_Pushover p)
  then show ?thesis by (cases p) (simp_all add: ex_pushover)
qed simp

lemma ex_notification [simp]: "ex_notification (ex_notification_json n) = Some n"
  by (cases n) (simp add: ex_notification_json_def)

definition ex_marshal :: "int notification \<Rightarrow> goerr + string" where
  "ex_marshal n = Inr (ex_encode (ex_notification_json n))"

definition ex_unmarshal :: "string \<Rightarrow> goerr + int notification" where
  "ex_unmarshal s =
     (case Option.bind (ex_decode s) ex_notification of
        None \<Rightarrow> Inl (ForeignErr ''proto: cannot parse'' None)
      | Some n \<Rightarrow> Inr n)"

lemma ex_unmarshal: "ex_marshal n = Inr b \<Longrightarrow> ex_unmarshal b = Inr n"
  using ex_decode_encode[of "ex_notification_json n" "[]"]
  by (auto simp: ex_marshal_def ex_unmarshal_def)

text \<open>The URL parser takes what precedes the first colon as the scheme.\<close>

definition ex_E :: "int ext" where
  "ex_E = \<lparr>x_as_time = (\<lambda>t. t), x_ts_new = (\<lambda>t. t), x_marshal = ex_marshal, x_unmarshal = ex_unmarshal,
     x_pj_marshal = ex_marshal, x_pj_unmarshal = ex_unmarshal,
     x_json_encode = ex_json_encode, x_json_decode = ex_decode,
     x_url_parse = (\<lambda>u. Inr (takeWhile (\<lambda>c. c \<noteq> CHR '':'') u)),
     x_ulower = (\<lambda>s. s), x_quote = (\<lambda>s. [CHR 0x22] @ s @ [CHR 0x22])\<rparr>"

lemma ex_E_simps [simp]:
  "x_as_time ex_E t = t" "x_ts_new ex_E g = g" "x_marshal ex_E = ex_marshal"
  "x_unmarshal ex_E = ex_unmarshal" "x_pj_marshal ex_E = ex_marshal"
  "x_pj_unmarshal ex_E = ex_unmarshal" "x_json_encode ex_E = ex_json_encode" "x_json_decode ex_E = ex_decode"
  "x_url_parse ex_E u = Inr (takeWhile (\<lambda>c. c \<noteq> CHR '':'') u)" "x_ulower ex_E s = s"
  by (simp_all add: ex_E_def)

lemma ex_json_codec: "json_codec ex_E"
  by (simp add: json_codec_def ex_decode_encode ex_json_encode_def)

subsection \<open>A notification\<close>

definition ex_key :: string where
  "ex_key = replicate 30 (CHR ''u'')"

definition ex_n :: "int notification" where
  "ex_n = empty_notification
     \<lparr>n_content := Some (empty_content\<lparr>c_title := ''Hi'', c_body := ''there''\<rparr>),
      n_target := Some (Notification_Pushover (Some (empty_pushover\<lparr>pt_user_or_group_key := ex_key\<rparr>)))\<rparr>"

lemma ex_n_simps [simp]:
  "n_notification_id ex_n = []" "n_created_at ex_n = None" "n_expires_at ex_n = None"
  "n_originating_service ex_n = []" "n_idempotency_key ex_n = []"
  "n_content ex_n = Some (empty_content\<lparr>c_title := ''Hi'', c_body := ''there''\<rparr>)"
  "n_target ex_n = Some (Notification_Pushover (Some (empty_pushover\<lparr>pt_user_or_group_key := ex_key\<rparr>)))"
  by (simp_all add: ex_n_def empty_notification_def)

lemma ex_key_ok: "user_key_ok ex_key" "length ex_key = 30" "ex_key \<noteq> []"
  by (simp_all add: user_key_ok_def ex_key_def char_class_defs)

lemma ex_n_valid: "\<not> violates ex_E ex_n r"
  using ex_key_ok
  by (cases r) (simp_all add: violates_def target_violates_def blank_def empty_content_def
      empty_pushover_def device_chars_ok_def runes_ascii is_ascii_def byte_def is_space_single
      char_class_defs rune_count_def)

subsection \<open>A Pulsar SDK\<close>

text \<open>One topic, kept as a queue in a part of the world that \<open>get\<close> and \<open>put\<close> reach.\<close>

definition ex_sdk ::
  "('x \<Rightarrow> producer_message list) \<Rightarrow> (producer_message list \<Rightarrow> 'x \<Rightarrow> 'x)
    \<Rightarrow> ('x, unit, unit, unit, producer_message) pulsar_sdk" where
  "ex_sdk get put =
     \<lparr>sdk_new_client = (\<lambda>_ x. (Inr (), x)), sdk_create_producer = (\<lambda>_ _ x. (Inr (), x)),
      sdk_subscribe = (\<lambda>_ _ x. (Inr (), x)), sdk_close_client = (\<lambda>_ x. x),
      sdk_close_producer = (\<lambda>_ x. x), sdk_close_consumer = (\<lambda>_ x. x),
      sdk_send = (\<lambda>_ m x. (None, put (get x @ [m]) x)),
      sdk_receive = (\<lambda>_ x. case get x of [] \<Rightarrow> (Inl ContextCanceled, x) | m # ms \<Rightarrow> (Inr m, put ms x)),
      sdk_payload = pm_payload, sdk_properties = pm_properties,
      sdk_ack = (\<lambda>_ _ x. x), sdk_nack = (\<lambda>_ _ x. x)\<rparr>"

type_synonym ex_queue = "producer_message list"

definition ex_K :: "(ex_queue, unit, unit, unit, producer_message) pulsar_sdk" where
  "ex_K = ex_sdk (\<lambda>q. q) (\<lambda>q _. q)"

text \<open>
  An SDK that only counts: \<open>upd\<close> reaches a ledger in the world, whether telemetry providers are
  registered and how many clients are open. Its topic is empty.
\<close>

type_synonym ex_ledger = "bool \<times> nat"

definition ex_ledger_sdk ::
  "((ex_ledger \<Rightarrow> ex_ledger) \<Rightarrow> 'x \<Rightarrow> 'x) \<Rightarrow> ('x, unit, unit, unit, producer_message) pulsar_sdk" where
  "ex_ledger_sdk upd = (ex_sdk (\<lambda>_. []) (\<lambda>_ x. x))
     \<lparr>sdk_new_client := (\<lambda>_ x. (Inr (), upd (apsnd Suc) x)),
      sdk_close_client := (\<lambda>_ x. upd (apsnd (\<lambda>n. n - 1)) x)\<rparr>"

definition ex_otel :: "((ex_ledger \<Rightarrow> ex_ledger) \<Rightarrow> 'x \<Rightarrow> 'x) \<Rightarrow> (unit, 'x) otel_sdk" where
  "ex_otel upd =
     \<lparr>otel_init = (\<lambda>_ x. (Inr (\<lambda>y. (None, upd (apfst (\<lambda>_. False)) y)), upd (apfst (\<lambda>_. True)) x)),
      otel_runtime_start = (\<lambda>x. (None, x)), otel_host_start = (\<lambda>x. (None, x))\<rparr>"

definition ex_p :: "(unit, unit) apache_publisher" where
  "ex_p = \<lparr>ap_client = (), ap_producer = (), ap_log = 0\<rparr>"

definition ex_ac :: "(unit, unit) apache_consumer" where
  "ex_ac = \<lparr>ac_client = (), ac_consumer = (), ac_log = 0\<rparr>"

lemma ex_K_publish: "apache_publish ex_K p i q =
    (None, q @ [\<lparr>pm_payload = in_body i, pm_properties = [NotificationIDProperty \<mapsto> in_notification_id i]\<rparr>])"
  by (simp add: apache_publish_def ex_K_def ex_sdk_def)

subsection \<open>A writer\<close>

text \<open>The clock stands at the beginning of 1970; every identifier drawn is the same.\<close>

definition ex_now :: "'x \<Rightarrow> gotime \<times> 'x" where
  "ex_now x = (unix_epoch, x)"

definition ex_newV7 :: "'x \<Rightarrow> (goerr + string) \<times> 'x" where
  "ex_newV7 x = (Inr ''0198'', x)"

definition ex_publish :: "ex_queue publisher_fn" where
  "ex_publish = apache_publish ex_K ex_p"

definition ex_i :: "ex_queue ingester" where
  "ex_i = \<lparr>i_publisher = Some ex_publish, i_clock = ex_now, i_idFn = newUUIDv7 ex_newV7\<rparr>"

definition ex_h :: "ex_queue handlers" where
  "ex_h = \<lparr>h_ingester = Some ex_i, h_requestID = Some RequestIDFromContext\<rparr>"

lemma ex_i_simps [simp]:
  "i_publisher ex_i = Some ex_publish" "i_clock ex_i = ex_now" "i_idFn ex_i = newUUIDv7 ex_newV7"
  "h_ingester ex_h = Some ex_i" "h_requestID ex_h = Some RequestIDFromContext"
  by (simp_all add: ex_i_def ex_h_def)

definition ex_svc :: string where
  "ex_svc = ''billing''"

definition ex_published :: "int notification" where
  "ex_published = assign_fields ex_E ''0198'' (truncate_ms unix_epoch) ex_svc ex_n"

definition ex_body :: string where
  "ex_body = ex_encode (ex_notification_json ex_published)"

definition ex_message :: producer_message where
  "ex_message = \<lparr>pm_payload = ex_body, pm_properties = [NotificationIDProperty \<mapsto> ''0198'']\<rparr>"

lemma ex_marshal_published: "ex_marshal ex_published = Inr ex_body"
  by (simp add: ex_marshal_def ex_body_def)

lemma ex_is_published:
  "published ex_E ex_i ex_publish ex_svc ex_n q ''0198'' (truncate_ms unix_epoch) (q @ [ex_message])"
  using ex_marshal_published
  by (auto simp: published_def ex_n_valid ex_now_def newUUIDv7_def ex_newV7_def ex_publish_def
      ex_K_publish ex_message_def ex_published_def)

lemma ex_Accept:
  "Accept ex_E ex_i ex_publish (Some ex_n) ex_svc w =
     (Inr \<lparr>ar_notification_id = ''0198'', ar_accepted_at = truncate_ms unix_epoch\<rparr>, Some ex_published,
      after_publish w (ww_env w @ [ex_message]))"
  using published_Accept[OF ex_is_published] by (simp add: ex_published_def)

definition ex_tokens :: tokens where
  "ex_tokens = [''s3cret'' \<mapsto> \<lparr>service_name = ex_svc\<rparr>]"

definition ex_bind :: "string \<Rightarrow> goerr + string" where
  "ex_bind = Inr"

definition ex_log :: "'x http_logger" where
  "ex_log l x = x"

text \<open>A submission, with given headers and the encoding of the notification.\<close>

definition ex_r :: "header \<Rightarrow> request" where
  "ex_r h = \<lparr>r_method = ''POST'', r_path = notifications_path, r_header = h,
     r_body = ex_encode (ex_notification_json ex_n), r_body_err = None,
     ctx_principal = None, ctx_request_id = None\<rparr>"

lemma ex_r_simps [simp]:
  "r_method (ex_r h) = ''POST''" "r_path (ex_r h) = notifications_path" "r_header (ex_r h) = h"
  "ctx_request_id (ex_r h) = None" "r_body_err (ex_r h) = None"
  "r_body (ex_r h) = ex_encode (ex_notification_json ex_n)"
  by (simp_all add: ex_r_def)

definition ex_header :: header where
  "ex_header = [''Content-Type'' \<mapsto> [''application/json''], ''Authorization'' \<mapsto> [''Bearer s3cret'']]"

lemma ex_tight: "tight ''s3cret''"
  by (simp add: tight_def is_space_single char_class_defs)

lemma ex_token:
  assumes "header_get h ''Authorization'' = ''Bearer s3cret''"
  shows "BearerToken (ex_r h) = ''s3cret''"
  by (rule BearerToken_tight[OF ex_tight]) (simp add: assms bearer_prefix_def)

lemma ex_header_token [simp]: "BearerToken (ex_r ex_header) = ''s3cret''"
  by (rule ex_token) (simp add: ex_header_def header_get_def)

definition ex_w :: "ex_queue writer_world" where
  "ex_w = \<lparr>ww_metrics = [], ww_env = []\<rparr>"

lemma ex_w_simps [simp]: "ww_metrics ex_w = []" "ww_env ex_w = []"
  by (simp_all add: ex_w_def)

lemma ex_request_id:
  "header_get h ''X-Request-Id'' = [] \<Longrightarrow> new_request_id ex_newV7 (ex_r h) x = (''req_0198'', x)"
  by (simp add: new_request_id_def ex_newV7_def)

lemma ex_submission: "submission_setup simple_mux ex_bind ex_newV7 (Authenticate ex_tokens) ex_h ex_i
    ex_publish (ex_r ex_header) [] ''req_0198'' [] \<lparr>service_name = ex_svc\<rparr> None"
  by (simp add: submission_setup_def simple_mux_contract Authenticate_Inr_iff ex_tokens_def bind_key_def
      ex_request_id ex_header_def header_get_def) (simp add: ex_header_def[symmetric])

lemma ex_body_small: "length (ex_encode (ex_notification_json ex_n)) \<le> maxRequestBodyBytes"
  by (simp add: ex_encode_def ex_notification_json_def ex_content_json_def ex_pushover_json_def
      ex_str_def ex_unary_def ex_key_def empty_content_def empty_pushover_def maxRequestBodyBytes_def)

lemma ex_decodeBody_of:
  assumes "header_get h ''Content-Type'' = ''application/json''"
  shows "decodeBody ex_E (ex_r h) rid = Inr ex_n"
proof -
  have "contentTypeOf ex_E (ex_r h) = contentTypeJSON"
    by (rule contentType_json) (simp add: assms)
  then show ?thesis
    using ex_body_small ex_unmarshal[of ex_n]
    by (simp add: decodeBody_def read_body_def Let_def ex_marshal_def)
qed

lemma ex_decodeBody: "decodeBody ex_E (ex_r ex_header) rid = Inr ex_n"
  by (rule ex_decodeBody_of) (simp add: ex_header_def header_get_def)

lemma ex_submission_w: "submission_setup simple_mux ex_bind ex_newV7 (Authenticate ex_tokens) ex_h ex_i
    ex_publish (ex_r ex_header) (ww_env ex_w) ''req_0198'' [] \<lparr>service_name = ex_svc\<rparr> None"
  using ex_submission by simp

abbreviation ex_chain :: "ex_queue writer_world handler" where
  "ex_chain \<equiv> server_chain ex_E ex_bind ex_newV7 simple_mux ex_log ex_h (Authenticate ex_tokens)"

abbreviation ex_rid_writer :: response_writer where
  "ex_rid_writer \<equiv> set_header ''X-Request-Id'' ''req_0198'' new_writer"

subsection \<open>A client\<close>

text \<open>A path that starts with \<open>./\<close> is appended; the path of a URL starts after \<open>http://\<close> and the host.\<close>

definition ex_U :: client_libs where
  "ex_U = \<lparr>ux_parse = Inr, ux_resolve = (\<lambda>s p. Inr (s @ drop 2 p)), ux_style = Inr\<rparr>"

definition ex_upath :: "string \<Rightarrow> string" where
  "ex_upath u = dropWhile (\<lambda>c. c \<noteq> CHR ''/'') (drop 7 u)"

lemma ex_wire_libs: "wire_libs ex_E"
  using ex_unmarshal by (simp add: wire_libs_def ex_json_codec)

lemma ex_leads: "leads_to ex_U ex_upath ''http://writer/'' ''http://writer/notifications''"
  by (simp add: leads_to_def ex_U_def ex_upath_def notifications_path_def)

lemma ex_key_binds: "key_binds ex_U ex_bind k"
  by (simp add: key_binds_def ex_U_def ex_bind_def)

definition ex_client :: "ex_queue writer_world client" where
  "ex_client = \<lparr>cl_raw = \<lparr>rc_Server = ''http://writer/'', rc_Client = Some (writer_doer ex_upath ex_chain),
       rc_RequestEditors = []\<rparr>,
     cl_bearerToken = ''s3cret'', cl_userAgent = ''test'', cl_contentType = ''application/json''\<rparr>"

definition ex_q :: "int submit_request" where
  "ex_q = \<lparr>sq_Notification = Some ex_n, sq_IdempotencyKey = []\<rparr>"

subsection \<open>A deliverer\<close>

type_synonym ex_world = "(int, ex_queue) denv"

type_synonym 'x ex_pulsar = "('x, unit, unit, unit, producer_message) pulsar_sdk"

definition ex_Kd :: "(ex_world, unit, unit, unit, producer_message) pulsar_sdk" where
  "ex_Kd = ex_sdk de_rest (\<lambda>q x. x\<lparr>de_rest := q\<rparr>)"

abbreviation ex_lines :: "log_line \<Rightarrow> log_line list \<Rightarrow> log_line list" where
  "ex_lines \<equiv> slog_handler LevelInfoL"

definition ex_config :: "unit deliverer_config" where
  "ex_config = \<lparr>dc_shared = \<lparr>cfg_LogLevel = ''info'', cfg_MetricsEnabled = True, cfg_MetricsPort = 8081,
       cfg_Local = False, cfg_TracingEnabled = False, cfg_TracingSampleRate = (),
       cfg_TracingService = ''pulsarnp'', cfg_TracingVersion = [], cfg_PulsarServiceURL = ''pulsar://p:6650'',
       cfg_PulsarTopic = ''notifications'', cfg_PulsarEncryptionKeyDir = ''/keys'',
       cfg_ShutdownGracePeriod = word_of_int (30 * second)\<rparr>,
     dc_PulsarSubscription = ''deliverer'', dc_Concurrency = 1, dc_RetryMaxAttempts = 3,
     dc_RetryInitialBackoff = word_of_int (500 * millisecond),
     dc_RetryMaxBackoff = word_of_int (30 * second),
     dc_Provider = ProviderSandbox, dc_PushoverAppToken = [], dc_PushoverBaseURL = []\<rparr>"

definition ex_wait :: "'x sleep_fn" where
  "ex_wait d x = (None, x)"

definition ex_rand :: "'x \<Rightarrow> nat \<times> 'x" where
  "ex_rand x = (0, x)"

definition ex_logger :: "'x logger" where
  "ex_logger l x = x"

definition ex_host_of ::
  "(int, 'y) denv ex_pulsar \<Rightarrow> (unit, (int, 'y) denv) otel_sdk
    \<Rightarrow> (unit, int, log_line list, 'y, unit, unit, unit, producer_message) deliverer_host" where
  "ex_host_of K T = \<lparr>dh_env = Inr ex_config, dh_json_handler = (\<lambda>lvl. (slog_handler lvl, ex_logger)),
     dh_otel = T, dh_client = (\<lambda>_ _ _ x. (Inl (ForeignErr ''no network'' None), x)),
     dh_sdk = K, dh_logger_id = 0, dh_now = ex_now, dh_rand = ex_rand, dh_wait = ex_wait\<rparr>"

definition ex_dispatcher :: "(int, log_line list, (int, 'y) denv) dispatcher" where
  "ex_dispatcher = \<lparr>d_providers = [''pushover'' \<mapsto> sandbox_value],
     d_recorder = Some (slog_Record ex_lines), d_clock = ex_now,
     d_retry = configured_policy ex_rand ex_config, d_sleep = default_sleep ex_wait\<rparr>"

definition ex_consumer_of ::
  "(int, 'y) denv ex_pulsar \<Rightarrow> (int, log_line list, producer_message, (int, 'y) denv) consumer" where
  "ex_consumer_of K = \<lparr>c_reader = sdk_reader K ex_ac,
     c_dispatcher = (ex_dispatcher, slog_Record ex_lines), c_recorder = slog_Record ex_lines,
     c_logger = ex_logger\<rparr>"

text \<open>The deliverer on the queue: nothing is counted.\<close>

definition ex_host ::
  "(unit, int, log_line list, ex_queue, unit, unit, unit, producer_message) deliverer_host" where
  "ex_host = ex_host_of ex_Kd (ex_otel (\<lambda>_ x. x))"

definition ex_consumer :: "(int, log_line list, producer_message, ex_world) consumer" where
  "ex_consumer = ex_consumer_of ex_Kd"

text \<open>The world before anything was consumed, with a queue of messages.\<close>

definition ex_denv :: "ex_queue \<Rightarrow> ex_world" where
  "ex_denv q = \<lparr>de_sandbox = sandbox_New [], de_rest = q\<rparr>"

definition ex_dw :: "ex_queue \<Rightarrow> (log_line list, ex_world) dworld" where
  "ex_dw q = \<lparr>dw_log = [], dw_metrics = [], dw_env = ex_denv q\<rparr>"

definition ex_cw :: "ex_queue \<Rightarrow> (log_line list, producer_message, ex_world) cworld" where
  "ex_cw q = \<lparr>cw_base = ex_dw q, cw_acks = []\<rparr>"

lemma ex_dw_simps [simp]:
  "dw_env (ex_dw q) = ex_denv q" "cw_base (ex_cw q) = ex_dw q" "cw_acks (ex_cw q) = []"
  "dw_log (ex_dw q) = []" "dw_metrics (ex_dw q) = []"
  "de_rest (ex_denv q) = q" "de_sandbox (ex_denv q) = sandbox_New []"
  by (simp_all add: ex_dw_def ex_cw_def ex_denv_def)

lemma ex_consumer_simps [simp]:
  "c_reader ex_consumer = sdk_reader ex_Kd ex_ac" "c_recorder ex_consumer = slog_Record ex_lines"
  "c_dispatcher ex_consumer = (ex_dispatcher, slog_Record ex_lines)" "c_logger ex_consumer = ex_logger"
  "shares_recorder ex_consumer"
  by (simp_all add: ex_consumer_def ex_consumer_of_def shares_recorder_def)

lemma ex_receive:
  "rd_Receive (sdk_reader ex_Kd ex_ac) (ex_denv []) = (Inl ContextCanceled, ex_denv [])"
  "rd_Receive (sdk_reader ex_Kd ex_ac) (ex_denv (m # ms)) =
     (Inr \<lparr>cm_body = pm_payload m,
           cm_notification_id = (case pm_properties m NotificationIDProperty of None \<Rightarrow> [] | Some i \<Rightarrow> i),
           cm_msg = m\<rparr>, ex_denv ms)"
  by (simp_all add: sdk_reader_def apache_reader_def apache_receive_def ex_Kd_def ex_sdk_def
      errors_is_def ex_denv_def)

lemma ex_typed: "typed_script (sandbox_New [])"
  by (simp add: typed_script_def sandbox_New_def)

lemma ex_leaves: "leaves_sandbox ex_host"
  by (simp add: leaves_sandbox_def ex_host_def ex_host_of_def ex_now_def ex_rand_def ex_wait_def)

lemma ex_log_level: "LogLevelToSlogLevel E ''info'' = (LevelInfoL, None)"
  by (simp add: LogLevelToSlogLevel_def to_lower_ascii is_ascii_def byte_def lower_ascii_def
      char_class_defs Let_def)

text \<open>Both processes start on a telemetry library that starts.\<close>

lemma ex_telemetry:
  "telemetry_Init (ex_otel upd) (telemetry_config_of (dc_shared ex_config)) x
     = (Inr (\<lambda>y. (None, upd (apfst (\<lambda>_. False)) y)), upd (apfst (\<lambda>_. True)) x)"
  by (simp add: telemetry_Init_def telemetry_config_of_def ex_config_def ex_otel_def)

lemma ex_deliverer_run_of:
  assumes new: "\<And>u y. sdk_new_client K u y = (Inr (), f y)"
    and sub: "\<And>os y. sdk_subscribe K () os y = (Inr (), y)"
    and t: "telemetry_Init T (telemetry_config_of (dc_shared ex_config)) x = (Inr sh, x1)"
  shows "deliverer_run ex_E (ex_host_of K T) x =
     (Inr \<lparr>run_consumer = ex_consumer_of K, run_workers = 1,
           run_close = deliverer_stop (ex_host_of K T) sh ex_ac\<rparr>, f (x1\<lparr>de_sandbox := sandbox_New []\<rparr>))"
proof -
  let ?H = "ex_host_of K T"
  have cfg: "deliverer_Load ex_E (dh_env ?H) [] = Inr ex_config"
    by (simp add: deliverer_Load_def ex_host_of_def ex_config_def ProviderPushover_def ProviderSandbox_def)
  have lg: "logging_New ex_E (dh_json_handler ?H) (cfg_LogLevel (dc_shared ex_config))
      = Inr (ex_lines, ex_logger)"
    by (simp add: logging_New_def ex_config_def ex_log_level ex_host_of_def)
  have tel: "telemetry_Init (dh_otel ?H) (telemetry_config_of (dc_shared ex_config))
      (snd (ex_lines, ex_logger) (deliverer_starting ex_config) x) = (Inr sh, x1)"
    using t by (simp add: ex_host_of_def ex_logger_def)
  have pr: "buildProvider ex_E (dh_client ?H) ex_config y =
      (Inr sandbox_value, y\<lparr>de_sandbox := sandbox_New []\<rparr>)" for y
    by (simp add: buildProvider_def ex_config_def ProviderPushover_def ProviderSandbox_def)
  have ac: "NewApacheConsumer (dh_sdk ?H) (dh_logger_id ?H)
      (deliverer_consumer_options ex_config (dh_logger_id ?H)) y = (Inr ex_ac, f y)" for y
    using new sub
    by (simp add: NewApacheConsumer_def deliverer_consumer_options_def validateConsumer_def option_simps
        ex_host_of_def ex_ac_def effectiveLogger_def Let_def) (simp add: ex_config_def)
  have c: "deliverer_consumer ?H ex_config (ex_lines, ex_logger) sandbox_value ex_ac
      = Inr (ex_consumer_of K)"
    by (simp add: deliverer_consumer_def dispatcher_New_def consumer_New_def option_simps Let_def
        NewSlogRecorder_def outcomes_WithLogger_def ex_consumer_of_def ex_dispatcher_def ex_host_of_def)
  show ?thesis
    using cfg lg tel pr ac c by (simp add: deliverer_run_def) (simp add: ex_config_def)
qed

text \<open>A record for the deliverer on the queue, which starts without touching it.\<close>

definition ex_running :: "(int, log_line list, producer_message, ex_queue) running_deliverer" where
  "ex_running = \<lparr>run_consumer = ex_consumer, run_workers = 1,
     run_close = deliverer_stop ex_host (\<lambda>y. (None, y)) ex_ac\<rparr>"

lemma ex_running_simps [simp]: "run_consumer ex_running = ex_consumer" "run_workers ex_running = 1"
  by (simp_all add: ex_running_def)

lemma ex_deliverer_run: "deliverer_run ex_E ex_host (ex_denv q) = (Inr ex_running, ex_denv q)"
proof -
  have "sdk_new_client ex_Kd u y = (Inr (), y)" "sdk_subscribe ex_Kd () os y = (Inr (), y)" for u os y
    by (simp_all add: ex_Kd_def ex_sdk_def)
  from ex_deliverer_run_of[of ex_Kd "\<lambda>y. y", OF this ex_telemetry[of "\<lambda>_ x. x" "ex_denv q"]] show ?thesis
    by (simp add: ex_host_def ex_running_def ex_consumer_def ex_denv_def)
qed

text \<open>A pool whose first worker takes the message in the queue.\<close>

lemma ex_pool_step:
  "pool_step ex_E ex_consumer (pool_start 1 (ex_cw [m])) [consumed_of ex_Kd m]
     ([Got (consumed_of ex_Kd m)], ex_cw [])"
proof -
  have "sdk_payload ex_Kd = pm_payload" "sdk_properties ex_Kd = pm_properties"
    by (simp_all add: ex_Kd_def ex_sdk_def)
  then have "rd_Receive (sdk_reader ex_Kd ex_ac) (ex_denv [m]) = (Inr (consumed_of ex_Kd m), ex_denv [])"
    by (simp add: ex_receive consumed_of_def)
  then have "worker_step ex_E ex_consumer Receiving (ex_cw [m]) = (Got (consumed_of ex_Kd m), ex_cw [])"
    by (simp add: on_base_def ex_cw_def ex_dw_def)
  then show ?thesis
    using pool_step.work[of 0 "[Receiving]" ex_E ex_consumer "ex_cw [m]"] by (simp add: pool_start_def)
qed

subsection \<open>Starting the writer\<close>

text \<open>A tokens file of one line: the token \<open>k\<close> of the service \<open>b\<close>.\<close>

lemma ex_file_entries:
  "file_entries ''k b'' = [(''k'', \<lparr>service_name = ''b''\<rparr>)]"
  "\<not> scan_too_long ''k b''"
proof -
  have r: "runes ''k b'' = [''k'', '' '', ''b'']"
    by (simp add: runes_ascii char_class_defs)
  have l: "raw_lines ''k b'' = [''k b'']"
    by (simp add: raw_lines_def newline_def char_of_def bit_0)
  show "\<not> scan_too_long ''k b''"
    by (simp add: scan_too_long_def l max_token_def)
  have t: "trim_space ''k b'' = ''k b''"
    by (simp add: trim_space_def r trim_right_by_def is_space_single char_class_defs)
  have f: "str_fields ''k b'' = [''k'', ''b'']"
    by (simp add: str_fields_def r is_space_single char_class_defs)
  show "file_entries ''k b'' = [(''k'', \<lparr>service_name = ''b''\<rparr>)]"
    by (simp add: file_entries_def scan_lines_def l drop_cr_def line_entry_def t f
        List.map_filter_def Let_def char_of_def bit_0)
qed

definition ex_writer_config :: "unit writer_config" where
  "ex_writer_config = \<lparr>wc_shared = dc_shared ex_config, wc_HTTPAddr = '':8080'',
     wc_BearerTokensFile = ''t'', wc_IdempotencyWindow = 0, wc_EncryptionKeyNamesCSV = ''v''\<rparr>"

definition ex_writer_host ::
  "'x ex_pulsar \<Rightarrow> (unit, 'x) otel_sdk \<Rightarrow> (unit, 'x, unit, unit, unit, producer_message) writer_host" where
  "ex_writer_host K T = \<lparr>wh_env = Inr ex_writer_config, wh_json_handler = (\<lambda>_. ex_log),
     wh_otel = T, wh_read_file = (\<lambda>_. Inr ''pem''),
     wh_open_file = (\<lambda>_. Inr (''k b'', None)), wh_sdk = K, wh_logger_id = 0, wh_now = ex_now,
     wh_newV7 = ex_newV7, wh_bind = ex_bind, wh_mux = simple_mux\<rparr>"

lemma ex_writer_run:
  assumes new: "\<And>u y. sdk_new_client K u y = (Inr (), f y)"
    and prod: "\<And>os y. sdk_create_producer K () os y = (Inr (), y)"
    and t: "telemetry_Init T (telemetry_config_of (dc_shared ex_config)) x = (Inr sh, x1)"
  shows "\<exists>srv. writer_run ex_E (ex_writer_host K T) x = (Inr srv, f x1)"
proof -
  let ?H = "ex_writer_host K T"
  have names: "EncryptionKeyNames ex_writer_config = [''v'']"
    by (simp add: EncryptionKeyNames_spec ex_writer_config_def split_on_no_sep trim_space_tight
        tight_def is_space_single char_class_defs)
  have cfg: "writer_Load (wh_env ?H) [] = Inr ex_writer_config"
    by (simp add: writer_Load_def ex_writer_host_def names)
  have lg: "logging_New ex_E (wh_json_handler ?H) (cfg_LogLevel (wc_shared ex_writer_config)) = Inr ex_log"
    by (simp add: logging_New_def ex_writer_config_def ex_config_def ex_log_level ex_writer_host_def)
  have tel: "telemetry_Init (wh_otel ?H) (telemetry_config_of (wc_shared ex_writer_config))
      (ex_log (writer_starting ex_writer_config) x) = (Inr sh, x1)"
    using t by (simp add: ex_writer_host_def ex_writer_config_def ex_log_def)
  have ks: "LoadKeySet ex_E (wh_read_file ?H)
      (cfg_PulsarEncryptionKeyDir (wc_shared ex_writer_config)) (EncryptionKeyNames ex_writer_config)
      = Inr \<lparr>ks_dir = ''/keys'', ks_active_names = [''v'']\<rparr>"
    by (simp add: LoadKeySet_def names ex_writer_host_def) (simp add: ex_writer_config_def ex_config_def)
  obtain b where b: "NewBearer (wh_open_file ?H)
      [WithTokensFile (wc_BearerTokensFile ex_writer_config)] = Inr b"
    using ex_file_entries
    by (simp add: NewBearer_Inr_iff WithTokensFile_def ex_writer_host_def ex_writer_config_def Let_def)
  have p: "NewApachePublisher (wh_sdk ?H) (wh_logger_id ?H)
      (writer_publisher_options ex_writer_config (wh_logger_id ?H)) x1 = (Inr ex_p, f x1)"
    using new prod
    by (simp add: NewApachePublisher_def writer_publisher_options_def validateProducer_def option_simps
        names ex_writer_host_def ex_p_def effectiveLogger_def Let_def)
       (simp add: ex_writer_config_def ex_config_def)
  obtain h where h: "writer_server ex_E ?H ex_writer_config ex_log b ex_p = Inr h"
    by (simp add: writer_server_def NewIngester_def NewHandlers_def NewServer_def option_simps Let_def
        ex_writer_config_def)
  from cfg lg tel ks b p h show ?thesis by (simp add: writer_run_def)
qed

end
