(* ===== verification/Lint.thy ===== *)
theory Lint
  imports Go_Strings
begin

text \<open>
  \<open>tools/funcoptslint\<close>: the analysis pass for the functional-options rule. A syntax tree is a node
  with children; what the type checker knows is attached to composite literals. Packages and named
  types are identified by path and name, the identity \<open>go/types\<close> gives its pointers.
\<close>

record tpackage_id =
  pk_Path :: string

datatype gotype =
    TPointer gotype
  | TNamed (nt_name: string) (nt_pkg: "string option") (nt_struct: bool) (nt_exported: bool)
  | TOther

text \<open>What a package scope holds under a name: a function with its result types, or not a function.\<close>

datatype scope_object = ScopeFunc "gotype list" | ScopeOther

type_synonym scope = "string \<Rightarrow> string \<Rightarrow> scope_object option"

text \<open>
  A composite literal: whether it has elements, its type expression where that is a selector, with
  the package name it is written under if its operand is an identifier, and its resolved type.
\<close>

record comp_lit =
  cl_elts :: nat
  cl_selector :: "string option option"
  cl_type :: "gotype option"

datatype ast_node = CompositeLit comp_lit "ast_node list" | OtherNode "ast_node list"

record diagnostic =
  dg_type :: string
  dg_pkg :: string

definition typeAsNamedStruct :: "gotype \<Rightarrow> gotype option" where
  "typeAsNamedStruct t =
     (let t' = (case t of TPointer e \<Rightarrow> e | _ \<Rightarrow> t) in
      case t' of TNamed n p s ex \<Rightarrow> (if s then Some t' else None) | _ \<Rightarrow> None)"

fun result_is :: "gotype \<Rightarrow> gotype \<Rightarrow> bool" where
  "result_is named (TPointer e) = (e = named)"
| "result_is named t = (t = named)"

definition hasConstructor :: "scope \<Rightarrow> string \<Rightarrow> gotype \<Rightarrow> bool" where
  "hasConstructor sc pkg named =
     list_ex (\<lambda>name.
        case sc pkg name of
          Some (ScopeFunc results) \<Rightarrow> list_ex (result_is named) results
        | _ \<Rightarrow> False)
      [''New'' @ nt_name named, ''New'']"

definition selectorPkgName :: "string option \<Rightarrow> string" where
  "selectorPkgName s = (case s of Some n \<Rightarrow> n | None \<Rightarrow> ''pkg'')"

definition isExemptFile :: "string \<Rightarrow> bool" where
  "isExemptFile path =
     (if suffix ''_test.go'' path then True
      else if suffix ''.gen.go'' path \<or> suffix ''.pb.go'' path then True
      else False)"

text \<open>The checks on one literal, in the order of the source; \<open>None\<close> is no report.\<close>

definition check_literal :: "scope \<Rightarrow> string \<Rightarrow> string \<Rightarrow> comp_lit \<Rightarrow> diagnostic option" where
  "check_literal sc ModulePrefix self cl =
     (if cl_elts cl = 0 then None
      else case cl_selector cl of
             None \<Rightarrow> None
           | Some sel \<Rightarrow>
               (case cl_type cl of
                  None \<Rightarrow> None
                | Some t \<Rightarrow>
                    (case typeAsNamedStruct t of
                       None \<Rightarrow> None
                     | Some named \<Rightarrow>
                         (if \<not> nt_exported named then None
                          else case nt_pkg named of
                                 None \<Rightarrow> None
                               | Some declaring \<Rightarrow>
                                   (if \<not> prefix ModulePrefix declaring then None
                                    else if declaring = self then None
                                    else if \<not> hasConstructor sc declaring named then None
                                    else Some \<lparr>dg_type = nt_name named, dg_pkg = selectorPkgName sel\<rparr>)))))"

text \<open>\<open>ast.Inspect\<close> with a function that always returns true: every node, parents first.\<close>

fun inspect :: "(comp_lit \<Rightarrow> diagnostic option) \<Rightarrow> ast_node \<Rightarrow> diagnostic list" where
  "inspect f (CompositeLit cl ns) =
     (case f cl of Some d \<Rightarrow> [d] | None \<Rightarrow> []) @ concat (map (inspect f) ns)"
| "inspect f (OtherNode ns) = concat (map (inspect f) ns)"

definition lint_run :: "scope \<Rightarrow> string \<Rightarrow> string \<Rightarrow> (string \<times> ast_node) list \<Rightarrow> diagnostic list" where
  "lint_run sc ModulePrefix self files =
     concat (map (\<lambda>(path, root).
       if isExemptFile path then [] else inspect (check_literal sc ModulePrefix self) root) files)"

subsection \<open>What is reported\<close>

fun literals :: "ast_node \<Rightarrow> comp_lit list" where
  "literals (CompositeLit cl ns) = cl # concat (map literals ns)"
| "literals (OtherNode ns) = concat (map literals ns)"

lemma inspect_literals: "inspect f n = List.map_filter f (literals n)"
proof (induction n)
  case (CompositeLit cl ns)
  then have "concat (map (inspect f) ns) = concat (map (List.map_filter f \<circ> literals) ns)"
    by (metis (mono_tags, lifting) comp_apply map_eq_conv)
  also have "\<dots> = List.map_filter f (concat (map literals ns))"
    by (induction ns) (simp_all add: List.map_filter_def)
  finally show ?case by (simp add: List.map_filter_def split: option.split)
next
  case (OtherNode ns)
  then have "concat (map (inspect f) ns) = concat (map (List.map_filter f \<circ> literals) ns)"
    by (metis (mono_tags, lifting) comp_apply map_eq_conv)
  also have "\<dots> = List.map_filter f (concat (map literals ns))"
    by (induction ns) (simp_all add: List.map_filter_def)
  finally show ?case by simp
qed

text \<open>
  The rule of the constitution: a non-empty literal, written through a package selector, of an
  exported struct type of another package of the module that has a constructor for it.
\<close>

definition violation :: "scope \<Rightarrow> string \<Rightarrow> string \<Rightarrow> comp_lit \<Rightarrow> bool" where
  "violation sc ModulePrefix self cl \<longleftrightarrow>
     cl_elts cl \<noteq> 0 \<and> cl_selector cl \<noteq> None \<and>
     (\<exists>t name pkg. cl_type cl = Some t \<and> (t = TNamed name (Some pkg) True True
                      \<or> t = TPointer (TNamed name (Some pkg) True True))
        \<and> prefix ModulePrefix pkg \<and> pkg \<noteq> self
        \<and> (\<exists>ctor \<in> {''New'' @ name, ''New''}. \<exists>rs r. sc pkg ctor = Some (ScopeFunc rs) \<and> r \<in> set rs
             \<and> (r = TNamed name (Some pkg) True True \<or> r = TPointer (TNamed name (Some pkg) True True))))"

lemma result_is_iff:
  "result_is (TNamed n p s e) r \<longleftrightarrow> r = TNamed n p s e \<or> r = TPointer (TNamed n p s e)"
  by (cases r) auto

lemma hasConstructor_iff:
  "hasConstructor sc pkg (TNamed n p s e) \<longleftrightarrow>
     (\<exists>ctor \<in> {''New'' @ n, ''New''}. \<exists>rs r. sc pkg ctor = Some (ScopeFunc rs) \<and> r \<in> set rs
        \<and> (r = TNamed n p s e \<or> r = TPointer (TNamed n p s e)))"
  by (auto simp: hasConstructor_def list_ex_iff result_is_iff split: option.splits scope_object.splits)

lemma check_literal_flat:
  "check_literal sc mp self cl \<noteq> None \<longleftrightarrow>
     cl_elts cl \<noteq> 0 \<and> cl_selector cl \<noteq> None \<and>
     (\<exists>t nt pkg. cl_type cl = Some t
        \<and> (typeAsNamedStruct t = Some nt \<and> nt_exported nt \<and> nt_pkg nt = Some pkg) \<and> prefix mp pkg \<and> pkg \<noteq> self \<and> hasConstructor sc pkg nt)"
  by (auto simp: check_literal_def split: option.splits if_splits)

lemma named_exported_iff:
  "typeAsNamedStruct t = Some nt \<and> nt_exported nt \<and> nt_pkg nt = Some pkg \<longleftrightarrow>
     (\<exists>n. nt = TNamed n (Some pkg) True True \<and> (t = nt \<or> t = TPointer nt))"
  by (auto simp: typeAsNamedStruct_def Let_def split: gotype.splits)

lemma check_literal_iff: "check_literal sc mp self cl \<noteq> None \<longleftrightarrow> violation sc mp self cl"
proof -
  have "(\<exists>t nt pkg. cl_type cl = Some t
        \<and> (typeAsNamedStruct t = Some nt \<and> nt_exported nt \<and> nt_pkg nt = Some pkg) \<and> prefix mp pkg \<and> pkg \<noteq> self \<and> hasConstructor sc pkg nt)
    \<longleftrightarrow> (\<exists>t pkg n. cl_type cl = Some t
        \<and> (t = TNamed n (Some pkg) True True \<or> t = TPointer (TNamed n (Some pkg) True True))
        \<and> prefix mp pkg \<and> pkg \<noteq> self \<and> hasConstructor sc pkg (TNamed n (Some pkg) True True))"
    unfolding named_exported_iff by blast
  then show ?thesis
    unfolding check_literal_flat violation_def hasConstructor_iff by blast
qed

text \<open>C40: The pass reports, file by file and in the order of the syntax tree, exactly the composite
  literals that break the functional-options rule, and nothing in an exempt file.\<close>

theorem lint_reports_violations:
  "lint_run sc mp self files =
     map (\<lambda>cl. the (check_literal sc mp self cl))
       (filter (violation sc mp self)
         (concat (map (\<lambda>(path, root). if isExemptFile path then [] else literals root) files)))"
proof -
  have one: "List.map_filter (check_literal sc mp self) ls
      = map (\<lambda>cl. the (check_literal sc mp self cl)) (filter (violation sc mp self) ls)" for ls
    unfolding List.map_filter_def comp_def check_literal_iff ..
  have "lint_run sc mp self files =
      concat (map (\<lambda>(path, root). List.map_filter (check_literal sc mp self)
        (if isExemptFile path then [] else literals root)) files)"
    by (simp add: lint_run_def inspect_literals split_beta List.map_filter_simps if_distrib cong: if_cong)
  also have "\<dots> = List.map_filter (check_literal sc mp self)
      (concat (map (\<lambda>(path, root). if isExemptFile path then [] else literals root) files))"
    by (induction files) (auto simp: List.map_filter_def)
  finally show ?thesis by (simp add: one)
qed

end
