(* ===== verification/Dispatch_Trace.thy ===== *)
theory Dispatch_Trace
  imports Dispatcher_Spec
begin

text \<open>
  The retry loop against the results of the provider itself: \<open>calls\<close> is the sequence of pushes made
  between two states of the outside world, each with its result and the clock readings around it.
  The policy is stated on these results; the metric labels follow from them.
\<close>

subsection \<open>The calls of the provider\<close>

type_synonym made = "gotime \<times> (goerr + push_result option) \<times> gotime"

abbreviation result_of :: "made \<Rightarrow> goerr + push_result option" where
  "result_of m \<equiv> fst (snd m)"

abbreviation ended_at :: "made \<Rightarrow> gotime" where
  "ended_at m \<equiv> snd (snd m)"

text \<open>Before each push the iterator advances and, after the first, the sleep must return nil.\<close>

inductive calls ::
  "('ts, 'l, 'x) dispatcher \<Rightarrow> ('ts, 'x) push_provider_value \<Rightarrow> 'ts notification
    \<Rightarrow> 'x iterator \<Rightarrow> 'x \<Rightarrow> made list \<Rightarrow> 'x iterator \<Rightarrow> 'x \<Rightarrow> bool" for d p n where
  no_call: "calls d p n it x [] it x"
| call: "Next it x = ((b, it1), x1) \<Longrightarrow>
    (if 1 < Attempt it1 then d_sleep d b x1 else (None, x1)) = (None, x2) \<Longrightarrow>
    d_clock d x2 = (start, x3) \<Longrightarrow> pv_Push p (Some n) x3 = (r, x4) \<Longrightarrow> d_clock d x4 = (end', x5) \<Longrightarrow>
    calls d p n it1 x5 ms it' y \<Longrightarrow> calls d p n it x ((start, r, end') # ms) it' y"

inductive_cases calls_NilE: "calls d p n it x [] it' y"

text \<open>What a result means: a nil error is a success, a typed permanent error stops, all else is tried again.\<close>

definition push_class :: "goerr + push_result option \<Rightarrow> string" where
  "push_class r =
     (case r of
        Inr _ \<Rightarrow> ResultSuccess
      | Inl e \<Rightarrow> (if errors_as is_permanent e = None then ResultTransient else ResultPermanent))"

definition retryable :: "goerr + push_result option \<Rightarrow> bool" where
  "retryable r \<longleftrightarrow> (\<exists>e. r = Inl e \<and> errors_as is_permanent e = None)"

definition failure_text :: "goerr + push_result option \<Rightarrow> string" where
  "failure_text r =
     (case r of
        Inl e \<Rightarrow> (case errors_as is_transient e of Some te \<Rightarrow> te_response te | None \<Rightarrow> error_string e)
      | Inr _ \<Rightarrow> [])"

lemma retryable_simps [simp]:
  "retryable (Inl e) \<longleftrightarrow> errors_as is_permanent e = None"
  "\<not> retryable (Inr q)"
  by (simp_all add: retryable_def)

subsection \<open>The ends of the loop\<close>

text \<open>
  The outcome that follows from the results: the success or the permanent failure of the last push,
  the end of the budget, or a sleep cut short before the budget was used up. \<open>y\<close> is the world after
  the last call, \<open>y'\<close> the one the loop leaves; \<open>k\<close>, \<open>first\<close>, \<open>latest\<close> and \<open>resp\<close> are the loop's
  variables at its start.
\<close>

definition delivered_end :: "made list \<Rightarrow> outcome \<Rightarrow> bool" where
  "delivered_end ms oc \<longleftrightarrow> (\<exists>ms' s q l. ms = ms' @ [(s, Inr q, l)]
     \<and> oc_Status oc = StatusDelivered \<and> oc_Reason oc = [] \<and> oc_ProviderResponse oc = safeResponse q
     \<and> oc_LastAttempt oc = l)"

definition permanent_end :: "made list \<Rightarrow> outcome \<Rightarrow> bool" where
  "permanent_end ms oc \<longleftrightarrow> (\<exists>ms' s e pe l. ms = ms' @ [(s, Inl e, l)] \<and> errors_as is_permanent e = Some pe
     \<and> oc_Status oc = StatusPermanentlyFailed \<and> oc_Reason oc = pe_reason pe
     \<and> oc_ProviderResponse oc = pe_response pe \<and> oc_LastAttempt oc = l)"

definition exhausted_end :: "gotime \<Rightarrow> string \<Rightarrow> made list \<Rightarrow> outcome \<Rightarrow> bool" where
  "exhausted_end latest resp ms oc \<longleftrightarrow> (\<forall>m \<in> set ms. retryable (result_of m))
     \<and> oc_Status oc = StatusPermanentlyFailed \<and> oc_Reason oc = ReasonRetryBudgetExhausted
     \<and> oc_ProviderResponse oc = (if ms = [] then resp else failure_text (result_of (last ms)))
     \<and> oc_LastAttempt oc = (if ms = [] then latest else ended_at (last ms))"

definition cut_short ::
  "('ts, 'l, 'x) dispatcher \<Rightarrow> 'x iterator \<Rightarrow> 'x \<Rightarrow> 'x \<Rightarrow> bool" where
  "cut_short d it y y' \<longleftrightarrow> (\<exists>b it' x1 err. Next it y = ((b, it'), x1) \<and> d_sleep d b x1 = (Some err, y'))"

definition loop_ends ::
  "('ts, 'l, 'x) dispatcher \<Rightarrow> 'ts notification \<Rightarrow> int \<Rightarrow> gotime \<Rightarrow> gotime \<Rightarrow> string
    \<Rightarrow> made list \<Rightarrow> 'x iterator \<Rightarrow> 'x \<Rightarrow> outcome \<Rightarrow> 'x \<Rightarrow> bool" where
  "loop_ends d n k first latest resp ms it' y oc y' \<longleftrightarrow>
     oc_NotificationID oc = n_notification_id n
     \<and> oc_Attempts oc = k + int (length ms)
     \<and> (ms \<noteq> [] \<longrightarrow> oc_Attempts oc \<le> rp_MaxAttempts (d_retry d))
     \<and> (\<forall>m \<in> set (butlast ms). retryable (result_of m))
     \<and> (\<not> is_zero first \<longrightarrow> oc_FirstAttempt oc = first)
     \<and> (\<forall>m ms'. ms = m # ms' \<and> is_zero first \<and> \<not> is_zero (fst m) \<longrightarrow> oc_FirstAttempt oc = fst m)
     \<and> ((delivered_end ms oc \<or> permanent_end ms oc) \<and> y' = y
        \<or> exhausted_end latest resp ms oc \<and> rp_MaxAttempts (d_retry d) \<le> oc_Attempts oc \<and> y' = y
        \<or> exhausted_end latest resp ms oc \<and> 0 < oc_Attempts oc
            \<and> oc_Attempts oc < rp_MaxAttempts (d_retry d) \<and> cut_short d it' y y')"

lemma ends_simps:
  "delivered_end [m] oc \<longleftrightarrow> (\<exists>q. result_of m = Inr q \<and> oc_Status oc = StatusDelivered \<and> oc_Reason oc = []
     \<and> oc_ProviderResponse oc = safeResponse q \<and> oc_LastAttempt oc = ended_at m)"
  "permanent_end [m] oc \<longleftrightarrow> (\<exists>e pe. result_of m = Inl e \<and> errors_as is_permanent e = Some pe
     \<and> oc_Status oc = StatusPermanentlyFailed \<and> oc_Reason oc = pe_reason pe
     \<and> oc_ProviderResponse oc = pe_response pe \<and> oc_LastAttempt oc = ended_at m)"
  by (cases m; auto simp: delivered_end_def permanent_end_def)+

lemma delivered_end_Cons: "delivered_end ms oc \<Longrightarrow> delivered_end (m # ms) oc"
  unfolding delivered_end_def by (metis append_Cons)

lemma permanent_end_Cons: "permanent_end ms oc \<Longrightarrow> permanent_end (m # ms) oc"
  unfolding permanent_end_def by (metis append_Cons)

lemma exhausted_end_Cons:
  "exhausted_end l (failure_text r) ms oc \<Longrightarrow> retryable r \<Longrightarrow> exhausted_end latest resp ((s, r, l) # ms) oc"
  by (auto simp: exhausted_end_def)

text \<open>A transient failure in front.\<close>

lemma loop_ends_Cons:
  assumes "loop_ends d n (k + 1) (if is_zero first then s else first) l (failure_text r) ms it' y oc y'"
    and "retryable r" and "k < rp_MaxAttempts (d_retry d)" and "0 \<le> k"
  shows "loop_ends d n k first latest resp ((s, r, l) # ms) it' y oc y'"
proof -
  have "oc_Attempts oc \<le> rp_MaxAttempts (d_retry d)"
    using assms(1,3) by (cases "ms = []") (auto simp: loop_ends_def)
  with assms show ?thesis
    unfolding loop_ends_def
    by (auto intro: delivered_end_Cons permanent_end_Cons exhausted_end_Cons split: if_splits)
qed

subsection \<open>The loop\<close>

text \<open>From here the loop makes some calls and ends in one outcome that follows from their results.\<close>

definition traced ::
  "('ts, 'l, 'x) dispatcher \<Rightarrow> ('ts, 'x) push_provider_value \<Rightarrow> 'ts notification \<Rightarrow> 'l record_fn
    \<Rightarrow> 'x iterator \<Rightarrow> gotime \<Rightarrow> gotime \<Rightarrow> string \<Rightarrow> ('l, 'x) dworld \<Rightarrow> ('l, 'x) dworld \<Rightarrow> bool" where
  "traced d p n rec it first latest resp w w' \<longleftrightarrow>
     (\<exists>oc ms it' y. calls d p n it (dw_env w) ms it' y
        \<and> concluded rec oc (pv_Name p) (map (\<lambda>m. push_class (result_of m)) ms) w w'
        \<and> loop_ends d n (it_attempt it) first latest resp ms it' y oc (dw_env w'))"

lemma traced_budget:
  assumes "it_policy it = d_retry d" and "rp_MaxAttempts (d_retry d) \<le> it_attempt it"
  shows "traced d p n rec it first latest resp w
     (finish rec (budget_outcome n resp (it_attempt it) first latest) (pv_Name p) w)"
  unfolding traced_def
  by (intro exI[of _ "budget_outcome n resp (it_attempt it) first latest"] exI[of _ "[]"] exI[of _ it]
      exI[of _ "dw_env w"])
    (use assms in \<open>simp add: no_call concluded_finish loop_ends_def exhausted_end_def budget_outcome_def\<close>)

lemma traced_cut_short:
  assumes "it_attempt it < rp_MaxAttempts (d_retry d)" and "0 < it_attempt it"
    and "Next it (dw_env w) = ((b, it'), x1)" and "d_sleep d b x1 = (Some err, x2)"
  shows "traced d p n rec it first latest resp w
     (finish rec (budget_outcome n resp (it_attempt it) first latest) (pv_Name p) (w\<lparr>dw_env := x2\<rparr>))"
  unfolding traced_def
  by (intro exI[of _ "budget_outcome n resp (it_attempt it) first latest"] exI[of _ "[]"] exI[of _ it]
      exI[of _ "dw_env w"])
    (use assms in \<open>auto simp: no_call concluded_finish loop_ends_def exhausted_end_def budget_outcome_def
      cut_short_def\<close>)

text \<open>One push: the calls around it, and what the attempt makes of its result.\<close>

lemma attempt_of_push:
  assumes "d_clock d (dw_env w) = (s, x3)" and "pv_Push p (Some n) x3 = (r, x4)"
    and "d_clock d x4 = (l, x5)"
  shows "dispatch_attempt rec d p n k first w =
    (let w3 = attempted (pv_Name p) (push_class r) (w\<lparr>dw_env := x5\<rparr>); f = (if is_zero first then s else first);
         oc = \<lparr>oc_NotificationID = n_notification_id n, oc_Status = StatusDelivered, oc_Reason = [],
               oc_ProviderResponse = [], oc_Attempts = k, oc_FirstAttempt = f, oc_LastAttempt = l\<rparr>
     in case r of
          Inr q \<Rightarrow> Stop (finish rec (oc\<lparr>oc_ProviderResponse := safeResponse q\<rparr>) (pv_Name p) w3)
        | Inl e \<Rightarrow>
            (case errors_as is_permanent e of
               Some pe \<Rightarrow> Stop (finish rec (oc\<lparr>oc_Status := StatusPermanentlyFailed, oc_Reason := pe_reason pe,
                  oc_ProviderResponse := pe_response pe\<rparr>) (pv_Name p) w3)
             | None \<Rightarrow> Again f l (failure_text r) w3))"
  using assms
  by (simp add: dispatch_attempt_def Let_def push_class_def failure_text_def split: sum.split option.split)

lemma traced_stop:
  assumes "calls d p n it (dw_env w) [(s, r, l)] it' x5" and "\<not> retryable r"
    and "it_attempt it < rp_MaxAttempts (d_retry d)"
    and "oc_NotificationID oc = n_notification_id n" "oc_Attempts oc = it_attempt it + 1"
      "oc_FirstAttempt oc = (if is_zero first then s else first)"
      "delivered_end [(s, r, l)] oc \<or> permanent_end [(s, r, l)] oc"
  shows "traced d p n rec it first latest resp w
     (finish rec oc (pv_Name p) (attempted (pv_Name p) (push_class r) (w\<lparr>dw_env := x5\<rparr>)))"
  unfolding traced_def
proof (intro exI[of _ oc] exI[of _ "[(s, r, l)]"] exI[of _ it'] exI[of _ x5] conjI)
  show "concluded rec oc (pv_Name p) (map (\<lambda>m. push_class (result_of m)) [(s, r, l)]) w
      (finish rec oc (pv_Name p) (attempted (pv_Name p) (push_class r) (w\<lparr>dw_env := x5\<rparr>)))"
    using concluded_finish[OF ran_attempted[of "pv_Name p" "[]" w "w\<lparr>dw_env := x5\<rparr>"]] by simp
qed (use assms in \<open>auto simp: loop_ends_def attempted_def\<close>)

lemma traced_again:
  assumes "traced d p n rec it1 (if is_zero first then s else first) l (failure_text r)
      (attempted (pv_Name p) (push_class r) (w\<lparr>dw_env := x5\<rparr>)) w'"
    and "retryable r" and "it1 = it\<lparr>it_attempt := it_attempt it + 1\<rparr>"
    and "it_attempt it < rp_MaxAttempts (d_retry d)" and "0 \<le> it_attempt it"
    and c: "\<And>ms it' y. calls d p n it1 x5 ms it' y \<Longrightarrow> calls d p n it (dw_env w) ((s, r, l) # ms) it' y"
  shows "traced d p n rec it first latest resp w w'"
proof -
  let ?w3 = "attempted (pv_Name p) (push_class r) (w\<lparr>dw_env := x5\<rparr>)"
  have env: "dw_env ?w3 = x5" by (simp add: attempted_def)
  obtain oc ms it' y where t: "calls d p n it1 x5 ms it' y"
    "concluded rec oc (pv_Name p) (map (\<lambda>m. push_class (result_of m)) ms) ?w3 w'"
    "loop_ends d n (it_attempt it1) (if is_zero first then s else first) l (failure_text r) ms it' y oc (dw_env w')"
    using assms(1) unfolding traced_def env by blast
  have "ran (pv_Name p) [push_class r] w ?w3"
    using ran_attempted[of "pv_Name p" "[]" w "w\<lparr>dw_env := x5\<rparr>"] by simp
  from concluded_after_ran[OF this t(2)] have
    "concluded rec oc (pv_Name p) (map (\<lambda>m. push_class (result_of m)) ((s, r, l) # ms)) w w'" by simp
  moreover have "loop_ends d n (it_attempt it) first latest resp ((s, r, l) # ms) it' y oc (dw_env w')"
    using t(3) assms(2-5) by (intro loop_ends_Cons) simp_all
  ultimately show ?thesis unfolding traced_def using c[OF t(1)] by blast
qed

lemma attempt_traced:
  assumes nx: "Next it (dw_env w) = ((b, it1), x1)"
      "(if 1 < Attempt it1 then d_sleep d b x1 else (None, x1)) = (None, x2)"
    and k: "it_attempt it < rp_MaxAttempts (d_retry d)" "0 \<le> it_attempt it"
    and again: "\<And>f l' t w3. dispatch_attempt rec d p n (Attempt it1) first (w\<lparr>dw_env := x2\<rparr>) = Again f l' t w3 \<Longrightarrow>
      traced d p n rec it1 f l' t w3 (dispatch_loop rec d p n it1 f l' t w3)"
  shows "traced d p n rec it first latest resp w
    (case dispatch_attempt rec d p n (Attempt it1) first (w\<lparr>dw_env := x2\<rparr>) of
       Stop w' \<Rightarrow> w'
     | Again f l' t w3 \<Rightarrow> dispatch_loop rec d p n it1 f l' t w3)"
proof -
  obtain s x3 where c1: "d_clock d x2 = (s, x3)" by force
  obtain r x4 where pu: "pv_Push p (Some n) x3 = (r, x4)" by force
  obtain l x5 where c2: "d_clock d x4 = (l, x5)" by force
  have it1: "it1 = it\<lparr>it_attempt := it_attempt it + 1\<rparr>" by (rule Next_iterator[OF nx(1)])
  have c: "calls d p n it (dw_env w) ((s, r, l) # ms) it' y" if "calls d p n it1 x5 ms it' y" for ms it' y
    using call[OF nx c1 pu c2 that] .
  have one: "calls d p n it (dw_env w) [(s, r, l)] it1 x5" by (rule c[OF no_call])
  have at: "Attempt it1 = it_attempt it + 1" by (simp add: it1 Attempt_def)
  have c1': "d_clock d (dw_env (w\<lparr>dw_env := x2\<rparr>)) = (s, x3)" using c1 by simp
  note eval = attempt_of_push[OF c1' pu c2, of rec "it_attempt it + 1" first]
  show ?thesis
  proof (cases "retryable r")
    case True
    then obtain e where e: "r = Inl e" "errors_as is_permanent e = None" by (auto simp: retryable_def)
    have ev: "dispatch_attempt rec d p n (Attempt it1) first (w\<lparr>dw_env := x2\<rparr>)
        = Again (if is_zero first then s else first) l (failure_text r)
            (attempted (pv_Name p) (push_class r) (w\<lparr>dw_env := x5\<rparr>))"
      using e by (simp add: at eval Let_def)
    from traced_again[OF again[OF ev] True it1 k c] show ?thesis by (simp add: ev)
  next
    case False
    then consider q where "r = Inr q" | e pe where "r = Inl e" "errors_as is_permanent e = Some pe"
      by (cases r) auto
    then show ?thesis
      by cases (use traced_stop[OF one False k(1)] in \<open>simp_all add: eval Let_def at ends_simps\<close>)
  qed
qed

lemma dispatch_loop_traced:
  "it_policy it = d_retry d \<Longrightarrow> 0 \<le> it_attempt it \<Longrightarrow>
   traced d p n rec it first latest resp w (dispatch_loop rec d p n it first latest resp w)"
proof (induction rec d p n it first latest resp w rule: dispatch_loop.induct)
  case (1 rec d p n it first latest resp w)
  note pol = "1.prems"(1)
  show ?case
  proof (cases "Done it")
    case True
    then show ?thesis
      using traced_budget[OF pol, of p n rec first latest resp w] pol
      by (subst dispatch_loop.simps) (simp add: Attempt_def Done_def)
  next
    case False
    then have k: "it_attempt it < rp_MaxAttempts (d_retry d)" using pol by (simp add: Done_def)
    obtain b it' x1 where nx: "Next it (dw_env w) = ((b, it'), x1)" by (metis prod.exhaust)
    then have it': "it' = it\<lparr>it_attempt := it_attempt it + 1\<rparr>" by (rule Next_iterator)
    obtain se x2 where sl: "(if 1 < Attempt it' then d_sleep d b x1 else (None, x1)) = (se, x2)"
      by (metis prod.exhaust)
    show ?thesis
    proof (cases se)
      case (Some err)
      then have "0 < it_attempt it" "d_sleep d b x1 = (Some err, x2)"
        using sl it' by (auto simp: Attempt_def split: if_splits)
      from traced_cut_short[OF k this(1) nx this(2), of p n rec first latest resp] False nx sl Some it'
      show ?thesis by (subst dispatch_loop.simps) (simp add: Attempt_def)
    next
      case None
      have "traced d p n rec it first latest resp w
          (case dispatch_attempt rec d p n (Attempt it') first (w\<lparr>dw_env := x2\<rparr>) of
             Stop w' \<Rightarrow> w'
           | Again f l r w' \<Rightarrow> dispatch_loop rec d p n it' f l r w')"
        using "1.IH"[OF False nx[symmetric] refl sl[symmetric] None] pol it' "1.prems"(2) sl None
        by (intro attempt_traced[OF nx _ k "1.prems"(2)]) simp_all
      moreover have "dispatch_loop rec d p n it first latest resp w =
          (case dispatch_attempt rec d p n (Attempt it') first (w\<lparr>dw_env := x2\<rparr>) of
             Stop w' \<Rightarrow> w'
           | Again f l r w' \<Rightarrow> dispatch_loop rec d p n it' f l r w')"
        using False nx sl None by (subst dispatch_loop.simps) simp
      ultimately show ?thesis by simp
    qed
  qed
qed

subsection \<open>Dispatch\<close>

lemma dispatch_concluded_calls:
  assumes "d_clock d (dw_env w) = (now, x1)" and "isExpired E m now = (False, at)"
    and "resolve d m = Inr p"
  shows "\<exists>oc ms it' y w'. Dispatch E d rec (Some m) w = (None, w')
     \<and> calls d p m (NewIterator (d_retry d)) x1 ms it' y
     \<and> concluded rec oc (pv_Name p) (map (\<lambda>c. push_class (result_of c)) ms) w w'
     \<and> oc_NotificationID oc = n_notification_id m \<and> oc_Attempts oc = int (length ms)
     \<and> (ms \<noteq> [] \<longrightarrow> int (length ms) \<le> rp_MaxAttempts (d_retry d))
     \<and> (\<forall>c \<in> set (butlast ms). retryable (result_of c))
     \<and> (ms \<noteq> [] \<and> \<not> is_zero (fst (hd ms)) \<longrightarrow> oc_FirstAttempt oc = fst (hd ms))
     \<and> ((delivered_end ms oc \<or> permanent_end ms oc) \<and> dw_env w' = y
        \<or> exhausted_end zero_time [] ms oc \<and> rp_MaxAttempts (d_retry d) \<le> int (length ms) \<and> dw_env w' = y
        \<or> exhausted_end zero_time [] ms oc \<and> ms \<noteq> [] \<and> int (length ms) < rp_MaxAttempts (d_retry d)
            \<and> cut_short d it' y (dw_env w'))"
proof -
  let ?it = "NewIterator (d_retry d)" and ?w1 = "w\<lparr>dw_env := x1\<rparr>"
  define w' where "w' = dispatch_loop rec d p m ?it zero_time zero_time [] ?w1"
  have it: "it_policy ?it = d_retry d" "it_attempt ?it = 0" by (simp_all add: NewIterator_def)
  have d: "Dispatch E d rec (Some m) w = (None, w')"
    using assms by (simp add: Dispatch_def Let_def w'_def)
  have "traced d p m rec ?it zero_time zero_time [] ?w1 w'"
    unfolding w'_def using it by (intro dispatch_loop_traced) simp_all
  then obtain oc ms it' y where c: "calls d p m ?it x1 ms it' y"
    and cc: "concluded rec oc (pv_Name p) (map (\<lambda>c. push_class (result_of c)) ms) w w'"
    and l: "loop_ends d m 0 zero_time zero_time [] ms it' y oc (dw_env w')"
    by (auto simp: traced_def concluded_env it)
  have first: "ms \<noteq> [] \<and> \<not> is_zero (fst (hd ms)) \<longrightarrow> oc_FirstAttempt oc = fst (hd ms)"
    using l by (cases ms; cases "hd ms") (auto simp: loop_ends_def is_zero_def)
  from l show ?thesis
    by (intro exI[of _ oc] exI[of _ ms] exI[of _ it'] exI[of _ y] exI[of _ w'] conjI d c cc first)
      (auto simp: loop_ends_def)
qed

text \<open>C7: A notification that has not expired and has a provider is pushed under the retry policy, as the
  results of the provider itself say. The calls \<open>ms\<close> are the pushes made, from the reading of the
  clock on; each has one attempt point of the class of its result, and the one outcome recorded
  follows from them: every push but the last failed without a typed permanent error, and the run
  ends with the success of the last push (its response), with its typed permanent error (its reason
  and response), when the budget is used up, or when a sleep before the next push is cut short, the
  last two with the text of the last failure. There are never more pushes than the policy allows,
  the times reported are those of the first and the last push, and nothing happens outside after
  the last call but the sleep that was cut short.\<close>

theorem dispatch_follows_policy:
  assumes "d_clock d (dw_env w) = (now, x1)" and "isExpired E m now = (False, at)"
    and "resolve d m = Inr p"
  shows "\<exists>oc ms it' y w'. Dispatch E d rec (Some m) w = (None, w')
     \<and> calls d p m (NewIterator (d_retry d)) x1 ms it' y
     \<and> concluded rec oc (pv_Name p) (map (\<lambda>c. push_class (result_of c)) ms) w w'
     \<and> oc_NotificationID oc = n_notification_id m \<and> oc_Attempts oc = int (length ms)
     \<and> (ms \<noteq> [] \<longrightarrow> int (length ms) \<le> rp_MaxAttempts (d_retry d))
     \<and> (\<forall>c \<in> set (butlast ms). retryable (result_of c))
     \<and> (ms \<noteq> [] \<and> \<not> is_zero (fst (hd ms)) \<longrightarrow> oc_FirstAttempt oc = fst (hd ms))
     \<and> ((delivered_end ms oc \<or> permanent_end ms oc) \<and> dw_env w' = y
        \<or> exhausted_end zero_time [] ms oc \<and> rp_MaxAttempts (d_retry d) \<le> int (length ms) \<and> dw_env w' = y
        \<or> exhausted_end zero_time [] ms oc \<and> ms \<noteq> [] \<and> int (length ms) < rp_MaxAttempts (d_retry d)
            \<and> cut_short d it' y (dw_env w'))"
  by (rule dispatch_concluded_calls[OF assms])

end
