(* ===== verification/Pushover_Spec.thy ===== *)
theory Pushover_Spec
  imports Pushover Dispatch_Trace
begin

text \<open>
  What goes over the wire to the Pushover API, and what the retry loop makes of the answers: the
  backend's \<open>Push\<close> observed through the HTTP client it is given.
\<close>

subsection \<open>The request\<close>

text \<open>The parameters of a message, as the API's documentation lists them; an absent one has its default.\<close>

definition message_fields :: "string \<Rightarrow> pushover_target \<Rightarrow> content \<Rightarrow> string \<rightharpoonup> string" where
  "message_fields token t c =
     [''token'' \<mapsto> token, ''user'' \<mapsto> pt_user_or_group_key t, ''title'' \<mapsto> c_title c, ''message'' \<mapsto> c_body c]
       ++ (if c_priority c \<noteq> 0 then [''priority'' \<mapsto> itoa (sint (c_priority c))] else Map.empty)
       ++ (if pt_device_name t \<noteq> [] then [''device'' \<mapsto> pt_device_name t] else Map.empty)
       ++ (if pt_sound t \<noteq> [] then [''sound'' \<mapsto> pt_sound t] else Map.empty)
       ++ (if pt_url t \<noteq> [] then [''url'' \<mapsto> pt_url t] else Map.empty)
       ++ (if pt_url_title t \<noteq> [] then [''url_title'' \<mapsto> pt_url_title t] else Map.empty)"

type_synonym http_call = "string \<times> string \<times> string"

text \<open>A call that carries a message: URL, content type, and a body the receiver decodes to the fields.\<close>

definition carries :: "string \<Rightarrow> string \<Rightarrow> pushover_target \<Rightarrow> content \<Rightarrow> http_call \<Rightarrow> bool" where
  "carries base token t c q \<longleftrightarrow> (case q of (u, ct, body) \<Rightarrow>
     u = base @ ''/1/messages.json'' \<and> ct = ''application/x-www-form-urlencoded''
     \<and> form_get (parse_form body) = message_fields token t c)"

lemma carries_form: "carries base token t c
    (base @ endpointPath, ''application/x-www-form-urlencoded'', Encode (pushover_form token t c))"
  by (simp add: carries_def endpointPath_def pushover_body_fields pushover_form_get message_fields_def)

text \<open>An HTTP client that keeps a list of the calls made through it.\<close>

definition recording :: "'x http_client \<Rightarrow> ('x \<times> http_call list) http_client" where
  "recording c u ct b xl = (case c u ct b (fst xl) of (r, x') \<Rightarrow> (r, (x', snd xl @ [(u, ct, b)])))"

lemma GetPushover_target:
  "GetPushover n = Some t \<longleftrightarrow> GetTarget n = Some (Notification_Pushover (Some t))"
  by (auto simp: GetPushover_def GetTarget_def split: option.splits target.splits)

text \<open>A push that has a message to send.\<close>

lemma pushover_Push_message:
  assumes "GetPushover n = Some t" and "GetContent n = Some c"
  shows "pushover_Push E p n x =
    (let q = po_baseURL p @ endpointPath in
     case x_url_parse E q of
       Inl e \<Rightarrow> (Inl (TransientError [] (Some (WrapErr ''pushover: build request'' e))), x)
     | Inr _ \<Rightarrow>
         (case po_httpc p q ''application/x-www-form-urlencoded'' (Encode (pushover_form (po_appToken p) t c)) x of
            (Inl e, x') \<Rightarrow> (Inl (TransientError [] (Some (WrapErr ''pushover: http do'' e))), x')
          | (Inr (st, rbody), x') \<Rightarrow>
              (pushover_classify E st (take 4096 rbody) (truncate_str (take 4096 rbody) 512), x')))"
  using assms(1)[unfolded GetPushover_target] assms(2)
  by (simp add: pushover_Push_def Let_def split: sum.split prod.split)

lemma pushover_Push_no_message:
  assumes "GetPushover n = None \<or> GetContent n = None"
  shows "\<exists>s. pushover_Push E p n x = (Inl (PermanentError ''provider-rejected-payload'' [] s), x)"
proof -
  have "GetTarget n \<noteq> Some (Notification_Pushover (Some t))" if "GetPushover n = None" for t
    using that GetPushover_target[of n t] by auto
  with assms show ?thesis by (auto simp: pushover_Push_def split: option.split target.split)
qed

text \<open>C30: One push is at most one HTTP call, and the call carries the notification: it goes to the
  messages endpoint under the base URL as a form, from whose body the API decodes exactly the
  application token and the notification's fields, each as it was, whatever bytes they hold, an
  empty optional field and a zero priority being absent. Without a target or content nothing is
  sent and the payload is rejected; nothing is sent either where the URL does not parse.\<close>

theorem push_sends_the_notification:
  "case pushover_Push E \<lparr>po_appToken = token, po_baseURL = base, po_httpc = recording http\<rparr> n (x, []) of
     (res, x', sent) \<Rightarrow>
       (\<exists>t c q. GetPushover n = Some t \<and> GetContent n = Some c \<and> sent = [q] \<and> carries base token t c q)
       \<or> sent = [] \<and> x' = x \<and> (GetPushover n = None \<or> GetContent n = None)
           \<and> (\<exists>e pe. res = Inl e \<and> errors_as is_permanent e = Some pe
                \<and> pe_reason pe = ReasonProviderRejectedPayload)
       \<or> sent = [] \<and> x' = x \<and> (\<exists>u. x_url_parse E (base @ ''/1/messages.json'') = Inl u)
           \<and> (\<exists>e. res = Inl e \<and> errors_as is_transient e \<noteq> None)"
proof -
  let ?p = "\<lparr>po_appToken = token, po_baseURL = base, po_httpc = recording http\<rparr>"
  consider (silent) "GetPushover n = None \<or> GetContent n = None"
    | (message) t c where "GetPushover n = Some t" "GetContent n = Some c" by fastforce
  then show ?thesis
  proof cases
    case silent
    from pushover_Push_no_message[OF this, of E ?p "(x, [])"] obtain s where
      "pushover_Push E ?p n (x, []) = (Inl (PermanentError ''provider-rejected-payload'' [] s), x, [])" by blast
    with silent show ?thesis by (elim disjE) (simp_all add: errors_as_here reason_defs)
  next
    case (message t c)
    note go = pushover_Push_message[OF message, of E ?p "(x, [])", simplified]
    show ?thesis
    proof (cases "x_url_parse E (base @ endpointPath)")
      case (Inl u)
      then show ?thesis by (auto simp: go errors_as_here endpointPath_def)
    next
      case (Inr v)
      obtain a y where "http (base @ endpointPath) ''application/x-www-form-urlencoded''
          (Encode (pushover_form token t c)) x = (a, y)" by force
      with Inr message carries_form[of base token t c] show ?thesis
        by (cases a) (auto simp: go recording_def Let_def)
    qed
  qed
qed

subsection \<open>The retry loop over HTTP\<close>
















end
