(* ===== verification/Witnesses.thy ===== *)
theory Witnesses
  imports Examples Lint Data_Model Pushover_Spec
begin

text \<open>
  Each property that has hypotheses, applied to the instances of the theory Examples.
\<close>

subsection \<open>The writer\<close>

theorem submission_answered_witness:
  "\<exists>svc w' env'' ps.
     ex_chain (ex_r ex_header) new_writer ex_w
       = Returned (w', \<lparr>
           ww_metrics = RecordWriterSubmission (label_of_status (sent_status w')) svc ps,
           ww_env = ex_log (HttpRequest ''POST'' notifications_path (sent_status w') ''req_0198'') env''\<rparr>)
     \<and> ((\<exists>n nid at. decodeBody ex_E (ex_r ex_header) ''req_0198'' = Inr n \<and> svc = ex_svc
           \<and> published ex_E ex_i ex_publish svc (with_key None n) [] nid at env''
           \<and> ps = RecordPublishDuration []
           \<and> w' = accepted_answer ex_E ''req_0198'' \<lparr>ar_notification_id = nid, ar_accepted_at = at\<rparr>
                    ex_rid_writer)
        \<or> (ps = [] \<or> ps = RecordPublishDuration [])
          \<and> (\<exists>pr. answers_problem ex_E (ex_r ex_header) ''req_0198'' ex_rid_writer w' pr))"
  using submission_answered[OF ex_submission_w, of ex_E ex_log] by simp

theorem published_is_accepted_witness:
  "ex_chain (ex_r ex_header) new_writer ex_w
     = Returned (accepted_answer ex_E ''req_0198''
           \<lparr>ar_notification_id = ''0198'', ar_accepted_at = truncate_ms unix_epoch\<rparr> ex_rid_writer,
         \<lparr>ww_metrics = [WriterPublishDur, WriterSubmissions ''accepted'' ''billing'',
                          WriterSubmitDur ''accepted'' ''billing''],
          ww_env = [ex_message]\<rparr>)
   \<and> {d. breaks ex_E ex_n d} \<subseteq> unenforced"
  using published_is_accepted[OF ex_submission_w ex_decodeBody, of _ _ "[ex_message]"]
    ex_is_published[of "[]"]
  by (simp add: with_key_def record_defs OutcomeAccepted_def ex_log_def ex_svc_def)

theorem unauthenticated_rejected_witness:
  "\<exists>pr. ex_chain (ex_r Map.empty) new_writer ex_w
       = Returned (write_problem ex_E pr ex_rid_writer,
           ex_w\<lparr>ww_env := ex_log (HttpRequest ''POST'' notifications_path 401 ''req_0198'') []\<rparr>)
     \<and> catalogued pr \<and> p_status pr = 401 \<and> p_request_id pr = ''req_0198''
     \<and> p_instance pr = notifications_path \<and> p_type pr = TypeAuthenticationRequired"
proof -
  have t: "BearerToken (ex_r Map.empty) = []"
    by (simp add: BearerToken_def header_get_def bearer_prefix_def)
  have i: "new_request_id ex_newV7 (ex_r Map.empty) (ww_env ex_w) = (''req_0198'', [])"
    by (simp add: ex_request_id header_get_def)
  show ?thesis
    using unauthenticated_rejected[of "ex_r Map.empty" ex_tokens, OF _ _ i, of ex_E ex_bind simple_mux ex_log ex_h]
    by (simp add: t notifications_path_def)
qed

theorem bad_idempotency_header_panics_witness:
  "\<exists>w'. ex_chain (ex_r (ex_header(''Idempotency-Key'' \<mapsto> [''a'', ''b'']))) new_writer ex_w
       = Returned (w', ex_w\<lparr>ww_env := ex_log (HttpPanic notifications_path []) []\<rparr>)
     \<and> sent_status w' = 500
     \<and> header_get (rw_sent w') ''Content-Type'' = ''text/plain; charset=utf-8''
     \<and> rw_body w' = ''internal server error'' @ [newline]"
proof -
  let ?h = "ex_header(''Idempotency-Key'' \<mapsto> [''a'', ''b''])"
  have i: "new_request_id ex_newV7 (ex_r ?h) (ww_env ex_w) = (''req_0198'', [])"
    by (simp add: ex_request_id header_get_def ex_header_def)
  have t: "BearerToken (ex_r ?h) = ''s3cret''"
    by (rule ex_token) (simp add: header_get_def ex_header_def)
  have a: "Authenticate ex_tokens ((ex_r ?h)\<lparr>ctx_request_id := Some ''req_0198''\<rparr>)
      = Inr \<lparr>service_name = ex_svc\<rparr>"
    using t by (simp add: Authenticate_Inr_iff ex_tokens_def)
  show ?thesis
    by (rule bad_idempotency_header_panics[where r = "ex_r ?h" and rid = "''req_0198''" and env' = "[]"
          and ?newV7.0 = ex_newV7 and p = "\<lparr>service_name = ex_svc\<rparr>"])
       (use i a in \<open>simp_all add: simple_mux_contract bind_key_def\<close>)
qed

theorem file_token_authenticates_witness:
  "\<exists>b. NewBearer (\<lambda>_. Inr (''k b'', None)) [WithTokensFile ''t''] = Inr b
     \<and> Authenticate b (ex_r [''Authorization'' \<mapsto> [''Bearer k'']]) = Inr \<lparr>service_name = ''b''\<rparr>"
proof -
  let ?open = "\<lambda>_. Inr (''k b'', None)"
  obtain b where b: "NewBearer ?open [WithTokensFile ''t''] = Inr b"
    using ex_file_entries by (simp add: NewBearer_Inr_iff WithTokensFile_def Let_def)
  have h: "header_get (r_header (ex_r [''Authorization'' \<mapsto> [''Bearer k'']])) ''Authorization''
      = ''Bearer '' @ ''k''"
    by (simp add: header_get_def)
  have "tight ''k''" by (simp add: tight_def is_space_single char_class_defs)
  from file_token_authenticates[OF b this _ h] ex_file_entries
  have "Authenticate b (ex_r [''Authorization'' \<mapsto> [''Bearer k'']]) = Inr \<lparr>service_name = ''b''\<rparr>"
    by simp
  with b show ?thesis by blast
qed

theorem accept_assigns_server_fields_witness:
  "(\<exists>m body x2. Some ex_published = Some m \<and> ex_marshal m = Inr body
     \<and> ex_publish \<lparr>in_body = body, in_notification_id = n_notification_id m\<rparr> x2 = (None, [ex_message])
     \<and> n_notification_id m = ''0198'' \<and> n_created_at m = Some (truncate_ms unix_epoch)
     \<and> n_originating_service m = ex_svc \<and> n_content m = n_content ex_n)
   \<and> Accept ex_E ex_i ex_publish (Some (ex_n\<lparr>n_notification_id := ''mine'', n_originating_service := ''you''\<rparr>)) ex_svc ex_w
     = (Inr \<lparr>ar_notification_id = ''0198'', ar_accepted_at = truncate_ms unix_epoch\<rparr>, Some ex_published,
        after_publish ex_w [ex_message])
   \<and> Accept ex_E ex_i ex_publish (Some (ex_n\<lparr>n_created_at := Some 7\<rparr>)) ex_svc ex_w
     = (Inr \<lparr>ar_notification_id = ''0198'', ar_accepted_at = truncate_ms unix_epoch\<rparr>, Some ex_published,
        after_publish ex_w [ex_message])"
  using accept_assigns_server_fields[OF ex_Accept[of ex_w]] by auto

theorem validate_reports_broken_rules_witness:
  "Validate ex_E ex_n = None \<and> {d. breaks ex_E ex_n d} \<subseteq> unenforced
   \<and> Validate ex_E (ex_n\<lparr>n_expires_at := Some (-1)\<rparr>) = None"
  using validate_reports_broken_rules[of ex_E ex_n 0] ex_n_valid by (simp add: Validate_None_iff)

theorem invalid_not_published_witness:
  "Accept ex_E ex_i ex_publish (Some empty_notification) ex_svc ex_w
     = (Inl (ValidationError (validation_errors ex_E empty_notification)), Some empty_notification, ex_w)"
  by (rule invalid_not_published[of _ _ TitleRequired])
     (simp add: violates_def empty_notification_def)

subsection \<open>The client\<close>

theorem problem_roundtrip_witness:
  "\<exists>pe. parseResponse ex_E (response_of (write_problem ex_E (Internal ''req_1'' notifications_path) new_writer))
       = Inl (ProblemErr pe)
     \<and> pe_Type pe = TypeInternal \<and> pe_Status pe = 500 \<and> pe_RequestID pe = ''req_1''
     \<and> pe_FieldErrors pe = [] \<and> client_is (ProblemErr pe) CErrInternal"
proof -
  let ?p = "Internal ''req_1'' notifications_path"
  have "answers_problem ex_E (ex_r ex_header) ''req_1'' new_writer (write_problem ex_E ?p new_writer) ?p"
    using answers_constructor(5)[of ex_E "ex_r ex_header" "''req_1''" new_writer] by simp
  note rt = problem_roundtrip[OF ex_json_codec this unsent_new, of CErrInternal]
  have "p_type ?p = TypeInternal" "p_status ?p = 500" "p_request_id ?p = ''req_1''" "p_errors ?p = []"
    by (simp_all add: problem_defs)
  moreover have "sentinelFor TypeInternal = CErrInternal"
    by (simp add: sentinelFor_def type_uri_defs TypeBase_def)
  moreover have "utf8_text ''req_1'' = ''req_1''" by (simp add: ascii_eval)
  ultimately show ?thesis using rt by auto
qed

theorem accepted_roundtrip_witness:
  "\<exists>env. parseResponse ex_E (response_of (accepted_answer ex_E ''req_0198''
          \<lparr>ar_notification_id = ''0198'', ar_accepted_at = unix_epoch + 1234567\<rparr> new_writer)) = Inr env
     \<and> NotificationID env = ''0198'' \<and> RequestID env = ''req_0198''
     \<and> AcceptedAt env = unix_epoch + 1000000"
  using accepted_roundtrip[OF ex_json_codec unsent_new,
      of "\<lparr>ar_notification_id = ''0198'', ar_accepted_at = unix_epoch + 1234567\<rparr>" "''req_0198''"]
  by (auto simp: unix_epoch_def second_def millisecond_def truncate_ms_def ascii_eval)

theorem generated_client_reads_nothing_witness:
  "ParseSubmitNotificationResponse ex_E dec_int dec_string 0 []
     (response_of (accepted_answer ex_E ''req_1'' \<lparr>ar_notification_id = ''0198'', ar_accepted_at = 0\<rparr> new_writer))
   = Inr \<lparr>pr_Body = rw_body (accepted_answer ex_E ''req_1''
              \<lparr>ar_notification_id = ''0198'', ar_accepted_at = 0\<rparr> new_writer),
          pr_HTTPResponse = Some (response_of (accepted_answer ex_E ''req_1''
              \<lparr>ar_notification_id = ''0198'', ar_accepted_at = 0\<rparr> new_writer)),
          pr_JSON202 = Some (empty_g_success 0 []), pr_problem = None\<rparr>"
  by (rule generated_client_reads_nothing[OF ex_json_codec unsent_new])

theorem end_to_end_witness:
  "\<exists>ho res x' rid env' env''. ho_method ho = ''POST'' \<and> ho_url ho = ''http://writer/notifications''
     \<and> new_request_id ex_newV7 (to_request ex_upath ho) [] = (rid, env')
     \<and> Submit ex_E ex_U ex_client (Some ex_q) ex_w = (Some res, Some (ex_q\<lparr>sq_Notification := Some ex_n\<rparr>), x')
     \<and> (case res of
          Inr env \<Rightarrow> RequestID env = utf8_text rid
            \<and> ww_env x' = ex_log (HttpRequest ''POST'' notifications_path 202 rid) env''
            \<and> (\<exists>nid at. NotificationID env = utf8_text nid \<and> sd_accepted_at (en_data env) = format_ms at
                 \<and> published ex_E ex_i ex_publish ex_svc ex_n env' nid at env'')
        | Inl err \<Rightarrow> \<exists>pe. err = ProblemErr pe \<and> ce_reqID pe = utf8_text rid
            \<and> ww_env x' = ex_log (HttpRequest ''POST'' notifications_path (ce_status pe) rid) env''
            \<and> \<not> client_is err CErrUnknownProblem \<and> client_is err (sentinelFor (ce_TypeURI pe)))"
proof -
  have u: "leads_to ex_U ex_upath (rc_Server (cl_raw ex_client)) ''http://writer/notifications''"
    using ex_leads by (simp add: ex_client_def)
  have c: "cl_contentType ex_client = ''application/json''" "rc_RequestEditors (cl_raw ex_client) = []"
    "rc_Client (cl_raw ex_client) = Some (writer_doer ex_upath ex_chain)"
    "tight (cl_bearerToken ex_client)" "cl_bearerToken ex_client \<noteq> []"
    "ex_tokens (cl_bearerToken ex_client) = Some \<lparr>service_name = ex_svc\<rparr>"
    using ex_tight by (simp_all add: ex_client_def ex_tokens_def)
  have q: "sq_Notification ex_q = Some ex_n"
    "ex_n = (if sq_IdempotencyKey ex_q \<noteq> [] then ex_n\<lparr>n_idempotency_key := sq_IdempotencyKey ex_q\<rparr> else ex_n)"
    "carried ex_n" "x_pj_marshal ex_E ex_n = Inr (ex_encode (ex_notification_json ex_n))"
    by (simp_all add: ex_q_def ex_marshal_def carried_def addressed_def ex_n_def)
  have k: "sq_IdempotencyKey ex_q = [] \<or> key_binds ex_U ex_bind (sq_IdempotencyKey ex_q)" by (simp add: ex_key_binds)
  from end_to_end[where h = ex_h and i = ex_i and publish = ex_publish and x = ex_w,
      OF ex_wire_libs simple_mux_contract u c ex_i_simps(4,1,5) q ex_body_small k]
  show ?thesis by (elim exE conjE) (intro exI conjI; (assumption | simp cong: sum.case_cong))
qed

subsection \<open>The deliverer\<close>

lemma ex_resolve: "resolve ex_dispatcher ex_n = Inr sandbox_value"
  by (simp add: resolve_def ex_dispatcher_def)

lemma sandbox_value_name: "pv_Name sandbox_value = sandbox_name"
  by (simp add: sandbox_value_def)

lemma ex_clock: "d_clock ex_dispatcher x = (unix_epoch, x)"
  by (simp add: ex_dispatcher_def ex_now_def)

theorem dispatch_follows_policy_witness:
  "\<exists>oc ms it' y w'. Dispatch ex_E ex_dispatcher (slog_Record ex_lines) (Some ex_n) (ex_dw []) = (None, w')
     \<and> calls ex_dispatcher sandbox_value ex_n (NewIterator (d_retry ex_dispatcher)) (ex_denv []) ms it' y
     \<and> concluded (slog_Record ex_lines) oc sandbox_name (map (\<lambda>c. push_class (result_of c)) ms) (ex_dw []) w'
     \<and> oc_Attempts oc = int (length ms)"
proof -
  have "isExpired ex_E ex_n unix_epoch = (False, zero_time)" by (simp add: isExpired_def)
  from dispatch_follows_policy[where w = "ex_dw []" and rec = "slog_Record ex_lines",
      OF ex_clock this ex_resolve, unfolded sandbox_value_name]
  show ?thesis by (elim exE conjE) (intro exI conjI; (assumption | simp))
qed

theorem pushover_errors_typed_witness:
  "\<exists>e x'. pushover_Push ex_E \<lparr>po_appToken = ''t'', po_baseURL = ''http://p'',
        po_httpc = (\<lambda>_ _ _ x. (Inl (ForeignErr ''dial'' None), x))\<rparr> (Some ex_n) (0::nat) = (Inl e, x')
     \<and> typed_push_error e \<and> errors_is e ErrPermanent \<noteq> errors_is e ErrTransient"
proof -
  let ?p = "\<lparr>po_appToken = ''t'', po_baseURL = ''http://p'',
        po_httpc = (\<lambda>_ _ _ x. (Inl (ForeignErr ''dial'' None), x))\<rparr>"
  obtain e x' where p: "pushover_Push ex_E ?p (Some ex_n) (0::nat) = (Inl e, x')"
    by (simp add: pushover_Push_def Let_def)
  from pushover_errors_typed[OF p] p show ?thesis by blast
qed


definition ex_policy_of :: "('x \<Rightarrow> nat \<times> 'x) \<Rightarrow> 'x policy" where
  "ex_policy_of rng = \<lparr>rp_MaxAttempts = 5, rp_InitialBackoff = 500000000, rp_MaxBackoff = 30000000000, rp_rng = rng\<rparr>"

definition ex_policy :: "unit policy" where
  "ex_policy = ex_policy_of (\<lambda>x. (2 ^ 52, x))"





theorem backoff_is_capped_exponential_witness: "sint (backoff_base ex_policy 7) = 30000000000"
  using backoff_is_capped_exponential[of ex_policy 7] by (simp add: ex_policy_def ex_policy_of_def)

theorem next_backoff_bounds_witness:
  "\<exists>d i'. Next \<lparr>it_policy = ex_policy, it_attempt = 1\<rparr> () = ((d, i'), ())
     \<and> 0 \<le> sint d \<and> sint d \<le> 1000000000 \<and> it_attempt i' = 2"
proof -
  obtain d i' where n: "Next \<lparr>it_policy = ex_policy, it_attempt = 1\<rparr> () = ((d, i'), ())"
    by (metis old.unit.exhaust prod.exhaust)
  from next_backoff_bounds[OF n] n show ?thesis by (auto simp: ex_policy_def ex_policy_of_def)
qed

lemma ex_first_iteration: "\<exists>w'. run_iter 1 ex_E ex_consumer (ex_cw [ex_message]) = Inr w'"
  by (simp add: run_step_def ex_receive split: prod.split)

theorem consumer_acks_once_witness:
  "\<exists>evs w'. run_iter 1 ex_E ex_consumer (ex_cw [ex_message]) = Inr w' \<and> length evs = 1
     \<and> arrivals ex_E ex_consumer (ex_cw [ex_message]) evs w'
     \<and> dw_log (cw_base w') = fold (slog_Record ex_lines) (map event_outcome evs) []
     \<and> cw_acks w' = concat (map event_acks evs)
     \<and> length (outcome_points (dw_metrics (cw_base w'))) = 1"
proof -
  obtain w' where w: "run_iter 1 ex_E ex_consumer (ex_cw [ex_message]) = Inr w'"
    using ex_first_iteration by blast
  from consumer_acks_once[OF _ w] w show ?thesis by (auto simp: outcome_points_def)
qed

theorem Run_returns_witness:
  "\<exists>w'. Run ex_E ex_consumer (ex_cw []) = Some (None, w')
     \<and> (\<exists>evs v err x'. arrivals ex_E ex_consumer (ex_cw []) evs v \<and> list_all (event_ok ex_E) evs
          \<and> logged (slog_Record ex_lines) evs (ex_cw []) w'
          \<and> rd_Receive (sdk_reader ex_Kd ex_ac) (dw_env (cw_base v)) = (Inl err, x'))"
proof -
  obtain w' where "run_iter 1 ex_E ex_consumer (ex_cw []) = Inl (None, w')"
    by (simp add: run_step_def ex_receive errors_is_def Let_def)
  then have w: "Run ex_E ex_consumer (ex_cw []) = Some (None, w')" by (rule run_iter_Run)
  from Run_returns[OF _ w] w show ?thesis by auto
qed

definition ex_K_garbled :: "(ex_world, unit, unit, unit, producer_message) pulsar_sdk" where
  "ex_K_garbled = ex_Kd\<lparr>sdk_receive := (\<lambda>_ x. (Inl (ForeignErr ''decrypt'' None), x))\<rparr>"

theorem decrypt_failure_ends_worker_witness:
  "\<exists>w'. Run ex_E (ex_consumer\<lparr>c_reader := apache_reader ex_K_garbled ex_ac (\<lambda>_ x. x)\<rparr>) (ex_cw [])
       = Some (Some (WrapErr ''pulsarlib: receive'' (ForeignErr ''decrypt'' None)), w')
     \<and> logged (slog_Record ex_lines) [] (ex_cw []) w'"
  using decrypt_failure_ends_worker[of "ex_consumer\<lparr>c_reader := apache_reader ex_K_garbled ex_ac (\<lambda>_ x. x)\<rparr>"
      ex_K_garbled ex_ac "\<lambda>_ x. x" "ex_cw []" "''decrypt''" "ex_denv []" ex_E]
  by (simp add: ex_K_garbled_def)

lemma ex_pool_received:
  "pool_run ex_E ex_consumer (pool_start 1 (ex_cw [ex_message])) [consumed_of ex_Kd ex_message]
     ([Got (consumed_of ex_Kd ex_message)], ex_cw [])"
  using pool_next[OF pool_refl ex_pool_step] by simp

theorem workers_account_for_messages_witness:
  "\<exists>evs. list_all (event_ok ex_E) evs
     \<and> [] = fold (slog_Record ex_lines) (map event_outcome evs) []
     \<and> length (outcome_points []) = length (outcome_points []) + length evs
     \<and> mset [consumed_of ex_Kd ex_message] = mset (all_of event_msgs evs) + mset [consumed_of ex_Kd ex_message]
     \<and> mset ([] :: producer_message list) = mset (map cm_msg (all_of event_msgs evs))"
  using workers_account_for_messages[OF _ ex_pool_received] by simp

theorem started_deliverer_concludes_witness:
  "\<exists>oc pname cls w'. Dispatch ex_E ex_dispatcher (slog_Record ex_lines) (Some ex_n) (ex_dw []) = (None, w')
     \<and> concluded (slog_Record ex_lines) oc pname cls (ex_dw []) w'
     \<and> oc_NotificationID oc = [] \<and> oc_Attempts oc = int (length cls)
     \<and> reason_fits (oc_Status oc) (oc_Reason oc)"
  using started_deliverer_concludes[OF ex_deliverer_run[of "[]"] ex_leaves, of "ex_dw []" ex_consumer ex_n]
  by (auto simp: ex_typed)

end
