(* ===== verification/Process_Witnesses.thy ===== *)
theory Process_Witnesses
  imports Examples
begin

text \<open>
  The properties of the concurrent parts and of the two processes, and those of the generated code,
  applied to the instances of the theory Examples.
\<close>

subsection \<open>The generated client and server\<close>

definition ex_codec :: "(int, string) scalar_codec" where
  "ex_codec = \<lparr>sc_printable = (\<lambda>t. 0 \<le> t), sc_enc_time = JInt, sc_enc_uuid = JString,
     sc_dec_time = (\<lambda>j _. (False, ex_int j)), sc_dec_uuid = (\<lambda>j _. (False, ex_string j)),
     sc_zero_time = 0, sc_zero_uuid = []\<rparr>"

lemma ex_scalar_laws: "scalar_laws ex_codec"
  by (simp add: scalar_laws_def ex_codec_def)

definition ex_first :: json_stream where
  "ex_first body err =
     (case ex_decode body of None \<Rightarrow> Inl (ForeignErr ''unexpected EOF'' None) | Some j \<Rightarrow> Inr j)"

lemma ex_stream_codec: "stream_codec ex_E ex_first"
  using ex_decode_encode[of _ "[]"] by (simp add: stream_codec_def ex_first_def ex_json_encode_def)

lemma ex_generated_libs: "generated_libs ex_E ex_first ex_codec"
  by (simp add: generated_libs_def ex_json_codec ex_stream_codec ex_scalar_laws)

definition ex_gn :: "(int, string) g_notification" where
  "ex_gn = \<lparr>gn_Content = \<lparr>gc_Body = ''there'', gc_Data = Some [(''b'', ''2''), (''a'', ''1'')], gc_Priority = Some 1,
        gc_Title = ''Hi''\<rparr>,
     gn_CreatedAt = None, gn_ExpiresAt = Some 5, gn_IdempotencyKey = None, gn_NotificationId = None,
     gn_OriginatingService = None,
     gn_Pushover = \<lparr>gt_DeviceName = None, gt_Sound = None, gt_Url = None, gt_UrlTitle = None,
        gt_UserOrGroupKey = ex_key\<rparr>\<rparr>"

definition ex_success :: "int \<Rightarrow> (int, string) response_object" where
  "ex_success t = SubmitNotification202JSONResponse
     \<lparr>g_Data = \<lparr>g_AcceptedAt = t, g_NotificationId = ''0198''\<rparr>, g_Meta = \<lparr>g_RequestId = ''req_1''\<rparr>\<rparr>"

abbreviation ex_gn_json :: json where
  "ex_gn_json \<equiv> g_notification_json (sc_enc_time ex_codec) (sc_enc_uuid ex_codec) ex_gn"

lemma ex_gn_plain: "plain_json ex_gn_json"
  by (simp add: plain_json_def g_notification_json_def g_content_json_def g_pushover_json_def omitempty_def
      ex_gn_def ex_codec_def ex_key_def ascii_valid_utf8 is_ascii_def byte_def list_all_iff)

lemma ex_success_plain: "plain_json (response_json ex_codec (ex_success t))"
  by (simp add: plain_json_def response_json_def g_success_json_def ex_success_def ex_codec_def
      ascii_valid_utf8 is_ascii_def byte_def)

text \<open>A handler that counts its calls and accepts at the time it is built with.\<close>

definition ex_ssi :: "int \<Rightarrow> (int, string, nat) StrictServerInterface" where
  "ex_ssi t r q x = (Some (Inr (Some (ex_success t))), Suc x)"

theorem generated_pair_agrees_witness:
  "\<exists>rsp. SubmitNotificationWithResponse ex_E ex_U (sc_printable ex_codec) (sc_enc_time ex_codec)
       (sc_enc_uuid ex_codec) (sc_dec_time ex_codec) (sc_dec_uuid ex_codec) 0 []
       \<lparr>rc_Server = ''http://writer/'', rc_Client = Some (writer_doer ex_upath
          (simple_mux (gen_Handler ex_bind
             (strict_SubmitNotification ex_E ex_first ex_codec (NewStrictHandler (ex_ssi 7) []))))),
        rc_RequestEditors = []\<rparr> (Some ''k'') ex_gn [] 0
     = (Some (Inr (parsed_of rsp (ex_success 7))), 1)
     \<and> StatusCode (parsed_of rsp (ex_success 7)) = 202"
proof -
  have n: "g_marshal ex_E (sc_printable ex_codec) (sc_enc_time ex_codec) (sc_enc_uuid ex_codec) ex_gn
      = Inr (ex_json_encode ex_gn_json)"
    by (simp add: g_marshal_def ex_gn_def ex_codec_def)
  have wf: "content_wf (gn_Content ex_gn)" "response_prints ex_codec (ex_success 7)" "response_wf (ex_success 7)"
    by (simp_all add: content_wf_def ex_gn_def int_range_def min_int64_def max_int64_def response_prints_def
        ex_success_def ex_codec_def response_wf_def)
  have code: "response_code (ex_success 7) = 202" by (simp add: ex_success_def)
  have ssi: "ex_ssi 7 r q 0 = (Some (Inr (Some (ex_success 7))), 1)" for r q by (simp add: ex_ssi_def)
  show ?thesis
    by (rule generated_pair_agrees[where ssi = "ex_ssi 7" and bind = ex_bind
          and u = "''http://writer/notifications''",
          OF ex_generated_libs simple_mux_contract _ _ _ _ n wf(1) ex_gn_plain ssi wf(2,3) ex_success_plain, unfolded code])
       (simp_all add: ex_leads ex_key_binds)
qed



subsection \<open>Requests\<close>

definition ex_stack :: "ex_queue stack" where
  "ex_stack = \<lparr>sk_bind = ex_bind, sk_newV7 = ex_newV7, sk_mux = simple_mux, sk_logger = ex_log,
     sk_handlers = ex_h, sk_authn = Authenticate ex_tokens\<rparr>"

lemma ex_stack_simps [simp]:
  "sk_mux ex_stack = simple_mux" "sk_handlers ex_stack = ex_h" "stack_chain ex_E ex_stack = ex_chain"
  by (simp_all add: ex_stack_def stack_chain_def)

theorem request_alone_is_handler_witness:
  "\<exists>rid rc w' x'. comes_to ex_E ex_stack (Arrived (ex_r ex_header), ex_w) (Answered (ex_r ex_header) rid rc w', x')
     \<and> ex_chain (ex_r ex_header) new_writer ex_w = Returned (w', x')"
  using request_alone_is_handler[of ex_stack ex_E "ex_r ex_header" ex_w] simple_mux_contract by simp

text \<open>A pool in which one submission arrives and is answered, and another arrives.\<close>

lemma ex_request_run:
  "\<exists>sent rid rc w x. request_run ex_E ex_stack ([], ex_w) sent
     ([Answered (ex_r ex_header) rid rc w, Arrived (ex_r Map.empty)], x)"
proof -
  have m: "mux_contract (sk_mux ex_stack)" by (simp add: simple_mux_contract)
  obtain rid rc w x where "comes_to ex_E ex_stack (Arrived (ex_r ex_header), ex_w) (Answered (ex_r ex_header) rid rc w, x)"
    using request_comes_to_answer[OF m] by blast
  then obtain sent where r: "request_run ex_E ex_stack ([Arrived (ex_r ex_header)], ex_w) sent
      ([Answered (ex_r ex_header) rid rc w], x)" using comes_to_run by blast
  have "request_run ex_E ex_stack ([], ex_w) ([] @ []) ([Arrived (ex_r ex_header)], ex_w)"
    by (rule run_next[OF run_start]) (use request_arrives[of ex_E ex_stack "[]"] in simp)
  note run_next[OF request_run_trans[OF r this] request_arrives, of "ex_r Map.empty"]
  then show ?thesis by (metis append_Cons append_Nil)
qed

theorem interleaved_submissions_witness:
  "\<exists>sent rid rc w x.
     request_run ex_E ex_stack ([], ex_w) sent
       ([Answered (ex_r ex_header) rid rc w, Arrived (ex_r Map.empty)], x)
     \<and> mset (submission_points (ww_metrics x))
         = mset (map receipt_point (receipts (Answered (ex_r ex_header) rid rc w :: (int, ex_queue) thread)))
     \<and> mset (map in_notification_id sent) = mset (taken (Answered (ex_r ex_header) rid rc w :: (int, ex_queue) thread))"
proof -
  obtain sent rid rc w x where r: "request_run ex_E ex_stack ([], ex_w) sent
      ([Answered (ex_r ex_header) rid rc w, Arrived (ex_r Map.empty)], x)" using ex_request_run by blast
  have h: "h_requestID (sk_handlers ex_stack) = Some RequestIDFromContext" by simp
  from interleaved_submissions[OF h r] have
    "mset (submission_points (ww_metrics x))
       = mset (map receipt_point (receipts (Answered (ex_r ex_header) rid rc w :: (int, ex_queue) thread)))"
    "mset (map in_notification_id sent) = mset (taken (Answered (ex_r ex_header) rid rc w :: (int, ex_queue) thread))"
    by (simp_all add: submission_points_def)
  with r show ?thesis by blast
qed

subsection \<open>The writer process\<close>

text \<open>A run that listens, gets the signal and stops.\<close>

lemma writer_run_to_exit:
  "\<exists>p. wp_run E S srv (proc_start x) [] p \<and> wp_main p = Exited None \<and> wp_requests p = []"
proof -
  let ?p1 = "begin_listening srv (proc_start x)"
  let ?p2 = "?p1\<lparr>wp_signalled := True\<rparr>"
  let ?p3 = "begin_shutdown srv ?p2"
  have "wp_run E S srv (proc_start x) ([] @ []) ?p1"
    by (rule wp_next[OF wp_refl wp_step.listens]) (simp_all add: proc_start_def)
  then have "wp_run E S srv (proc_start x) ([] @ []) ?p2"
    by (intro wp_next[OF _ wp_step.signalled]) (simp_all add: proc_start_def wp_defs)
  then have "wp_run E S srv (proc_start x) ([] @ []) ?p3"
    by (intro wp_next[OF _ wp_step.select_done]) (simp_all add: proc_start_def wp_defs)
  then have "wp_run E S srv (proc_start x) ([] @ []) (end_shutdown srv ?p3)"
    by (intro wp_next[OF _ wp_step.drained]) (simp_all add: proc_start_def wp_defs)
  then show ?thesis by (intro exI[of _ "end_shutdown srv ?p3"]) (simp add: proc_start_def wp_defs)
qed

text \<open>A writer over the ledger, and over the queue.\<close>

definition ex_ledger_writer :: "(unit, ex_ledger, unit, unit, unit, producer_message) writer_host" where
  "ex_ledger_writer = ex_writer_host (ex_ledger_sdk (\<lambda>f. f)) (ex_otel (\<lambda>f. f))"

lemma ex_writer_contract: "writer_contract fst snd ex_ledger_writer"
  by (simp add: writer_contract_def ex_ledger_writer_def ex_writer_host_def otel_contract_def ex_otel_def
      otel_opens_none_def sdk_contract_def ex_ledger_sdk_def ex_sdk_def same_def ex_log_def ex_now_def
      ex_newV7_def)

lemma ex_ledger_writer_run:
  "\<exists>srv. writer_run ex_E ex_ledger_writer (False, 3) = (Inr srv, (True, 4))"
  using ex_writer_run[of "ex_ledger_sdk (\<lambda>f. f)" "apsnd Suc", OF _ _ ex_telemetry, of "\<lambda>f. f" "(False, 3)"]
  by (simp add: ex_ledger_writer_def ex_ledger_sdk_def ex_sdk_def)

lemma ex_queue_writer_run:
  "\<exists>srv. writer_run ex_E (ex_writer_host ex_K (ex_otel (\<lambda>_ x. x))) [] = (Inr srv, [])"
  using ex_writer_run[of ex_K "\<lambda>y. y", OF _ _ ex_telemetry, of "\<lambda>_ x. x" "[]"]
  by (simp add: ex_K_def ex_sdk_def)

lemma ex_ledger_exit: "\<exists>ms x'. writer_process ex_E ex_ledger_writer ms (False, 3) (0, []) x'"
proof -
  obtain srv where s: "writer_run ex_E ex_ledger_writer (False, 3) = (Inr srv, (True, 4))"
    using ex_ledger_writer_run by blast
  obtain cfg logger bearer pub hs i where
    r: "writer_ready ex_E ex_ledger_writer cfg logger bearer pub hs i srv" by (rule writer_run_ready[OF s])
  obtain p where p: "wp_run ex_E (writer_stack ex_ledger_writer logger bearer hs) srv
      (proc_start \<lparr>ww_metrics = [], ww_env = (True, 4)\<rparr>) [] p" "wp_main p = Exited None"
    using writer_run_to_exit by blast
  have e: "writer_exit None = (0, [])" by (simp add: writer_exit_def)
  have "writer_process ex_E ex_ledger_writer [] (False, 3) (0, []) (ww_env (wp_world p))"
    using writer_process.ran[OF s r p] unfolding e .
  then show ?thesis by blast
qed

theorem writer_leaves_nothing_open_witness:
  "\<exists>ms x'. writer_process ex_E ex_ledger_writer ms (False, 3) (0, []) x' \<and> x' = (False, 3)"
proof -
  obtain ms x' where P: "writer_process ex_E ex_ledger_writer ms (False, 3) (0, []) x'" using ex_ledger_exit by blast
  from writer_leaves_nothing_open[OF ex_writer_contract _ P] have "x' = (False, 3)" by (simp add: prod_eq_iff)
  with P show ?thesis by blast
qed

theorem writer_exit_reasons_witness:
  "\<exists>ms x'. writer_process ex_E ex_ledger_writer ms (False, 3) (0, []) x'
     \<and> (\<exists>srv x1 cfg logger bearer pub hs i sent p.
          writer_run ex_E ex_ledger_writer (False, 3) = (Inr srv, x1)
          \<and> writer_ready ex_E ex_ledger_writer cfg logger bearer pub hs i srv
          \<and> wp_run ex_E (writer_stack ex_ledger_writer logger bearer hs) srv
               (proc_start \<lparr>ww_metrics = ms, ww_env = x1\<rparr>) sent p
          \<and> wp_main p = Exited None \<and> wp_signalled p)"
proof -
  obtain ms x' where P: "writer_process ex_E ex_ledger_writer ms (False, 3) (0, []) x'" using ex_ledger_exit by blast
  have stop: "stopped_on_signal p (0, []) \<or> listener_failed p (0, []) \<longleftrightarrow> wp_main p = Exited None \<and> wp_signalled p"
    for p :: "(int, ex_ledger) wproc" by (auto simp: stopped_on_signal_def listener_failed_def)
  have fail: "(0, []) \<noteq> (1 :: int, ''writer: '' @ s)" for s by simp
  from writer_exit_reasons[OF P] have "\<exists>srv x1 cfg logger bearer pub hs i sent p.
      writer_run ex_E ex_ledger_writer (False, 3) = (Inr srv, x1)
      \<and> writer_ready ex_E ex_ledger_writer cfg logger bearer pub hs i srv
      \<and> wp_run ex_E (writer_stack ex_ledger_writer logger bearer hs) srv
           (proc_start \<lparr>ww_metrics = ms, ww_env = x1\<rparr>) sent p
      \<and> wp_main p = Exited None \<and> wp_signalled p"
    unfolding stop using fail by metis
  with P show ?thesis by blast
qed

definition ex_srv :: "ex_queue running_writer" where
  "ex_srv = \<lparr>run_handler = ex_chain, run_address = '':8080'', run_logger = ex_log, run_stop = (\<lambda>x. x)\<rparr>"

text \<open>A process in its shutdown with a request in flight.\<close>

definition ex_stopping :: "(int, ex_queue) wproc" where
  "ex_stopping = (proc_start ex_w)\<lparr>wp_main := Stopping, wp_serve := Serving, wp_signalled := True,
     wp_requests := [Arrived (ex_r ex_header)]\<rparr>"

theorem writer_shutdown_ends_witness:
  "\<exists>sent q. wp_run ex_E ex_stack ex_srv ex_stopping sent q \<and> wp_main q = Exited None
     \<and> list_all answered (wp_requests q)"
  using writer_shutdown_ends[of ex_stopping ex_E ex_stack ex_srv] by (auto simp: ex_stopping_def)

subsection \<open>The deliverer process\<close>

text \<open>What a cancelled context does to the reader.\<close>

definition ex_cancelled :: "(producer_message, 'x) reader" where
  "ex_cancelled = \<lparr>rd_Receive = (\<lambda>x. (Inl ContextCanceled, x)), rd_Ack = (\<lambda>_ x. x)\<rparr>"

lemma ex_reader_cancelled: "reader_cancelled ex_cancelled"
  by (simp add: reader_cancelled_def ex_cancelled_def errors_is_def)

lemma deliverer_run_to_exit:
  "\<exists>got p. dp_run E c ex_cancelled close (dproc_start n w) got p \<and> dp_main p = Returned_nil"
proof -
  have "dp_run E c ex_cancelled close (dproc_start n w) ([] @ []) ((dproc_start n w)\<lparr>dp_cancelled := True\<rparr>)"
    by (rule dp_next[OF dp_refl dp_signal]) (simp add: dproc_start_def pool_start_def)
  from deliverer_stops[OF ex_reader_cancelled this] show ?thesis by simp
qed

definition ex_ledger_host ::
  "(unit, int, log_line list, ex_ledger, unit, unit, unit, producer_message) deliverer_host" where
  "ex_ledger_host = ex_host_of (ex_ledger_sdk de_rest_update) (ex_otel de_rest_update)"

abbreviation ex_up :: "(int, ex_ledger) denv \<Rightarrow> bool" where
  "ex_up x \<equiv> fst (de_rest x)"

abbreviation ex_opened :: "(int, ex_ledger) denv \<Rightarrow> nat" where
  "ex_opened x \<equiv> snd (de_rest x)"

lemma ex_deliverer_contract: "deliverer_contract ex_up ex_opened ex_ledger_host"
  by (simp add: deliverer_contract_def ex_ledger_host_def ex_host_of_def otel_contract_def ex_otel_def
      otel_opens_none_def sdk_contract_def ex_ledger_sdk_def ex_sdk_def same_def ex_logger_def ex_now_def
      ex_rand_def ex_wait_def)

definition ex_ledger_env :: "(int, ex_ledger) denv" where
  "ex_ledger_env = \<lparr>de_sandbox = sandbox_New [], de_rest = (False, 3)\<rparr>"

theorem deliverer_leaves_nothing_open_witness:
  "\<exists>x'. deliverer_process ex_E ex_ledger_host [] [] ex_ledger_env ex_cancelled (0, []) x'
     \<and> de_rest x' = (False, 3)"
proof -
  have "sdk_new_client (ex_ledger_sdk de_rest_update) u y = (Inr (), de_rest_update (apsnd Suc) y)"
    "sdk_subscribe (ex_ledger_sdk de_rest_update) () os y = (Inr (), y)" for u os and y :: "(int, ex_ledger) denv"
    by (simp_all add: ex_ledger_sdk_def ex_sdk_def)
  from ex_deliverer_run_of[of "ex_ledger_sdk de_rest_update", OF this ex_telemetry, of de_rest_update ex_ledger_env]
  obtain dv y where d: "deliverer_run ex_E ex_ledger_host ex_ledger_env = (Inr dv, y)"
    by (auto simp: ex_ledger_host_def)
  obtain got p where p: "dp_run ex_E (run_consumer dv) ex_cancelled (run_close dv)
      (dproc_start (run_workers dv) \<lparr>cw_base = \<lparr>dw_log = [], dw_metrics = [], dw_env = y\<rparr>, cw_acks = []\<rparr>) got p"
    "dp_main p = Returned_nil" using deliverer_run_to_exit by blast
  have e: "deliverer_exit None = (0, [])" by (simp add: deliverer_exit_def)
  have P: "deliverer_process ex_E ex_ledger_host [] [] ex_ledger_env ex_cancelled (0, []) (dw_env (cw_base (dp_world p)))"
    using deliverer_ran[OF d p] unfolding e .
  have "reader_same ex_up ex_opened ex_cancelled" by (simp add: reader_same_def ex_cancelled_def)
  from deliverer_leaves_nothing_open[OF ex_deliverer_contract this _ P] P show ?thesis
    by (auto simp: ex_ledger_env_def prod_eq_iff)
qed

theorem shutdown_drains_witness:
  "\<exists>got p. dp_run ex_E ex_consumer ex_cancelled (run_close ex_running) (dproc_start 1 (ex_cw [ex_message])) got p
     \<and> dp_main p = Returned_nil \<and> all_joined (dp_workers p)
     \<and> mset (cw_acks (dp_world p)) = mset (map cm_msg got)"
proof -
  have r: "run_consumer ex_running = ex_consumer" "run_workers ex_running = 1" by (simp_all add: ex_running_def)
  obtain got p where p: "dp_run ex_E ex_consumer ex_cancelled (run_close ex_running)
      (dproc_start 1 (ex_cw [ex_message])) got p" "dp_main p = Returned_nil"
    using deliverer_run_to_exit by blast
  from shutdown_drains[OF ex_deliverer_run refl, unfolded r, OF p] p show ?thesis by auto
qed

theorem slog_lines_are_outcomes_witness:
  "\<exists>got p evs. dp_run ex_E ex_consumer ex_cancelled (run_close ex_running) (dproc_start 1 (ex_cw [ex_message])) got p
     \<and> dp_main p = Returned_nil \<and> mset (all_of event_msgs evs) = mset got
     \<and> map line_summary (dw_log (cw_base (dp_world p))) = map summary_of (map event_outcome evs)"
proof -
  have r: "run_consumer ex_running = ex_consumer" "run_workers ex_running = 1" by (simp_all add: ex_running_def)
  have h: "\<forall>lvl. fst (dh_json_handler ex_host lvl) = slog_handler lvl" by (simp add: ex_host_def ex_host_of_def)
  have load: "deliverer_Load ex_E (dh_env ex_host) [] = Inr ex_config"
    by (simp add: deliverer_Load_def ex_host_def ex_host_of_def ex_config_def ProviderPushover_def ProviderSandbox_def)
  have level: "log_level ex_E ex_config = ''info''"
    by (simp add: log_level_def ex_config_def to_lower_ascii is_ascii_def byte_def lower_ascii_def char_class_defs)
  have w: "dw_log (cw_base (ex_cw [ex_message])) = []" by simp
  obtain got p where p: "dp_run ex_E ex_consumer ex_cancelled (run_close ex_running)
      (dproc_start 1 (ex_cw [ex_message])) got p" "dp_main p = Returned_nil"
    using deliverer_run_to_exit by blast
  from slog_lines_are_outcomes[OF ex_deliverer_run h, unfolded r, OF p w] load level
  obtain evs where "mset (all_of event_msgs evs) = mset got"
    "map line_summary (dw_log (cw_base (dp_world p))) = map summary_of (map event_outcome evs)" by auto
  with p show ?thesis by blast
qed

theorem deliverer_shutdown_ends_witness:
  "\<exists>new q. dp_step ex_E ex_consumer ex_cancelled (run_close ex_running)
     ((dproc_start 1 (ex_cw [ex_message]))\<lparr>dp_cancelled := True\<rparr>) new q"
proof -
  let ?p = "(dproc_start 1 (ex_cw [ex_message]))\<lparr>dp_cancelled := True\<rparr>
    :: (int, log_line list, producer_message, ex_world) dproc"
  have c: "dp_cancelled ?p" by simp
  have s: "dp_steps ex_E ex_consumer ex_cancelled (run_close ex_running) 0 ?p ?p" by (simp add: dp_steps_def)
  have "(\<forall>new q. \<not> dp_step ex_E ex_consumer ex_cancelled (run_close ex_running) ?p new q)
      \<longleftrightarrow> dp_main ?p = Returned_nil"
    by (rule deliverer_shutdown_ends[OF c s, where n = 0, THEN conjunct2, THEN conjunct2, THEN conjunct1])
  moreover have "dp_main ?p \<noteq> Returned_nil" by (simp add: dproc_start_def split: prod.split)
  ultimately show ?thesis by blast
qed

end
