(* ===== verification/Pipeline.thy ===== *)
theory Pipeline
  imports Deliverer_Process
begin

text \<open>
  Both processes and the topic between them: what the writer tells its clients and what the
  deliverer records, over whole runs. The topic is Pulsar's; what is assumed of it is that it
  delivers what was published, at least once, in any order.
\<close>

text \<open>
  Unmarshalling gives back what was marshalled, for messages whose target arm is set; the typed nil
  and the unknown arm, which validation refuses, do not survive the wire.
\<close>

definition proto_codec :: "'ts ext \<Rightarrow> bool" where
  "proto_codec E \<longleftrightarrow> (\<forall>n b. addressed n \<and> x_marshal E n = Inr b \<longrightarrow> x_unmarshal E b = Inr n)"

definition broker_delivers :: "publish_input list \<Rightarrow> 'm consumed_message list \<Rightarrow> bool" where
  "broker_delivers sent got \<longleftrightarrow> (\<forall>inp\<in>set sent. \<exists>msg\<in>set got.
     cm_body msg = in_body inp \<and> cm_notification_id msg = in_notification_id inp)"

text \<open>A message the publisher took goes by the identifier it was published under.\<close>

lemma message_id_sent:
  assumes "proto_codec E" and "input_ok E inp"
    and "cm_body msg = in_body inp" and "cm_notification_id msg = in_notification_id inp"
  shows "message_id E msg = in_notification_id inp"
  using assms unfolding input_ok_def proto_codec_def by (auto simp: message_id_def)

lemma receipt_202:
  assumes "receipt_fits E r rid rc w" and "sent_status w = 202"
  obtains nid at where "rc_sent rc = Some nid"
    "w = accepted_answer E rid \<lparr>ar_notification_id = nid, ar_accepted_at = at\<rparr> (start_writer rid)"
proof (cases "rc_sent rc")
  case None
  with assms(1) obtain pr where "answers_problem E r rid (start_writer rid) w pr" by (auto simp: receipt_fits_def)
  with answers_status(1)[OF this unsent_start] catalogued_status[of pr] assms(2) show thesis
    by (simp add: answers_problem_def)
next
  case (Some nid)
  with assms(1) that show thesis by (auto simp: receipt_fits_def)
qed

lemma handled_of_delivered:
  assumes "list_all (event_ok E) evs" and "mset (all_of event_msgs evs) = mset got" and "msg \<in> set got"
  obtains oc where "Handled msg oc \<in> set evs" "oc_NotificationID oc = message_id E msg"
proof -
  have "msg \<in> set (all_of event_msgs evs)" using assms(2,3) by (metis set_mset_mset)
  then obtain ev where ev: "ev \<in> set evs" "msg \<in> set (event_msgs ev)" by auto
  have "msg \<in> set (event_msgs ev) \<longrightarrow> (\<exists>oc. ev = Handled msg oc)" by (cases ev) auto
  with ev(2) obtain oc where "ev = Handled msg oc" by blast
  with ev(1) assms(1) that[of oc] show thesis by (auto simp: list_all_iff dest: bspec)
qed

text \<open>C2: What a client is told was accepted is concluded. Take any run of a started writer and any run
  of a started deliverer that has returned, where the topic delivered to the deliverer what the
  writer's publisher took. Then every submission the writer answered 202 was answered with an
  identifier under which the deliverer handled a message, recorded its outcome in the log and
  acknowledged the message.\<close>

theorem accepted_is_concluded:
  assumes codec: "proto_codec E"
    and ready: "writer_ready E H cfg logger bearer pub hs i srv"
    and writer: "wp_run E (writer_stack H logger bearer hs) srv (proc_start x) sent p"
    and deliverer: "deliverer_run E D y = (Inr dv, y')"
      "dp_run E (run_consumer dv) r (run_close dv) (dproc_start (run_workers dv) w) got q"
      "dp_main q = Returned_nil"
    and broker: "broker_delivers sent got"
    and answered: "Answered req rid (Some rc) a \<in> set (wp_requests p)" "sent_status a = 202"
  shows "\<exists>nid at msg oc evs.
     a = accepted_answer E rid \<lparr>ar_notification_id = nid, ar_accepted_at = at\<rparr> (start_writer rid)
     \<and> msg \<in> set got \<and> cm_notification_id msg = nid \<and> cm_msg msg \<in> set (cw_acks (dp_world q))
     \<and> Handled msg oc \<in> set evs \<and> oc_NotificationID oc = nid
     \<and> dw_log (cw_base (dp_world q))
         = fold (c_recorder (run_consumer dv)) (map event_outcome evs) (dw_log (cw_base w))"
proof -
  let ?S = "writer_stack H logger bearer hs"
  have h: "h_requestID (sk_handlers ?S) = Some RequestIDFromContext"
    using ready by (simp add: writer_ready_def writer_stack_def)
  have b: "books E (submission_points (ww_metrics x)) sent (wp_requests p, wp_world p)"
    using wp_run_books[OF h writer, of "submission_points (ww_metrics x)" "[]"]
    by (simp add: books_def proc_start_def)
  then have ok: "list_all (input_ok E) sent" "mset (map in_notification_id sent) = mset (all_of taken (wp_requests p))"
    and "thread_ok E (Answered req rid (Some rc) a :: ('a, 'c) thread)"
    using answered(1) by (auto simp: books_def list_all_iff dest: bspec)
  then have "receipt_fits E req rid rc a" by simp
  from receipt_202[OF this answered(2)] obtain nid at where a: "rc_sent rc = Some nid"
    "a = accepted_answer E rid \<lparr>ar_notification_id = nid, ar_accepted_at = at\<rparr> (start_writer rid)" .
  have "nid \<in> set (all_of taken (wp_requests p))"
    using answered(1) a(1) by (auto intro!: bexI[of _ "Answered req rid (Some rc) a"])
  with ok(2) have "nid \<in> set (map in_notification_id sent)" by (metis set_mset_mset)
  then obtain inp where inp: "inp \<in> set sent" "in_notification_id inp = nid" by auto
  with broker obtain msg where msg: "msg \<in> set got" "cm_body msg = in_body inp"
    "cm_notification_id msg = in_notification_id inp" by (auto simp: broker_delivers_def)
  have id: "message_id E msg = nid"
    using message_id_sent[OF codec _ msg(2,3)] ok(1) inp by (simp add: list_all_iff)
  from shutdown_books[OF deliverer(1) refl deliverer(2,3)] obtain evs where
    acks: "mset (cw_acks (dp_world q)) = mset (cw_acks w) + mset (map cm_msg got)"
    and evs: "list_all (event_ok E) evs" "mset (all_of event_msgs evs) = mset got"
      "dw_log (cw_base (dp_world q)) = fold (c_recorder (run_consumer dv)) (map event_outcome evs) (dw_log (cw_base w))"
    by blast
  obtain oc where oc: "Handled msg oc \<in> set evs" "oc_NotificationID oc = message_id E msg"
    by (rule handled_of_delivered[OF evs(1,2) msg(1)])
  have "cm_msg msg \<in> set (cw_acks (dp_world q))"
    using acks msg(1) by (metis in_set_conv_nth length_map mset_append nth_map nth_mem set_append set_mset_mset Un_iff)
  with a(2) msg inp(2) oc id evs(3) show ?thesis by metis
qed

end
