(* ===== verification/Pipeline_Witness.thy ===== *)
theory Pipeline_Witness
  imports Process_Witnesses Pipeline
begin

text \<open>
  The property of the theory Pipeline on a run of the writer over the queue, in which one submission
  is answered 202, and a run of the deliverer on the queue the writer left.
\<close>

definition ex_b_header :: header where
  "ex_b_header = [''Content-Type'' \<mapsto> [''application/json''], ''Authorization'' \<mapsto> [''Bearer k'']]"

abbreviation ex_queue_writer :: "(unit, ex_queue, unit, unit, unit, producer_message) writer_host" where
  "ex_queue_writer \<equiv> ex_writer_host ex_K (ex_otel (\<lambda>_ x. x))"

lemma ex_b_header_simps [simp]:
  "header_get ex_b_header ''Content-Type'' = ''application/json''" "header_get ex_b_header ''X-Request-Id'' = []"
  "ex_b_header ''Idempotency-Key'' = None"
  by (simp_all add: ex_b_header_def header_get_def)

lemma ex_b_token: "BearerToken (ex_r ex_b_header) = ''k''"
proof (rule BearerToken_tight)
  show "tight ''k''" by (simp add: tight_def is_space_single char_class_defs)
qed (simp add: bearer_prefix_def ex_b_header_def header_get_def)

lemma ex_queue_published:
  assumes "i_clock i = ex_now" and "i_idFn i = newUUIDv7 ex_newV7"
  shows "\<exists>q'. published ex_E i (apache_publish ex_K pub) svc ex_n [] ''0198'' (truncate_ms unix_epoch) q'"
  using assms
  by (auto simp: published_def ex_n_valid ex_now_def newUUIDv7_def ex_newV7_def ex_K_publish ex_marshal_def)

text \<open>The writer answers the submission 202.\<close>

lemma ex_answered:
  assumes ready: "writer_ready ex_E ex_queue_writer ex_writer_config ex_log bearer pub hs i srv"
    and bearer: "bearer ''k'' = Some \<lparr>service_name = ''b''\<rparr>"
  shows "\<exists>sent rid rc a x. request_run ex_E (writer_stack ex_queue_writer ex_log bearer hs)
       ([Arrived (ex_r ex_b_header)], ex_w) sent ([Answered (ex_r ex_b_header) rid (Some rc) a], x)
     \<and> sent_status a = 202"
proof -
  let ?S = "writer_stack ex_queue_writer ex_log bearer hs" and ?r = "ex_r ex_b_header"
  note rd = ready[unfolded writer_ready_def]
  have h: "h_requestID (sk_handlers ?S) = Some RequestIDFromContext" using rd by (simp add: writer_stack_def)
  have i: "i_clock i = ex_now" "i_idFn i = newUUIDv7 ex_newV7" "wh_sdk ex_queue_writer = ex_K"
    using rd by (simp_all add: ex_writer_host_def)
  obtain q' where pb: "published ex_E i (apache_publish ex_K pub) ''b'' ex_n [] ''0198'' (truncate_ms unix_epoch) q'"
    using ex_queue_published[OF i(1,2)] by blast
  have "submission_setup simple_mux ex_bind ex_newV7 (Authenticate bearer) hs i (apache_publish ex_K pub) ?r
      (ww_env ex_w) ''req_0198'' [] \<lparr>service_name = ''b''\<rparr> None"
    using rd bearer
    by (simp add: submission_setup_def simple_mux_contract Authenticate_Inr_iff bind_key_def ex_request_id
        ex_b_token ex_writer_host_def)
  note chain0 = published_chain[where logger = ex_log, OF this ex_decodeBody_of]
  from chain0[of "''0198''" "truncate_ms unix_epoch" q'] pb
  obtain w' where chain: "stack_chain ex_E ?S ?r new_writer ex_w = Returned w'"
    "sent_status (fst w') = 202" "submission_points (ww_metrics (snd w')) \<noteq> []"
    by (simp add: stack_chain_def writer_stack_def ex_writer_host_def with_key_def accepted_status)
  have mux: "mux_contract (sk_mux ?S)" by (simp add: writer_stack_def ex_writer_host_def simple_mux_contract)
  obtain rid rc a x where to: "comes_to ex_E ?S (Arrived ?r, ex_w) (Answered ?r rid rc a, x)"
    "stack_chain ex_E ?S ?r new_writer ex_w = Returned (a, x)" using request_comes_to_answer[OF mux] by blast
  obtain sent where run: "request_run ex_E ?S ([Arrived ?r], ex_w) sent ([Answered ?r rid rc a], x)"
    using comes_to_run[OF to(1)] by blast
  from request_run_books[OF h run, of "[]" "[]"] have
    "mset (submission_points (ww_metrics x)) = mset (map receipt_point (all_of receipts [Answered ?r rid rc a :: (int, ex_queue) thread]))"
    by (simp add: books_def submission_points_def)
  with to(2) chain obtain rc' where "rc = Some rc'" by (cases rc) auto
  moreover have "sent_status a = 202" using to(2) chain by simp
  ultimately show ?thesis using run by blast
qed

text \<open>A deliverer whose queue is one message: it takes it, and stops on the signal.\<close>

lemma ex_delivered:
  "\<exists>more q. dp_run ex_E ex_consumer ex_cancelled (run_close ex_running) (dproc_start 1 (ex_cw [m]))
       (consumed_of ex_Kd m # more) q \<and> dp_main q = Returned_nil"
proof -
  let ?c = "run_close ex_running" and ?p0 = "dproc_start 1 (ex_cw [m])"
  let ?p1 = "?p0\<lparr>dp_workers := [Got (consumed_of ex_Kd m)], dp_world := ex_cw []\<rparr>"
  have f: "dp_main ?p0 = Waiting" "dp_cancelled ?p0 = False" "(dp_workers ?p0, dp_world ?p0) = pool_start 1 (ex_cw [m])"
    by (simp_all add: dproc_start_def pool_start_def)
  have "dp_step ex_E ex_consumer ex_cancelled ?c ?p0 [consumed_of ex_Kd m] ?p1"
    by (rule dp_step.dp_pool) (simp_all only: f consumer_now_def ex_pool_step if_False, simp)
  from dp_next[OF dp_refl this] have r1: "dp_run ex_E ex_consumer ex_cancelled ?c ?p0 [consumed_of ex_Kd m] ?p1"
    by simp
  have "\<not> dp_cancelled ?p1" using f(2) by simp
  from deliverer_stops[OF ex_reader_cancelled dp_next[OF r1 dp_signal[OF this]]] show ?thesis by simp
qed

definition ex_message_of :: "publish_input \<Rightarrow> producer_message" where
  "ex_message_of inp = \<lparr>pm_payload = in_body inp,
     pm_properties = [NotificationIDProperty \<mapsto> in_notification_id inp]\<rparr>"

text \<open>A run of the writer that listens and answers the submission, and what its publisher took.\<close>

lemma ex_writer_sends:
  "\<exists>bearer pub hs i srv sent p rid rc a nid inp.
     writer_ready ex_E ex_queue_writer ex_writer_config ex_log bearer pub hs i srv
     \<and> wp_run ex_E (writer_stack ex_queue_writer ex_log bearer hs) srv (proc_start ex_w) sent p
     \<and> Answered (ex_r ex_b_header) rid (Some rc) a \<in> set (wp_requests p) \<and> sent_status a = 202
     \<and> sent = [inp] \<and> in_notification_id inp = nid"
proof -
  let ?H = ex_queue_writer
  obtain srv where s: "writer_run ex_E ?H [] = (Inr srv, [])" using ex_queue_writer_run by blast
  obtain cfg logger bearer pub hs i where ld: "writer_Load (wh_env ?H) [] = Inr cfg"
    "NewBearer (wh_open_file ?H) [WithTokensFile (wc_BearerTokensFile cfg)] = Inr bearer"
    "logging_New ex_E (wh_json_handler ?H) (cfg_LogLevel (wc_shared cfg)) = Inr logger"
    and rd: "writer_ready ex_E ?H cfg logger bearer pub hs i srv" by (rule writer_run_ready[OF s])
  have c: "cfg = ex_writer_config" and l: "logger = ex_log"
    using ld(1,3) by (auto simp: writer_Load_def ex_writer_host_def logging_New_def split: if_splits prod.splits option.splits)
  have b: "bearer ''k'' = Some \<lparr>service_name = ''b''\<rparr>"
    using ld(2) ex_file_entries by (simp add: NewBearer_Inr_iff ex_writer_host_def Let_def)
  let ?S = "writer_stack ?H ex_log bearer hs" and ?r = "ex_r ex_b_header"
  note rd' = rd[unfolded c l]
  obtain sent rid rc a x where run: "request_run ex_E ?S ([Arrived ?r], ex_w) sent ([Answered ?r rid (Some rc) a], x)"
    and a: "sent_status a = 202" using ex_answered[OF rd' b] by blast
  let ?p1 = "begin_listening srv (proc_start ex_w)" and ?x = "ex_w"
  let ?p2 = "?p1\<lparr>wp_requests := [Arrived ?r]\<rparr>"
  have lg: "run_logger srv = ex_log" using rd' by (simp add: writer_ready_def)
  have "wp_run ex_E ?S srv (proc_start ex_w) ([] @ []) ?p1"
    by (rule wp_next[OF wp_refl wp_step.listens]) (simp_all add: proc_start_def)
  from wp_next[OF this wp_step.arrives[of ?p1 _ _ _ ?r]] have
    r2: "wp_run ex_E ?S srv (proc_start ex_w) [] ?p2" by (simp add: proc_start_def wp_defs)
  have f2: "wp_main ?p2 = Selecting" "wp_serve ?p2 = Serving" "(wp_requests ?p2, wp_world ?p2) = ([Arrived ?r], ex_w)"
    using lg by (simp_all add: proc_start_def wp_defs on_env_def ex_log_def ex_w_def)
  obtain p where p: "wp_run ex_E ?S srv (proc_start ex_w) sent p" "wp_requests p = [Answered ?r rid (Some rc) a]"
    using wp_run_trans[OF serving_runs[OF run f2(1,2) f2(3)[symmetric]] r2] by force
  have h: "h_requestID (sk_handlers ?S) = Some RequestIDFromContext"
    using rd' by (simp add: writer_ready_def writer_stack_def)
  have bk: "books ex_E [] sent (wp_requests p, wp_world p)"
    using wp_run_books[OF h p(1), of "[]" "[]"] by (simp add: books_def proc_start_def submission_points_def)
  have "receipt_fits ex_E ?r rid rc a" using bk p(2) by (simp add: books_def)
  from receipt_202[OF this a] obtain nid at where nid: "rc_sent rc = Some nid"
    "a = accepted_answer ex_E rid \<lparr>ar_notification_id = nid, ar_accepted_at = at\<rparr> (start_writer rid)" .
  have "mset (map in_notification_id sent) = {#nid#}" using bk p(2) nid(1) by (simp add: books_def)
  then obtain inp where inp: "sent = [inp]" "in_notification_id inp = nid"
    by (cases sent) auto
  have "Answered ?r rid (Some rc) a \<in> set (wp_requests p)" using p(2) by simp
  with rd' p(1) a inp show ?thesis by blast
qed

theorem accepted_is_concluded_witness:
  "\<exists>bearer hs srv sent p req rid rc a got q nid at msg oc evs.
     wp_run ex_E (writer_stack ex_queue_writer ex_log bearer hs) srv (proc_start ex_w) sent p
     \<and> Answered req rid (Some rc) a \<in> set (wp_requests p) \<and> sent_status a = 202
     \<and> dp_run ex_E ex_consumer ex_cancelled (run_close ex_running)
         (dproc_start 1 (ex_cw [ex_message_of (hd sent)])) got q \<and> dp_main q = Returned_nil
     \<and> a = accepted_answer ex_E rid \<lparr>ar_notification_id = nid, ar_accepted_at = at\<rparr> (start_writer rid)
     \<and> msg \<in> set got \<and> cm_notification_id msg = nid
     \<and> cm_msg msg \<in> set (cw_acks (dp_world q)) \<and> Handled msg oc \<in> set evs \<and> oc_NotificationID oc = nid
     \<and> dw_log (cw_base (dp_world q)) = fold (slog_Record ex_lines) (map event_outcome evs) []"
proof -
  obtain bearer pub hs i srv sent p rid rc a nid inp where
    rd': "writer_ready ex_E ex_queue_writer ex_writer_config ex_log bearer pub hs i srv"
    and p: "wp_run ex_E (writer_stack ex_queue_writer ex_log bearer hs) srv (proc_start ex_w) sent p"
    and an: "Answered (ex_r ex_b_header) rid (Some rc) a \<in> set (wp_requests p)" and a: "sent_status a = 202"
    and inp: "sent = [inp]" "in_notification_id inp = nid" using ex_writer_sends by blast
  let ?m = "ex_message_of (hd sent)"
  have m: "?m = \<lparr>pm_payload = in_body inp, pm_properties = [NotificationIDProperty \<mapsto> nid]\<rparr>"
    using inp by (simp add: ex_message_of_def)
  obtain more q where d: "dp_run ex_E ex_consumer ex_cancelled (run_close ex_running) (dproc_start 1 (ex_cw [?m]))
      (consumed_of ex_Kd ?m # more) q" "dp_main q = Returned_nil" using ex_delivered by blast
  have cm: "cm_body (consumed_of ex_Kd ?m) = in_body inp" "cm_notification_id (consumed_of ex_Kd ?m) = nid"
    by (simp_all add: m consumed_of_def ex_Kd_def ex_sdk_def)
  have br: "broker_delivers sent (consumed_of ex_Kd ?m # more)"
    using cm inp by (simp add: broker_delivers_def)
  have codec: "proto_codec ex_E" by (simp add: proto_codec_def ex_unmarshal)
  have dr: "dp_run ex_E (run_consumer ex_running) ex_cancelled (run_close ex_running)
      (dproc_start (run_workers ex_running) (ex_cw [?m])) (consumed_of ex_Kd ?m # more) q" using d(1) by simp
  from accepted_is_concluded[OF codec rd' p ex_deliverer_run dr d(2) br an a] show ?thesis
  proof (elim exE conjE)
    fix nid' at' msg oc evs
    assume c: "a = accepted_answer ex_E rid \<lparr>ar_notification_id = nid', ar_accepted_at = at'\<rparr> (start_writer rid)"
      "msg \<in> set (consumed_of ex_Kd ?m # more)" "cm_notification_id msg = nid'"
      "cm_msg msg \<in> set (cw_acks (dp_world q))" "Handled msg oc \<in> set evs" "oc_NotificationID oc = nid'"
      "dw_log (cw_base (dp_world q)) = fold (c_recorder (run_consumer ex_running)) (map event_outcome evs)
         (dw_log (cw_base (ex_cw [ex_message_of (hd sent)])))"
    then have "dw_log (cw_base (dp_world q)) = fold (slog_Record ex_lines) (map event_outcome evs) []" by simp
    with p an a d c show ?thesis
      by (intro exI conjI) assumption+
  qed
qed

end
