(* ===== verification/Wire_Format.thy ===== *)
theory Wire_Format
  imports Prelude "HOL-Library.Monad_Syntax"
begin

text \<open>
  The wire format of protocol buffers, as its documentation gives it: a message is a sequence of
  fields, each a number with its wire type and a payload, all of them read and written in bytes. The
  generated files of the repository carry their own schema in this format (\<open>rawDesc\<close>), which the
  theory Schema reads with it. Only the two wire types the schemas use are here, variable-length
  integers and length-delimited bytes; the reader refuses the others.
\<close>

subsection \<open>Variable-length integers\<close>

fun varint :: "nat \<Rightarrow> string" where
  "varint n = (if n < 128 then [char_of n] else char_of (128 + n mod 128) # varint (n div 128))"

declare varint.simps [simp del]

fun read_varint :: "nat \<Rightarrow> string \<Rightarrow> (nat \<times> string) option" where
  "read_varint 0 bs = None"
| "read_varint (Suc k) [] = None"
| "read_varint (Suc k) (b # bs) =
     (let v = of_char b :: nat
      in if v < 128 then Some (v, bs)
         else (case read_varint k bs of
                 None \<Rightarrow> None
               | Some (w, r) \<Rightarrow> Some (v - 128 + 128 * w, r)))"

text \<open>Ten bytes are as many as a 64-bit integer needs.\<close>

definition varint_max :: nat where
  "varint_max = 10"

lemma varint_not_Nil [simp]: "varint n \<noteq> []"
  by (subst varint.simps) simp

lemma read_varint_varint: "n < 128 ^ k \<Longrightarrow> 0 < k \<Longrightarrow> read_varint k (varint n @ r) = Some (n, r)"
proof (induction k arbitrary: n)
  case (Suc k)
  show ?case
  proof (cases "n < 128")
    case True
    then show ?thesis by (simp add: varint.simps[of n] of_char_of)
  next
    case False
    with Suc.prems have k: "0 < k" by (cases k) auto
    have "n div 128 < 128 ^ k" using Suc.prems(1) by (simp add: less_mult_imp_div_less mult.commute)
    from Suc.IH[OF this k] have "read_varint k (varint (n div 128) @ r) = Some (n div 128, r)" .
    moreover have "(of_char (char_of (128 + n mod 128) :: char) :: nat) = 128 + n mod 128"
      by (simp add: of_char_of)
    ultimately show ?thesis using False by (simp add: varint.simps[of n])
  qed
qed simp

lemma read_varint_shorter: "read_varint k bs = Some (n, r) \<Longrightarrow> length r < length bs"
  by (induction k bs arbitrary: n r rule: read_varint.induct)
    (auto simp: Let_def less_Suc_eq split: if_splits option.splits)

subsection \<open>Fields\<close>

datatype wire = WVarint nat | WLen string

text \<open>The tag of a field is its number times eight plus the wire type: 0 for a varint, 2 for bytes.\<close>

fun print_field :: "nat \<times> wire \<Rightarrow> string" where
  "print_field (k, WVarint v) = varint (8 * k) @ varint v"
| "print_field (k, WLen s) = varint (8 * k + 2) @ varint (length s) @ s"

definition read_field :: "string \<Rightarrow> ((nat \<times> wire) \<times> string) option" where
  "read_field bs =
     (case read_varint varint_max bs of
        None \<Rightarrow> None
      | Some (t, r) \<Rightarrow>
          if t div 8 = 0 then None
          else if t mod 8 = 0 then
            (case read_varint varint_max r of
               None \<Rightarrow> None
             | Some (v, r') \<Rightarrow> Some ((t div 8, WVarint v), r'))
          else if t mod 8 = 2 then
            (case read_varint varint_max r of
               None \<Rightarrow> None
             | Some (l, r') \<Rightarrow>
                 if l \<le> length r' then Some ((t div 8, WLen (take l r')), drop l r') else None)
          else None)"

text \<open>Field numbers have at most 29 bits, lengths and integers at most 64.\<close>

fun field_fits :: "nat \<times> wire \<Rightarrow> bool" where
  "field_fits (k, WVarint v) \<longleftrightarrow> 0 < k \<and> k < 2 ^ 29 \<and> v < 2 ^ 64"
| "field_fits (k, WLen s) \<longleftrightarrow> 0 < k \<and> k < 2 ^ 29 \<and> length s < 2 ^ 64"

lemma read_print_field: "field_fits f \<Longrightarrow> read_field (print_field f @ r) = Some (f, r)"
proof (induction f rule: field_fits.induct)
  case (1 k v)
  then have "8 * k < 128 ^ 10" "v < 128 ^ 10" by simp_all
  with 1 show ?case by (simp add: read_field_def varint_max_def read_varint_varint)
next
  case (2 k s)
  then have "8 * k + 2 < 128 ^ 10" "length s < 128 ^ 10" by simp_all
  moreover have "(8 * k + 2) div 8 = k" "(8 * k + 2) mod 8 = 2" by presburger+
  ultimately show ?case using 2
    by (simp add: read_field_def varint_max_def read_varint_varint del: add_2_eq_Suc')
qed

lemma read_field_shorter: "read_field bs = Some (f, r) \<Longrightarrow> length r < length bs"
  by (auto simp: read_field_def split: option.splits if_splits prod.splits dest!: read_varint_shorter)

subsection \<open>Messages\<close>

definition print_fields :: "(nat \<times> wire) list \<Rightarrow> string" where
  "print_fields fs = concat (map print_field fs)"

function parse_fields :: "string \<Rightarrow> (nat \<times> wire) list option" where
  "parse_fields bs =
     (if bs = [] then Some []
      else (case read_field bs of
              None \<Rightarrow> None
            | Some (f, r) \<Rightarrow> map_option ((#) f) (parse_fields r)))"
  by auto
termination
  by (relation "measure length") (auto dest: read_field_shorter)

declare parse_fields.simps [simp del]

lemma parse_fields_simps [simp]:
  "parse_fields [] = Some []"
  "parse_fields (b # bs) =
     (case read_field (b # bs) of
        None \<Rightarrow> None
      | Some (f, r) \<Rightarrow> map_option ((#) f) (parse_fields r))"
  by (simp_all add: parse_fields.simps[of "[]"] parse_fields.simps[of "b # bs"])

lemma print_field_not_Nil: "print_field f \<noteq> []"
  by (cases f rule: print_field.cases) auto

theorem parse_print_fields: "list_all field_fits fs \<Longrightarrow> parse_fields (print_fields fs) = Some fs"
proof (induction fs)
  case (Cons f fs)
  have "parse_fields (print_field f @ print_fields fs) = Some (f # fs)"
    using Cons read_print_field[of f "print_fields fs"] print_field_not_Nil[of f]
    by (subst parse_fields.simps) simp
  then show ?case by (simp add: print_fields_def)
qed (simp add: print_fields_def)

lemma length_print_field: "(k, WLen s) \<in> set fs \<Longrightarrow> length s < length (print_fields fs)"
proof (induction fs)
  case (Cons f fs)
  have "length s < length (print_field (k, WLen s))"
    by (simp add: varint_not_Nil[THEN length_greater_0_conv[THEN iffD2]])
  with Cons show ?case by (auto simp: print_fields_def)
qed simp

end
