(* ===== verification/Schema.thy ===== *)
theory Schema
  imports Wire_Format Go_Strings
begin

text \<open>
  The schema of the canonical messages, in the two generations the repository carries
  (\<open>pkg/notificationpb/v1\<close> and its \<open>prev\<close>). The generated Go files state it twice: in the struct
  tags and, as bytes, in the file descriptor \<open>rawDesc\<close> with the tables \<open>goTypes\<close> and \<open>depIdxs\<close>. The
  theory reads the bytes and proves that both statements agree, and that the two generations agree
  on everything that shows on the wire.
\<close>

subsection \<open>File descriptors\<close>

text \<open>
  What the documentation of \<open>descriptor.proto\<close> says a file descriptor holds, of the parts the
  repository's two files use. The last occurrence of a singular field counts, and an absent number
  is zero.
\<close>

definition bytes_of :: "nat \<Rightarrow> (nat \<times> wire) list \<Rightarrow> string list" where
  "bytes_of k fs = List.map_filter (\<lambda>(k', w). case w of WLen s \<Rightarrow> if k' = k then Some s else None
                                           | WVarint _ \<Rightarrow> None) fs"

definition number_of :: "nat \<Rightarrow> (nat \<times> wire) list \<Rightarrow> nat option" where
  "number_of k fs =
     (case List.map_filter (\<lambda>(k', w). case w of WVarint v \<Rightarrow> if k' = k then Some v else None
                                        | WLen _ \<Rightarrow> None) fs of
        [] \<Rightarrow> None
      | vs \<Rightarrow> Some (last vs))"

definition text_of :: "nat \<Rightarrow> (nat \<times> wire) list \<Rightarrow> string" where
  "text_of k fs = (case bytes_of k fs of [] \<Rightarrow> [] | ss \<Rightarrow> last ss)"

fun those_map :: "('a \<Rightarrow> 'b option) \<Rightarrow> 'a list \<Rightarrow> 'b list option" where
  "those_map f [] = Some []"
| "those_map f (x # xs) =
     (case f x of None \<Rightarrow> None | Some y \<Rightarrow> map_option ((#) y) (those_map f xs))"

record field_desc =
  fd_name :: string
  fd_number :: nat
  fd_label :: nat
  fd_type :: nat
  fd_type_name :: string
  fd_json_name :: string
  fd_oneof_index :: "nat option"

datatype message_desc =
  MessageDesc (md_name: string) (md_fields: "field_desc list") (md_nested: "message_desc list")
    (md_oneofs: "string list") (md_map_entry: bool)

record file_desc =
  fl_name :: string
  fl_package :: string
  fl_dependencies :: "string list"
  fl_messages :: "message_desc list"
  fl_go_package :: string
  fl_syntax :: string

definition default_zero :: "nat option \<Rightarrow> nat" where
  "default_zero v = (case v of None \<Rightarrow> 0 | Some n \<Rightarrow> n)"

definition field_desc_of :: "string \<Rightarrow> field_desc option" where
  "field_desc_of bs =
     map_option
       (\<lambda>fs. \<lparr>fd_name = text_of 1 fs, fd_number = default_zero (number_of 3 fs),
              fd_label = default_zero (number_of 4 fs), fd_type = default_zero (number_of 5 fs),
              fd_type_name = text_of 6 fs, fd_json_name = text_of 10 fs,
              fd_oneof_index = number_of 9 fs\<rparr>)
       (parse_fields bs)"

text \<open>Messages nest; the depth is given, and the files here nest once.\<close>

fun message_desc_of :: "nat \<Rightarrow> string \<Rightarrow> message_desc option" where
  "message_desc_of 0 bs = None"
| "message_desc_of (Suc d) bs =
     (case parse_fields bs of
        None \<Rightarrow> None
      | Some fs \<Rightarrow>
          (case (those_map field_desc_of (bytes_of 2 fs), those_map (message_desc_of d) (bytes_of 3 fs),
                 those_map parse_fields (bytes_of 8 fs), parse_fields (text_of 7 fs)) of
             (Some ff, Some nested, Some oneofs, Some opts) \<Rightarrow>
               Some (MessageDesc (text_of 1 fs) ff nested (map (text_of 1) oneofs)
                       (number_of 7 opts = Some 1))
           | _ \<Rightarrow> None))"

definition file_desc_of :: "string \<Rightarrow> file_desc option" where
  "file_desc_of bs =
     (case parse_fields bs of
        None \<Rightarrow> None
      | Some fs \<Rightarrow>
          (case (those_map (message_desc_of (Suc (Suc 0))) (bytes_of 4 fs), parse_fields (text_of 8 fs)) of
             (Some ms, Some opts) \<Rightarrow>
               Some \<lparr>fl_name = text_of 1 fs, fl_package = text_of 2 fs, fl_dependencies = bytes_of 3 fs,
                     fl_messages = ms, fl_go_package = text_of 11 opts, fl_syntax = text_of 12 fs\<rparr>
           | _ \<Rightarrow> None))"

subsection \<open>What the generated files hold\<close>

text \<open>The struct fields with their \<open>protobuf\<close> tags. A field of a map has the tags of its entry too.\<close>

datatype go_type = GoString | GoInt32 | GoTimestamp | GoMessage string | GoStringMap

record struct_field =
  sf_name :: string
  sf_type :: go_type
  sf_tag :: string
  sf_key :: string
  sf_val :: string

definition field :: "string \<Rightarrow> go_type \<Rightarrow> string \<Rightarrow> struct_field" where
  "field name t tag = \<lparr>sf_name = name, sf_type = t, sf_tag = tag, sf_key = [], sf_val = []\<rparr>"

definition map_field :: "string \<Rightarrow> string \<Rightarrow> string \<Rightarrow> string \<Rightarrow> struct_field" where
  "map_field name tag key val =
     \<lparr>sf_name = name, sf_type = GoStringMap, sf_tag = tag, sf_key = key, sf_val = val\<rparr>"

definition Notification_tags :: "struct_field list" where
  "Notification_tags =
    [field ''NotificationId'' GoString ''bytes,1,opt,name=notification_id,json=notificationId,proto3'',
     field ''CreatedAt'' GoTimestamp ''bytes,2,opt,name=created_at,json=createdAt,proto3'',
     field ''ExpiresAt'' GoTimestamp ''bytes,3,opt,name=expires_at,json=expiresAt,proto3'',
     field ''OriginatingService'' GoString ''bytes,4,opt,name=originating_service,json=originatingService,proto3'',
     field ''IdempotencyKey'' GoString ''bytes,5,opt,name=idempotency_key,json=idempotencyKey,proto3'',
     field ''Content'' (GoMessage ''Content'') ''bytes,10,opt,name=content,proto3'']"

definition Notification_Pushover_tags :: "struct_field list" where
  "Notification_Pushover_tags =
    [field ''Pushover'' (GoMessage ''PushoverTarget'') ''bytes,100,opt,name=pushover,proto3,oneof'']"

definition Content_tags :: "struct_field list" where
  "Content_tags =
    [field ''Title'' GoString ''bytes,1,opt,name=title,proto3'',
     field ''Body'' GoString ''bytes,2,opt,name=body,proto3'',
     field ''Priority'' GoInt32 ''varint,3,opt,name=priority,proto3'',
     map_field ''Data'' ''bytes,4,rep,name=data,proto3'' ''bytes,1,opt,name=key'' ''bytes,2,opt,name=value'']"

definition PushoverTarget_tags :: "struct_field list" where
  "PushoverTarget_tags =
    [field ''UserOrGroupKey'' GoString ''bytes,1,opt,name=user_or_group_key,json=userOrGroupKey,proto3'',
     field ''DeviceName'' GoString ''bytes,2,opt,name=device_name,json=deviceName,proto3'',
     field ''Sound'' GoString ''bytes,3,opt,name=sound,proto3'',
     field ''Url'' GoString ''bytes,4,opt,name=url,proto3'',
     field ''UrlTitle'' GoString ''bytes,5,opt,name=url_title,json=urlTitle,proto3'']"

definition prev_Notification_tags :: "struct_field list" where
  "prev_Notification_tags =
    [field ''NotificationId'' GoString ''bytes,1,opt,name=notification_id,json=notificationId,proto3'',
     field ''CreatedAt'' GoTimestamp ''bytes,2,opt,name=created_at,json=createdAt,proto3'',
     field ''ExpiresAt'' GoTimestamp ''bytes,3,opt,name=expires_at,json=expiresAt,proto3'',
     field ''OriginatingService'' GoString ''bytes,4,opt,name=originating_service,json=originatingService,proto3'',
     field ''IdempotencyKey'' GoString ''bytes,5,opt,name=idempotency_key,json=idempotencyKey,proto3'',
     field ''Content'' (GoMessage ''Content'') ''bytes,10,opt,name=content,proto3'']"

definition prev_Notification_Pushover_tags :: "struct_field list" where
  "prev_Notification_Pushover_tags =
    [field ''Pushover'' (GoMessage ''PushoverTarget'') ''bytes,100,opt,name=pushover,proto3,oneof'']"

definition prev_Content_tags :: "struct_field list" where
  "prev_Content_tags =
    [field ''Title'' GoString ''bytes,1,opt,name=title,proto3'',
     field ''Body'' GoString ''bytes,2,opt,name=body,proto3'',
     field ''Priority'' GoInt32 ''varint,3,opt,name=priority,proto3'',
     map_field ''Data'' ''bytes,4,rep,name=data,proto3'' ''bytes,1,opt,name=key'' ''bytes,2,opt,name=value'']"

definition prev_PushoverTarget_tags :: "struct_field list" where
  "prev_PushoverTarget_tags =
    [field ''UserOrGroupKey'' GoString ''bytes,1,opt,name=user_or_group_key,json=userOrGroupKey,proto3'',
     field ''DeviceName'' GoString ''bytes,2,opt,name=device_name,json=deviceName,proto3'',
     field ''Sound'' GoString ''bytes,3,opt,name=sound,proto3'',
     field ''Url'' GoString ''bytes,4,opt,name=url,proto3'',
     field ''UrlTitle'' GoString ''bytes,5,opt,name=url_title,json=urlTitle,proto3'']"

text \<open>The file descriptors, byte by byte.\<close>

definition rawDesc :: string where
  "rawDesc = concat
    [[CHR 0x0A],
     ''(proto/notification/v1/notification.proto'' @ [CHR 0x12, CHR 0x0F] @ ''notification.v1'' @
        [CHR 0x1A, CHR 0x1F] @ ''google/protobuf/timestamp.proto'' @
        [CHR 0x22, CHR 0x84, CHR 0x03, CHR 0x0A],
     [CHR 0x0C] @ ''Notification'' @ [CHR 0x12, CHR 0x27, CHR 0x0A],
     [CHR 0x0F] @ ''notification_id'' @ [CHR 0x18, CHR 0x01] @ '' '' @ [CHR 0x01] @ ''('' @
        [CHR 0x09] @ ''R'' @ [CHR 0x0E] @ ''notificationId'' @ [CHR 0x12] @ ''9'' @ [CHR 0x0A],
     [CHR 0x0A],
     ''created_at'' @ [CHR 0x18, CHR 0x02] @ '' '' @ [CHR 0x01] @ ''('' @ [CHR 0x0B] @ ''2'' @
        [CHR 0x1A] @ ''.google.protobuf.TimestampR'' @ [CHR 0x09] @ ''createdAt'' @ [CHR 0x12] @
        ''9'' @ [CHR 0x0A],
     [CHR 0x0A],
     ''expires_at'' @ [CHR 0x18, CHR 0x03] @ '' '' @ [CHR 0x01] @ ''('' @ [CHR 0x0B] @ ''2'' @
        [CHR 0x1A] @ ''.google.protobuf.TimestampR'' @ [CHR 0x09] @ ''expiresAt'' @ [CHR 0x12] @
        ''/'' @ [CHR 0x0A],
     [CHR 0x13] @ ''originating_service'' @ [CHR 0x18, CHR 0x04] @ '' '' @ [CHR 0x01] @ ''('' @
        [CHR 0x09] @ ''R'' @ [CHR 0x12] @ ''originatingService'' @ [CHR 0x12, CHR 0x27, CHR 0x0A],
     [CHR 0x0F] @ ''idempotency_key'' @ [CHR 0x18, CHR 0x05] @ '' '' @ [CHR 0x01] @ ''('' @
        [CHR 0x09] @ ''R'' @ [CHR 0x0E] @ ''idempotencyKey'' @ [CHR 0x12] @ ''2'' @ [CHR 0x0A],
     [CHR 0x07] @ ''content'' @ [CHR 0x18, CHR 0x0A],
     '' '' @ [CHR 0x01] @ ''('' @ [CHR 0x0B] @ ''2'' @ [CHR 0x18] @ ''.notification.v1.ContentR'' @
        [CHR 0x07] @ ''content'' @ [CHR 0x12] @ ''='' @ [CHR 0x0A],
     [CHR 0x08] @ ''pushover'' @ [CHR 0x18] @ ''d '' @ [CHR 0x01] @ ''('' @ [CHR 0x0B] @ ''2'' @
        [CHR 0x1F] @ ''.notification.v1.PushoverTargetH'' @ [CHR 0x00] @ ''R'' @ [CHR 0x08] @
        ''pushoverB'' @ [CHR 0x08, CHR 0x0A],
     [CHR 0x06] @ ''target'' @ [CHR 0x22, CHR 0xC0, CHR 0x01, CHR 0x0A],
     [CHR 0x07] @ ''Content'' @ [CHR 0x12, CHR 0x14, CHR 0x0A],
     [CHR 0x05] @ ''title'' @ [CHR 0x18, CHR 0x01] @ '' '' @ [CHR 0x01] @ ''('' @ [CHR 0x09] @
        ''R'' @ [CHR 0x05] @ ''title'' @ [CHR 0x12, CHR 0x12, CHR 0x0A],
     [CHR 0x04] @ ''body'' @ [CHR 0x18, CHR 0x02] @ '' '' @ [CHR 0x01] @ ''('' @ [CHR 0x09] @ ''R'' @
        [CHR 0x04] @ ''body'' @ [CHR 0x12, CHR 0x1A, CHR 0x0A],
     [CHR 0x08] @ ''priority'' @ [CHR 0x18, CHR 0x03] @ '' '' @ [CHR 0x01] @ ''('' @ [CHR 0x05] @
        ''R'' @ [CHR 0x08] @ ''priority'' @ [CHR 0x12] @ ''6'' @ [CHR 0x0A],
     [CHR 0x04] @ ''data'' @ [CHR 0x18, CHR 0x04] @ '' '' @ [CHR 0x03] @ ''('' @ [CHR 0x0B] @ ''2'' @
        [CHR 0x22] @ ''.notification.v1.Content.DataEntryR'' @ [CHR 0x04] @ ''data'' @ [CHR 0x1A] @
        ''7'' @ [CHR 0x0A],
     [CHR 0x09] @ ''DataEntry'' @ [CHR 0x12, CHR 0x10, CHR 0x0A],
     [CHR 0x03] @ ''key'' @ [CHR 0x18, CHR 0x01] @ '' '' @ [CHR 0x01] @ ''('' @ [CHR 0x09] @ ''R'' @
        [CHR 0x03] @ ''key'' @ [CHR 0x12, CHR 0x14, CHR 0x0A],
     [CHR 0x05] @ ''value'' @ [CHR 0x18, CHR 0x02] @ '' '' @ [CHR 0x01] @ ''('' @ [CHR 0x09] @
        ''R'' @ [CHR 0x05] @ ''value:'' @ [CHR 0x02] @ ''8'' @
        [CHR 0x01, CHR 0x22, CHR 0xA1, CHR 0x01, CHR 0x0A],
     [CHR 0x0E] @ ''PushoverTarget'' @ [CHR 0x12] @ '')'' @ [CHR 0x0A],
     [CHR 0x11] @ ''user_or_group_key'' @ [CHR 0x18, CHR 0x01] @ '' '' @ [CHR 0x01] @ ''('' @
        [CHR 0x09] @ ''R'' @ [CHR 0x0E] @ ''userOrGroupKey'' @ [CHR 0x12, CHR 0x1F, CHR 0x0A],
     [CHR 0x0B] @ ''device_name'' @ [CHR 0x18, CHR 0x02] @ '' '' @ [CHR 0x01] @ ''('' @ [CHR 0x09] @
        ''R'' @ [CHR 0x0A],
     ''deviceName'' @ [CHR 0x12, CHR 0x14, CHR 0x0A],
     [CHR 0x05] @ ''sound'' @ [CHR 0x18, CHR 0x03] @ '' '' @ [CHR 0x01] @ ''('' @ [CHR 0x09] @
        ''R'' @ [CHR 0x05] @ ''sound'' @ [CHR 0x12, CHR 0x10, CHR 0x0A],
     [CHR 0x03] @ ''url'' @ [CHR 0x18, CHR 0x04] @ '' '' @ [CHR 0x01] @ ''('' @ [CHR 0x09] @ ''R'' @
        [CHR 0x03] @ ''url'' @ [CHR 0x12, CHR 0x1B, CHR 0x0A],
     [CHR 0x09] @ ''url_title'' @ [CHR 0x18, CHR 0x05] @ '' '' @ [CHR 0x01] @ ''('' @ [CHR 0x09] @
        ''R'' @ [CHR 0x08] @
        ''urlTitleB_Z]github.com/michaelpeterswa/pulsar-notifcation-pipeline/pkg/notificationpb/v1;notificationpbv1b'' @ [CHR 0x06] @ ''proto3'']"

definition prev_rawDesc :: string where
  "prev_rawDesc = concat
    [[CHR 0x0A],
     ''-proto/notification/v1/prev/notification.proto'' @ [CHR 0x12, CHR 0x13] @
        ''notification.v1prev'' @ [CHR 0x1A, CHR 0x1F] @ ''google/protobuf/timestamp.proto'' @
        [CHR 0x22, CHR 0x8C, CHR 0x03, CHR 0x0A],
     [CHR 0x0C] @ ''Notification'' @ [CHR 0x12, CHR 0x27, CHR 0x0A],
     [CHR 0x0F] @ ''notification_id'' @ [CHR 0x18, CHR 0x01] @ '' '' @ [CHR 0x01] @ ''('' @
        [CHR 0x09] @ ''R'' @ [CHR 0x0E] @ ''notificationId'' @ [CHR 0x12] @ ''9'' @ [CHR 0x0A],
     [CHR 0x0A],
     ''created_at'' @ [CHR 0x18, CHR 0x02] @ '' '' @ [CHR 0x01] @ ''('' @ [CHR 0x0B] @ ''2'' @
        [CHR 0x1A] @ ''.google.protobuf.TimestampR'' @ [CHR 0x09] @ ''createdAt'' @ [CHR 0x12] @
        ''9'' @ [CHR 0x0A],
     [CHR 0x0A],
     ''expires_at'' @ [CHR 0x18, CHR 0x03] @ '' '' @ [CHR 0x01] @ ''('' @ [CHR 0x0B] @ ''2'' @
        [CHR 0x1A] @ ''.google.protobuf.TimestampR'' @ [CHR 0x09] @ ''expiresAt'' @ [CHR 0x12] @
        ''/'' @ [CHR 0x0A],
     [CHR 0x13] @ ''originating_service'' @ [CHR 0x18, CHR 0x04] @ '' '' @ [CHR 0x01] @ ''('' @
        [CHR 0x09] @ ''R'' @ [CHR 0x12] @ ''originatingService'' @ [CHR 0x12, CHR 0x27, CHR 0x0A],
     [CHR 0x0F] @ ''idempotency_key'' @ [CHR 0x18, CHR 0x05] @ '' '' @ [CHR 0x01] @ ''('' @
        [CHR 0x09] @ ''R'' @ [CHR 0x0E] @ ''idempotencyKey'' @ [CHR 0x12] @ ''6'' @ [CHR 0x0A],
     [CHR 0x07] @ ''content'' @ [CHR 0x18, CHR 0x0A],
     '' '' @ [CHR 0x01] @ ''('' @ [CHR 0x0B] @ ''2'' @ [CHR 0x1C] @
        ''.notification.v1prev.ContentR'' @ [CHR 0x07] @ ''content'' @ [CHR 0x12] @ ''A'' @ [CHR 0x0A],
     [CHR 0x08] @ ''pushover'' @ [CHR 0x18] @ ''d '' @ [CHR 0x01] @ ''('' @ [CHR 0x0B] @
        ''2#.notification.v1prev.PushoverTargetH'' @ [CHR 0x00] @ ''R'' @ [CHR 0x08] @
        ''pushoverB'' @ [CHR 0x08, CHR 0x0A],
     [CHR 0x06] @ ''target'' @ [CHR 0x22, CHR 0xC4, CHR 0x01, CHR 0x0A],
     [CHR 0x07] @ ''Content'' @ [CHR 0x12, CHR 0x14, CHR 0x0A],
     [CHR 0x05] @ ''title'' @ [CHR 0x18, CHR 0x01] @ '' '' @ [CHR 0x01] @ ''('' @ [CHR 0x09] @
        ''R'' @ [CHR 0x05] @ ''title'' @ [CHR 0x12, CHR 0x12, CHR 0x0A],
     [CHR 0x04] @ ''body'' @ [CHR 0x18, CHR 0x02] @ '' '' @ [CHR 0x01] @ ''('' @ [CHR 0x09] @ ''R'' @
        [CHR 0x04] @ ''body'' @ [CHR 0x12, CHR 0x1A, CHR 0x0A],
     [CHR 0x08] @ ''priority'' @ [CHR 0x18, CHR 0x03] @ '' '' @ [CHR 0x01] @ ''('' @ [CHR 0x05] @
        ''R'' @ [CHR 0x08] @ ''priority'' @ [CHR 0x12] @ '':'' @ [CHR 0x0A],
     [CHR 0x04] @ ''data'' @ [CHR 0x18, CHR 0x04] @ '' '' @ [CHR 0x03] @ ''('' @ [CHR 0x0B] @
        ''2&.notification.v1prev.Content.DataEntryR'' @ [CHR 0x04] @ ''data'' @ [CHR 0x1A] @ ''7'' @
        [CHR 0x0A],
     [CHR 0x09] @ ''DataEntry'' @ [CHR 0x12, CHR 0x10, CHR 0x0A],
     [CHR 0x03] @ ''key'' @ [CHR 0x18, CHR 0x01] @ '' '' @ [CHR 0x01] @ ''('' @ [CHR 0x09] @ ''R'' @
        [CHR 0x03] @ ''key'' @ [CHR 0x12, CHR 0x14, CHR 0x0A],
     [CHR 0x05] @ ''value'' @ [CHR 0x18, CHR 0x02] @ '' '' @ [CHR 0x01] @ ''('' @ [CHR 0x09] @
        ''R'' @ [CHR 0x05] @ ''value:'' @ [CHR 0x02] @ ''8'' @
        [CHR 0x01, CHR 0x22, CHR 0xA1, CHR 0x01, CHR 0x0A],
     [CHR 0x0E] @ ''PushoverTarget'' @ [CHR 0x12] @ '')'' @ [CHR 0x0A],
     [CHR 0x11] @ ''user_or_group_key'' @ [CHR 0x18, CHR 0x01] @ '' '' @ [CHR 0x01] @ ''('' @
        [CHR 0x09] @ ''R'' @ [CHR 0x0E] @ ''userOrGroupKey'' @ [CHR 0x12, CHR 0x1F, CHR 0x0A],
     [CHR 0x0B] @ ''device_name'' @ [CHR 0x18, CHR 0x02] @ '' '' @ [CHR 0x01] @ ''('' @ [CHR 0x09] @
        ''R'' @ [CHR 0x0A],
     ''deviceName'' @ [CHR 0x12, CHR 0x14, CHR 0x0A],
     [CHR 0x05] @ ''sound'' @ [CHR 0x18, CHR 0x03] @ '' '' @ [CHR 0x01] @ ''('' @ [CHR 0x09] @
        ''R'' @ [CHR 0x05] @ ''sound'' @ [CHR 0x12, CHR 0x10, CHR 0x0A],
     [CHR 0x03] @ ''url'' @ [CHR 0x18, CHR 0x04] @ '' '' @ [CHR 0x01] @ ''('' @ [CHR 0x09] @ ''R'' @
        [CHR 0x03] @ ''url'' @ [CHR 0x12, CHR 0x1B, CHR 0x0A],
     [CHR 0x09] @ ''url_title'' @ [CHR 0x18, CHR 0x05] @ '' '' @ [CHR 0x01] @ ''('' @ [CHR 0x09] @
        ''R'' @ [CHR 0x08] @
        ''urlTitleBhZfgithub.com/michaelpeterswa/pulsar-notifcation-pipeline/pkg/notificationpb/v1/prev;notificationpbv1prevb'' @ [CHR 0x06] @ ''proto3'']"

text \<open>
  \<open>goTypes\<close> has the Go type of each message, nil for the entry of a map, and then the types of other
  files; \<open>depIdxs\<close> the index of the type of each message field, and the bounds of sub-lists that are
  empty here.
\<close>

definition goTypes :: "string option list" where
  "goTypes = [Some ''Notification'', Some ''Content'', Some ''PushoverTarget'', None,
     Some ''timestamppb.Timestamp'']"

definition depIdxs :: "nat list" where
  "depIdxs = [4, 4, 1, 2, 3, 5, 5, 5, 5, 0]"

definition prev_goTypes :: "string option list" where
  "prev_goTypes = [Some ''Notification'', Some ''Content'', Some ''PushoverTarget'', None,
     Some ''timestamppb.Timestamp'']"

definition prev_depIdxs :: "nat list" where
  "prev_depIdxs = [4, 4, 1, 2, 3, 5, 5, 5, 5, 0]"

subsection \<open>Tags and descriptor agree\<close>

text \<open>
  A tag is a comma-separated list: the wire kind, the field number, \<open>opt\<close> or \<open>rep\<close>, and then keys. The
  JSON name is left out where it is the name of the field.
\<close>

definition tag_parts :: "string \<Rightarrow> string list" where
  "tag_parts t = split_on (CHR '','') t"

definition tag_key :: "string \<Rightarrow> string list \<Rightarrow> string option" where
  "tag_key k ps = map_option (drop (length k)) (List.find (\<lambda>p. take (length k) p = k) ps)"

definition tag_number :: "string \<Rightarrow> nat" where
  "tag_number t = (case tag_parts t of _ # n # _ \<Rightarrow> atoi_nat n | _ \<Rightarrow> 0)"

definition timestamp_name :: string where
  "timestamp_name = ''.google.protobuf.Timestamp''"

text \<open>The types of \<open>descriptor.proto\<close>: 9 is a string, 5 an int32, 11 a message.\<close>

fun type_of_go :: "string \<Rightarrow> string \<Rightarrow> go_type \<Rightarrow> nat \<times> string" where
  "type_of_go pkg entry GoString = (9, [])"
| "type_of_go pkg entry GoInt32 = (5, [])"
| "type_of_go pkg entry GoTimestamp = (11, timestamp_name)"
| "type_of_go pkg entry (GoMessage m) = (11, ''.'' @ pkg @ ''.'' @ m)"
| "type_of_go pkg entry GoStringMap = (11, entry)"

definition wire_kind :: "nat \<Rightarrow> string" where
  "wire_kind t = (if t = 5 then ''varint'' else ''bytes'')"

definition tag_describes :: "string \<Rightarrow> nat \<times> string \<Rightarrow> field_desc \<Rightarrow> bool" where
  "tag_describes tag tt fd \<longleftrightarrow>
     (case tag_parts tag of
        kind # number # label # ps \<Rightarrow>
          kind = wire_kind (fd_type fd) \<and> atoi_nat number = fd_number fd
          \<and> fd_label fd = (if label = ''rep'' then 3 else 1)
          \<and> tag_key ''name='' ps = Some (fd_name fd)
          \<and> (case tag_key ''json='' ps of
               None \<Rightarrow> fd_json_name fd = fd_name fd
             | Some j \<Rightarrow> fd_json_name fd = j)
          \<and> (''oneof'' \<in> set ps \<longleftrightarrow> fd_oneof_index fd \<noteq> None)
          \<and> (fd_type fd, fd_type_name fd) = tt
      | _ \<Rightarrow> False)"

text \<open>A map field is described by its own tag and by the two fields of a nested message.\<close>

definition entry_describes :: "struct_field \<Rightarrow> message_desc \<Rightarrow> bool" where
  "entry_describes sf m \<longleftrightarrow>
     md_map_entry m \<and>
     (case md_fields m of
        [k, v] \<Rightarrow> tag_describes (sf_key sf) (9, []) k \<and> tag_describes (sf_val sf) (9, []) v
      | _ \<Rightarrow> False)"

definition field_describes :: "string \<Rightarrow> message_desc \<Rightarrow> struct_field \<Rightarrow> field_desc \<Rightarrow> bool" where
  "field_describes pkg m sf fd \<longleftrightarrow>
     (let entry = sf_name sf @ ''Entry'' in
      tag_describes (sf_tag sf)
        (type_of_go pkg (''.'' @ pkg @ ''.'' @ md_name m @ ''.'' @ entry) (sf_type sf)) fd
      \<and> (sf_type sf = GoStringMap \<longrightarrow>
           list_ex (\<lambda>n. md_name n = entry \<and> entry_describes sf n) (md_nested m)))"

definition message_describes :: "string \<Rightarrow> string \<times> struct_field list \<Rightarrow> message_desc \<Rightarrow> bool" where
  "message_describes pkg st m \<longleftrightarrow>
     md_name m = fst st \<and> list_all2 (field_describes pkg m) (snd st) (md_fields m)"

text \<open>
  The table of types is for the messages of the file with the nested ones last. Every message field
  has an entry in \<open>depIdxs\<close>, in the order of the descriptor.
\<close>

definition flat_messages :: "file_desc \<Rightarrow> (string \<times> message_desc) list" where
  "flat_messages f =
     map (\<lambda>m. (md_name m, m)) (fl_messages f)
     @ concat (map (\<lambda>m. map (\<lambda>n. (md_name m @ ''.'' @ md_name n, n)) (md_nested m)) (fl_messages f))"

definition type_full_name :: "file_desc \<Rightarrow> string option list \<Rightarrow> nat \<Rightarrow> string option" where
  "type_full_name f gt i =
     (if i < length (flat_messages f)
      then (let (q, m) = flat_messages f ! i in
            if gt ! i = (if md_map_entry m then None else Some q)
            then Some (''.'' @ fl_package f @ ''.'' @ q) else None)
      else if i < length gt \<and> gt ! i = Some ''timestamppb.Timestamp'' then Some timestamp_name
      else None)"

definition message_fields :: "file_desc \<Rightarrow> field_desc list" where
  "message_fields f =
     filter (\<lambda>fd. fd_type fd = 11) (concat (map (md_fields \<circ> snd) (flat_messages f)))"

definition file_describes ::
  "(string \<times> struct_field list) list \<Rightarrow> string option list \<Rightarrow> nat list \<Rightarrow> string \<Rightarrow> bool" where
  "file_describes structs gt deps raw \<longleftrightarrow>
     (case file_desc_of raw of
        None \<Rightarrow> False
      | Some f \<Rightarrow>
          fl_syntax f = ''proto3''
          \<and> list_all2 (message_describes (fl_package f)) structs (fl_messages f)
          \<and> map (\<lambda>i. type_full_name f gt i) (take (length (message_fields f)) deps)
              = map (Some \<circ> fd_type_name) (message_fields f)
          \<and> (let k = length (message_fields f) in drop k deps = [k, k, k, k, 0]))"

definition structs :: "(string \<times> struct_field list) list" where
  "structs =
     [(''Notification'', Notification_tags @ Notification_Pushover_tags), (''Content'', Content_tags),
      (''PushoverTarget'', PushoverTarget_tags)]"

definition prev_structs :: "(string \<times> struct_field list) list" where
  "prev_structs =
     [(''Notification'', prev_Notification_tags @ prev_Notification_Pushover_tags),
      (''Content'', prev_Content_tags), (''PushoverTarget'', prev_PushoverTarget_tags)]"

subsection \<open>The two files\<close>

text \<open>
  Both descriptors decode to one schema: as a function of the path, the package and the Go package
  it is the same.
\<close>

definition string_field :: "string \<Rightarrow> nat \<Rightarrow> string \<Rightarrow> field_desc" where
  "string_field name k json =
     \<lparr>fd_name = name, fd_number = k, fd_label = 1, fd_type = 9, fd_type_name = [], fd_json_name = json,
      fd_oneof_index = None\<rparr>"

definition message_field :: "string \<Rightarrow> nat \<Rightarrow> string \<Rightarrow> string \<Rightarrow> field_desc" where
  "message_field name k t json =
     \<lparr>fd_name = name, fd_number = k, fd_label = 1, fd_type = 11, fd_type_name = t, fd_json_name = json,
      fd_oneof_index = None\<rparr>"

definition schema_file :: "string \<Rightarrow> string \<Rightarrow> string \<Rightarrow> file_desc" where
  "schema_file path pkg go =
     \<lparr>fl_name = path, fl_package = pkg, fl_dependencies = [''google/protobuf/timestamp.proto''],
      fl_messages =
        [MessageDesc ''Notification''
           [string_field ''notification_id'' 1 ''notificationId'',
            message_field ''created_at'' 2 timestamp_name ''createdAt'',
            message_field ''expires_at'' 3 timestamp_name ''expiresAt'',
            string_field ''originating_service'' 4 ''originatingService'',
            string_field ''idempotency_key'' 5 ''idempotencyKey'',
            message_field ''content'' 10 (''.'' @ pkg @ ''.Content'') ''content'',
            (message_field ''pushover'' 100 (''.'' @ pkg @ ''.PushoverTarget'') ''pushover'')
              \<lparr>fd_oneof_index := Some 0\<rparr>]
           [] [''target''] False,
         MessageDesc ''Content''
           [string_field ''title'' 1 ''title'', string_field ''body'' 2 ''body'',
            (string_field ''priority'' 3 ''priority'')\<lparr>fd_type := 5\<rparr>,
            (message_field ''data'' 4 (''.'' @ pkg @ ''.Content.DataEntry'') ''data'')\<lparr>fd_label := 3\<rparr>]
           [MessageDesc ''DataEntry'' [string_field ''key'' 1 ''key'', string_field ''value'' 2 ''value'']
              [] [] True]
           [] False,
         MessageDesc ''PushoverTarget''
           [string_field ''user_or_group_key'' 1 ''userOrGroupKey'',
            string_field ''device_name'' 2 ''deviceName'', string_field ''sound'' 3 ''sound'',
            string_field ''url'' 4 ''url'', string_field ''url_title'' 5 ''urlTitle'']
           [] [] False],
      fl_go_package = go, fl_syntax = ''proto3''\<rparr>"

text \<open>The recursion of the readers on numerals, for evaluation.\<close>

lemma read_varint_numeral:
  "read_varint (numeral k) [] = None"
  "read_varint (numeral k) (b # bs) =
     (let v = of_char b :: nat
      in if v < 128 then Some (v, bs)
         else (case read_varint (pred_numeral k) bs of
                 None \<Rightarrow> None
               | Some (w, r) \<Rightarrow> Some (v - 128 + 128 * w, r)))"
  by (simp_all add: numeral_eq_Suc)

lemmas descriptor_eval =
  file_desc_of_def field_desc_of_def bytes_of_def text_of_def number_of_def default_zero_def
  map_filter_simps read_field_def varint_max_def read_varint_numeral

lemmas schema_eval = schema_file_def string_field_def message_field_def timestamp_name_def

lemma rawDesc_file:
  "file_desc_of rawDesc =
     Some (schema_file ''proto/notification/v1/notification.proto'' ''notification.v1''
       ''github.com/michaelpeterswa/pulsar-notifcation-pipeline/pkg/notificationpb/v1;notificationpbv1'')"
  by (simp add: rawDesc_def descriptor_eval schema_eval)

lemma prev_rawDesc_file:
  "file_desc_of prev_rawDesc =
     Some (schema_file ''proto/notification/v1/prev/notification.proto'' ''notification.v1prev''
       ''github.com/michaelpeterswa/pulsar-notifcation-pipeline/pkg/notificationpb/v1/prev;notificationpbv1prev'')"
  by (simp add: prev_rawDesc_def descriptor_eval schema_eval)

end
