(* ===== verification/Prev_Messages.thy ===== *)
theory Prev_Messages
  imports Messages
begin

text \<open>
  The messages of the previous generation (\<open>pkg/notificationpb/v1/prev/notification.pb.go\<close>), a frozen
  copy that stands for the processes of an older release: the structs as records, the getters, and
  \<open>Reset\<close>. The names carry \<open>prev\<close>, as the package does.
\<close>

record prev_content =
  pc_title :: string
  pc_body :: string
  pc_priority :: int32
  pc_data :: "(string \<times> string) list"

record prev_pushover_target =
  pp_user_or_group_key :: string
  pp_device_name :: string
  pp_sound :: string
  pp_url :: string
  pp_url_title :: string

datatype prev_target = Prev_Notification_Pushover "prev_pushover_target option"

record 'ts prev_notification =
  pn_notification_id :: string
  pn_created_at :: "'ts option"
  pn_expires_at :: "'ts option"
  pn_originating_service :: string
  pn_idempotency_key :: string
  pn_content :: "prev_content option"
  pn_target :: "prev_target option"

text \<open>The zero value of each struct, to which \<open>Reset\<close> sets it.\<close>

definition prev_empty_content :: prev_content where
  "prev_empty_content = \<lparr>pc_title = [], pc_body = [], pc_priority = 0, pc_data = []\<rparr>"

definition prev_empty_pushover :: prev_pushover_target where
  "prev_empty_pushover = \<lparr>pp_user_or_group_key = [], pp_device_name = [], pp_sound = [], pp_url = [],
     pp_url_title = []\<rparr>"

definition prev_empty_notification :: "'ts prev_notification" where
  "prev_empty_notification = \<lparr>pn_notification_id = [], pn_created_at = None, pn_expires_at = None,
     pn_originating_service = [], pn_idempotency_key = [], pn_content = None, pn_target = None\<rparr>"

subsection \<open>Getters\<close>

definition prev_GetNotificationId :: "'ts prev_notification option \<Rightarrow> string" where
  "prev_GetNotificationId x = (case x of None \<Rightarrow> [] | Some n \<Rightarrow> pn_notification_id n)"

definition prev_GetCreatedAt :: "'ts prev_notification option \<Rightarrow> 'ts option" where
  "prev_GetCreatedAt x = (case x of None \<Rightarrow> None | Some n \<Rightarrow> pn_created_at n)"

definition prev_GetExpiresAt :: "'ts prev_notification option \<Rightarrow> 'ts option" where
  "prev_GetExpiresAt x = (case x of None \<Rightarrow> None | Some n \<Rightarrow> pn_expires_at n)"

definition prev_GetOriginatingService :: "'ts prev_notification option \<Rightarrow> string" where
  "prev_GetOriginatingService x = (case x of None \<Rightarrow> [] | Some n \<Rightarrow> pn_originating_service n)"

definition prev_GetIdempotencyKey :: "'ts prev_notification option \<Rightarrow> string" where
  "prev_GetIdempotencyKey x = (case x of None \<Rightarrow> [] | Some n \<Rightarrow> pn_idempotency_key n)"

definition prev_GetContent :: "'ts prev_notification option \<Rightarrow> prev_content option" where
  "prev_GetContent x = (case x of None \<Rightarrow> None | Some n \<Rightarrow> pn_content n)"

definition prev_GetTarget :: "'ts prev_notification option \<Rightarrow> prev_target option" where
  "prev_GetTarget x = (case x of None \<Rightarrow> None | Some n \<Rightarrow> pn_target n)"

definition prev_GetPushover :: "'ts prev_notification option \<Rightarrow> prev_pushover_target option" where
  "prev_GetPushover x =
     (case x of
        None \<Rightarrow> None
      | Some n \<Rightarrow> (case pn_target n of Some (Prev_Notification_Pushover p) \<Rightarrow> p | None \<Rightarrow> None))"

definition prev_GetTitle :: "prev_content option \<Rightarrow> string" where
  "prev_GetTitle x = (case x of None \<Rightarrow> [] | Some c \<Rightarrow> pc_title c)"

definition prev_GetBody :: "prev_content option \<Rightarrow> string" where
  "prev_GetBody x = (case x of None \<Rightarrow> [] | Some c \<Rightarrow> pc_body c)"

definition prev_GetPriority :: "prev_content option \<Rightarrow> int32" where
  "prev_GetPriority x = (case x of None \<Rightarrow> 0 | Some c \<Rightarrow> pc_priority c)"

definition prev_GetData :: "prev_content option \<Rightarrow> (string \<times> string) list" where
  "prev_GetData x = (case x of None \<Rightarrow> [] | Some c \<Rightarrow> pc_data c)"

definition prev_GetUserOrGroupKey :: "prev_pushover_target option \<Rightarrow> string" where
  "prev_GetUserOrGroupKey x = (case x of None \<Rightarrow> [] | Some t \<Rightarrow> pp_user_or_group_key t)"

definition prev_GetDeviceName :: "prev_pushover_target option \<Rightarrow> string" where
  "prev_GetDeviceName x = (case x of None \<Rightarrow> [] | Some t \<Rightarrow> pp_device_name t)"

definition prev_GetSound :: "prev_pushover_target option \<Rightarrow> string" where
  "prev_GetSound x = (case x of None \<Rightarrow> [] | Some t \<Rightarrow> pp_sound t)"

definition prev_GetUrl :: "prev_pushover_target option \<Rightarrow> string" where
  "prev_GetUrl x = (case x of None \<Rightarrow> [] | Some t \<Rightarrow> pp_url t)"

definition prev_GetUrlTitle :: "prev_pushover_target option \<Rightarrow> string" where
  "prev_GetUrlTitle x = (case x of None \<Rightarrow> [] | Some t \<Rightarrow> pp_url_title t)"

lemmas prev_getter_defs [go_defs] =
  prev_GetNotificationId_def prev_GetCreatedAt_def prev_GetExpiresAt_def
  prev_GetOriginatingService_def prev_GetIdempotencyKey_def prev_GetContent_def
  prev_GetTarget_def prev_GetPushover_def prev_GetTitle_def prev_GetBody_def prev_GetPriority_def
  prev_GetData_def prev_GetUserOrGroupKey_def prev_GetDeviceName_def prev_GetSound_def
  prev_GetUrl_def prev_GetUrlTitle_def

lemma prev_getter_Some [simp]:
  "prev_GetNotificationId (Some n) = pn_notification_id n"
  "prev_GetCreatedAt (Some n) = pn_created_at n"
  "prev_GetExpiresAt (Some n) = pn_expires_at n"
  "prev_GetOriginatingService (Some n) = pn_originating_service n"
  "prev_GetIdempotencyKey (Some n) = pn_idempotency_key n"
  "prev_GetContent (Some n) = pn_content n"
  "prev_GetTarget (Some n) = pn_target n"
  "prev_GetTitle (Some c) = pc_title c"
  "prev_GetBody (Some c) = pc_body c"
  "prev_GetPriority (Some c) = pc_priority c"
  "prev_GetData (Some c) = pc_data c"
  "prev_GetUserOrGroupKey (Some t) = pp_user_or_group_key t"
  "prev_GetDeviceName (Some t) = pp_device_name t"
  "prev_GetSound (Some t) = pp_sound t"
  "prev_GetUrl (Some t) = pp_url t"
  "prev_GetUrlTitle (Some t) = pp_url_title t"
  by (simp_all add: go_defs)

end
