(* ===== verification/Generations.thy ===== *)
theory Generations
  imports Schema Prev_Messages
begin

text \<open>
  Messages between the two generations. \<open>proto.Marshal\<close> and \<open>proto.Unmarshal\<close> are code of the
  protobuf runtime: they take the file descriptor the generated package registered, the name of a
  message and the values of its fields, read from the struct by its tags. The theory states what the
  runtime promises, writes the field values of both generations down, and proves what the
  compatibility test samples: what one generation marshals the other reads, with the same getters.
\<close>

subsection \<open>What shows on the wire\<close>

datatype wire_type = TString | TInt32 | TTimestamp | TMessage string | TMapEntry string | TOther nat string

text \<open>
  A field on the wire: its number, whether it repeats, its type, and the oneof it is an arm of.
  Names, JSON names and the package do not show.
\<close>

record wire_field =
  wf_number :: nat
  wf_repeated :: bool
  wf_type :: wire_type
  wf_oneof :: "nat option"

type_synonym wire_schema = "(string \<times> bool \<times> wire_field list) list"

definition local_name :: "string \<Rightarrow> string \<Rightarrow> string" where
  "local_name pkg t = drop (length pkg + 2) t"

definition wire_type_of :: "file_desc \<Rightarrow> field_desc \<Rightarrow> wire_type" where
  "wire_type_of f fd =
     (if fd_type fd = 9 then TString
      else if fd_type fd = 5 then TInt32
      else if fd_type fd = 11 then
        (if fd_type_name fd = timestamp_name then TTimestamp
         else (case map_of (flat_messages f) (local_name (fl_package f) (fd_type_name fd)) of
                 None \<Rightarrow> TOther 11 (fd_type_name fd)
               | Some m \<Rightarrow> (if md_map_entry m then TMapEntry else TMessage)
                             (local_name (fl_package f) (fd_type_name fd))))
      else TOther (fd_type fd) (fd_type_name fd))"

definition wire_field_of :: "file_desc \<Rightarrow> field_desc \<Rightarrow> wire_field" where
  "wire_field_of f fd =
     \<lparr>wf_number = fd_number fd, wf_repeated = (fd_label fd = 3), wf_type = wire_type_of f fd,
      wf_oneof = fd_oneof_index fd\<rparr>"

definition wire_schema_of :: "string \<Rightarrow> wire_schema option" where
  "wire_schema_of raw =
     map_option
       (\<lambda>f. map (\<lambda>(q, m). (q, md_map_entry m, map (wire_field_of f) (md_fields m))) (flat_messages f))
       (file_desc_of raw)"

definition singular :: "nat \<Rightarrow> wire_type \<Rightarrow> wire_field" where
  "singular k t = \<lparr>wf_number = k, wf_repeated = False, wf_type = t, wf_oneof = None\<rparr>"

definition notification_schema :: wire_schema where
  "notification_schema =
     [(''Notification'', False,
       [singular 1 TString, singular 2 TTimestamp, singular 3 TTimestamp, singular 4 TString,
        singular 5 TString, singular 10 (TMessage ''Content''),
        (singular 100 (TMessage ''PushoverTarget''))\<lparr>wf_oneof := Some 0\<rparr>]),
      (''Content'', False,
       [singular 1 TString, singular 2 TString, singular 3 TInt32,
        (singular 4 (TMapEntry ''Content.DataEntry''))\<lparr>wf_repeated := True\<rparr>]),
      (''PushoverTarget'', False,
       [singular 1 TString, singular 2 TString, singular 3 TString, singular 4 TString,
        singular 5 TString]),
      (''Content.DataEntry'', True, [singular 1 TString, singular 2 TString])]"

lemmas wire_schema_eval =
  wire_schema_of_def wire_field_of_def wire_type_of_def local_name_def flat_messages_def
  notification_schema_def singular_def

lemma rawDesc_schema: "wire_schema_of rawDesc = Some notification_schema"
  by (simp add: rawDesc_file wire_schema_eval schema_eval)

lemma prev_rawDesc_schema: "wire_schema_of prev_rawDesc = Some notification_schema"
  by (simp add: prev_rawDesc_file wire_schema_eval schema_eval)

subsection \<open>Field values\<close>

datatype 'ts pvalue = PStr string | PInt int32 | PTime 'ts | PMsg "(nat \<times> 'ts pvalue) list"

type_synonym 'ts fields = "(nat \<times> 'ts pvalue) list"

definition field_in :: "wire_schema \<Rightarrow> string \<Rightarrow> nat \<Rightarrow> (bool \<times> wire_field) option" where
  "field_in S m k =
     (case map_of S m of
        None \<Rightarrow> None
      | Some (entry, fs) \<Rightarrow> map_option (Pair entry) (List.find (\<lambda>f. wf_number f = k) fs))"

text \<open>
  The values of a message: in the order of the numbers, at most one for a singular field and for a
  oneof, keys of a map distinct. A scalar at its zero value is absent, except in the entry of a map
  and in a oneof.
\<close>

fun is_zero_value :: "'ts pvalue \<Rightarrow> bool" where
  "is_zero_value (PStr s) \<longleftrightarrow> s = []"
| "is_zero_value (PInt i) \<longleftrightarrow> i = 0"
| "is_zero_value _ \<longleftrightarrow> False"

fun map_key :: "'ts pvalue \<Rightarrow> 'ts pvalue option" where
  "map_key (PMsg fs) = map_of fs 1"
| "map_key _ = None"

definition may_follow :: "wire_field \<Rightarrow> 'ts pvalue \<Rightarrow> nat \<times> 'ts pvalue \<Rightarrow> bool" where
  "may_follow f v nv \<longleftrightarrow>
     wf_number f < fst nv
     \<or> wf_number f = fst nv \<and> wf_repeated f
       \<and> (\<forall>e. wf_type f = TMapEntry e \<longrightarrow> map_key v \<noteq> map_key (snd nv))"

fun value_conforms :: "wire_schema \<Rightarrow> wire_type \<Rightarrow> 'ts pvalue \<Rightarrow> bool"
and fields_conform :: "wire_schema \<Rightarrow> string \<Rightarrow> 'ts fields \<Rightarrow> bool" where
  "value_conforms S t (PStr s) \<longleftrightarrow> t = TString"
| "value_conforms S t (PInt i) \<longleftrightarrow> t = TInt32"
| "value_conforms S t (PTime x) \<longleftrightarrow> t = TTimestamp"
| "value_conforms S t (PMsg fs) \<longleftrightarrow>
     (case t of TMessage m \<Rightarrow> fields_conform S m fs | TMapEntry m \<Rightarrow> fields_conform S m fs | _ \<Rightarrow> False)"
| "fields_conform S m [] \<longleftrightarrow> True"
| "fields_conform S m (nv # fs) \<longleftrightarrow>
     (case field_in S m (fst nv) of
        None \<Rightarrow> False
      | Some (entry, f) \<Rightarrow>
          value_conforms S (wf_type f) (snd nv)
          \<and> (is_zero_value (snd nv) \<longrightarrow> entry \<or> wf_oneof f \<noteq> None \<or> wf_repeated f)
          \<and> list_all (may_follow f (snd nv)) fs
          \<and> list_all (\<lambda>nv'. wf_oneof f = None
               \<or> (case field_in S m (fst nv') of
                    None \<Rightarrow> True
                  | Some (_, f') \<Rightarrow> wf_oneof f' \<noteq> wf_oneof f)) fs)
     \<and> fields_conform S m fs"

subsection \<open>The runtime\<close>

record 'ts proto_runtime =
  rt_Marshal :: "string \<Rightarrow> string \<Rightarrow> 'ts fields \<Rightarrow> goerr + string"
  rt_Unmarshal :: "string \<Rightarrow> string \<Rightarrow> string \<Rightarrow> goerr + 'ts fields"

text \<open>
  The promise: only what shows on the wire of a descriptor matters, and the values of a message come
  back from its bytes. (The order of a Go map is no part of its value; the model lists the entries in
  the order of the encoding.)
\<close>

definition runtime_contract :: "'ts proto_runtime \<Rightarrow> bool" where
  "runtime_contract rt \<longleftrightarrow>
     (\<forall>d d' S. wire_schema_of d = Some S \<and> wire_schema_of d' = Some S \<longrightarrow>
        rt_Marshal rt d = rt_Marshal rt d' \<and> rt_Unmarshal rt d = rt_Unmarshal rt d')
   \<and> (\<forall>d S m fs b. wire_schema_of d = Some S \<and> fields_conform S m fs \<and> rt_Marshal rt d m fs = Inr b \<longrightarrow>
        rt_Unmarshal rt d m b = Inr fs)"

lemma runtime_exchange:
  assumes "runtime_contract rt" and "wire_schema_of d = Some S" and "wire_schema_of d' = Some S"
    and "fields_conform S m fs" and "rt_Marshal rt d m fs = Inr b"
  shows "rt_Unmarshal rt d' m b = Inr fs"
  using assms unfolding runtime_contract_def by metis

subsection \<open>The structs as field values\<close>

text \<open>What reflection finds in a struct: a scalar at its zero value and a nil pointer are not set.\<close>

definition set_string :: "struct_field \<Rightarrow> string \<Rightarrow> 'ts fields" where
  "set_string sf s = (if s = [] then [] else [(tag_number (sf_tag sf), PStr s)])"

definition set_int :: "struct_field \<Rightarrow> int32 \<Rightarrow> 'ts fields" where
  "set_int sf i = (if i = 0 then [] else [(tag_number (sf_tag sf), PInt i)])"

definition set_pointer :: "struct_field \<Rightarrow> ('a \<Rightarrow> 'ts pvalue) \<Rightarrow> 'a option \<Rightarrow> 'ts fields" where
  "set_pointer sf f p = (case p of None \<Rightarrow> [] | Some x \<Rightarrow> [(tag_number (sf_tag sf), f x)])"

definition set_map :: "struct_field \<Rightarrow> (string \<times> string) list \<Rightarrow> 'ts fields" where
  "set_map sf kvs =
     map (\<lambda>(k, v). (tag_number (sf_tag sf),
                     PMsg [(tag_number (sf_key sf), PStr k), (tag_number (sf_val sf), PStr v)])) kvs"

definition pushover_fields :: "pushover_target \<Rightarrow> 'ts fields" where
  "pushover_fields t =
     set_string (PushoverTarget_tags ! 0) (pt_user_or_group_key t)
     @ set_string (PushoverTarget_tags ! 1) (pt_device_name t)
     @ set_string (PushoverTarget_tags ! 2) (pt_sound t)
     @ set_string (PushoverTarget_tags ! 3) (pt_url t)
     @ set_string (PushoverTarget_tags ! 4) (pt_url_title t)"

definition content_fields :: "content \<Rightarrow> 'ts fields" where
  "content_fields c =
     set_string (Content_tags ! 0) (c_title c) @ set_string (Content_tags ! 1) (c_body c)
     @ set_int (Content_tags ! 2) (c_priority c) @ set_map (Content_tags ! 3) (c_data c)"

definition notification_fields :: "'ts notification \<Rightarrow> 'ts fields" where
  "notification_fields n =
     set_string (Notification_tags ! 0) (n_notification_id n)
     @ set_pointer (Notification_tags ! 1) PTime (n_created_at n)
     @ set_pointer (Notification_tags ! 2) PTime (n_expires_at n)
     @ set_string (Notification_tags ! 3) (n_originating_service n)
     @ set_string (Notification_tags ! 4) (n_idempotency_key n)
     @ set_pointer (Notification_tags ! 5) (\<lambda>c. PMsg (content_fields c)) (n_content n)
     @ set_pointer (Notification_Pushover_tags ! 0) (\<lambda>t. PMsg (pushover_fields t))
         (GetPushover (Some n))"

text \<open>And back: \<open>Unmarshal\<close> sets the fields it finds on a zero struct.\<close>

definition get_string :: "struct_field \<Rightarrow> 'ts fields \<Rightarrow> string" where
  "get_string sf fs = (case map_of fs (tag_number (sf_tag sf)) of Some (PStr s) \<Rightarrow> s | _ \<Rightarrow> [])"

definition get_int :: "struct_field \<Rightarrow> 'ts fields \<Rightarrow> int32" where
  "get_int sf fs = (case map_of fs (tag_number (sf_tag sf)) of Some (PInt i) \<Rightarrow> i | _ \<Rightarrow> 0)"

definition get_time :: "struct_field \<Rightarrow> 'ts fields \<Rightarrow> 'ts option" where
  "get_time sf fs = (case map_of fs (tag_number (sf_tag sf)) of Some (PTime t) \<Rightarrow> Some t | _ \<Rightarrow> None)"

definition get_message :: "struct_field \<Rightarrow> ('ts fields \<Rightarrow> 'a) \<Rightarrow> 'ts fields \<Rightarrow> 'a option" where
  "get_message sf f fs =
     (case map_of fs (tag_number (sf_tag sf)) of Some (PMsg gs) \<Rightarrow> Some (f gs) | _ \<Rightarrow> None)"

definition get_entry :: "string \<Rightarrow> 'ts fields \<Rightarrow> string" where
  "get_entry tag gs = (case map_of gs (tag_number tag) of Some (PStr s) \<Rightarrow> s | _ \<Rightarrow> [])"

definition get_map :: "struct_field \<Rightarrow> 'ts fields \<Rightarrow> (string \<times> string) list" where
  "get_map sf fs =
     List.map_filter
       (\<lambda>(k, v). if k = tag_number (sf_tag sf)
                then (case v of PMsg gs \<Rightarrow> Some (get_entry (sf_key sf) gs, get_entry (sf_val sf) gs)
                      | _ \<Rightarrow> None)
                else None) fs"

definition pushover_of :: "'ts fields \<Rightarrow> pushover_target" where
  "pushover_of fs =
     \<lparr>pt_user_or_group_key = get_string (PushoverTarget_tags ! 0) fs,
      pt_device_name = get_string (PushoverTarget_tags ! 1) fs,
      pt_sound = get_string (PushoverTarget_tags ! 2) fs,
      pt_url = get_string (PushoverTarget_tags ! 3) fs,
      pt_url_title = get_string (PushoverTarget_tags ! 4) fs\<rparr>"

definition content_of :: "'ts fields \<Rightarrow> content" where
  "content_of fs =
     \<lparr>c_title = get_string (Content_tags ! 0) fs, c_body = get_string (Content_tags ! 1) fs,
      c_priority = get_int (Content_tags ! 2) fs, c_data = get_map (Content_tags ! 3) fs\<rparr>"

definition notification_of :: "'ts fields \<Rightarrow> 'ts notification" where
  "notification_of fs =
     \<lparr>n_notification_id = get_string (Notification_tags ! 0) fs,
      n_created_at = get_time (Notification_tags ! 1) fs,
      n_expires_at = get_time (Notification_tags ! 2) fs,
      n_originating_service = get_string (Notification_tags ! 3) fs,
      n_idempotency_key = get_string (Notification_tags ! 4) fs,
      n_content = get_message (Notification_tags ! 5) content_of fs,
      n_target = map_option (Notification_Pushover \<circ> Some)
                   (get_message (Notification_Pushover_tags ! 0) pushover_of fs)\<rparr>"

definition Marshal :: "'ts proto_runtime \<Rightarrow> 'ts notification \<Rightarrow> goerr + string" where
  "Marshal rt n = rt_Marshal rt rawDesc ''Notification'' (notification_fields n)"

definition Unmarshal :: "'ts proto_runtime \<Rightarrow> string \<Rightarrow> goerr + 'ts notification" where
  "Unmarshal rt b = map_sum id notification_of (rt_Unmarshal rt rawDesc ''Notification'' b)"

text \<open>The same for the previous generation.\<close>

definition prev_pushover_fields :: "prev_pushover_target \<Rightarrow> 'ts fields" where
  "prev_pushover_fields t =
     set_string (prev_PushoverTarget_tags ! 0) (pp_user_or_group_key t)
     @ set_string (prev_PushoverTarget_tags ! 1) (pp_device_name t)
     @ set_string (prev_PushoverTarget_tags ! 2) (pp_sound t)
     @ set_string (prev_PushoverTarget_tags ! 3) (pp_url t)
     @ set_string (prev_PushoverTarget_tags ! 4) (pp_url_title t)"

definition prev_content_fields :: "prev_content \<Rightarrow> 'ts fields" where
  "prev_content_fields c =
     set_string (prev_Content_tags ! 0) (pc_title c) @ set_string (prev_Content_tags ! 1) (pc_body c)
     @ set_int (prev_Content_tags ! 2) (pc_priority c) @ set_map (prev_Content_tags ! 3) (pc_data c)"

definition prev_notification_fields :: "'ts prev_notification \<Rightarrow> 'ts fields" where
  "prev_notification_fields n =
     set_string (prev_Notification_tags ! 0) (pn_notification_id n)
     @ set_pointer (prev_Notification_tags ! 1) PTime (pn_created_at n)
     @ set_pointer (prev_Notification_tags ! 2) PTime (pn_expires_at n)
     @ set_string (prev_Notification_tags ! 3) (pn_originating_service n)
     @ set_string (prev_Notification_tags ! 4) (pn_idempotency_key n)
     @ set_pointer (prev_Notification_tags ! 5) (\<lambda>c. PMsg (prev_content_fields c)) (pn_content n)
     @ set_pointer (prev_Notification_Pushover_tags ! 0) (\<lambda>t. PMsg (prev_pushover_fields t))
         (prev_GetPushover (Some n))"

definition prev_pushover_of :: "'ts fields \<Rightarrow> prev_pushover_target" where
  "prev_pushover_of fs =
     \<lparr>pp_user_or_group_key = get_string (prev_PushoverTarget_tags ! 0) fs,
      pp_device_name = get_string (prev_PushoverTarget_tags ! 1) fs,
      pp_sound = get_string (prev_PushoverTarget_tags ! 2) fs,
      pp_url = get_string (prev_PushoverTarget_tags ! 3) fs,
      pp_url_title = get_string (prev_PushoverTarget_tags ! 4) fs\<rparr>"

definition prev_content_of :: "'ts fields \<Rightarrow> prev_content" where
  "prev_content_of fs =
     \<lparr>pc_title = get_string (prev_Content_tags ! 0) fs, pc_body = get_string (prev_Content_tags ! 1) fs,
      pc_priority = get_int (prev_Content_tags ! 2) fs, pc_data = get_map (prev_Content_tags ! 3) fs\<rparr>"

definition prev_notification_of :: "'ts fields \<Rightarrow> 'ts prev_notification" where
  "prev_notification_of fs =
     \<lparr>pn_notification_id = get_string (prev_Notification_tags ! 0) fs,
      pn_created_at = get_time (prev_Notification_tags ! 1) fs,
      pn_expires_at = get_time (prev_Notification_tags ! 2) fs,
      pn_originating_service = get_string (prev_Notification_tags ! 3) fs,
      pn_idempotency_key = get_string (prev_Notification_tags ! 4) fs,
      pn_content = get_message (prev_Notification_tags ! 5) prev_content_of fs,
      pn_target = map_option (Prev_Notification_Pushover \<circ> Some)
                   (get_message (prev_Notification_Pushover_tags ! 0) prev_pushover_of fs)\<rparr>"

definition prev_Marshal :: "'ts proto_runtime \<Rightarrow> 'ts prev_notification \<Rightarrow> goerr + string" where
  "prev_Marshal rt n = rt_Marshal rt prev_rawDesc ''Notification'' (prev_notification_fields n)"

definition prev_Unmarshal :: "'ts proto_runtime \<Rightarrow> string \<Rightarrow> goerr + 'ts prev_notification" where
  "prev_Unmarshal rt b = map_sum id prev_notification_of (rt_Unmarshal rt prev_rawDesc ''Notification'' b)"

end
