(* ===== verification/Generations_Spec.thy ===== *)
theory Generations_Spec
  imports Generations
begin

text \<open>
  The field values of a message conform to the schema and determine the message, in both generations;
  what one marshals the other therefore reads, getter by getter.
\<close>

subsection \<open>Field numbers\<close>

lemmas tags_eval =
  Notification_tags_def Notification_Pushover_tags_def Content_tags_def PushoverTarget_tags_def
  prev_Notification_tags_def prev_Notification_Pushover_tags_def prev_Content_tags_def
  prev_PushoverTarget_tags_def field_def map_field_def tag_number_def tag_parts_def atoi_nat_def
  digit_val_def byte_def

lemma tag_numbers [simp]:
  "tag_number (sf_tag (Notification_tags ! 0)) = 1"
  "tag_number (sf_tag (Notification_tags ! Suc 0)) = 2"
  "tag_number (sf_tag (Notification_tags ! 2)) = 3"
  "tag_number (sf_tag (Notification_tags ! 3)) = 4"
  "tag_number (sf_tag (Notification_tags ! 4)) = 5"
  "tag_number (sf_tag (Notification_tags ! 5)) = 10"
  "tag_number (sf_tag (Notification_Pushover_tags ! 0)) = 100"
  "tag_number (sf_tag (Content_tags ! 0)) = 1"
  "tag_number (sf_tag (Content_tags ! Suc 0)) = 2"
  "tag_number (sf_tag (Content_tags ! 2)) = 3"
  "tag_number (sf_tag (Content_tags ! 3)) = 4"
  "tag_number (sf_tag (PushoverTarget_tags ! 0)) = 1"
  "tag_number (sf_tag (PushoverTarget_tags ! Suc 0)) = 2"
  "tag_number (sf_tag (PushoverTarget_tags ! 2)) = 3"
  "tag_number (sf_tag (PushoverTarget_tags ! 3)) = 4"
  "tag_number (sf_tag (PushoverTarget_tags ! 4)) = 5"
  "tag_number (sf_key (Content_tags ! 3)) = 1"
  "tag_number (sf_val (Content_tags ! 3)) = 2"
  "tag_number (sf_tag (prev_Notification_tags ! 0)) = 1"
  "tag_number (sf_tag (prev_Notification_tags ! Suc 0)) = 2"
  "tag_number (sf_tag (prev_Notification_tags ! 2)) = 3"
  "tag_number (sf_tag (prev_Notification_tags ! 3)) = 4"
  "tag_number (sf_tag (prev_Notification_tags ! 4)) = 5"
  "tag_number (sf_tag (prev_Notification_tags ! 5)) = 10"
  "tag_number (sf_tag (prev_Notification_Pushover_tags ! 0)) = 100"
  "tag_number (sf_tag (prev_Content_tags ! 0)) = 1"
  "tag_number (sf_tag (prev_Content_tags ! Suc 0)) = 2"
  "tag_number (sf_tag (prev_Content_tags ! 2)) = 3"
  "tag_number (sf_tag (prev_Content_tags ! 3)) = 4"
  "tag_number (sf_tag (prev_PushoverTarget_tags ! 0)) = 1"
  "tag_number (sf_tag (prev_PushoverTarget_tags ! Suc 0)) = 2"
  "tag_number (sf_tag (prev_PushoverTarget_tags ! 2)) = 3"
  "tag_number (sf_tag (prev_PushoverTarget_tags ! 3)) = 4"
  "tag_number (sf_tag (prev_PushoverTarget_tags ! 4)) = 5"
  "tag_number (sf_key (prev_Content_tags ! 3)) = 1"
  "tag_number (sf_val (prev_Content_tags ! 3)) = 2"
  by (simp_all add: tags_eval)

subsection \<open>Blocks of fields\<close>

lemma map_of_set [simp]:
  "map_of (set_string sf s) k = (if s \<noteq> [] \<and> k = tag_number (sf_tag sf) then Some (PStr s) else None)"
  "map_of (set_int sf i) k = (if i \<noteq> 0 \<and> k = tag_number (sf_tag sf) then Some (PInt i) else None)"
  "map_of (set_pointer sf f p) k = (if k = tag_number (sf_tag sf) then map_option f p else None)"
  "k \<noteq> tag_number (sf_tag sf) \<Longrightarrow> map_of (set_map sf kvs) k = None"
  by (auto simp: set_string_def set_int_def set_pointer_def set_map_def map_of_eq_None_iff split: option.splits)

lemma get_map_append [simp]: "get_map sf (xs @ ys) = get_map sf xs @ get_map sf ys"
  by (induction xs) (auto simp: get_map_def map_filter_simps split: option.splits)

lemma get_map_set [simp]:
  "tag_number (sf_tag sf') \<noteq> tag_number (sf_tag sf) \<Longrightarrow> get_map sf (set_string sf' s) = []"
  "tag_number (sf_tag sf') \<noteq> tag_number (sf_tag sf) \<Longrightarrow> get_map sf (set_int sf' i) = []"
  by (auto simp: get_map_def set_string_def set_int_def map_filter_simps)

lemma get_map_set_map:
  assumes "tag_number (sf_tag sf') = tag_number (sf_tag sf)"
    and "tag_number (sf_key sf') = tag_number (sf_key sf)" "tag_number (sf_val sf') = tag_number (sf_val sf)"
    and "tag_number (sf_key sf) \<noteq> tag_number (sf_val sf)"
  shows "get_map sf' (set_map sf kvs) = kvs"
  using assms
  by (induction kvs) (auto simp: get_map_def set_map_def get_entry_def map_filter_simps)

lemmas get_defs = get_string_def get_int_def get_time_def get_message_def

lemma content_of_fields [simp]: "content_of (content_fields c) = c"
  by (simp add: content_of_def content_fields_def get_defs map_add_def get_map_set_map)

lemma pushover_of_fields [simp]: "pushover_of (pushover_fields t) = t"
  by (simp add: pushover_of_def pushover_fields_def get_defs map_add_def)

text \<open>Messages the wire can carry: no arm of the oneof but a set pointer, and the keys of a map distinct.\<close>

definition transportable :: "'ts notification \<Rightarrow> bool" where
  "transportable n \<longleftrightarrow>
     (case n_target n of
        None \<Rightarrow> True
      | Some (Notification_Pushover (Some _)) \<Rightarrow> True
      | _ \<Rightarrow> False)
     \<and> (case n_content n of None \<Rightarrow> True | Some c \<Rightarrow> distinct (map fst (c_data c)))"

lemma get_pointer [simp]:
  "get_time sf (set_pointer sf PTime p) = p"
  "get_message sf g (set_pointer sf (\<lambda>x. PMsg (f x)) q) = map_option (g \<circ> f) q"
  by (cases p; simp add: get_defs set_pointer_def) (cases q; simp add: get_defs set_pointer_def)

text \<open>A getter reads past the blocks of other fields.\<close>

lemma get_append:
  "map_of ys (tag_number (sf_tag sf)) = None \<Longrightarrow> get_string sf (xs @ ys) = get_string sf xs"
  "map_of xs (tag_number (sf_tag sf)) = None \<Longrightarrow> get_string sf (xs @ ys) = get_string sf ys"
  "map_of ys (tag_number (sf_tag sf)) = None \<Longrightarrow> get_time sf (xs @ ys) = get_time sf xs"
  "map_of xs (tag_number (sf_tag sf)) = None \<Longrightarrow> get_time sf (xs @ ys) = get_time sf ys"
  "map_of ys (tag_number (sf_tag sf)) = None \<Longrightarrow> get_message sf f (xs @ ys) = get_message sf f xs"
  "map_of xs (tag_number (sf_tag sf)) = None \<Longrightarrow> get_message sf f (xs @ ys) = get_message sf f ys"
  by (auto simp: get_defs map_add_def split: option.splits)

lemma get_set_string [simp]: "get_string sf (set_string sf s) = s"
  by (simp add: get_defs)

lemma map_of_append_None [simp]:
  "map_of (xs @ ys) k = None \<longleftrightarrow> map_of xs k = None \<and> map_of ys k = None"
  by (auto simp: map_add_None)

lemma notification_of_fields:
  assumes "transportable n"
  shows "notification_of (notification_fields n) = n"
proof -
  have "map_option (Notification_Pushover \<circ> Some) (GetPushover (Some n)) = n_target n"
    using assms by (auto simp: transportable_def GetPushover_def split: option.splits target.splits)
  then show ?thesis
    by (simp add: notification_of_def notification_fields_def get_append option.map_comp comp_def
        option.map_ident del: map_of_append)
qed

subsection \<open>Conformance\<close>

lemma field_in_schema [simp]:
  "field_in notification_schema ''Notification'' (Suc 0) = Some (False, singular 1 TString)"
  "field_in notification_schema ''Notification'' 2 = Some (False, singular 2 TTimestamp)"
  "field_in notification_schema ''Notification'' 3 = Some (False, singular 3 TTimestamp)"
  "field_in notification_schema ''Notification'' 4 = Some (False, singular 4 TString)"
  "field_in notification_schema ''Notification'' 5 = Some (False, singular 5 TString)"
  "field_in notification_schema ''Notification'' 10 = Some (False, singular 10 (TMessage ''Content''))"
  "field_in notification_schema ''Notification'' 100 =
     Some (False, (singular 100 (TMessage ''PushoverTarget''))\<lparr>wf_oneof := Some 0\<rparr>)"
  "field_in notification_schema ''Content'' (Suc 0) = Some (False, singular 1 TString)"
  "field_in notification_schema ''Content'' 2 = Some (False, singular 2 TString)"
  "field_in notification_schema ''Content'' 3 = Some (False, singular 3 TInt32)"
  "field_in notification_schema ''Content'' 4 =
     Some (False, (singular 4 (TMapEntry ''Content.DataEntry''))\<lparr>wf_repeated := True\<rparr>)"
  "field_in notification_schema ''PushoverTarget'' (Suc 0) = Some (False, singular 1 TString)"
  "field_in notification_schema ''PushoverTarget'' 2 = Some (False, singular 2 TString)"
  "field_in notification_schema ''PushoverTarget'' 3 = Some (False, singular 3 TString)"
  "field_in notification_schema ''PushoverTarget'' 4 = Some (False, singular 4 TString)"
  "field_in notification_schema ''PushoverTarget'' 5 = Some (False, singular 5 TString)"
  "field_in notification_schema ''Content.DataEntry'' (Suc 0) = Some (True, singular 1 TString)"
  "field_in notification_schema ''Content.DataEntry'' 2 = Some (True, singular 2 TString)"
  by (simp_all add: field_in_def notification_schema_def singular_def)

text \<open>A field outside a oneof may be followed by fields of larger numbers.\<close>

lemma fields_conform_Cons:
  assumes "field_in S m k = Some (entry, f)" and "wf_number f = k" and "wf_oneof f = None"
    and "value_conforms S (wf_type f) v" and "is_zero_value v \<Longrightarrow> entry \<or> wf_repeated f"
    and "list_all (\<lambda>nv. k < fst nv) fs" and "fields_conform S m fs"
  shows "fields_conform S m ((k, v) # fs)"
  using assms by (auto simp: may_follow_def list_all_iff)

lemma fields_conform_string:
  assumes "fields_conform S m fs" and "field_in S m (tag_number (sf_tag sf)) =
         Some (False, singular (tag_number (sf_tag sf)) TString)"
    and "list_all (\<lambda>nv. tag_number (sf_tag sf) < fst nv) fs"
  shows "fields_conform S m (set_string sf s @ fs)"
  using assms fields_conform_Cons[of S m _ False "singular (tag_number (sf_tag sf)) TString" "PStr s" fs] by (simp add: set_string_def singular_def)

lemma fields_conform_int:
  assumes "fields_conform S m fs" and "field_in S m (tag_number (sf_tag sf)) =
         Some (False, singular (tag_number (sf_tag sf)) TInt32)"
    and "list_all (\<lambda>nv. tag_number (sf_tag sf) < fst nv) fs"
  shows "fields_conform S m (set_int sf i @ fs)"
  using assms fields_conform_Cons[of S m _ False "singular (tag_number (sf_tag sf)) TInt32" "PInt i" fs] by (simp add: set_int_def singular_def)

lemma fields_conform_pointer:
  assumes "fields_conform S m fs" and "field_in S m (tag_number (sf_tag sf)) =
         Some (False, singular (tag_number (sf_tag sf)) t)" and "\<And>x. p = Some x \<Longrightarrow> value_conforms S t (g x)"
    and "\<And>x. \<not> is_zero_value (g x)"
    and "list_all (\<lambda>nv. tag_number (sf_tag sf) < fst nv) fs"
  shows "fields_conform S m (set_pointer sf g p @ fs)"
proof (cases p)
  case (Some x)
  with assms fields_conform_Cons[of S m "tag_number (sf_tag sf)" False "singular (tag_number (sf_tag sf)) t" "g x" fs] show ?thesis
    by (simp add: set_pointer_def singular_def)
qed (use assms in \<open>simp add: set_pointer_def\<close>)

lemma numbers_of [simp]:
  "list_all (\<lambda>nv. k < fst nv) (set_string sf s) \<longleftrightarrow> s = [] \<or> k < tag_number (sf_tag sf)"
  "list_all (\<lambda>nv. k < fst nv) (set_int sf i) \<longleftrightarrow> i = 0 \<or> k < tag_number (sf_tag sf)"
  "list_all (\<lambda>nv. k < fst nv) (set_pointer sf f p) \<longleftrightarrow> p = None \<or> k < tag_number (sf_tag sf)"
  "list_all (\<lambda>nv. k < fst nv) (set_map sf kvs) \<longleftrightarrow> kvs = [] \<or> k < tag_number (sf_tag sf)"
  by (simp_all add: set_string_def set_int_def set_pointer_def split: option.splits)
    (cases kvs; auto simp: set_map_def list_all_iff split: prod.splits)

lemma pushover_conforms:
  "fields_conform notification_schema ''PushoverTarget'' (pushover_fields t)"
proof -
  let ?S = "notification_schema" and ?m = "''PushoverTarget''"
  have "fields_conform ?S ?m (pushover_fields t @ [])"
    unfolding pushover_fields_def append_assoc
    by (intro fields_conform_string) (simp_all add: singular_def)
  then show ?thesis by simp
qed

lemma entries_conform:
  assumes "distinct (map fst kvs)"
  shows "fields_conform notification_schema ''Content'' (set_map (Content_tags ! 3) kvs)"
  using assms
proof (induction kvs)
  case (Cons kv kvs)
  obtain k v where kv: "kv = (k, v)" by (cases kv)
  have "k \<notin> fst ` set kvs" using Cons.prems kv by simp
  then have "list_all (may_follow ((singular 4 (TMapEntry ''Content.DataEntry''))\<lparr>wf_repeated := True\<rparr>)
      (PMsg [(1, PStr k), (2, PStr v)])) (set_map (Content_tags ! 3) kvs)"
    by (auto simp: set_map_def list_all_iff may_follow_def singular_def rev_image_eqI)
  with Cons show ?case
    by (simp add: set_map_def singular_def may_follow_def list_all_iff kv)
qed (simp add: set_map_def)

lemma content_conforms:
  assumes "distinct (map fst (c_data c))"
  shows "fields_conform notification_schema ''Content'' (content_fields c)"
  unfolding content_fields_def append_assoc
  by (intro fields_conform_string fields_conform_int entries_conform assms) (simp_all add: singular_def)

theorem notification_conforms:
  assumes "transportable n"
  shows "fields_conform notification_schema ''Notification'' (notification_fields n)"
proof -
  let ?S = "notification_schema" and ?m = "''Notification''"
  let ?p = "set_pointer (Notification_Pushover_tags ! 0) (\<lambda>t. PMsg (pushover_fields t)) (GetPushover (Some n))"
  have p: "fields_conform ?S ?m ?p"
    by (simp add: set_pointer_def singular_def pushover_conforms split: option.split)
  have c: "n_content n = Some c \<Longrightarrow> distinct (map fst (c_data c))" for c
    using assms by (simp add: transportable_def)
  show ?thesis
    unfolding notification_fields_def
    by (intro fields_conform_string fields_conform_pointer p) (auto simp: singular_def content_conforms c)
qed

subsection \<open>The previous generation\<close>

text \<open>The structs of the two generations correspond field by field.\<close>

definition prev_pushover_from :: "pushover_target \<Rightarrow> prev_pushover_target" where
  "prev_pushover_from t =
     \<lparr>pp_user_or_group_key = pt_user_or_group_key t, pp_device_name = pt_device_name t,
      pp_sound = pt_sound t, pp_url = pt_url t, pp_url_title = pt_url_title t\<rparr>"

definition prev_content_from :: "content \<Rightarrow> prev_content" where
  "prev_content_from c =
     \<lparr>pc_title = c_title c, pc_body = c_body c, pc_priority = c_priority c, pc_data = c_data c\<rparr>"

definition prev_from :: "'ts notification \<Rightarrow> 'ts prev_notification" where
  "prev_from n =
     \<lparr>pn_notification_id = n_notification_id n, pn_created_at = n_created_at n,
      pn_expires_at = n_expires_at n, pn_originating_service = n_originating_service n,
      pn_idempotency_key = n_idempotency_key n,
      pn_content = map_option prev_content_from (n_content n),
      pn_target = map_option (Prev_Notification_Pushover \<circ> Some \<circ> prev_pushover_from)
                    (GetPushover (Some n))\<rparr>"

definition pushover_from :: "prev_pushover_target \<Rightarrow> pushover_target" where
  "pushover_from t =
     \<lparr>pt_user_or_group_key = pp_user_or_group_key t, pt_device_name = pp_device_name t,
      pt_sound = pp_sound t, pt_url = pp_url t, pt_url_title = pp_url_title t\<rparr>"

definition content_from :: "prev_content \<Rightarrow> content" where
  "content_from c =
     \<lparr>c_title = pc_title c, c_body = pc_body c, c_priority = pc_priority c, c_data = pc_data c\<rparr>"

definition current_from :: "'ts prev_notification \<Rightarrow> 'ts notification" where
  "current_from m =
     \<lparr>n_notification_id = pn_notification_id m, n_created_at = pn_created_at m,
      n_expires_at = pn_expires_at m, n_originating_service = pn_originating_service m,
      n_idempotency_key = pn_idempotency_key m,
      n_content = map_option content_from (pn_content m),
      n_target = map_option (Notification_Pushover \<circ> Some \<circ> pushover_from)
                   (prev_GetPushover (Some m))\<rparr>"

text \<open>Reading a field depends on its number alone.\<close>

lemma get_same_number:
  assumes "tag_number (sf_tag sf) = tag_number (sf_tag sf')"
  shows "get_string sf = get_string sf'" and "get_int sf = get_int sf'" and "get_time sf = get_time sf'"
    and "get_message sf = get_message sf'"
  using assms by (simp_all add: get_defs fun_eq_iff)

lemma get_map_same_number:
  assumes "tag_number (sf_tag sf) = tag_number (sf_tag sf')"
    and "tag_number (sf_key sf) = tag_number (sf_key sf')"
    and "tag_number (sf_val sf) = tag_number (sf_val sf')"
  shows "get_map sf = get_map sf'"
proof -
  have e: "get_entry (sf_key sf) = get_entry (sf_key sf')" "get_entry (sf_val sf) = get_entry (sf_val sf')"
    using assms by (intro ext; simp add: get_entry_def)+
  show ?thesis unfolding get_map_def assms(1) e ..
qed

lemmas prev_reads =
  get_same_number[of "prev_Notification_tags ! 0" "Notification_tags ! 0"]
  get_same_number[of "prev_Notification_tags ! Suc 0" "Notification_tags ! Suc 0"]
  get_same_number[of "prev_Notification_tags ! 2" "Notification_tags ! 2"]
  get_same_number[of "prev_Notification_tags ! 3" "Notification_tags ! 3"]
  get_same_number[of "prev_Notification_tags ! 4" "Notification_tags ! 4"]
  get_same_number[of "prev_Notification_tags ! 5" "Notification_tags ! 5"]
  get_same_number[of "prev_Notification_Pushover_tags ! 0" "Notification_Pushover_tags ! 0"]
  get_same_number[of "prev_Content_tags ! 0" "Content_tags ! 0"]
  get_same_number[of "prev_Content_tags ! Suc 0" "Content_tags ! Suc 0"]
  get_same_number[of "prev_Content_tags ! 2" "Content_tags ! 2"]
  get_map_same_number[of "prev_Content_tags ! 3" "Content_tags ! 3"]
  get_same_number[of "prev_PushoverTarget_tags ! 0" "PushoverTarget_tags ! 0"]
  get_same_number[of "prev_PushoverTarget_tags ! Suc 0" "PushoverTarget_tags ! Suc 0"]
  get_same_number[of "prev_PushoverTarget_tags ! 2" "PushoverTarget_tags ! 2"]
  get_same_number[of "prev_PushoverTarget_tags ! 3" "PushoverTarget_tags ! 3"]
  get_same_number[of "prev_PushoverTarget_tags ! 4" "PushoverTarget_tags ! 4"]

lemma prev_pushover_of: "prev_pushover_of = prev_pushover_from \<circ> pushover_of"
  by (simp add: prev_pushover_of_def pushover_of_def prev_pushover_from_def fun_eq_iff prev_reads)

lemma prev_content_of: "prev_content_of = prev_content_from \<circ> content_of"
  by (simp add: prev_content_of_def content_of_def prev_content_from_def fun_eq_iff prev_reads)

lemma get_message_map: "get_message sf (f \<circ> g) fs = map_option f (get_message sf g fs)"
  by (simp add: get_message_def split: option.split pvalue.split)

lemma prev_notification_of: "prev_notification_of fs = prev_from (notification_of fs)"
proof -
  have t: "GetPushover (Some (notification_of fs)) = get_message (Notification_Pushover_tags ! 0) pushover_of fs"
    by (simp add: GetPushover_def notification_of_def split: option.split)
  show ?thesis
    unfolding prev_from_def t prev_notification_of_def prev_pushover_of prev_content_of get_message_map
    by (simp add: notification_of_def prev_reads option.map_comp comp_def)
qed

lemma prev_content_fields: "prev_content_fields c = content_fields (content_from c)"
  by (simp add: prev_content_fields_def content_fields_def content_from_def set_string_def set_int_def
      set_map_def)

lemma prev_pushover_fields: "prev_pushover_fields t = pushover_fields (pushover_from t)"
  by (simp add: prev_pushover_fields_def pushover_fields_def pushover_from_def set_string_def)

lemma prev_notification_fields: "prev_notification_fields m = notification_fields (current_from m)"
proof -
  have "GetPushover (Some (current_from m)) = map_option pushover_from (prev_GetPushover (Some m))"
    by (simp add: GetPushover_def current_from_def split: option.split)
  then show ?thesis
    by (simp add: prev_notification_fields_def notification_fields_def current_from_def set_string_def
        set_pointer_def prev_content_fields prev_pushover_fields option.case_eq_if option.map_sel)
qed

subsection \<open>Exchange\<close>

definition prev_transportable :: "'ts prev_notification \<Rightarrow> bool" where
  "prev_transportable m \<longleftrightarrow>
     pn_target m \<noteq> Some (Prev_Notification_Pushover None)
     \<and> (case pn_content m of None \<Rightarrow> True | Some c \<Rightarrow> distinct (map fst (pc_data c)))"

lemma transportable_current: "prev_transportable m \<Longrightarrow> transportable (current_from m)"
  by (auto simp: prev_transportable_def transportable_def current_from_def content_from_def
      split: option.splits)

text \<open>Two messages read the same when every getter of either generation returns the same.\<close>

definition same_content :: "content option \<Rightarrow> prev_content option \<Rightarrow> bool" where
  "same_content c p \<longleftrightarrow>
     (c = None \<longleftrightarrow> p = None) \<and> GetTitle c = prev_GetTitle p \<and> GetBody c = prev_GetBody p
     \<and> GetPriority c = prev_GetPriority p \<and> GetData c = prev_GetData p"

definition same_pushover :: "pushover_target option \<Rightarrow> prev_pushover_target option \<Rightarrow> bool" where
  "same_pushover t p \<longleftrightarrow>
     (t = None \<longleftrightarrow> p = None) \<and> GetUserOrGroupKey t = prev_GetUserOrGroupKey p
     \<and> GetDeviceName t = prev_GetDeviceName p \<and> GetSound t = prev_GetSound p
     \<and> GetUrl t = prev_GetUrl p \<and> GetUrlTitle t = prev_GetUrlTitle p"

definition reads_the_same :: "'ts notification \<Rightarrow> 'ts prev_notification \<Rightarrow> bool" where
  "reads_the_same n m \<longleftrightarrow>
     GetNotificationId (Some n) = prev_GetNotificationId (Some m)
     \<and> GetCreatedAt (Some n) = prev_GetCreatedAt (Some m)
     \<and> GetExpiresAt (Some n) = prev_GetExpiresAt (Some m)
     \<and> GetOriginatingService (Some n) = prev_GetOriginatingService (Some m)
     \<and> GetIdempotencyKey (Some n) = prev_GetIdempotencyKey (Some m)
     \<and> same_content (GetContent (Some n)) (prev_GetContent (Some m))
     \<and> (GetTarget (Some n) = None \<longleftrightarrow> prev_GetTarget (Some m) = None)
     \<and> same_pushover (GetPushover (Some n)) (prev_GetPushover (Some m))"

lemma same_content_from:
  "same_content c (map_option prev_content_from c)" "same_content (map_option content_from p) p"
  by (cases c; simp add: same_content_def prev_content_from_def go_defs)
    (cases p; simp add: same_content_def content_from_def go_defs)

lemma same_pushover_from:
  "same_pushover t (map_option prev_pushover_from t)" "same_pushover (map_option pushover_from q) q"
  by (cases t; simp add: same_pushover_def prev_pushover_from_def go_defs)
    (cases q; simp add: same_pushover_def pushover_from_def go_defs)

lemma prev_GetPushover_from: "prev_GetPushover (Some (prev_from n)) = map_option prev_pushover_from (GetPushover (Some n))"
  by (simp add: prev_GetPushover_def prev_from_def split: option.split)

lemma GetPushover_current: "GetPushover (Some (current_from m)) = map_option pushover_from (prev_GetPushover (Some m))"
  by (simp add: GetPushover_def current_from_def split: option.split)

lemma prev_from_reads:
  assumes "transportable n"
  shows "reads_the_same n (prev_from n)"
proof -
  have "n_target n = None \<longleftrightarrow> GetPushover (Some n) = None"
    using assms by (auto simp: transportable_def GetPushover_def split: option.splits target.splits)
  then show ?thesis
    using same_pushover_from(1)[of "GetPushover (Some n)"]
    by (simp add: reads_the_same_def prev_GetPushover_from)
      (simp add: prev_from_def same_content_from go_defs)
qed

lemma current_from_reads:
  assumes "prev_transportable m"
  shows "reads_the_same (current_from m) m"
proof -
  have "pn_target m = None \<longleftrightarrow> prev_GetPushover (Some m) = None"
    using assms by (auto simp: prev_transportable_def prev_GetPushover_def split: option.splits prev_target.splits)
  then show ?thesis
    using same_pushover_from(2)[of "prev_GetPushover (Some m)"]
    by (simp add: reads_the_same_def GetPushover_current)
      (simp add: current_from_def same_content_from go_defs)
qed

text \<open>C26: Wire compatibility between the generations, in both directions: under the protobuf runtime's
  promise, the bytes one generation marshals are accepted by the other, and every getter reads there
  what it read before, whatever fields are set.\<close>

theorem generations_interoperate:
  assumes "runtime_contract rt"
  shows "(transportable n \<longrightarrow> Marshal rt n = Inr b \<longrightarrow>
            (\<exists>m. prev_Unmarshal rt b = Inr m \<and> reads_the_same n m))
       \<and> (prev_transportable m \<longrightarrow> prev_Marshal rt m = Inr b' \<longrightarrow>
            (\<exists>n. Unmarshal rt b' = Inr n \<and> reads_the_same n m))"
proof (intro conjI impI)
  assume n: "transportable n" and "Marshal rt n = Inr b"
  then have "rt_Unmarshal rt prev_rawDesc ''Notification'' b = Inr (notification_fields n)"
    using runtime_exchange[OF assms rawDesc_schema prev_rawDesc_schema notification_conforms[OF n]]
    by (simp add: Marshal_def)
  then show "\<exists>m. prev_Unmarshal rt b = Inr m \<and> reads_the_same n m"
    using prev_from_reads[OF n] notification_of_fields[OF n]
    by (simp add: prev_Unmarshal_def prev_notification_of)
next
  assume m: "prev_transportable m" and "prev_Marshal rt m = Inr b'"
  note t = transportable_current[OF m]
  from \<open>prev_Marshal rt m = Inr b'\<close>
  have "rt_Unmarshal rt rawDesc ''Notification'' b' = Inr (notification_fields (current_from m))"
    using runtime_exchange[OF assms prev_rawDesc_schema rawDesc_schema notification_conforms[OF t]]
    by (simp add: prev_Marshal_def prev_notification_fields)
  then show "\<exists>n. Unmarshal rt b' = Inr n \<and> reads_the_same n m"
    using current_from_reads[OF m] notification_of_fields[OF t] by (simp add: Unmarshal_def)
qed

end
