(* ===== verification/Proto_Package.thy ===== *)
theory Proto_Package
  imports Generations_Spec
begin

text \<open>
  The rest of the generated files (\<open>notification.pb.go\<close> of both generations): the package variables,
  \<open>init\<close> which registers the file with the protobuf runtime, the compressed descriptor computed
  once, and \<open>Reset\<close>, \<open>ProtoReflect\<close> and \<open>Descriptor\<close> of each message. The runtime's builder and
  gzip are arguments.
\<close>

subsection \<open>Registration\<close>

text \<open>
  \<open>'f\<close> is the runtime's file descriptor, \<open>'i\<close> its \<open>MessageInfo\<close>. A slice set to nil is empty; the
  descriptor data is set once.
\<close>

record ('f, 'i) pb_package =
  pk_File :: "'f option"
  pk_goTypes :: "string option list"
  pk_depIdxs :: "nat list"
  pk_msgTypes :: "'i list"
  pk_rawDescData :: "string option"

record 'i type_builder =
  tb_RawDescriptor :: string
  tb_NumEnums :: nat
  tb_NumMessages :: nat
  tb_NumExtensions :: nat
  tb_NumServices :: nat
  tb_GoTypes :: "string option list"
  tb_DependencyIndexes :: "nat list"
  tb_MessageInfos :: "'i list"

text \<open>The package as the variable declarations leave it; \<open>zero\<close> is a zero \<open>MessageInfo\<close>.\<close>

definition pb_package_vars :: "'i \<Rightarrow> ('f, 'i) pb_package" where
  "pb_package_vars zero =
     \<lparr>pk_File = None, pk_goTypes = goTypes, pk_depIdxs = depIdxs, pk_msgTypes = replicate 4 zero,
      pk_rawDescData = None\<rparr>"

definition prev_package_vars :: "'i \<Rightarrow> ('f, 'i) pb_package" where
  "prev_package_vars zero =
     \<lparr>pk_File = None, pk_goTypes = prev_goTypes, pk_depIdxs = prev_depIdxs,
      pk_msgTypes = replicate 4 zero, pk_rawDescData = None\<rparr>"

text \<open>
  \<open>init\<close> names the wrapper of the oneof in the first message, builds, keeps the file, and drops the
  tables. \<open>oneof\<close> sets \<open>OneofWrappers\<close>; \<open>build\<close> returns the file and the message infos it filled in.
\<close>

definition init_builder :: "(string list \<Rightarrow> 'i \<Rightarrow> 'i) \<Rightarrow> ('f, 'i) pb_package \<Rightarrow> 'i type_builder" where
  "init_builder oneof s =
     \<lparr>tb_RawDescriptor = rawDesc, tb_NumEnums = 0, tb_NumMessages = 4, tb_NumExtensions = 0,
      tb_NumServices = 0, tb_GoTypes = pk_goTypes s, tb_DependencyIndexes = pk_depIdxs s,
      tb_MessageInfos = (pk_msgTypes s)[0 := oneof [''Notification_Pushover''] (pk_msgTypes s ! 0)]\<rparr>"

definition proto_init ::
  "(string list \<Rightarrow> 'i \<Rightarrow> 'i) \<Rightarrow> ('i type_builder \<Rightarrow> 'f \<times> 'i list) \<Rightarrow> ('f, 'i) pb_package \<Rightarrow> ('f, 'i) pb_package" where
  "proto_init oneof build s =
     (if pk_File s \<noteq> None then s
      else (case build (init_builder oneof s) of
              (f, infos) \<Rightarrow> s\<lparr>pk_msgTypes := infos, pk_File := Some f, pk_goTypes := [], pk_depIdxs := []\<rparr>))"

definition prev_init_builder :: "(string list \<Rightarrow> 'i \<Rightarrow> 'i) \<Rightarrow> ('f, 'i) pb_package \<Rightarrow> 'i type_builder" where
  "prev_init_builder oneof s =
     \<lparr>tb_RawDescriptor = prev_rawDesc, tb_NumEnums = 0, tb_NumMessages = 4, tb_NumExtensions = 0,
      tb_NumServices = 0, tb_GoTypes = pk_goTypes s, tb_DependencyIndexes = pk_depIdxs s,
      tb_MessageInfos = (pk_msgTypes s)[0 := oneof [''Notification_Pushover''] (pk_msgTypes s ! 0)]\<rparr>"

definition prev_proto_init ::
  "(string list \<Rightarrow> 'i \<Rightarrow> 'i) \<Rightarrow> ('i type_builder \<Rightarrow> 'f \<times> 'i list) \<Rightarrow> ('f, 'i) pb_package \<Rightarrow> ('f, 'i) pb_package" where
  "prev_proto_init oneof build s =
     (if pk_File s \<noteq> None then s
      else (case build (prev_init_builder oneof s) of
              (f, infos) \<Rightarrow> s\<lparr>pk_msgTypes := infos, pk_File := Some f, pk_goTypes := [], pk_depIdxs := []\<rparr>))"

lemma proto_init_again [simp]: "proto_init oneof build (proto_init oneof build s) = proto_init oneof build s"
  by (auto simp: proto_init_def split: prod.split)

lemma prev_proto_init_again [simp]:
  "prev_proto_init oneof build (prev_proto_init oneof build s) = prev_proto_init oneof build s"
  by (auto simp: prev_proto_init_def split: prod.split)

subsection \<open>What is registered\<close>

lemmas describe_eval =
  file_describes_def message_describes_def field_describes_def entry_describes_def tag_describes_def
  tag_key_def wire_kind_def flat_messages_def type_full_name_def message_fields_def Let_def

lemma structs_described: "file_describes structs goTypes depIdxs rawDesc"
  by (simp add: rawDesc_file structs_def goTypes_def depIdxs_def tags_eval describe_eval schema_eval)

lemma prev_structs_described: "file_describes prev_structs prev_goTypes prev_depIdxs prev_rawDesc"
  by (simp add: prev_rawDesc_file prev_structs_def prev_goTypes_def prev_depIdxs_def tags_eval describe_eval
      schema_eval)

text \<open>A builder's argument is sound for some structs when its tables describe them and its counts fit.\<close>

definition builder_sound :: "(string \<times> struct_field list) list \<Rightarrow> 'i type_builder \<Rightarrow> bool" where
  "builder_sound sts tb \<longleftrightarrow>
     file_describes sts (tb_GoTypes tb) (tb_DependencyIndexes tb) (tb_RawDescriptor tb)
     \<and> (case file_desc_of (tb_RawDescriptor tb) of
          None \<Rightarrow> False
        | Some f \<Rightarrow> tb_NumMessages tb = length (flat_messages f))
     \<and> length (tb_MessageInfos tb) = tb_NumMessages tb
     \<and> tb_NumEnums tb = 0 \<and> tb_NumExtensions tb = 0 \<and> tb_NumServices tb = 0"

text \<open>What \<open>init\<close> registers is the schema of the structs: in both generations the file descriptor it
  hands to the runtime, decoded from its bytes, the table of types and the dependency indexes say
  of every field what its struct tag says (number, wire kind, cardinality, names, oneof, type), the
  counts fit, and running \<open>init\<close> again changes nothing.\<close>

lemma registered_schema:
  "builder_sound structs (init_builder oneof (pb_package_vars zero))
   \<and> builder_sound prev_structs (prev_init_builder oneof (prev_package_vars zero))
   \<and> proto_init oneof build (proto_init oneof build s) = proto_init oneof build s
   \<and> prev_proto_init oneof build (prev_proto_init oneof build s) = prev_proto_init oneof build s"
  using structs_described prev_structs_described
  by (simp add: builder_sound_def init_builder_def prev_init_builder_def pb_package_vars_def
      prev_package_vars_def rawDesc_file prev_rawDesc_file)
    (simp add: flat_messages_def schema_eval)

subsection \<open>The compressed descriptor\<close>

text \<open>\<open>sync.Once\<close>: the first call compresses, the later ones return what it stored.\<close>

definition rawDescGZIP :: "(string \<Rightarrow> string) \<Rightarrow> ('f, 'i) pb_package \<Rightarrow> string \<times> ('f, 'i) pb_package" where
  "rawDescGZIP gz s =
     (case pk_rawDescData s of
        None \<Rightarrow> (gz rawDesc, s\<lparr>pk_rawDescData := Some (gz rawDesc)\<rparr>)
      | Some d \<Rightarrow> (d, s))"

definition prev_rawDescGZIP :: "(string \<Rightarrow> string) \<Rightarrow> ('f, 'i) pb_package \<Rightarrow> string \<times> ('f, 'i) pb_package" where
  "prev_rawDescGZIP gz s =
     (case pk_rawDescData s of
        None \<Rightarrow> (gz prev_rawDesc, s\<lparr>pk_rawDescData := Some (gz prev_rawDesc)\<rparr>)
      | Some d \<Rightarrow> (d, s))"

text \<open>\<open>Descriptor\<close> of a message: the file and the path to the message in it.\<close>

definition at_path :: "nat list \<Rightarrow> string \<times> 's \<Rightarrow> (string \<times> nat list) \<times> 's" where
  "at_path p ds = ((fst ds, p), snd ds)"

definition Notification_Descriptor where "Notification_Descriptor gz s = at_path [0] (rawDescGZIP gz s)"
definition Content_Descriptor where "Content_Descriptor gz s = at_path [1] (rawDescGZIP gz s)"
definition PushoverTarget_Descriptor where "PushoverTarget_Descriptor gz s = at_path [2] (rawDescGZIP gz s)"
definition prev_Notification_Descriptor where
  "prev_Notification_Descriptor gz s = at_path [0] (prev_rawDescGZIP gz s)"
definition prev_Content_Descriptor where
  "prev_Content_Descriptor gz s = at_path [1] (prev_rawDescGZIP gz s)"
definition prev_PushoverTarget_Descriptor where
  "prev_PushoverTarget_Descriptor gz s = at_path [2] (prev_rawDescGZIP gz s)"

lemmas descriptor_defs =
  Notification_Descriptor_def Content_Descriptor_def PushoverTarget_Descriptor_def
  prev_Notification_Descriptor_def prev_Content_Descriptor_def prev_PushoverTarget_Descriptor_def at_path_def

definition gzip_consistent :: "(string \<Rightarrow> string) \<Rightarrow> string \<Rightarrow> ('f, 'i) pb_package \<Rightarrow> bool" where
  "gzip_consistent gz raw s \<longleftrightarrow> pk_rawDescData s = None \<or> pk_rawDescData s = Some (gz raw)"

lemma Descriptor_paths:
  assumes "gzip_consistent gz rawDesc s"
  shows "fst (Notification_Descriptor gz s) = (gz rawDesc, [0])"
    and "fst (Content_Descriptor gz s) = (gz rawDesc, [1])"
    and "fst (PushoverTarget_Descriptor gz s) = (gz rawDesc, [2])"
    and "gzip_consistent gz rawDesc (snd (rawDescGZIP gz s))"
  using assms by (auto simp: gzip_consistent_def rawDescGZIP_def descriptor_defs)

lemma prev_Descriptor_paths:
  assumes "gzip_consistent gz prev_rawDesc s"
  shows "fst (prev_Notification_Descriptor gz s) = (gz prev_rawDesc, [0])"
    and "fst (prev_Content_Descriptor gz s) = (gz prev_rawDesc, [1])"
    and "fst (prev_PushoverTarget_Descriptor gz s) = (gz prev_rawDesc, [2])"
    and "gzip_consistent gz prev_rawDesc (snd (prev_rawDescGZIP gz s))"
  using assms by (auto simp: gzip_consistent_def prev_rawDescGZIP_def descriptor_defs)

subsection \<open>Reset and reflection\<close>

text \<open>
  A message struct with its \<open>state\<close> field: the index in \<open>msgTypes\<close> of the message info stored there, or
  none yet. \<open>ProtoReflect\<close> of a message returns its state, storing the info on first use; of a nil
  pointer it asks the message info itself.
\<close>

type_synonym 'm stateful = "nat option \<times> 'm"

datatype reflection = Via_state nat | Message_of nat

definition reflect :: "nat \<Rightarrow> 'm stateful option \<Rightarrow> reflection \<times> 'm stateful option" where
  "reflect mi x =
     (case x of
        None \<Rightarrow> (Message_of mi, None)
      | Some (st, m) \<Rightarrow> (case st of
                          None \<Rightarrow> (Via_state mi, Some (Some mi, m))
                        | Some i \<Rightarrow> (Via_state i, Some (st, m))))"

definition Notification_ProtoReflect :: "'ts notification stateful option \<Rightarrow> reflection \<times> 'ts notification stateful option" where
  "Notification_ProtoReflect x = reflect 0 x"

definition Content_ProtoReflect :: "content stateful option \<Rightarrow> reflection \<times> content stateful option" where
  "Content_ProtoReflect x = reflect 1 x"

definition PushoverTarget_ProtoReflect :: "pushover_target stateful option \<Rightarrow> reflection \<times> pushover_target stateful option" where
  "PushoverTarget_ProtoReflect x = reflect 2 x"

definition prev_Notification_ProtoReflect ::
  "'ts prev_notification stateful option \<Rightarrow> reflection \<times> 'ts prev_notification stateful option" where
  "prev_Notification_ProtoReflect x = reflect 0 x"

definition prev_Content_ProtoReflect :: "prev_content stateful option \<Rightarrow> reflection \<times> prev_content stateful option" where
  "prev_Content_ProtoReflect x = reflect 1 x"

definition prev_PushoverTarget_ProtoReflect ::
  "prev_pushover_target stateful option \<Rightarrow> reflection \<times> prev_pushover_target stateful option" where
  "prev_PushoverTarget_ProtoReflect x = reflect 2 x"

definition Notification_Reset :: "'ts notification stateful \<Rightarrow> 'ts notification stateful" where
  "Notification_Reset x = (Some 0, empty_notification)"

definition Content_Reset :: "content stateful \<Rightarrow> content stateful" where
  "Content_Reset x = (Some 1, empty_content)"

definition PushoverTarget_Reset :: "pushover_target stateful \<Rightarrow> pushover_target stateful" where
  "PushoverTarget_Reset x = (Some 2, empty_pushover)"

definition prev_Notification_Reset :: "'ts prev_notification stateful \<Rightarrow> 'ts prev_notification stateful" where
  "prev_Notification_Reset x = (Some 0, prev_empty_notification)"

definition prev_Content_Reset :: "prev_content stateful \<Rightarrow> prev_content stateful" where
  "prev_Content_Reset x = (Some 1, prev_empty_content)"

definition prev_PushoverTarget_Reset :: "prev_pushover_target stateful \<Rightarrow> prev_pushover_target stateful" where
  "prev_PushoverTarget_Reset x = (Some 2, prev_empty_pushover)"

text \<open>Reflection does not touch the fields, and finds a message's own info whether or not it was used before.\<close>

lemma reflect_keeps: "map_option snd (snd (reflect mi x)) = map_option snd x"
  by (auto simp: reflect_def split: option.split)

lemma reflect_own_info:
  assumes "\<And>st m. x = Some (st, m) \<Longrightarrow> st = None \<or> st = Some mi"
  shows "fst (reflect mi x) = (if x = None then Message_of mi else Via_state mi)"
    and "reflect mi (snd (reflect mi x)) = reflect mi x"
  using assms by (auto simp: reflect_def split: option.splits)

text \<open>A reset message marshals no field, and reflects as a fresh one does.\<close>

lemma Reset_clears:
  "notification_fields (snd (Notification_Reset x)) = []"
  "content_fields (snd (Content_Reset c)) = []"
  "pushover_fields (snd (PushoverTarget_Reset t)) = []"
  "fst (Notification_ProtoReflect (Some (Notification_Reset x))) = Via_state 0"
  by (simp_all add: Notification_Reset_def Content_Reset_def PushoverTarget_Reset_def empty_notification_def
      empty_content_def empty_pushover_def notification_fields_def content_fields_def pushover_fields_def
      set_string_def set_int_def set_pointer_def set_map_def GetPushover_def Notification_ProtoReflect_def
      reflect_def)

lemma prev_Reset_clears:
  "prev_notification_fields (snd (prev_Notification_Reset x)) = []"
  "prev_content_fields (snd (prev_Content_Reset c)) = []"
  "prev_pushover_fields (snd (prev_PushoverTarget_Reset t)) = []"
  by (simp_all add: prev_Notification_Reset_def prev_Content_Reset_def prev_PushoverTarget_Reset_def
      prev_empty_notification_def prev_empty_content_def prev_empty_pushover_def prev_notification_fields_def
      prev_content_fields_def prev_pushover_fields_def set_string_def set_int_def set_pointer_def
      set_map_def prev_GetPushover_def)

end
