(* ===== verification/Proto_Codec.thy ===== *)
theory Proto_Codec
  imports Proto_Package
begin

text \<open>
  A protobuf runtime that keeps \<open>runtime_contract\<close>: messages are written and read in the wire format,
  by the schema in the descriptor. It shows that the contract can be met, and runs on examples. A
  timestamp is here a string already in the wire format.
\<close>

fun enc_value :: "string pvalue \<Rightarrow> wire" and enc_fields :: "string fields \<Rightarrow> (nat \<times> wire) list" where
  "enc_value (PStr s) = WLen s"
| "enc_value (PInt i) = WVarint (unat (scast i :: 64 word))"
| "enc_value (PTime t) = WLen t"
| "enc_value (PMsg fs) = WLen (print_fields (enc_fields fs))"
| "enc_fields [] = []"
| "enc_fields (nv # fs) = (fst nv, enc_value (snd nv)) # enc_fields fs"

text \<open>Messages inside messages are shorter; the depth is bounded by the length.\<close>

function dec_wire :: "nat \<Rightarrow> wire_schema \<Rightarrow> wire_type \<Rightarrow> wire \<Rightarrow> string pvalue option"
  and dec_fields :: "nat \<Rightarrow> wire_schema \<Rightarrow> string \<Rightarrow> string \<Rightarrow> string fields option" where
  "dec_wire d S t w =
     (case w of
        WVarint v \<Rightarrow> (if t = TInt32 then Some (PInt (word_of_nat v)) else None)
      | WLen s \<Rightarrow>
          (case t of
             TString \<Rightarrow> Some (PStr s)
           | TTimestamp \<Rightarrow> Some (PTime s)
           | TMessage m \<Rightarrow> map_option PMsg (dec_fields d S m s)
           | TMapEntry m \<Rightarrow> map_option PMsg (dec_fields d S m s)
           | _ \<Rightarrow> None))"
| "dec_fields 0 S m b = None"
| "dec_fields (Suc d) S m b =
     (case parse_fields b of
        None \<Rightarrow> None
      | Some ws \<Rightarrow>
          those_map (\<lambda>kw. case field_in S m (fst kw) of
                            None \<Rightarrow> None
                          | Some (_, f) \<Rightarrow> map_option (Pair (fst kw)) (dec_wire d S (wf_type f) (snd kw))) ws)"
  by pat_completeness auto
termination
  by (relation "measure (\<lambda>x. case x of Inl (d, _) \<Rightarrow> 2 * d + 1 | Inr (d, _) \<Rightarrow> 2 * d)") auto

declare dec_wire.simps [simp del]

definition numbers_fit :: "wire_schema \<Rightarrow> bool" where
  "numbers_fit S \<longleftrightarrow> list_all (\<lambda>(_, _, fs). list_all (\<lambda>f. 0 < wf_number f \<and> wf_number f < 2 ^ 29) fs) S"

definition max_message :: nat where
  "max_message = 2 ^ 31"

definition codec_runtime :: "string proto_runtime" where
  "codec_runtime =
     \<lparr>rt_Marshal = (\<lambda>d m fs.
        (case wire_schema_of d of
           None \<Rightarrow> Inl (ForeignErr ''proto: no descriptor'' None)
         | Some S \<Rightarrow>
             (let b = print_fields (enc_fields fs) in
              if numbers_fit S \<and> length b < max_message then Inr b
              else Inl (ForeignErr ''proto: too large'' None)))),
      rt_Unmarshal = (\<lambda>d m b.
        (case wire_schema_of d of
           None \<Rightarrow> Inl (ForeignErr ''proto: no descriptor'' None)
         | Some S \<Rightarrow> (case dec_fields (Suc (length b)) S m b of
                       None \<Rightarrow> Inl (ForeignErr ''proto: cannot parse'' None)
                     | Some fs \<Rightarrow> Inr fs)))\<rparr>"

subsection \<open>Round trip\<close>

fun payload :: "wire \<Rightarrow> nat" where
  "payload (WVarint _) = 0"
| "payload (WLen s) = length s"

lemma field_in_fits:
  assumes "numbers_fit S" and "field_in S m k = Some (e, f)"
  shows "0 < k" and "k < 2 ^ 29"
proof -
  obtain fs where fs: "map_of S m = Some (e, fs)" and f: "List.find (\<lambda>f. wf_number f = k) fs = Some f"
    using assms(2) by (auto simp: field_in_def split: option.splits)
  have "f \<in> set fs" "wf_number f = k" using f by (auto simp: find_Some_iff)
  with map_of_SomeD[OF fs] assms(1) have "0 < k \<and> k < 2 ^ 29"
    by (fastforce simp: numbers_fit_def list_all_iff)
  then show "0 < k" "k < 2 ^ 29" by simp_all
qed

lemma scast_back: "ucast (scast (i :: int32) :: 64 word) = i"
  by (rule bit_word_eqI) (simp add: bit_simps)

lemma varint_fits: "unat (w :: 64 word) < 18446744073709551616"
  by (rule order_less_le_trans[OF unsigned_less]) simp

lemma payload_shorter: "kw \<in> set ws \<Longrightarrow> payload (snd kw) < length (print_fields ws)"
proof (induction ws)
  case (Cons w ws)
  have "payload (snd w) < length (print_field w)"
    by (cases w rule: print_field.cases) (simp_all add: varint_not_Nil[THEN length_greater_0_conv[THEN iffD2]])
  with Cons show ?case by (auto simp: print_fields_def)
qed simp

lemma codec_round_trip:
  "value_conforms S t v \<Longrightarrow> numbers_fit S \<Longrightarrow> payload (enc_value v) < d \<Longrightarrow> d \<le> max_message \<Longrightarrow>
     dec_wire d S t (enc_value v) = Some v"
  "fields_conform S m fs \<Longrightarrow> numbers_fit S \<Longrightarrow> list_all (\<lambda>kw. payload (snd kw) < d) (enc_fields fs) \<Longrightarrow>
     d \<le> max_message \<Longrightarrow>
     list_all field_fits (enc_fields fs) \<and>
     those_map (\<lambda>kw. case field_in S m (fst kw) of
                       None \<Rightarrow> None
                     | Some (_, f) \<Rightarrow> map_option (Pair (fst kw)) (dec_wire d S (wf_type f) (snd kw)))
       (enc_fields fs) = Some fs"
proof (induction S t v and S m fs arbitrary: d and d rule: value_conforms_fields_conform.induct)
  case (2 S t i)
  then show ?case by (simp add: dec_wire.simps scast_back)
next
  case (4 S t fs)
  let ?b = "print_fields (enc_fields fs)"
  obtain d' where d: "d = Suc d'" using 4(5) by (cases d) auto
  have p: "list_all (\<lambda>kw. payload (snd kw) < d') (enc_fields fs)"
    using payload_shorter[of _ "enc_fields fs"] 4(5) d by (force simp: list_all_iff)
  have max: "d' \<le> max_message" using 4(6) d by simp
  have r: "dec_fields d S m ?b = Some fs" if "fields_conform S m fs"
    and "numbers_fit S \<Longrightarrow> list_all (\<lambda>kw. payload (snd kw) < d') (enc_fields fs) \<Longrightarrow> d' \<le> max_message \<Longrightarrow>
      list_all field_fits (enc_fields fs) \<and>
      those_map (\<lambda>kw. case field_in S m (fst kw) of
                       None \<Rightarrow> None
                     | Some (_, f) \<Rightarrow> map_option (Pair (fst kw)) (dec_wire d' S (wf_type f) (snd kw)))
       (enc_fields fs) = Some fs" for m
    using that(2)[OF 4(4) p max] by (simp add: d parse_print_fields)
  show ?case
    using 4(1-3) r by (cases t) (simp_all add: dec_wire.simps)
next
  case (6 S m nv fs)
  then obtain e f where f: "field_in S m (fst nv) = Some (e, f)" "value_conforms S (wf_type f) (snd nv)"
    by (auto split: option.splits)
  have "field_fits (fst nv, enc_value (snd nv))"
    using field_in_fits[OF 6(4) f(1)] 6(5,6)
    by (cases "snd nv") (auto simp: varint_fits max_message_def)
  with 6 f show ?case by (auto simp: list_all_iff)
qed (auto simp: dec_wire.simps)

theorem codec_contract: "runtime_contract codec_runtime"
proof -
  have "rt_Unmarshal codec_runtime d m b = Inr fs"
    if S: "wire_schema_of d = Some S" and c: "fields_conform S m fs" and b: "rt_Marshal codec_runtime d m fs = Inr b"
    for d S m fs b
  proof -
    have b': "b = print_fields (enc_fields fs)" and fit: "numbers_fit S" and l: "length b \<le> max_message"
      using S b by (auto simp: codec_runtime_def Let_def split: if_splits)
    have "list_all (\<lambda>kw. payload (snd kw) < length b) (enc_fields fs)"
      using payload_shorter[of _ "enc_fields fs"] b' by (simp add: list_all_iff)
    note rt = codec_round_trip(2)[OF c fit this l]
    then have "parse_fields b = Some (enc_fields fs)" by (simp add: b' parse_print_fields)
    with rt have "dec_fields (Suc (length b)) S m b = Some fs" by simp
    then show ?thesis by (simp add: codec_runtime_def S)
  qed
  then show ?thesis unfolding runtime_contract_def by (auto simp: codec_runtime_def fun_eq_iff)
qed

subsection \<open>Messages of the compatibility test\<close>

text \<open>The message the test marshals with the previous generation, and one with every field set.\<close>

definition sample_prev :: "string prev_notification" where
  "sample_prev =
     prev_empty_notification\<lparr>pn_notification_id := ''01933dcc-2b8f-7d44-9aab-52c6f1c0a5d7'',
       pn_originating_service := ''test-service'',
       pn_content := Some (prev_empty_content\<lparr>pc_title := ''hello'', pc_body := ''world''\<rparr>),
       pn_target := Some (Prev_Notification_Pushover
         (Some (prev_empty_pushover\<lparr>pp_user_or_group_key := ''uQiRzpo4DXghDmr9QzzfQu27cmVRsG''\<rparr>)))\<rparr>"

definition sample_full :: "string notification" where
  "sample_full =
     \<lparr>n_notification_id = ''01'', n_created_at = Some ''t0'', n_expires_at = Some ''t1'',
      n_originating_service = ''svc'', n_idempotency_key = ''k'',
      n_content = Some \<lparr>c_title = ''hello'', c_body = ''world'', c_priority = -2,
        c_data = [(''a'', ''1''), (''b'', [])]\<rparr>,
      n_target = Some (Notification_Pushover
        (Some (empty_pushover\<lparr>pt_user_or_group_key := ''uQ'', pt_url := ''https://x''\<rparr>)))\<rparr>"

lemma schema_numbers_fit: "numbers_fit notification_schema"
  by (simp add: numbers_fit_def notification_schema_def singular_def)

lemma marshals:
  "length (print_fields (enc_fields (notification_fields n))) < max_message \<Longrightarrow>
     Marshal codec_runtime n = Inr (print_fields (enc_fields (notification_fields n)))"
  "length (print_fields (enc_fields (prev_notification_fields m))) < max_message \<Longrightarrow>
     prev_Marshal codec_runtime m = Inr (print_fields (enc_fields (prev_notification_fields m)))"
  by (simp_all add: Marshal_def prev_Marshal_def codec_runtime_def rawDesc_schema prev_rawDesc_schema
      schema_numbers_fit)

lemmas fields_eval =
  notification_fields_def content_fields_def pushover_fields_def set_string_def set_int_def set_pointer_def
  set_map_def GetPushover_def print_fields_def max_message_def

lemma sample_full_fits: "length (print_fields (enc_fields (notification_fields sample_full))) < max_message"
  by (simp add: sample_full_def empty_pushover_def fields_eval varint.simps)

lemma sample_prev_fits: "length (print_fields (enc_fields (prev_notification_fields sample_prev))) < max_message"
  by (simp add: prev_notification_fields current_from_def content_from_def pushover_from_def
      prev_GetPushover_def sample_prev_def prev_empty_notification_def prev_empty_content_def
      prev_empty_pushover_def fields_eval varint.simps)

theorem generations_interoperate_witness:
  "(\<exists>b m. Marshal codec_runtime sample_full = Inr b \<and> prev_Unmarshal codec_runtime b = Inr m
      \<and> reads_the_same sample_full m)
   \<and> (\<exists>b n. prev_Marshal codec_runtime sample_prev = Inr b \<and> Unmarshal codec_runtime b = Inr n
      \<and> reads_the_same n sample_prev)"
proof -
  have "transportable sample_full" "prev_transportable sample_prev"
    by (simp_all add: transportable_def prev_transportable_def sample_full_def sample_prev_def
        prev_empty_notification_def prev_empty_content_def)
  with generations_interoperate[OF codec_contract] marshals(1)[OF sample_full_fits]
    marshals(2)[OF sample_prev_fits]
  show ?thesis by metis
qed

end
