(* ===== verification/Swagger.thy ===== *)
theory Swagger
  imports Go_Strings Errors
begin

text \<open>
  The OpenAPI document embedded in \<open>server.gen.go\<close>: the base64 text, its decoding and the loader of
  the document. Base64 is modelled as \<open>encoding/base64\<close> decodes it; gzip and the OpenAPI loader are
  arguments.
\<close>

subsection \<open>Base64\<close>

definition base64_value :: "char \<Rightarrow> nat option" where
  "base64_value c =
     (let b = byte c in
      if byte (CHR ''A'') \<le> b \<and> b \<le> byte (CHR ''Z'') then Some (b - byte (CHR ''A''))
      else if byte (CHR ''a'') \<le> b \<and> b \<le> byte (CHR ''z'') then Some (b - byte (CHR ''a'') + 26)
      else if byte (CHR ''0'') \<le> b \<and> b \<le> byte (CHR ''9'') then Some (b - byte (CHR ''0'') + 52)
      else if c = CHR ''+'' then Some 62
      else if c = CHR ''/'' then Some 63
      else None)"

definition pad :: char where
  "pad = CHR ''=''"

text \<open>Four characters are three bytes; padding may end the text, one or two bytes short.\<close>

fun base64_quanta :: "string \<Rightarrow> string option" where
  "base64_quanta [] = Some []"
| "base64_quanta (a # b # c # d # r) =
     (case (base64_value a, base64_value b) of
        (Some x, Some y) \<Rightarrow>
          (let b1 = char_of (4 * x + y div 16) in
           if c = pad \<and> d = pad \<and> r = [] then Some [b1]
           else (case base64_value c of
                   None \<Rightarrow> None
                 | Some z \<Rightarrow>
                     (let b2 = char_of ((16 * y + z div 4) mod 256) in
                      if d = pad \<and> r = [] then Some [b1, b2]
                      else (case base64_value d of
                              None \<Rightarrow> None
                            | Some v \<Rightarrow>
                                map_option (\<lambda>s. b1 # b2 # char_of ((64 * z + v) mod 256) # s)
                                  (base64_quanta r)))))
      | _ \<Rightarrow> None)"
| "base64_quanta _ = None"

text \<open>Line breaks are skipped.\<close>

definition base64_DecodeString :: "string \<Rightarrow> string option" where
  "base64_DecodeString s = base64_quanta (filter (\<lambda>c. c \<noteq> CHR 0x0A \<and> c \<noteq> CHR 0x0D) s)"

subsection \<open>The document\<close>

definition swaggerSpec :: "string list" where
  "swaggerSpec =
    [''H4sIAAAAAAAC/7xYbW/byPH/KgP+70WCIyXZvuBy+r9ycs7VvSQ2/NAAjdJkxR2Je1nOsrtL2WogoB+i'',
     ''n7CfpJhdiqIk2nKBIq9skZznmd88fEtyU1aGkLxLxt8Si64y5DD8OK19geRVLrwydIV/r5VFyW9yQx7J'',
     ''87+iqnTzxbCyZqqx/PEPZ4jfubzAUvB/P1icJePk/4YbccP41g0vI1WyWq3SRKLLraqYXTJO3innFM3B'',
     ''WFC0EFpJmKKwaMGbr0iDZJUm5xLLynikfPna0Eyr3H9PFW8KBLVRAb7iEu6EA4dIcKd8AQKkWqCdI3mo'',
     ''xFIbIUGRUxLBFwh3iqS5i6aQR0tCf0/9bwnvK8w9SnBoF2gBrTU26HNdT523wuMtiYVQWkw1fk/dLmvt'',
     ''hAXlgIyHvLYWyesliDzHynNiVPVUK1eg+3/ItWIPu8LUWoJFb5fBiFtydVUZ61G+jnrfLKvvakYjNmO5'',
     ''wRhUvkALXaEsDMhsP7zPKmu8mdazYMlfuADCmzdC6e9biVz96DxMjVzCLIiHXJAhlQudRQawaBUcJMyi'',
     ''4ctiX2/0rKyp0HoVQYYZ8t9S3L9FmvsiGR+Njn9Kk1JR+yBNfIhZ4rxVNGdnSOGDPUJKxRKFvtzi2+H3'',
     ''4ui4h0Ep7rsUJ5tvzPQPzD1/U1llrPJBQYkzUWufjEeBVpV1mYyPg57x/2zDQZHHOVpm4ZWPRdNR6PjF'',
     ''6IB9qzSxLd5+bJik0VmfehR9o1DLMy7cfQ/nRgYFkFjLjxvGaeKNybSheZImd4Xy6CqRY2ZIL5M0MbXP'',
     ''zCyzguYsuxR6ZmzZ0pWClhmStywmTb7iMmswOkmThdA1Zh32ZUTyJE1q+krmjjJhy6S10mW11WwgzozF'',
     ''LLcoPMpM+I61m9DN2Fo2aT+o6JyYY8+7HY9GFml0Tp9H32HMr21f2lgG5zJmRLdCrgN6ZnMkZMiUcPv2'',
     ''/FeYGQsNUeZyUyHkxlrUTZUcCvxGXp+O741Xs6bk++LeltxjRb+uzFWaNG4/DTQcbOGTMVcaZl6VGMIl'',
     ''5AWnx9jbGntCg/cVh/MRFlTrppE8wKLTTX/HPWw4fvkEFtRxzCOxEs6pOXGobs9/XfzM4WhVruuQyAcN'',
     ''NlbNFQnuRsxV5Rjz5ABZVbvCLNAehOTmuxth5+j38mMd4w7DvkRZA/tejkj0QuneUgpjgNv33dm9R3LK'',
     ''EJRYTtEO4NJUtQ4pz9m+aQJZ0yeaZuTYv8pj6Q4Z3UGzVWuNsFYsQ36Q84Jy7NX6kQLdV/ydCjZCiV4M'',
     ''WkqYWVOCq/McnZvVGtqhuKde08R54WvXUaYP/PeofDOD7OSl57SG26vzqATPh9LkdYnE7g0hgVx4oc28'',
     ''xu18teogmoS3adtNGs3TdRZ0XJseQJ6dtOzJK66E96Lcb3375VsJz3NvMk7+9vE0+6vI/jHKfvmcffrx'',
     ''h15/m5rkE7juEXKH6YJS9NjunPAUNjc9Pf1oNHoKsUN7YX+zpq72se1keyrgn72u6XXMTqh3BPXF8Lqe'',
     ''lsp3e8h1zPmecIq+ZhjH8Ef7xROQeRdxH7drhz7tKtFnZNm08cfgJrT6XUHB5IZ+nzHnIeY1z4bXzKWZ'',
     ''ZcNuymtzb2l7lW+trw54F8QGcATMlEawOEOLlKOE6RI+XJ3fnF19fnV2enV29fnm4vez99ef35y/PePa'',
     ''D/qzVpHpxneF91Uc4hXNzL4uf7q5uYTTy3PA+8q4KCmsolZ5tDBVJOwSzCw8rMISlgXHR79nlapQK8LB'',
     ''hG4K5VqI4uWGSUTtC56bhVcLHnjIW5F7ePbmKhsdvXw+gFfGF+HLuHJOqBAkNVpwvp46eKYIvqhmGR5G'',
     ''rYZsVPx8+OU5CJKNdlOtcvjNNPvfhLSaWlY/MKm+zofdlIkfBQYWYTOrNWirXAjCYEITumpQn1cehS4Q'',
     ''CH0nlg7+fH3xHizOhZUanVt7qoFMaJoycDTGEwLI4Pj+ftNGoHYIX3a3vy+tTd8499LQlVaAtEBtKtaJ'',
     ''GYWu+Bir7ub3BSq0cPXmNfzy04ufBxNqwb/drbvlD5dNXOHf//wXfIjJcHp5zvM8WhdzZzQ4GozC4FMh'',
     ''iUol4+RkMBqcJAGsilAHWy6PcGKc38/D01C7DsRmldxWqBnnQRE0O/N6IQZjQxgm9Cw8OumwCOEpRVWF'',
     ''01GMjRMlrtk9H8AFrRt8yq8n1KR+e08IRGvx3kDjLg6RRV9bYq27gZrQOlIh/kIRSw/VsJ4yu175rGSM'',
     ''BwNqi4Y9mBz8akWJHnka+7jrw4sqbr9N/meu5mRAuXuUGsC7uLTC0fFLyAvBJYnWDSb0oUACi1UY/sPN'',
     ''SlHQPDc0U/PahqckzV1z0CJmHg6Den3RSifULQEGBcxkHfMSZZvbzbisd50Byk0oehYbzyg2r0AhA7RR'',
     ''mCW6176MG1vaOW3srgm7neRTO9W8ao4OD1xP/ruryVa0GHT7TzjbDPePiAdKwKFVQitGa+HaMpjQM4cY'',
     ''f25V3XBxtPV7ED55PoCbFucnJJHXXxeBT5E3m1Jh30lw3ta5Z4H8ItTV1MhljE/buGO/6GndWy2VJ6Lw'',
     ''oHNhPh4d/8/C8PA403PO2nLxeoQISbpGAAlrd6yPoOEG99No9JAirWXDvUNdIDw6TPjAxT2Q/3KYvO8U'',
     ''zrRHLw7TPnAmXaXJi6eY3J6uA8HJYYLe23J3rgpY152oPn7iCnZ1WXK2rbESxBaUhBVUolYLDPffp3AM'',
     ''Q0Uftr41XI4SA66Xcc8OW0SYsMbDoeYPCuP8+OXo5ShZfVr9JwAA///ojxKgURkAAA=='']"

text \<open>
  gzip as a reader that may fail to open and a read to the end that may fail. The decoding runs once,
  when the package is initialised; \<open>rawSpec\<close> returns what it gave.
\<close>

record 'r gunzip =
  gz_NewReader :: "string \<Rightarrow> goerr + 'r"
  gz_ReadAll :: "'r \<Rightarrow> goerr + string"

definition decodeSpec :: "'r gunzip \<Rightarrow> goerr + string" where
  "decodeSpec G =
     (case base64_DecodeString (concat swaggerSpec) of
        None \<Rightarrow> Inl (WrapErr ''error base64 decoding spec'' (ForeignErr ''illegal base64 data'' None))
      | Some zipped \<Rightarrow>
          (case gz_NewReader G zipped of
             Inl e \<Rightarrow> Inl (WrapErr ''error decompressing spec'' e)
           | Inr zr \<Rightarrow>
               (case gz_ReadAll G zr of
                  Inl e \<Rightarrow> Inl (WrapErr ''error decompressing spec'' e)
                | Inr buf \<Rightarrow> Inr buf)))"

definition decodeSpecCached :: "'r gunzip \<Rightarrow> unit \<Rightarrow> goerr + string" where
  "decodeSpecCached G = (let data = decodeSpec G in (\<lambda>_. data))"

definition rawSpec :: "'r gunzip \<Rightarrow> unit \<Rightarrow> goerr + string" where
  "rawSpec G = decodeSpecCached G"

definition PathToRawSpec :: "'r gunzip \<Rightarrow> string \<Rightarrow> string \<rightharpoonup> (unit \<Rightarrow> goerr + string)" where
  "PathToRawSpec G pathToFile = (if 0 < length pathToFile then [pathToFile \<mapsto> rawSpec G] else Map.empty)"

text \<open>
  The loader's callback for a reference to another file, by the text of its URL, and \<open>GetSwagger\<close>;
  \<open>load\<close> is \<open>LoadFromData\<close> of a loader with external references allowed and that callback.
\<close>

definition read_from_uri :: "(string \<rightharpoonup> (unit \<Rightarrow> goerr + string)) \<Rightarrow> string \<Rightarrow> goerr + string" where
  "read_from_uri resolvePath url =
     (let pathToFile = path_clean url in
      case resolvePath pathToFile of
        None \<Rightarrow> Inl (NewErr (''path not found: '' @ pathToFile))
      | Some getSpec \<Rightarrow> getSpec ())"

definition GetSwagger ::
  "'r gunzip \<Rightarrow> (bool \<Rightarrow> (string \<Rightarrow> goerr + string) \<Rightarrow> string \<Rightarrow> goerr + 'd) \<Rightarrow> goerr + 'd" where
  "GetSwagger G load =
     (let resolvePath = PathToRawSpec G [] in
      case rawSpec G () of
        Inl e \<Rightarrow> Inl e
      | Inr specData \<Rightarrow> load True (read_from_uri resolvePath) specData)"

subsection \<open>What it comes to\<close>

text \<open>A line of whole quanta goes ahead of the rest.\<close>

definition quanta_line :: "string \<Rightarrow> bool" where
  "quanta_line l \<longleftrightarrow> length l mod 4 = 0 \<and> list_all (\<lambda>c. base64_value c \<noteq> None) l"

lemma pad_no_value [simp]: "base64_value pad = None"
  by (simp add: pad_def base64_value_def byte_def)

lemma quanta_line_append:
  assumes "quanta_line l" and "base64_quanta r = Some s"
  shows "\<exists>t. base64_quanta (l @ r) = Some (t @ s)"
  using assms(1)
proof (induction l rule: base64_quanta.induct)
  case (2 a b c d l)
  then have "quanta_line l" by (simp add: quanta_line_def)
  from 2 obtain x y z v where v: "base64_value a = Some x" "base64_value b = Some y"
    "base64_value c = Some z" "base64_value d = Some v"
    by (auto simp: quanta_line_def)
  then have p: "c \<noteq> pad" "d \<noteq> pad" by auto
  from 2(1) v p \<open>quanta_line l\<close> obtain t where "base64_quanta (l @ r) = Some (t @ s)"
    by fastforce
  with v p show ?case by (auto simp: Let_def intro!: exI[of _ "_ # _ # _ # t"])
qed (auto simp: quanta_line_def assms(2))

lemma quanta_lines_append:
  assumes "list_all quanta_line ls" and "base64_quanta r = Some s"
  shows "\<exists>t. base64_quanta (concat ls @ r) = Some (t @ s)"
  using assms
proof (induction ls)
  case (Cons l ls)
  then obtain t where "base64_quanta (concat ls @ r) = Some (t @ s)" by auto
  with quanta_line_append[of l "concat ls @ r"] Cons.prems show ?case
    by (fastforce simp: append_assoc[symmetric] simp del: append_assoc)
qed simp

lemma quanta_line_no_break: "quanta_line l \<Longrightarrow> filter (\<lambda>c. c \<noteq> CHR 0x0A \<and> c \<noteq> CHR 0x0D) l = l"
  by (auto simp: quanta_line_def filter_id_conv list_all_iff base64_value_def byte_def)

lemma quanta_lines_no_break:
  "list_all quanta_line ls \<Longrightarrow> filter (\<lambda>c. c \<noteq> CHR 0x0A \<and> c \<noteq> CHR 0x0D) (concat ls) = concat ls"
  by (induction ls) (simp_all add: quanta_line_no_break)

text \<open>The alphabet, as a table.\<close>

lemma base64_table:
  "base64_value (CHR ''A'') = Some 0" "base64_value (CHR ''B'') = Some 1"
  "base64_value (CHR ''C'') = Some 2" "base64_value (CHR ''D'') = Some 3"
  "base64_value (CHR ''E'') = Some 4" "base64_value (CHR ''F'') = Some 5"
  "base64_value (CHR ''G'') = Some 6" "base64_value (CHR ''H'') = Some 7"
  "base64_value (CHR ''I'') = Some 8" "base64_value (CHR ''J'') = Some 9"
  "base64_value (CHR ''K'') = Some 10" "base64_value (CHR ''L'') = Some 11"
  "base64_value (CHR ''M'') = Some 12" "base64_value (CHR ''N'') = Some 13"
  "base64_value (CHR ''O'') = Some 14" "base64_value (CHR ''P'') = Some 15"
  "base64_value (CHR ''Q'') = Some 16" "base64_value (CHR ''R'') = Some 17"
  "base64_value (CHR ''S'') = Some 18" "base64_value (CHR ''T'') = Some 19"
  "base64_value (CHR ''U'') = Some 20" "base64_value (CHR ''V'') = Some 21"
  "base64_value (CHR ''W'') = Some 22" "base64_value (CHR ''X'') = Some 23"
  "base64_value (CHR ''Y'') = Some 24" "base64_value (CHR ''Z'') = Some 25"
  "base64_value (CHR ''a'') = Some 26" "base64_value (CHR ''b'') = Some 27"
  "base64_value (CHR ''c'') = Some 28" "base64_value (CHR ''d'') = Some 29"
  "base64_value (CHR ''e'') = Some 30" "base64_value (CHR ''f'') = Some 31"
  "base64_value (CHR ''g'') = Some 32" "base64_value (CHR ''h'') = Some 33"
  "base64_value (CHR ''i'') = Some 34" "base64_value (CHR ''j'') = Some 35"
  "base64_value (CHR ''k'') = Some 36" "base64_value (CHR ''l'') = Some 37"
  "base64_value (CHR ''m'') = Some 38" "base64_value (CHR ''n'') = Some 39"
  "base64_value (CHR ''o'') = Some 40" "base64_value (CHR ''p'') = Some 41"
  "base64_value (CHR ''q'') = Some 42" "base64_value (CHR ''r'') = Some 43"
  "base64_value (CHR ''s'') = Some 44" "base64_value (CHR ''t'') = Some 45"
  "base64_value (CHR ''u'') = Some 46" "base64_value (CHR ''v'') = Some 47"
  "base64_value (CHR ''w'') = Some 48" "base64_value (CHR ''x'') = Some 49"
  "base64_value (CHR ''y'') = Some 50" "base64_value (CHR ''z'') = Some 51"
  "base64_value (CHR ''0'') = Some 52" "base64_value (CHR ''1'') = Some 53"
  "base64_value (CHR ''2'') = Some 54" "base64_value (CHR ''3'') = Some 55"
  "base64_value (CHR ''4'') = Some 56" "base64_value (CHR ''5'') = Some 57"
  "base64_value (CHR ''6'') = Some 58" "base64_value (CHR ''7'') = Some 59"
  "base64_value (CHR ''8'') = Some 60" "base64_value (CHR ''9'') = Some 61"
  "base64_value (CHR ''+'') = Some 62" "base64_value (CHR ''/'') = Some 63"
  by (simp_all add: base64_value_def byte_def)

lemma swagger_lines: "list_all quanta_line (butlast swaggerSpec)"
  by (simp add: swaggerSpec_def quanta_line_def base64_table)

text \<open>The last line ends in a padded quantum.\<close>

lemma swagger_last:
  obtains l q where "last swaggerSpec = l @ q" and "quanta_line l" and "q = ''AA=='' "
proof
  show "last swaggerSpec = take 64 (last swaggerSpec) @ ''AA=='' " by (simp add: swaggerSpec_def)
  show "quanta_line (take 64 (last swaggerSpec))" by (simp add: swaggerSpec_def quanta_line_def base64_table)
qed simp

lemma padded_quantum: "base64_quanta ''AA=='' = Some [char_of (0 :: nat)]"
  by (simp add: base64_table pad_def)

theorem spec_text_decodes: "\<exists>z. base64_DecodeString (concat swaggerSpec) = Some z"
proof -
  obtain l q where last: "last swaggerSpec = l @ q" "quanta_line l" "q = ''AA=='' " by (rule swagger_last)
  let ?ls = "butlast swaggerSpec @ [l]"
  have ls: "list_all quanta_line ?ls" using swagger_lines last(2) by simp
  have "swaggerSpec = butlast swaggerSpec @ [l @ q]"
    unfolding last(1)[symmetric] by (rule append_butlast_last_id[symmetric]) (simp add: swaggerSpec_def)
  then have c: "concat swaggerSpec = concat ?ls @ q" by (metis append.assoc concat.simps concat_append append_Nil2)
  have "filter (\<lambda>c. c \<noteq> CHR 0x0A \<and> c \<noteq> CHR 0x0D) (concat ?ls) = concat ?ls"
    by (rule quanta_lines_no_break[OF ls])
  then have f: "base64_DecodeString (concat swaggerSpec) = base64_quanta (concat ?ls @ q)"
    unfolding base64_DecodeString_def c filter_append last(3) by simp
  from quanta_lines_append[OF ls padded_quantum] show ?thesis unfolding f last(3) by blast
qed

text \<open>
  So \<open>GetSwagger\<close> fails only as gzip or the loader do, and a document that referred to another file
  could not be loaded: the callback finds none.
\<close>

theorem GetSwagger_loads:
  obtains z where
    "GetSwagger G load =
       (case gz_NewReader G z of
          Inl e \<Rightarrow> Inl (WrapErr ''error decompressing spec'' e)
        | Inr zr \<Rightarrow>
            (case gz_ReadAll G zr of
               Inl e \<Rightarrow> Inl (WrapErr ''error decompressing spec'' e)
             | Inr buf \<Rightarrow> load True (\<lambda>url. Inl (NewErr (''path not found: '' @ path_clean url))) buf))"
proof -
  obtain z where z: "base64_DecodeString (concat swaggerSpec) = Some z" using spec_text_decodes by blast
  have "read_from_uri (PathToRawSpec G []) = (\<lambda>url. Inl (NewErr (''path not found: '' @ path_clean url)))"
    by (simp add: fun_eq_iff read_from_uri_def PathToRawSpec_def Let_def)
  with z show thesis
    by (intro that[of z])
      (simp add: GetSwagger_def rawSpec_def decodeSpecCached_def decodeSpec_def Let_def split: sum.split)
qed

end
