(* ===== verification/Spec2Isabelle.thy ===== *)
theory Spec2Isabelle
  imports Witnesses Pipeline_Witness Proto_Codec Swagger
begin

text \<open>
  A verification development for the pulsar notification pipeline: an HTTP service (the writer)
  that authenticates, validates and publishes push notifications to an encrypted Pulsar topic, a
  worker process (the deliverer) that consumes the topic and pushes each notification to a
  provider under a retry policy, a client library for the writer, and a linter for the
  functional-options rule of the repository. Everything is translated from the Go sources under
  \<open>src/\<close>.

  \<^bold>\<open>Conventions.\<close> A Go struct is a record, an interface with known implementations a datatype, a
  function that returns a value and an error a sum whose \<open>Inl\<close> is the error. Strings are byte
  strings. \<open>int\<close> values that the code only compares and counts are integers; durations are 64-bit
  words. State is passed explicitly: the writer's world has the metric points recorded and the
  world outside, the deliverer's also the outcome log and the acknowledgements. Clocks, random
  numbers, identifiers, the Pulsar SDK, HTTP transports, protobuf and JSON text codecs are
  arguments, most of them fields of the record \<open>ext\<close> or of an SDK record; what a theorem needs of them
  is a hypothesis of its own (\<open>json_codec\<close>, \<open>proto_codec\<close>, \<open>runtime_contract\<close>, \<open>mux_contract\<close>,
  \<open>wire_libs\<close>, \<open>generated_libs\<close>, \<open>writer_contract\<close>, \<open>deliverer_contract\<close>; \<open>leads_to\<close> and \<open>key_binds\<close> for the
  one server URL and key of a client, \<open>watched\<close> for an HTTP client whose calls are listed), and the
  theories Examples, Process_Witnesses, Witnesses and Proto_Codec have concrete instances for which
  each hypothesis is proved. JSON text is what \<open>encoding/json\<close> documents: a value comes back with its
  strings coerced to valid UTF-8, so what a client reads are the strings sent \<open>as text\<close> (\<open>utf8_text\<close>),
  which leaves a valid string alone. A panic is a value
  (\<open>Panicked\<close>), a loop that may not end a partial function, goroutines an inductive step relation
  whose steps are the calls that leave a goroutine.

  \<^bold>\<open>The shared theories.\<close> Prelude has the functional-options idiom (\<open>apply_opts\<close>) and the named
  collections of facts. Go_Strings, Go_Time, Time_Parse, Go_Json and Url_Form model what the
  sources use of the packages strings, utf8, filepath, bufio, strconv, time, encoding/json and
  net/url; Http what they use of net/http. Errors has the typed errors of all packages with
  \<open>errors.Is\<close> and \<open>errors.As\<close>, Messages the protobuf messages and their getters, Metrics the
  instruments of \<open>internal/metrics\<close> and the trace of points recorded on them, Telemetry
  \<open>internal/telemetry\<close>, whose \<open>Init\<close> leaves nothing registered when it fails.

  \<^bold>\<open>The messages and their schema.\<close> The generated packages \<open>pkg/notificationpb/v1\<close> and \<open>v1/prev\<close>, the
  current generation of the messages and a frozen copy of the previous one: Messages and
  Prev_Messages have the structs and getters; Schema the struct tags, the type tables and the raw
  file descriptors byte by byte, which it decodes with Wire_Format, the wire format of protocol
  buffers with its round trip; Proto_Package what \<open>init\<close> registers, the compressed descriptor,
  \<open>Reset\<close> and \<open>ProtoReflect\<close>, and the proof that descriptor, tables and tags say the same of every
  field. Generations states what the protobuf runtime promises for a descriptor, and
  Generations_Spec proves that each generation reads what the other marshals. Proto_Codec is a
  runtime that keeps the promise, writing the real wire format.

  \<^bold>\<open>The writer.\<close> Problems and Envelope are \<open>internal/writer/problems\<close> and \<open>envelope\<close>; Auth is
  \<open>internal/writer/auth\<close> (the tokens file, the authenticator, the middleware); Ingest is
  \<open>internal/writer/ingest\<close>, with Ingest_Spec stating the rules the code checks one by one and
  proving that \<open>Validate\<close> reports exactly the broken ones; Data_Model states the field rules of
  \<open>data-model.md\<close> and proves which of them \<open>Validate\<close> enforces and which five it does not; Pulsarlib is \<open>internal/pulsarlib\<close>;
  HttpServer is \<open>internal/writer/httpserver\<close> (handlers, the generated parameter binding, the
  middleware stack, the routes), HttpServer_Spec and Server_Spec its contract: every
  authenticated submission is answered with the envelope of a published notification or a problem
  of the catalogue, and an unauthenticated one touches nothing. Writer_Main is the construction of
  the process in \<open>cmd/writer\<close> and shows that a writer that starts satisfies the hypotheses of these
  properties. Requests takes the middleware stack, \<open>SubmitNotification\<close> and \<open>Accept\<close> apart into the
  steps between calls that leave the goroutine and proves that a request by itself is the handler;
  Request_Pool interleaves any number of requests and balances the counter, the identifiers
  published and the answers. Writer_Process is the rest of \<open>run\<close> and \<open>main\<close>: the listening goroutine,
  the signal, the select, the shutdown and the exit code; Writer_Resources shows that the telemetry
  providers and the Pulsar client are released however the process ends.

  \<^bold>\<open>The deliverer.\<close> Outcomes, Provider (with the sandbox), Retry, Pushover, Dispatcher and Consumer
  are the packages under \<open>internal/deliverer\<close>. The interfaces of the sources are locales: a push
  provider, whose laws the dispatcher's promise about reasons rests on, interpreted for the sandbox
  and for Pushover; an outcome recorder, interpreted for the slog recorder over a handler of each level
  (Outcome_Log, which also shows what the log of a deliverer holds); on the writer's side an
  authenticator, interpreted for the bearer table, and a publisher, interpreted for Pulsar.
  Dispatcher_Spec shows one outcome per notification, Dispatch_Trace that the retry loop is a
  sequence of calls of \<open>Push\<close> whose results decide the outcome, Pushover_Spec what such a call sends to
  the API and that the outcome is the API's verdict; Consumer_Spec that the loop records and acknowledges every message once. Workers takes \<open>Run\<close>, \<open>handle\<close> and
  \<open>Dispatch\<close> apart into the steps between calls that leave the goroutine and proves that a worker
  by itself is the loop; Worker_Pool interleaves any number of workers, balances the books at every
  point of every interleaving and prices the steps by the outcomes recorded. Deliverer_Main is the
  construction in \<open>cmd/deliverer\<close>, with the outcomes of a process that started; Deliverer_Process
  interleaves the pool with the signal and with main, and shows that a shutdown loses nothing and
  ends unless the reader hands over messages for ever; Deliverer_Resources is the counterpart of Writer_Resources.

  \<^bold>\<open>The client and the linter.\<close> Client is \<open>pkg/notificationclient\<close> with the request side of the
  generated client; Client_Spec composes it with the writer (\<open>end_to_end\<close>, and the round trips of
  problems and accepted submissions); Client_Generated is the rest of the generated client, its
  body types, typed calls and response parser; Server_Generated the generated server: the router
  with its options, the response objects and the strict handler, which the program links but does
  not route to. Server_Generated_Spec composes the two and proves the round trip between them.
  Swagger is the OpenAPI document embedded there, with base64 and the loading of the document.
  Config has the configuration packages and the log levels, Lint the analysis pass of
  \<open>tools/funcoptslint\<close>.

  \<^bold>\<open>The pipeline.\<close> Pipeline composes runs of both processes: if the topic delivers what the writer's
  publisher took, everything a client was told was accepted is concluded under the identifier it
  was given. This theory follows one message through both, with its content. Witnesses,
  Process_Witnesses and Pipeline_Witness apply every property that has hypotheses to the instances
  of Examples.

  \<^bold>\<open>Bounds.\<close> The dispatch loop is a total function by the attempts left. The consumer's loop has no
  fuel: \<open>Run\<close> is \<open>None\<close> where it does not end, and it returns exactly when some number of iterations
  does (\<open>Run_iff_iterations\<close>). The backoff theorems are for an initial backoff below \<open>2 ^ 62\<close> ns and
  a maximum of at most \<open>2 ^ 62\<close> ns (\<open>2 ^ 53\<close> where the rounding of float64 matters); the round trip of
  timestamps is for the years 1 to 9999, which is what four digits print.

  The processes run without bound. The end of the writer is shown by a measure that every step in
  \<open>Shutdown\<close> decreases; that of the deliverer by a potential that every step after the signal decreases
  but for the steps that record an outcome, six of which and three for each allowed attempt a
  recorded message may cost. No fuel is needed there either.

  The runtime of Proto_Codec refuses messages of \<open>2 ^ 31\<close> bytes or more; its reader recurses by the
  length of the text, and a message inside a message is shorter. A file descriptor is read to two
  levels of messages, which is how deep the two files nest.

  \<^bold>\<open>Not modelled.\<close> The protobuf runtime itself (a parameter), and \<open>String\<close> and \<open>ProtoMessage\<close> of the
  messages, which only name it; the fields the runtime keeps in each struct beyond its message info;
  the entry point of the linter, a single call; measured latencies; the pause before a process
  exits. The listener, the signal and the grace period are steps that may happen, not clocks; a
  request does not arrive once \<open>Shutdown\<close> has begun. Contexts carry only the values the code reads
  from them; a cancelled context shows as the error a call returns.
\<close>

lemma apache_publish_sent:
  "apache_publish K p inp y = (None, y') \<Longrightarrow>
   sdk_send K (ap_producer p)
     \<lparr>pm_payload = in_body inp, pm_properties = [NotificationIDProperty \<mapsto> in_notification_id inp]\<rparr> y
     = (None, y')"
  by (auto simp: apache_publish_def split: prod.splits option.splits)

text \<open>The world in which the dispatcher sees a message: received, counted, logged.\<close>

definition consumed_world ::
  "('ts, 'l, 'm, 'x) consumer \<Rightarrow> 'm consumed_message \<Rightarrow> ('l, 'x) dworld \<Rightarrow> 'x \<Rightarrow> ('l, 'x) dworld" where
  "consumed_world c msg w x1 =
     log_env (c_logger c) (consumed_line (cm_notification_id msg))
       (w\<lparr>dw_env := x1, dw_metrics := RecordConsumed (dw_metrics w)\<rparr>)"

lemma run_step_dispatches:
  assumes "rd_Receive (c_reader c) (dw_env (cw_base w)) = (Inr msg, x1)"
    and "x_unmarshal E (cm_body msg) = Inr n"
    and "n' = (if n_notification_id n = [] then n\<lparr>n_notification_id := cm_notification_id msg\<rparr> else n)"
    and "Dispatch E (fst (c_dispatcher c)) (snd (c_dispatcher c)) (Some n')
           (consumed_world c msg (cw_base w) x1) = (None, b)"
  shows "run_step E c w = Inr (msg_Ack (c_reader c) (cm_msg msg) (w\<lparr>cw_base := b\<rparr>))"
  using assms by (simp add: run_step_def handle_def consumed_world_def Let_def)

lemma published_addressed: "published E i publish svc n x nid at x3 \<Longrightarrow> addressed n"
  by (rule Validate_addressed[of E]) (simp add: published_def Validate_None_iff)

text \<open>C3: What the writer published reaches the dispatcher as it was: a notification accepted under an
  identifier was sent with that identifier in its properties, and when a consumer receives a message
  with the payload and the identifier sent, it dispatches exactly the notification the writer
  assigned the server fields to, records one outcome under the identifier the client was given, and
  acknowledges the message.\<close>

theorem pipeline_one_outcome:
  assumes "proto_codec E"
    and "published E i (apache_publish K p) svc n x nid at x3"
    and "x_marshal E (assign_fields E nid at svc n) = Inr body"
    and "c_reader c = sdk_reader K' ac" and "shares_recorder c"
    and "sdk_receive K' (ac_consumer ac) (dw_env (cw_base w)) = (Inr m, x1)"
    and "sdk_payload K' m = body" and "sdk_properties K' m NotificationIDProperty = Some nid"
  shows "(\<exists>y. sdk_send K (ap_producer p)
                \<lparr>pm_payload = body, pm_properties = [NotificationIDProperty \<mapsto> nid]\<rparr> y = (None, x3))
     \<and> (\<exists>oc pname cls b.
          Dispatch E (fst (c_dispatcher c)) (snd (c_dispatcher c)) (Some (assign_fields E nid at svc n))
            (consumed_world c (consumed_of K' m) (cw_base w) x1) = (None, b)
          \<and> concluded (c_recorder c) oc pname cls (consumed_world c (consumed_of K' m) (cw_base w) x1) b
          \<and> oc_NotificationID oc = nid
          \<and> run_step E c w = Inr (msg_Ack (c_reader c) m (w\<lparr>cw_base := b\<rparr>)))"
proof
  obtain y where "apache_publish K p \<lparr>in_body = body, in_notification_id = nid\<rparr> y = (None, x3)"
    using assms(2,3) unfolding published_def by auto
  from apache_publish_sent[OF this] show "\<exists>y. sdk_send K (ap_producer p)
      \<lparr>pm_payload = body, pm_properties = [NotificationIDProperty \<mapsto> nid]\<rparr> y = (None, x3)"
    by auto
  let ?msg = "consumed_of K' m" and ?n = "assign_fields E nid at svc n"
  let ?w = "consumed_world c ?msg (cw_base w) x1"
  have rcv: "rd_Receive (c_reader c) (dw_env (cw_base w)) = (Inr ?msg, x1)"
    using receive_consumed[OF assms(6)] assms(4) by simp
  have u: "x_unmarshal E (cm_body ?msg) = Inr ?n"
    using assms(1,3,7) published_addressed[OF assms(2)] by (simp add: proto_codec_def consumed_of_def)
  have id: "?n = (if n_notification_id ?n = []
      then ?n\<lparr>n_notification_id := cm_notification_id ?msg\<rparr> else ?n)"
    using assms(8) by (simp add: assign_fields_def consumed_of_def)
  obtain oc pname cls b where
    d: "Dispatch E (fst (c_dispatcher c)) (snd (c_dispatcher c)) (Some ?n) ?w = (None, b)"
    and cc: "concluded (snd (c_dispatcher c)) oc pname cls ?w b"
      "oc_NotificationID oc = n_notification_id ?n"
    using dispatch_concludes[of E "fst (c_dispatcher c)" "snd (c_dispatcher c)" ?n ?w] by blast
  have "run_step E c w = Inr (msg_Ack (c_reader c) m (w\<lparr>cw_base := b\<rparr>))"
    using run_step_dispatches[OF rcv u id d] by (simp add: consumed_of_def)
  with d cc assms(5) show "\<exists>oc pname cls b.
      Dispatch E (fst (c_dispatcher c)) (snd (c_dispatcher c)) (Some ?n) ?w = (None, b)
      \<and> concluded (c_recorder c) oc pname cls ?w b \<and> oc_NotificationID oc = nid
      \<and> run_step E c w = Inr (msg_Ack (c_reader c) m (w\<lparr>cw_base := b\<rparr>))"
    by (auto simp: shares_recorder_def assign_fields_def)
qed

theorem pipeline_one_outcome_witness:
  "(\<exists>y. sdk_send ex_K (ap_producer ex_p)
        \<lparr>pm_payload = ex_body, pm_properties = [NotificationIDProperty \<mapsto> ''0198'']\<rparr> y = (None, [ex_message]))
   \<and> (\<exists>oc pname cls b.
        Dispatch ex_E ex_dispatcher (slog_Record ex_lines) (Some ex_published)
          (consumed_world ex_consumer (consumed_of ex_Kd ex_message) (ex_dw [ex_message]) (ex_denv [])) = (None, b)
        \<and> concluded (slog_Record ex_lines) oc pname cls
            (consumed_world ex_consumer (consumed_of ex_Kd ex_message) (ex_dw [ex_message]) (ex_denv [])) b
        \<and> oc_NotificationID oc = ''0198''
        \<and> run_step ex_E ex_consumer (ex_cw [ex_message])
            = Inr (msg_Ack (sdk_reader ex_Kd ex_ac) ex_message ((ex_cw [ex_message])\<lparr>cw_base := b\<rparr>)))"
proof -
  have c: "proto_codec ex_E" by (simp add: proto_codec_def ex_unmarshal)
  have p: "published ex_E ex_i (apache_publish ex_K ex_p) ex_svc ex_n [] ''0198'' (truncate_ms unix_epoch)
      [ex_message]"
    using ex_is_published[of "[]"] by (simp add: ex_publish_def)
  have b: "x_marshal ex_E (assign_fields ex_E ''0198'' (truncate_ms unix_epoch) ex_svc ex_n) = Inr ex_body"
    using ex_marshal_published by (simp add: ex_published_def)
  show ?thesis
    using pipeline_one_outcome[OF c p b, of ex_consumer ex_Kd ex_ac "ex_cw [ex_message]" ex_message "ex_denv []"]
    by (simp add: ex_published_def ex_Kd_def ex_sdk_def ex_denv_def ex_message_def)
qed

end
